(* ===== verification/Prelude.thy ===== *)
theory Prelude
  imports Complex_Main "HOL-Library.AList"
begin

text \<open>
  Shared vocabulary of the development: Python exceptions as values of a sum type,
  sequencing of computations that may raise, insertion-ordered dictionaries as association
  lists, and the collections of rewrite rules the component theories hand to the simplifier.
\<close>

named_theorems result_simps \<open>inversion rules for computations that may raise\<close>
named_theorems dict_simps \<open>lookup and key rules for insertion-ordered dictionaries\<close>

section \<open>Exceptions as values\<close>

text \<open>
  One constructor per exception class of the program. The string is the constant part of
  the message (or the key, for a \<open>KeyError\<close>), the list holds the interpolated values.
  \<open>Unsupported\<close> marks the few conversions of the Python library that the model does not
  carry out, such as the \<open>repr\<close> of a nested container; \<open>Raised\<close> is an exception of any other
  class, with its name and its text.
\<close>

datatype py_error =
    DomainError string "string list"
  | ConcurrencyError string "string list"
  | StaleLeaseError string "string list"
  | ValueError string "string list"
  | KeyError string
  | TypeError string
  | AttributeError string
  | FileNotFoundError string
  | PermissionError string "string list"
  | IntegrityError string "string list"
  | NoResultFound string
  | Unsupported string
  | Raised string string
  | KeyboardInterrupt

type_synonym 'a result = "py_error + 'a"

definition rbind :: "'a result \<Rightarrow> ('a \<Rightarrow> 'b result) \<Rightarrow> 'b result" where
  "rbind m f = (case m of Inl e \<Rightarrow> Inl e | Inr x \<Rightarrow> f x)"

definition raise_unless :: "bool \<Rightarrow> py_error \<Rightarrow> unit result" where
  "raise_unless c e = (if c then Inr () else Inl e)"

fun rmap :: "('a \<Rightarrow> 'b result) \<Rightarrow> 'a list \<Rightarrow> 'b list result" where
  "rmap f [] = Inr []"
| "rmap f (x # xs) = rbind (f x) (\<lambda>y. rbind (rmap f xs) (\<lambda>ys. Inr (y # ys)))"

fun riter :: "('a \<Rightarrow> unit result) \<Rightarrow> 'a list \<Rightarrow> unit result" where
  "riter f [] = Inr ()"
| "riter f (x # xs) = rbind (f x) (\<lambda>_. riter f xs)"

fun rfold :: "('s \<Rightarrow> 'a \<Rightarrow> 's result) \<Rightarrow> 's \<Rightarrow> 'a list \<Rightarrow> 's result" where
  "rfold f s [] = Inr s"
| "rfold f s (x # xs) = rbind (f s x) (\<lambda>s'. rfold f s' xs)"

lemma rbind_Inl [simp]: "rbind (Inl e) f = Inl e"
  and rbind_Inr [simp]: "rbind (Inr x) f = f x"
  by (simp_all add: rbind_def)

lemma rbind_eq_Inr [result_simps]: "rbind m f = Inr y \<longleftrightarrow> (\<exists>x. m = Inr x \<and> f x = Inr y)"
  by (cases m) (auto simp: rbind_def)

lemma rbind_eq_Inl [result_simps]:
  "rbind m f = Inl e \<longleftrightarrow> m = Inl e \<or> (\<exists>x. m = Inr x \<and> f x = Inl e)"
  by (cases m) (auto simp: rbind_def)

lemma rbind_cong [fundef_cong]:
  "m = n \<Longrightarrow> (\<And>x. n = Inr x \<Longrightarrow> f x = g x) \<Longrightarrow> rbind m f = rbind n g"
  by (cases n) (auto simp: rbind_def)

lemma raise_unless_True [simp]: "raise_unless True e = Inr ()"
  and raise_unless_False [simp]: "raise_unless False e = Inl e"
  by (simp_all add: raise_unless_def)

lemma raise_unless_eq_Inr [result_simps]: "raise_unless c e = Inr u \<longleftrightarrow> c"
  by (simp add: raise_unless_def)

lemma raise_unless_eq_Inl [result_simps]: "raise_unless c e = Inl e' \<longleftrightarrow> \<not> c \<and> e = e'"
  by (simp add: raise_unless_def)

lemma riter_eq_Inr [result_simps]: "riter f xs = Inr u \<longleftrightarrow> (\<forall>x \<in> set xs. f x = Inr ())"
  by (induction xs) (auto simp: rbind_eq_Inr)

lemma rmap_eq_Inr:
  "rmap f xs = Inr ys \<longleftrightarrow> list_all2 (\<lambda>x y. f x = Inr y) xs ys"
  by (induction xs arbitrary: ys) (auto simp: rbind_eq_Inr list_all2_Cons1)

lemma rmap_mem: "rmap f xs = Inr ys \<Longrightarrow> y \<in> set ys \<Longrightarrow> \<exists>x \<in> set xs. f x = Inr y"
  by (induction xs arbitrary: ys) (auto simp: rbind_eq_Inr)

lemma rmap_map_Inr: "(\<And>x. x \<in> set xs \<Longrightarrow> f (g x) = Inr x) \<Longrightarrow> rmap f (map g xs) = Inr xs"
  by (induction xs) auto

lemma rmap_Inr_id: "rmap (\<lambda>x. Inr (f x)) xs = Inr (map f xs)"
  by (induction xs) auto

lemma rfold_append: "rfold f s (xs @ ys) = rbind (rfold f s xs) (\<lambda>s'. rfold f s' ys)"
proof (induction xs arbitrary: s)
  case (Cons x xs)
  then show ?case by (cases "f s x") auto
qed simp

lemma rfold_invariant:
  assumes "rfold f s xs = Inr t" and "P s"
    and "\<And>s x t. x \<in> set xs \<Longrightarrow> P s \<Longrightarrow> f s x = Inr t \<Longrightarrow> P t"
  shows "P t"
  using assms
proof (induction xs arbitrary: s)
  case (Cons x xs)
  then obtain s' where "f s x = Inr s'" "rfold f s' xs = Inr t"
    by (auto simp: rbind_eq_Inr)
  with Cons show ?case by (meson list.set_intros)
qed simp

lemma rfold_prefix_invariant:
  assumes "rfold f s xs = Inr t" and "P s pre"
    and "\<And>s x t pre. x \<in> set xs \<Longrightarrow> P s pre \<Longrightarrow> f s x = Inr t \<Longrightarrow> P t (pre @ [x])"
  shows "P t (pre @ xs)"
  using assms
proof (induction xs arbitrary: s pre)
  case (Cons x xs)
  then obtain s' where "f s x = Inr s'" "rfold f s' xs = Inr t"
    by (auto simp: rbind_eq_Inr)
  with Cons.IH [of s' "pre @ [x]"] Cons.prems show ?case by force
qed simp

section \<open>Insertion-ordered dictionaries\<close>

text \<open>
  A Python \<open>dict\<close> keeps the order in which its keys were first inserted: assigning to an
  existing key keeps its place, a new key goes to the end. \<open>AList.update\<close> and
  \<open>AList.delete\<close> have exactly this behaviour.
\<close>

type_synonym 'v dict = "(string \<times> 'v) list"

abbreviation dict_keys :: "'v dict \<Rightarrow> string list" where
  "dict_keys d \<equiv> map fst d"

definition dict_wf :: "'v dict \<Rightarrow> bool" where
  "dict_wf d \<longleftrightarrow> distinct (dict_keys d)"

definition dset :: "string \<Rightarrow> 'v \<Rightarrow> 'v dict \<Rightarrow> 'v dict" where
  "dset k v d = AList.update k v d"

definition dpop :: "string \<Rightarrow> 'v dict \<Rightarrow> 'v dict" where
  "dpop k d = AList.delete k d"

definition dget :: "'v dict \<Rightarrow> string \<Rightarrow> 'v \<Rightarrow> 'v" where
  "dget d k v = (case map_of d k of None \<Rightarrow> v | Some w \<Rightarrow> w)"

definition dsetdefault :: "string \<Rightarrow> 'v \<Rightarrow> 'v dict \<Rightarrow> 'v dict" where
  "dsetdefault k v d = (if map_of d k = None then dset k v d else d)"

fun dupdate :: "'v dict \<Rightarrow> 'v dict \<Rightarrow> 'v dict" where
  "dupdate d [] = d"
| "dupdate d ((k, v) # kvs) = dupdate (dset k v d) kvs"

lemma map_of_dset [dict_simps]: "map_of (dset k v d) = (map_of d)(k \<mapsto> v)"
  by (simp add: dset_def AList.update_conv')

lemma map_of_dpop [dict_simps]: "map_of (dpop k d) = (map_of d)(k := None)"
  by (simp add: dpop_def AList.delete_conv')

lemma keys_dset [dict_simps]: "set (dict_keys (dset k v d)) = insert k (set (dict_keys d))"
  using dom_map_of_conv_image_fst [of "dset k v d"] dom_map_of_conv_image_fst [of d]
  by (auto simp: map_of_dset)

lemma dset_keys_same: "k \<in> set (dict_keys d) \<Longrightarrow> dict_keys (dset k v d) = dict_keys d"
  unfolding dset_def by (induction d) auto

lemma dict_key_present: "map_of d k = Some v \<Longrightarrow> k \<in> set (dict_keys d)"
  by (auto dest: map_of_SomeD simp: rev_image_eqI)

lemma dset_keys_present: "map_of d k = Some w \<Longrightarrow> dict_keys (dset k v d) = dict_keys d"
  by (rule dset_keys_same) (rule dict_key_present)

lemma dset_same: "map_of d k = Some v \<Longrightarrow> dset k v d = d"
  unfolding dset_def by (induction d) (auto split: if_splits)

lemma dict_wf_dset [intro]: "dict_wf d \<Longrightarrow> dict_wf (dset k v d)"
  by (simp add: dict_wf_def dset_def AList.distinct_update)

lemma dict_wf_dpop [intro]: "dict_wf d \<Longrightarrow> dict_wf (dpop k d)"
  by (simp add: dict_wf_def dpop_def AList.distinct_delete)

lemma dict_wf_Nil [simp]: "dict_wf []"
  by (simp add: dict_wf_def)

lemma dset_fresh: "k \<notin> set (dict_keys d) \<Longrightarrow> dset k v d = d @ [(k, v)]"
  unfolding dset_def by (induction d) auto

lemma dict_keys_conv: "k \<in> set (dict_keys d) \<longleftrightarrow> map_of d k \<noteq> None"
  by (auto simp: map_of_eq_None_iff)

lemma dget_Some [dict_simps]: "map_of d k = Some w \<Longrightarrow> dget d k v = w"
  and dget_None [dict_simps]: "map_of d k = None \<Longrightarrow> dget d k v = v"
  by (simp_all add: dget_def)

lemma map_of_eqI_wf: "dict_wf d \<Longrightarrow> (k, v) \<in> set d \<Longrightarrow> map_of d k = Some v"
  by (simp add: dict_wf_def)

section \<open>Lists and strings\<close>

definition py_is_space :: "char \<Rightarrow> bool" where
  "py_is_space c \<longleftrightarrow>
     (let n = of_char c :: nat in (9 \<le> n \<and> n \<le> 13) \<or> (28 \<le> n \<and> n \<le> 32) \<or> n = 133 \<or> n = 160)"

definition py_lstrip :: "string \<Rightarrow> string" where
  "py_lstrip s = dropWhile py_is_space s"

definition py_rstrip :: "string \<Rightarrow> string" where
  "py_rstrip s = rev (dropWhile py_is_space (rev s))"

definition py_strip :: "string \<Rightarrow> string" where
  "py_strip s = py_rstrip (py_lstrip s)"

definition py_blank :: "string \<Rightarrow> bool" where
  "py_blank s \<longleftrightarrow> py_strip s = []"

fun py_join :: "string \<Rightarrow> string list \<Rightarrow> string" where
  "py_join sep [] = []"
| "py_join sep [x] = x"
| "py_join sep (x # y # ys) = x @ sep @ py_join sep (y # ys)"

lemma py_strip_Nil [simp]: "py_strip [] = []"
  by (simp add: py_strip_def py_lstrip_def py_rstrip_def)

lemma py_blank_iff: "py_blank s \<longleftrightarrow> (\<forall>c \<in> set s. py_is_space c)"
proof
  assume "py_blank s"
  then have "dropWhile py_is_space (rev (dropWhile py_is_space s)) = []"
    by (simp add: py_blank_def py_strip_def py_lstrip_def py_rstrip_def)
  then have *: "\<forall>c \<in> set (dropWhile py_is_space s). py_is_space c"
    by simp
  have "dropWhile py_is_space s = []"
  proof (rule ccontr)
    assume ne: "dropWhile py_is_space s \<noteq> []"
    then have "\<not> py_is_space (hd (dropWhile py_is_space s))" by (rule hd_dropWhile)
    with * ne show False by auto
  qed
  then show "\<forall>c \<in> set s. py_is_space c" by simp
next
  assume "\<forall>c \<in> set s. py_is_space c"
  then have "dropWhile py_is_space s = []" by simp
  then have "py_lstrip s = []" by (simp only: py_lstrip_def)
  then show "py_blank s" by (simp add: py_blank_def py_strip_def py_rstrip_def)
qed

text \<open>\<open>xs[-n:]\<close> for a positive \<open>n\<close>.\<close>

definition last_n :: "nat \<Rightarrow> 'a list \<Rightarrow> 'a list" where
  "last_n n xs = drop (length xs - n) xs"

lemma length_last_n [simp]: "length (last_n n xs) = min n (length xs)"
  by (simp add: last_n_def)

lemma last_n_all: "length xs \<le> n \<Longrightarrow> last_n n xs = xs"
  by (simp add: last_n_def)

lemma set_last_n: "set (last_n n xs) \<subseteq> set xs"
  by (simp add: last_n_def set_drop_subset)

text \<open>Rows of a table, updated where a condition holds (\<open>UPDATE ... WHERE\<close>).\<close>

definition update_where :: "('r \<Rightarrow> bool) \<Rightarrow> ('r \<Rightarrow> 'r) \<Rightarrow> 'r list \<Rightarrow> 'r list" where
  "update_where p f rs = map (\<lambda>r. if p r then f r else r) rs"

definition first_where :: "('r \<Rightarrow> bool) \<Rightarrow> 'r list \<Rightarrow> 'r option" where
  "first_where p rs = List.find p rs"

text \<open>\<open>INSERT\<close> into a table with a uniqueness constraint, given as a conflict test.\<close>

definition insert_row :: "string \<Rightarrow> ('r \<Rightarrow> bool) \<Rightarrow> 'r \<Rightarrow> 'r list \<Rightarrow> 'r list result" where
  "insert_row table conflict r rs =
     (if list_ex conflict rs then Inl (IntegrityError table []) else Inr (rs @ [r]))"

lemma insert_row_eq [result_simps]:
  "insert_row table conflict r rs = Inr rs' \<longleftrightarrow> (\<forall>x \<in> set rs. \<not> conflict x) \<and> rs' = rs @ [r]"
  by (auto simp: insert_row_def list_ex_iff)

lemma set_update_where:
  "r \<in> set (update_where p f rs) \<longleftrightarrow> (\<exists>r' \<in> set rs. r = (if p r' then f r' else r'))"
  by (auto simp: update_where_def)

lemma map_update_where_frame:
  "(\<And>r. p r \<Longrightarrow> g (f r) = g r) \<Longrightarrow> map g (update_where p f rs) = map g rs"
  by (simp add: update_where_def)

lemma first_where_SomeD: "first_where p rs = Some r \<Longrightarrow> r \<in> set rs \<and> p r"
  unfolding first_where_def by (metis find_Some_iff nth_mem)

lemma first_where_None_iff: "first_where p rs = None \<longleftrightarrow> (\<forall>r \<in> set rs. \<not> p r)"
  by (auto simp: first_where_def find_None_iff)

end
