(* ===== verification/Py_Value.thy ===== *)
theory Py_Value
  imports Prelude "HOL-Library.Log_Nat"
begin

text \<open>
  The values the program keeps in its JSON columns and event payloads, the conversions it
  applies to them (\<open>bool\<close>, \<open>int\<close>, \<open>float\<close>, \<open>str\<close>, \<open>dict\<close>), and binary64 arithmetic in
  its normal range: a float is the rational it denotes, and every operation rounds to 53
  significant bits, half to even. Strings are sequences of code points below 256.
\<close>

section \<open>Floating point\<close>

definition pow2 :: "int \<Rightarrow> rat" where
  "pow2 e = (if 0 \<le> e then 2 ^ nat e else 1 / 2 ^ nat (- e))"

definition round_half_even :: "rat \<Rightarrow> int" where
  "round_half_even r =
     (let q = \<lfloor>r\<rfloor>; f = r - of_int q
      in if f < 1 / 2 then q else if f > 1 / 2 then q + 1 else if even q then q else q + 1)"

text \<open>The exponent \<open>e\<close> with \<open>2 ^ 52 \<le> x / 2 ^ e < 2 ^ 53\<close>, for a positive \<open>x\<close>.\<close>

definition float_exponent :: "rat \<Rightarrow> int" where
  "float_exponent x =
     (let (n, d) = quotient_of x; k = int (nat (bitlen n)) - int (nat (bitlen d))
      in if pow2 k \<le> x then k - 52 else k - 53)"

definition fl :: "rat \<Rightarrow> rat" where
  "fl x =
     (if x = 0 then 0
      else let e = float_exponent \<bar>x\<bar>
           in sgn x * of_int (round_half_even (\<bar>x\<bar> / pow2 e)) * pow2 e)"

text \<open>
  \<open>sum\<close> over floats, as the interpreter of the project's image (Python 3.12) computes it:
  Neumaier's compensated summation, with the compensation added once at the end.
\<close>

definition fsum_step :: "rat \<times> rat \<Rightarrow> rat \<Rightarrow> rat \<times> rat" where
  "fsum_step sc x =
     (let s = fst sc; c = snd sc; t = fl (s + x)
      in if \<bar>x\<bar> \<le> \<bar>s\<bar> then (t, fl (c + fl (fl (s - t) + x)))
         else (t, fl (c + fl (fl (x - t) + s))))"

definition py_fsum :: "rat list \<Rightarrow> rat" where
  "py_fsum xs = (let (s, c) = foldl fsum_step (0, 0) xs in if c = 0 then s else fl (s + c))"

lemma fl_0 [simp]: "fl 0 = 0"
  by (simp add: fl_def)

lemma pow2_pos: "0 < pow2 e"
  by (simp add: pow2_def)

lemma round_half_even_of_int [simp]: "round_half_even (of_int i) = i"
  by (simp add: round_half_even_def)

lemma round_half_even_nonneg: "0 \<le> r \<Longrightarrow> 0 \<le> round_half_even r"
  by (auto simp: round_half_even_def Let_def)

lemma fl_nonneg: "0 \<le> x \<Longrightarrow> 0 \<le> fl x"
proof -
  assume "0 \<le> x"
  moreover from this have "0 \<le> round_half_even (\<bar>x\<bar> / pow2 (float_exponent \<bar>x\<bar>))"
    using pow2_pos [of "float_exponent \<bar>x\<bar>"] by (intro round_half_even_nonneg) simp
  ultimately show ?thesis
    using pow2_pos [of "float_exponent \<bar>x\<bar>"] by (auto simp: fl_def Let_def sgn_if)
qed

section \<open>JSON values\<close>

datatype json =
    JNull
  | JBool bool
  | JInt int
  | JFloat rat
  | JStr string
  | JList "json list"
  | JObj "(string \<times> json) list"

type_synonym obj = "json dict"

fun truthy :: "json \<Rightarrow> bool" where
  "truthy JNull = False"
| "truthy (JBool b) = b"
| "truthy (JInt i) = (i \<noteq> 0)"
| "truthy (JFloat r) = (r \<noteq> 0)"
| "truthy (JStr s) = (s \<noteq> [])"
| "truthy (JList xs) = (xs \<noteq> [])"
| "truthy (JObj kvs) = (kvs \<noteq> [])"

text \<open>\<open>a or b\<close>, and \<open>d.get(k)\<close> with the default \<open>None\<close>.\<close>

definition py_or :: "json \<Rightarrow> json \<Rightarrow> json" where
  "py_or a b = (if truthy a then a else b)"

definition jget :: "obj \<Rightarrow> string \<Rightarrow> json" where
  "jget d k = dget d k JNull"

definition jindex :: "obj \<Rightarrow> string \<Rightarrow> json result" where
  "jindex d k = (case map_of d k of None \<Rightarrow> Inl (KeyError k) | Some v \<Rightarrow> Inr v)"

text \<open>Calling \<open>.get\<close> on a value that is not a mapping is an \<open>AttributeError\<close>.\<close>

fun as_mapping :: "json \<Rightarrow> obj result" where
  "as_mapping (JObj kvs) = Inr kvs"
| "as_mapping _ = Inl (AttributeError ''get'')"

text \<open>
  \<open>dict(v or {})\<close>: a mapping is copied, a falsy value gives the empty dictionary. A non-empty
  list would be read as a list of pairs; that reading is outside the model.
\<close>

fun dict_or_empty :: "json \<Rightarrow> obj result" where
  "dict_or_empty (JObj kvs) = Inr kvs"
| "dict_or_empty v =
     (if \<not> truthy v then Inr []
      else (case v of
              JList _ \<Rightarrow> Inl (Unsupported ''dict of a list'')
            | JStr _ \<Rightarrow> Inl (ValueError ''dictionary update sequence'' [])
            | _ \<Rightarrow> Inl (TypeError ''object is not iterable'')))"

fun show_nat :: "nat \<Rightarrow> string" where
  "show_nat n =
     (if n < 10 then [char_of (48 + n)] else show_nat (n div 10) @ [char_of (48 + n mod 10)])"

declare show_nat.simps [simp del]

definition show_int :: "int \<Rightarrow> string" where
  "show_int i = (if i < 0 then ''-'' @ show_nat (nat (- i)) else show_nat (nat i))"

fun py_str :: "json \<Rightarrow> string result" where
  "py_str JNull = Inr ''None''"
| "py_str (JBool b) = Inr (if b then ''True'' else ''False'')"
| "py_str (JInt i) = Inr (show_int i)"
| "py_str (JStr s) = Inr s"
| "py_str (JFloat _) = Inl (Unsupported ''repr of a float'')"
| "py_str (JList _) = Inl (Unsupported ''repr of a list'')"
| "py_str (JObj _) = Inl (Unsupported ''repr of a dict'')"

definition digit_of :: "char \<Rightarrow> nat option" where
  "digit_of c = (let n = of_char c in if 48 \<le> n \<and> n \<le> 57 then Some (n - 48) else None)"

text \<open>Digits with single underscores between them, as \<open>int()\<close> reads them.\<close>

fun parse_digits :: "nat \<Rightarrow> bool \<Rightarrow> string \<Rightarrow> nat option" where
  "parse_digits acc after_digit [] = (if after_digit then Some acc else None)"
| "parse_digits acc after_digit (c # cs) =
     (if c = CHR ''_'' then (if after_digit then parse_digits acc False cs else None)
      else (case digit_of c of
              Some d \<Rightarrow> parse_digits (10 * acc + d) True cs
            | None \<Rightarrow> None))"

definition parse_int :: "string \<Rightarrow> int option" where
  "parse_int s =
     (case py_strip s of
        [] \<Rightarrow> None
      | c # cs \<Rightarrow>
          (if c = CHR ''-'' then map_option (\<lambda>n. - int n) (parse_digits 0 False cs)
           else if c = CHR ''+'' then map_option int (parse_digits 0 False cs)
           else map_option int (parse_digits 0 False (c # cs))))"

definition trunc_rat :: "rat \<Rightarrow> int" where
  "trunc_rat r = (if 0 \<le> r then \<lfloor>r\<rfloor> else - \<lfloor>- r\<rfloor>)"

fun py_int :: "json \<Rightarrow> int result" where
  "py_int (JInt i) = Inr i"
| "py_int (JBool b) = Inr (if b then 1 else 0)"
| "py_int (JFloat r) = Inr (trunc_rat r)"
| "py_int (JStr s) =
     (case parse_int s of Some i \<Rightarrow> Inr i | None \<Rightarrow> Inl (ValueError ''invalid literal for int()'' [s]))"
| "py_int _ = Inl (TypeError ''int()'')"

fun py_float :: "json \<Rightarrow> rat result" where
  "py_float (JInt i) = Inr (fl (of_int i))"
| "py_float (JBool b) = Inr (if b then 1 else 0)"
| "py_float (JFloat r) = Inr r"
| "py_float (JStr _) = Inl (Unsupported ''float of a string'')"
| "py_float _ = Inl (TypeError ''float()'')"

text \<open>
  Python's \<open>==\<close> on these values: numbers compare by value (\<open>True == 1 == 1.0\<close>), mappings by
  content whatever the order of their keys.
\<close>

fun num_value :: "json \<Rightarrow> rat option" where
  "num_value (JBool b) = Some (if b then 1 else 0)"
| "num_value (JInt i) = Some (of_int i)"
| "num_value (JFloat r) = Some r"
| "num_value _ = None"

function (sequential) py_eq :: "json \<Rightarrow> json \<Rightarrow> bool"
  and py_eq_list :: "json list \<Rightarrow> json list \<Rightarrow> bool"
  and py_eq_entries :: "(string \<times> json) list \<Rightarrow> (string \<times> json) list \<Rightarrow> bool" where
  "py_eq JNull JNull = True"
| "py_eq (JStr s) (JStr t) = (s = t)"
| "py_eq (JList xs) (JList ys) = py_eq_list xs ys"
| "py_eq (JObj xs) (JObj ys) = (length xs = length ys \<and> py_eq_entries xs ys)"
| "py_eq a b = (num_value a \<noteq> None \<and> num_value a = num_value b)"
| "py_eq_list [] [] = True"
| "py_eq_list (x # xs) (y # ys) = (py_eq x y \<and> py_eq_list xs ys)"
| "py_eq_list _ _ = False"
| "py_eq_entries [] ys = True"
| "py_eq_entries ((k, v) # xs) ys =
     ((case map_of ys k of None \<Rightarrow> False | Some w \<Rightarrow> py_eq v w) \<and> py_eq_entries xs ys)"
  by pat_completeness auto
termination
  by (relation "measure (\<lambda>x. case x of
        Inl (a, b) \<Rightarrow> 2 * size a
      | Inr (Inl (xs, ys)) \<Rightarrow> Suc (2 * size_list size xs)
      | Inr (Inr (xs, ys)) \<Rightarrow> Suc (2 * size_list (size_prod (\<lambda>_. 0) size) xs))") auto

definition obj_eq :: "obj \<Rightarrow> obj \<Rightarrow> bool" where
  "obj_eq a b = py_eq (JObj a) (JObj b)"

definition jopt :: "('a \<Rightarrow> json) \<Rightarrow> 'a option \<Rightarrow> json" where
  "jopt f x = (case x of None \<Rightarrow> JNull | Some y \<Rightarrow> f y)"

definition jstrs :: "string list \<Rightarrow> json" where
  "jstrs xs = JList (map JStr xs)"

lemma jget_Some [dict_simps]: "map_of d k = Some v \<Longrightarrow> jget d k = v"
  and jget_None [dict_simps]: "map_of d k = None \<Longrightarrow> jget d k = JNull"
  by (simp_all add: jget_def dget_def)

lemma jindex_eq_Inr [result_simps]: "jindex d k = Inr v \<longleftrightarrow> map_of d k = Some v"
  by (simp add: jindex_def split: option.splits)

lemma jopt_simps [simp]: "jopt f None = JNull" "jopt f (Some x) = f x"
  by (simp_all add: jopt_def)

lemma rmap_py_str_strs [simp]: "rmap py_str (map JStr xs) = Inr xs"
  by (rule rmap_map_Inr) simp

lemma as_mapping_eq_Inr [result_simps]: "as_mapping v = Inr d \<longleftrightarrow> v = JObj d"
  by (cases v) auto

text \<open>Equality of values is reflexive on values whose mappings have distinct keys.\<close>

fun json_wf :: "json \<Rightarrow> bool" where
  "json_wf (JList xs) = list_all json_wf xs"
| "json_wf (JObj kvs) = (dict_wf kvs \<and> list_all (\<lambda>kv. json_wf (snd kv)) kvs)"
| "json_wf _ = True"

lemma py_eq_entries_iff:
  "py_eq_entries xs ys \<longleftrightarrow>
     (\<forall>(k, v) \<in> set xs. \<exists>w. map_of ys k = Some w \<and> py_eq v w)"
  by (induction xs) (auto split: option.splits)

lemma py_eq_list_iff: "py_eq_list xs ys \<longleftrightarrow> list_all2 py_eq xs ys"
proof (induction xs arbitrary: ys)
  case Nil
  then show ?case by (cases ys) auto
next
  case (Cons x xs)
  then show ?case by (cases ys) auto
qed

lemma py_eq_refl: "json_wf v \<Longrightarrow> py_eq v v"
proof (induction v)
  case (JList xs)
  then show ?case by (auto simp: py_eq_list_iff list_all_iff list.rel_refl_strong)
next
  case (JObj kvs)
  show ?case
    unfolding py_eq.simps py_eq_entries_iff
  proof (intro conjI ballI, simp, clarify)
    fix k v
    assume kv: "(k, v) \<in> set kvs"
    with JObj.prems have "map_of kvs k = Some v" and "json_wf v"
      by (auto simp: list_all_iff intro: map_of_eqI_wf)
    with JObj.IH [OF kv, of v] show "\<exists>w. map_of kvs k = Some w \<and> py_eq v w" by simp
  qed
qed simp_all

lemma obj_eq_refl: "json_wf (JObj d) \<Longrightarrow> obj_eq d d"
  unfolding obj_eq_def by (rule py_eq_refl)

end
