(* ===== verification/Domain.thy ===== *)
theory Domain
  imports Py_Value "HOL-Library.List_Lexorder" "HOL-Library.Char_ord"
begin

text \<open>
  The versioned domain contracts of \<open>orchestrator/domain.py\<close>: statuses, budgets, work items,
  plans, plan patches and workflow events, their validation, and their dictionary forms.
  The dataclass fields that hold plain strings in the code (\<open>kind\<close>, \<open>risk_level\<close>) are
  strings here too: only \<open>validate\<close> ties them to the enumerations.
\<close>

section \<open>Enumerations\<close>

datatype run_status =
    RQueued | RRunning | RPaused | RWaitingApproval | RCompleted | RFailed | RCancelled

datatype work_status =
    WPending | WReady | WLeased | WRunning | WVerifying | WBlocked | WSucceeded | WFailed
  | WCancelled

datatype work_kind = KPlan | KExecute | KVerify | KDiagnose | KIntegrate | KApproval

datatype decision_type =
    DContinue | DRepair | DReplan | DWaitApproval | DComplete | DFail

datatype risk_level = Low | Medium | High | Critical

fun run_status_value :: "run_status \<Rightarrow> string" where
  "run_status_value RQueued = ''queued''"
| "run_status_value RRunning = ''running''"
| "run_status_value RPaused = ''paused''"
| "run_status_value RWaitingApproval = ''waiting_approval''"
| "run_status_value RCompleted = ''completed''"
| "run_status_value RFailed = ''failed''"
| "run_status_value RCancelled = ''cancelled''"

fun work_status_value :: "work_status \<Rightarrow> string" where
  "work_status_value WPending = ''pending''"
| "work_status_value WReady = ''ready''"
| "work_status_value WLeased = ''leased''"
| "work_status_value WRunning = ''running''"
| "work_status_value WVerifying = ''verifying''"
| "work_status_value WBlocked = ''blocked''"
| "work_status_value WSucceeded = ''succeeded''"
| "work_status_value WFailed = ''failed''"
| "work_status_value WCancelled = ''cancelled''"

fun work_kind_value :: "work_kind \<Rightarrow> string" where
  "work_kind_value KPlan = ''plan''"
| "work_kind_value KExecute = ''execute''"
| "work_kind_value KVerify = ''verify''"
| "work_kind_value KDiagnose = ''diagnose''"
| "work_kind_value KIntegrate = ''integrate''"
| "work_kind_value KApproval = ''approval''"

fun decision_type_value :: "decision_type \<Rightarrow> string" where
  "decision_type_value DContinue = ''continue''"
| "decision_type_value DRepair = ''repair''"
| "decision_type_value DReplan = ''replan''"
| "decision_type_value DWaitApproval = ''wait_approval''"
| "decision_type_value DComplete = ''complete''"
| "decision_type_value DFail = ''fail''"

fun risk_level_value :: "risk_level \<Rightarrow> string" where
  "risk_level_value Low = ''low''"
| "risk_level_value Medium = ''medium''"
| "risk_level_value High = ''high''"
| "risk_level_value Critical = ''critical''"

definition all_run_statuses :: "run_status list" where
  "all_run_statuses =
     [RQueued, RRunning, RPaused, RWaitingApproval, RCompleted, RFailed, RCancelled]"

definition all_work_kinds :: "work_kind list" where
  "all_work_kinds = [KPlan, KExecute, KVerify, KDiagnose, KIntegrate, KApproval]"

definition all_risk_levels :: "risk_level list" where
  "all_risk_levels = [Low, Medium, High, Critical]"

definition terminal_run_statuses :: "run_status set" where
  "terminal_run_statuses = {RCompleted, RFailed, RCancelled}"

definition terminal_work_statuses :: "work_status set" where
  "terminal_work_statuses = {WSucceeded, WFailed, WCancelled}"

text \<open>The member with a given value, if there is one.\<close>

definition run_status_of :: "string \<Rightarrow> run_status option" where
  "run_status_of s = List.find (\<lambda>r. run_status_value r = s) all_run_statuses"

lemma run_status_of_value [simp]: "run_status_of (run_status_value r) = Some r"
  by (cases r) (simp_all add: run_status_of_def all_run_statuses_def)

lemma run_status_value_inj: "run_status_value r = run_status_value s \<Longrightarrow> r = s"
  by (metis run_status_of_value option.inject)

lemma run_status_of_Some: "run_status_of s = Some r \<longleftrightarrow> s = run_status_value r"
  by (metis (mono_tags, lifting) find_Some_iff run_status_of_def run_status_of_value)

section \<open>Budgets\<close>

record work_budget =
  max_seconds :: int
  max_tokens :: "int option"
  max_cost_usd :: "rat option"
  max_attempts :: int

definition default_budget :: work_budget where
  "default_budget =
     \<lparr>max_seconds = 900, max_tokens = None, max_cost_usd = None, max_attempts = 3\<rparr>"

definition budget_validate :: "work_budget \<Rightarrow> unit result" where
  "budget_validate b =
     rbind (raise_unless (0 < max_seconds b) (DomainError ''budget.max_seconds must be positive'' [])) (\<lambda>_.
     rbind (raise_unless (case max_tokens b of None \<Rightarrow> True | Some t \<Rightarrow> 0 < t)
              (DomainError ''budget.max_tokens must be positive'' [])) (\<lambda>_.
     rbind (raise_unless (case max_cost_usd b of None \<Rightarrow> True | Some c \<Rightarrow> 0 < c)
              (DomainError ''budget.max_cost_usd must be positive'' [])) (\<lambda>_.
     raise_unless (1 \<le> max_attempts b \<and> max_attempts b \<le> 20)
       (DomainError ''budget.max_attempts must be between 1 and 20'' []))))"

fun optional_int :: "json \<Rightarrow> int option result" where
  "optional_int JNull = Inr None"
| "optional_int v = rbind (py_int v) (\<lambda>i. Inr (Some i))"

fun optional_float :: "json \<Rightarrow> rat option result" where
  "optional_float JNull = Inr None"
| "optional_float v = rbind (py_float v) (\<lambda>r. Inr (Some r))"

fun string_tuple :: "json \<Rightarrow> string list result" where
  "string_tuple JNull = Inr []"
| "string_tuple (JStr s) = Inr [s]"
| "string_tuple (JList xs) = rmap py_str xs"
| "string_tuple (JObj kvs) = Inr (dict_keys kvs)"
| "string_tuple _ = Inl (DomainError ''expected a string collection'' [])"

definition budget_from_dict :: "json \<Rightarrow> work_budget result" where
  "budget_from_dict value =
     rbind (dict_or_empty value) (\<lambda>data.
     rbind (py_int (dget data ''max_seconds'' (JInt 900))) (\<lambda>s.
     rbind (optional_int (jget data ''max_tokens'')) (\<lambda>t.
     rbind (optional_float (jget data ''max_cost_usd'')) (\<lambda>c.
     rbind (py_int (dget data ''max_attempts'' (JInt 3))) (\<lambda>a.
     Inr \<lparr>max_seconds = s, max_tokens = t, max_cost_usd = c, max_attempts = a\<rparr>)))))"

definition budget_to_dict :: "work_budget \<Rightarrow> json" where
  "budget_to_dict b =
     JObj [(''max_seconds'', JInt (max_seconds b)),
           (''max_tokens'', jopt JInt (max_tokens b)),
           (''max_cost_usd'', jopt JFloat (max_cost_usd b)),
           (''max_attempts'', JInt (max_attempts b))]"

section \<open>Work items\<close>

record work_item =
  item_id :: string
  title :: string
  kind :: string
  agent_role :: string
  dependencies :: "string list"
  inputs :: obj
  expected_outputs :: "string list"
  acceptance_checks :: "string list"
  required_capabilities :: "string list"
  risk :: string
  budget :: work_budget

definition item_validate :: "work_item \<Rightarrow> unit result" where
  "item_validate it =
     rbind (raise_unless (item_id it \<noteq> [] \<and> \<not> py_blank (item_id it))
              (DomainError ''work item id is required'' [])) (\<lambda>_.
     rbind (raise_unless (\<not> py_blank (title it))
              (DomainError ''work item {} requires a title'' [item_id it])) (\<lambda>_.
     rbind (raise_unless (kind it \<in> set (map work_kind_value all_work_kinds))
              (DomainError ''work item {} has unknown kind {}'' [item_id it, kind it])) (\<lambda>_.
     rbind (raise_unless (\<not> py_blank (agent_role it))
              (DomainError ''work item {} requires an agent_role'' [item_id it])) (\<lambda>_.
     rbind (raise_unless (item_id it \<notin> set (dependencies it))
              (DomainError ''work item {} cannot depend on itself'' [item_id it])) (\<lambda>_.
     rbind (raise_unless (length (remdups (dependencies it)) = length (dependencies it))
              (DomainError ''work item {} has duplicate dependencies'' [item_id it])) (\<lambda>_.
     rbind (raise_unless (risk it \<in> set (map risk_level_value all_risk_levels))
              (DomainError ''work item {} has unknown risk level'' [item_id it])) (\<lambda>_.
     budget_validate (budget it))))))))"

definition item_to_dict :: "work_item \<Rightarrow> obj" where
  "item_to_dict it =
     [(''id'', JStr (item_id it)),
      (''title'', JStr (title it)),
      (''kind'', JStr (kind it)),
      (''agent_role'', JStr (agent_role it)),
      (''dependencies'', jstrs (dependencies it)),
      (''inputs'', JObj (inputs it)),
      (''expected_outputs'', jstrs (expected_outputs it)),
      (''acceptance_checks'', jstrs (acceptance_checks it)),
      (''required_capabilities'', jstrs (required_capabilities it)),
      (''risk_level'', JStr (risk it)),
      (''budget'', budget_to_dict (budget it))]"

definition item_from_dict :: "json \<Rightarrow> work_item result" where
  "item_from_dict v =
     rbind (as_mapping v) (\<lambda>value.
     rbind (py_str (dget value ''id'' (JStr []))) (\<lambda>i.
     rbind (py_str (dget value ''title'' (JStr []))) (\<lambda>t.
     rbind (py_str (dget value ''kind'' (JStr (work_kind_value KExecute)))) (\<lambda>k.
     rbind (py_str (dget value ''agent_role'' (JStr ''executor''))) (\<lambda>r.
     rbind (string_tuple (jget value ''dependencies'')) (\<lambda>deps.
     rbind (dict_or_empty (jget value ''inputs'')) (\<lambda>inp.
     rbind (string_tuple (jget value ''expected_outputs'')) (\<lambda>outs.
     rbind (string_tuple (jget value ''acceptance_checks'')) (\<lambda>checks.
     rbind (string_tuple (jget value ''required_capabilities'')) (\<lambda>caps.
     rbind (py_str (dget value ''risk_level'' (JStr (risk_level_value Low)))) (\<lambda>rl.
     rbind (budget_from_dict (jget value ''budget'')) (\<lambda>b.
     let it = \<lparr>item_id = i, title = t, kind = k, agent_role = r, dependencies = deps,
               inputs = inp, expected_outputs = outs, acceptance_checks = checks,
               required_capabilities = caps, risk = rl, budget = b\<rparr>
     in rbind (item_validate it) (\<lambda>_. Inr it)))))))))))))"

section \<open>Completion policies and plans\<close>

record completion_policy =
  required_work_item_ids :: "string list"
  require_verifier :: bool

definition policy_to_dict :: "completion_policy \<Rightarrow> json" where
  "policy_to_dict p =
     JObj [(''required_work_item_ids'', jstrs (required_work_item_ids p)),
           (''require_verifier'', JBool (require_verifier p))]"

definition policy_from_dict :: "json \<Rightarrow> completion_policy result" where
  "policy_from_dict value =
     rbind (dict_or_empty value) (\<lambda>data.
     rbind (string_tuple (jget data ''required_work_item_ids'')) (\<lambda>ids.
     Inr \<lparr>required_work_item_ids = ids,
          require_verifier = truthy (dget data ''require_verifier'' (JBool True))\<rparr>))"

record plan_document =
  revision :: int
  plan_goal :: string
  success_criteria :: "string list"
  assumptions :: "string list"
  work_items :: "work_item list"
  completion_policy :: completion_policy
  schema_version :: int

text \<open>
  \<open>_assert_acyclic\<close>: a depth-first search with a stack of the items being visited and the
  list of finished ones. The recursion ends because every nested visit puts a new key of the
  mapping on the stack.
\<close>

function (sequential) visit ::
    "work_item dict \<Rightarrow> string list \<Rightarrow> string list \<Rightarrow> string \<Rightarrow> string list result"
  and visit_all ::
    "work_item dict \<Rightarrow> string list \<Rightarrow> string list \<Rightarrow> string list \<Rightarrow> string list result" where
  "visit items visiting visited x =
     (if x \<in> set visited then Inr visited
      else if x \<in> set visiting then
        Inl (DomainError ''plan contains dependency cycle''
               (dropWhile (\<lambda>y. y \<noteq> x) visiting @ [x]))
      else (case map_of items x of
              None \<Rightarrow> Inl (KeyError x)
            | Some it \<Rightarrow>
                rbind (visit_all items (visiting @ [x]) visited (dependencies it))
                  (\<lambda>visited'. Inr (x # visited'))))"
| "visit_all items visiting visited [] = Inr visited"
| "visit_all items visiting visited (d # ds) =
     rbind (visit items visiting visited d) (\<lambda>visited'. visit_all items visiting visited' ds)"
  by pat_completeness auto
termination
proof (relation "measures
    [\<lambda>x. case x of Inl (items, visiting, _, _) \<Rightarrow> card (dom (map_of items) - set visiting)
                 | Inr (items, visiting, _, _) \<Rightarrow> card (dom (map_of items) - set visiting),
     \<lambda>x. case x of Inl _ \<Rightarrow> 0 | Inr (_, _, _, ds) \<Rightarrow> Suc (length ds)]", goal_cases)
  case (2 items visiting visited x it)
  then have "x \<in> dom (map_of items) - set visiting" by auto
  moreover have "finite (dom (map_of items) - set visiting)"
    by (simp add: finite_dom_map_of)
  ultimately have "card ((dom (map_of items) - set visiting) - {x})
      < card (dom (map_of items) - set visiting)"
    by (rule card_Diff1_less [rotated])
  moreover have "dom (map_of items) - set (visiting @ [x]) = (dom (map_of items) - set visiting) - {x}"
    by auto
  ultimately have "card (dom (map_of items) - set (visiting @ [x]))
      < card (dom (map_of items) - set visiting)"
    by (simp only:)
  then show ?case by (simp del: set_append)
qed auto

definition assert_acyclic :: "work_item dict \<Rightarrow> unit result" where
  "assert_acyclic items = rbind (visit_all items [] [] (dict_keys items)) (\<lambda>_. Inr ())"

text \<open>The loop that validates the items and collects them by id.\<close>

fun collect_items :: "work_item dict \<Rightarrow> work_item list \<Rightarrow> work_item dict result" where
  "collect_items by_id [] = Inr by_id"
| "collect_items by_id (it # its) =
     rbind (item_validate it) (\<lambda>_.
     rbind (raise_unless (item_id it \<notin> set (dict_keys by_id))
              (DomainError ''duplicate work item id: {}'' [item_id it])) (\<lambda>_.
     collect_items (dset (item_id it) it by_id) its))"

definition missing_in :: "string list \<Rightarrow> work_item dict \<Rightarrow> string list" where
  "missing_in ids by_id = sort (remdups (filter (\<lambda>i. i \<notin> set (dict_keys by_id)) ids))"

definition total_seconds :: "work_item list \<Rightarrow> int" where
  "total_seconds its = sum_list (map (\<lambda>it. max_seconds (budget it)) its)"

definition total_tokens :: "work_item list \<Rightarrow> int" where
  "total_tokens its =
     sum_list (map (\<lambda>it. case max_tokens (budget it) of None \<Rightarrow> 0 | Some t \<Rightarrow> t) its)"

definition total_cost :: "work_item list \<Rightarrow> rat" where
  "total_cost its =
     py_fsum (map (\<lambda>it. case max_cost_usd (budget it) of None \<Rightarrow> 0 | Some c \<Rightarrow> c) its)"

definition in_limit :: "'a::linorder \<Rightarrow> 'a option \<Rightarrow> bool" where
  "in_limit x limit = (case limit of None \<Rightarrow> True | Some m \<Rightarrow> x \<le> m)"

definition plan_validate ::
    "plan_document \<Rightarrow> int option \<Rightarrow> int option \<Rightarrow> rat option \<Rightarrow> unit result" where
  "plan_validate p max_total_seconds max_total_tokens max_total_cost_usd =
     rbind (raise_unless (schema_version p = 1)
              (DomainError ''unsupported plan schema version: {}'' [show_int (schema_version p)])) (\<lambda>_.
     rbind (raise_unless (1 \<le> revision p) (DomainError ''plan revision must be positive'' [])) (\<lambda>_.
     rbind (raise_unless (\<not> py_blank (plan_goal p)) (DomainError ''plan goal is required'' [])) (\<lambda>_.
     rbind (raise_unless (success_criteria p \<noteq> [])
              (DomainError ''plan requires at least one success criterion'' [])) (\<lambda>_.
     rbind (raise_unless (work_items p \<noteq> [])
              (DomainError ''plan requires at least one work item'' [])) (\<lambda>_.
     rbind (collect_items [] (work_items p)) (\<lambda>by_id.
     rbind (riter (\<lambda>it. raise_unless (missing_in (dependencies it) by_id = [])
              (DomainError ''work item {} has missing dependencies'' (item_id it # missing_in (dependencies it) by_id)))
              (work_items p)) (\<lambda>_.
     rbind (assert_acyclic by_id) (\<lambda>_.
     rbind (raise_unless (missing_in (required_work_item_ids (completion_policy p)) by_id = [])
              (DomainError ''completion policy references missing work items''
                 (missing_in (required_work_item_ids (completion_policy p)) by_id))) (\<lambda>_.
     rbind (raise_unless (require_verifier (completion_policy p) \<longrightarrow>
                            list_ex (\<lambda>it. kind it = work_kind_value KVerify) (work_items p))
              (DomainError ''completion policy requires a verifier work item'' [])) (\<lambda>_.
     rbind (raise_unless (in_limit (total_seconds (work_items p)) max_total_seconds)
              (DomainError ''plan budget exceeds run budget (seconds)'' [])) (\<lambda>_.
     rbind (raise_unless (in_limit (total_tokens (work_items p)) max_total_tokens)
              (DomainError ''plan budget exceeds run budget (tokens)'' [])) (\<lambda>_.
     raise_unless (in_limit (total_cost (work_items p)) max_total_cost_usd)
       (DomainError ''plan budget exceeds run budget (cost)'' [])))))))))))))"

definition plan_to_dict :: "plan_document \<Rightarrow> json" where
  "plan_to_dict p =
     JObj [(''schema_version'', JInt (schema_version p)),
           (''revision'', JInt (revision p)),
           (''goal'', JStr (plan_goal p)),
           (''success_criteria'', jstrs (success_criteria p)),
           (''assumptions'', jstrs (assumptions p)),
           (''work_items'', JList (map (\<lambda>it. JObj (item_to_dict it)) (work_items p))),
           (''completion_policy'', policy_to_dict (completion_policy p))]"

text \<open>The values a \<open>for\<close> loop takes from a value, and from \<open>(v or [])\<close>.\<close>

fun py_iter :: "json \<Rightarrow> json list result" where
  "py_iter (JList xs) = Inr xs"
| "py_iter (JStr s) = Inr (map (\<lambda>c. JStr [c]) s)"
| "py_iter (JObj kvs) = Inr (map (\<lambda>kv. JStr (fst kv)) kvs)"
| "py_iter _ = Inl (TypeError ''object is not iterable'')"

definition list_or_empty :: "json \<Rightarrow> json list result" where
  "list_or_empty v = (if truthy v then py_iter v else Inr [])"

definition plan_from_dict :: "json \<Rightarrow> plan_document result" where
  "plan_from_dict v =
     rbind (as_mapping v) (\<lambda>value.
     rbind (py_int (dget value ''schema_version'' (JInt 1))) (\<lambda>sv.
     rbind (py_int (dget value ''revision'' (JInt 0))) (\<lambda>rev.
     rbind (py_str (dget value ''goal'' (JStr []))) (\<lambda>g.
     rbind (string_tuple (jget value ''success_criteria'')) (\<lambda>sc.
     rbind (string_tuple (jget value ''assumptions'')) (\<lambda>assm.
     rbind (list_or_empty (jget value ''work_items'')) (\<lambda>ws.
     rbind (rmap item_from_dict ws) (\<lambda>its.
     rbind (policy_from_dict (jget value ''completion_policy'')) (\<lambda>pol.
     let p = \<lparr>revision = rev, plan_goal = g, success_criteria = sc, assumptions = assm,
              work_items = its, completion_policy = pol, schema_version = sv\<rparr>
     in rbind (plan_validate p None None None) (\<lambda>_. Inr p))))))))))"

record plan_patch =
  patch_base_revision :: int
  patch_reason :: string
  patch_evidence_refs :: "string list"
  patch_add :: "work_item list"
  patch_update :: "work_item list"
  patch_cancel :: "string list"
  patch_schema_version :: int

definition patch_from_dict :: "json \<Rightarrow> plan_patch result" where
  "patch_from_dict v =
     rbind (as_mapping v) (\<lambda>value.
     rbind (py_int (dget value ''schema_version'' (JInt 1))) (\<lambda>sv.
     rbind (raise_unless (sv = 1) (DomainError ''unsupported plan patch schema version'' [])) (\<lambda>_.
     rbind (py_int (dget value ''base_revision'' (JInt 0))) (\<lambda>base.
     rbind (py_str (dget value ''reason'' (JStr []))) (\<lambda>why.
     rbind (string_tuple (jget value ''evidence_refs'')) (\<lambda>refs.
     rbind (list_or_empty (jget value ''add'')) (\<lambda>adds.
     rbind (rmap item_from_dict adds) (\<lambda>added.
     rbind (list_or_empty (jget value ''update'')) (\<lambda>upds.
     rbind (rmap item_from_dict upds) (\<lambda>updated.
     rbind (string_tuple (jget value ''cancel'')) (\<lambda>cancelled.
     Inr \<lparr>patch_base_revision = base, patch_reason = why, patch_evidence_refs = refs,
          patch_add = added, patch_update = updated, patch_cancel = cancelled,
          patch_schema_version = 1\<rparr>)))))))))))"

section \<open>Events and leases\<close>

text \<open>
  Instants are microseconds since the epoch; the ISO text the code stores denotes one of them.
\<close>

type_synonym time = int

record workflow_event =
  event_type :: string
  payload :: obj
  event_run_id :: string
  event_id :: string
  event_version :: "int option"
  actor :: string
  created_at :: time

text \<open>\<open>WorkflowEvent.create\<close>, with the fresh identifier and the clock reading as arguments.\<close>

definition event_create ::
    "string \<Rightarrow> time \<Rightarrow> string \<Rightarrow> string \<Rightarrow> obj \<Rightarrow> string \<Rightarrow> workflow_event" where
  "event_create uuid now run_id ty pl act =
     \<lparr>event_type = ty, payload = pl, event_run_id = run_id, event_id = uuid,
      event_version = None, actor = act, created_at = now\<rparr>"

record leased_work_item =
  leased_run_id :: string
  leased_item_id :: string
  leased_attempt_id :: string
  leased_fencing_token :: int
  leased_expires_at :: time
  leased_item :: obj
  leased_checkpoint :: "obj option"

end
