(* ===== verification/Domain_Laws.thy ===== *)
theory Domain_Laws
  imports Domain
begin

text \<open>
  What the contracts of \<open>Domain\<close> guarantee: a declarative well-formedness predicate for
  plans that the validator decides, the correctness of the cycle search, and the round trips
  between plans and their dictionary form.
\<close>

section \<open>Declarative well-formedness\<close>

definition budget_ok :: "work_budget \<Rightarrow> bool" where
  "budget_ok b \<longleftrightarrow>
     0 < max_seconds b \<and> (\<forall>t. max_tokens b = Some t \<longrightarrow> 0 < t) \<and>
     (\<forall>c. max_cost_usd b = Some c \<longrightarrow> 0 < c) \<and> 1 \<le> max_attempts b \<and> max_attempts b \<le> 20"

definition item_ok :: "work_item \<Rightarrow> bool" where
  "item_ok it \<longleftrightarrow>
     \<not> py_blank (item_id it) \<and> \<not> py_blank (title it) \<and>
     kind it \<in> set (map work_kind_value all_work_kinds) \<and>
     \<not> py_blank (agent_role it) \<and> item_id it \<notin> set (dependencies it) \<and>
     distinct (dependencies it) \<and> risk it \<in> set (map risk_level_value all_risk_levels) \<and>
     budget_ok (budget it)"

definition plan_ids :: "plan_document \<Rightarrow> string list" where
  "plan_ids p = map item_id (work_items p)"

text \<open>The edges of the plan graph lead from an item to the items it depends on.\<close>

definition item_deps :: "work_item list \<Rightarrow> (string \<times> string) set" where
  "item_deps its = {(item_id it, d) | it d. it \<in> set its \<and> d \<in> set (dependencies it)}"

definition plan_ok :: "plan_document \<Rightarrow> bool" where
  "plan_ok p \<longleftrightarrow>
     schema_version p = 1 \<and> 1 \<le> revision p \<and> \<not> py_blank (plan_goal p) \<and>
     success_criteria p \<noteq> [] \<and> work_items p \<noteq> [] \<and>
     (\<forall>it \<in> set (work_items p). item_ok it) \<and> distinct (plan_ids p) \<and>
     (\<forall>it \<in> set (work_items p). set (dependencies it) \<subseteq> set (plan_ids p)) \<and>
     acyclic (item_deps (work_items p)) \<and>
     set (required_work_item_ids (completion_policy p)) \<subseteq> set (plan_ids p) \<and>
     (require_verifier (completion_policy p) \<longrightarrow>
        (\<exists>it \<in> set (work_items p). kind it = work_kind_value KVerify))"

lemma budget_validate_iff [result_simps]: "budget_validate b = Inr u \<longleftrightarrow> budget_ok b"
  by (auto simp: budget_validate_def budget_ok_def result_simps split: option.splits)

lemma length_remdups_iff: "length (remdups xs) = length xs \<longleftrightarrow> distinct xs"
  by (metis length_remdups_eq remdups_id_iff_distinct)

lemma py_blank_Nil [simp]: "py_blank []"
  by (simp add: py_blank_iff)

lemma item_validate_iff [result_simps]: "item_validate it = Inr u \<longleftrightarrow> item_ok it"
  by (auto simp: item_validate_def item_ok_def result_simps length_remdups_iff)

section \<open>The cycle search\<close>

definition edges :: "work_item dict \<Rightarrow> (string \<times> string) set" where
  "edges items = {(x, d) | x d it. map_of items x = Some it \<and> d \<in> set (dependencies it)}"

declare visit.simps [simp del]

text \<open>
  Soundness. Finished nodes are accessible: no infinite path, hence no cycle, starts there.
\<close>

lemma acc_deps_I:
  assumes "map_of items x = Some it" and "set (dependencies it) \<subseteq> Wellfounded.acc ((edges items)\<inverse>)"
  shows "x \<in> Wellfounded.acc ((edges items)\<inverse>)"
  by (rule accI) (use assms in \<open>auto simp: edges_def\<close>)

lemma visit_sound:
  "visit items visiting visited x = Inr visited' \<Longrightarrow>
     set visited \<subseteq> Wellfounded.acc ((edges items)\<inverse>) \<Longrightarrow>
     set visited \<subseteq> set visited' \<and> x \<in> set visited' \<and> set visited' \<subseteq> Wellfounded.acc ((edges items)\<inverse>)"
  "visit_all items visiting visited ds = Inr visited' \<Longrightarrow>
     set visited \<subseteq> Wellfounded.acc ((edges items)\<inverse>) \<Longrightarrow>
     set visited \<union> set ds \<subseteq> set visited' \<and> set visited' \<subseteq> Wellfounded.acc ((edges items)\<inverse>)"
proof (induction items visiting visited x and items visiting visited ds
    arbitrary: visited' and visited' rule: visit_visit_all.induct)
  case (1 items visiting visited x)
  show ?case
  proof (cases "x \<in> set visited")
    case True
    with "1.prems" show ?thesis by (simp add: visit.simps [of items visiting visited x])
  next
    case False
    note eq = "1.prems"(1) [unfolded visit.simps [of items visiting visited x]]
    from eq False have nv: "x \<notin> set visiting" by (auto split: if_splits)
    from eq False nv obtain it ws where it: "map_of items x = Some it"
      and ws: "visit_all items (visiting @ [x]) visited (dependencies it) = Inr ws"
      and v': "visited' = x # ws"
      by (auto simp: result_simps split: option.splits)
    from "1.IH" [OF False nv it ws "1.prems"(2)]
    have sub: "set visited \<union> set (dependencies it) \<subseteq> set ws"
      and acc: "set ws \<subseteq> Wellfounded.acc ((edges items)\<inverse>)" by auto
    then have "x \<in> Wellfounded.acc ((edges items)\<inverse>)"
      by (intro acc_deps_I [OF it]) auto
    with sub acc v' show ?thesis by auto
  qed
next
  case (3 items visiting visited d ds)
  then obtain ws where "visit items visiting visited d = Inr ws"
    and "visit_all items visiting ws ds = Inr visited'"
    by (auto simp: result_simps)
  with "3.IH"(1) [of ws] "3.IH"(2) [of ws visited'] "3.prems"(2) show ?case by auto
qed auto

text \<open>
  Completeness. The stack is a path that leads to the node being visited, so a node met again
  on the stack lies on a cycle.
\<close>

fun path_to :: "(string \<times> string) set \<Rightarrow> string list \<Rightarrow> string \<Rightarrow> bool" where
  "path_to E [] y = True"
| "path_to E [x] y = ((x, y) \<in> E)"
| "path_to E (x # z # xs) y = ((x, z) \<in> E \<and> path_to E (z # xs) y)"

lemma path_to_snoc: "path_to E vs x \<Longrightarrow> (x, y) \<in> E \<Longrightarrow> path_to E (vs @ [x]) y"
  by (induction E vs x rule: path_to.induct) auto

lemma path_to_trancl: "path_to E vs y \<Longrightarrow> x \<in> set vs \<Longrightarrow> (x, y) \<in> E\<^sup>+"
proof (induction E vs y arbitrary: x rule: path_to.induct)
  case (3 E x' z xs y)
  then have "(z, y) \<in> E\<^sup>+" by simp
  with 3 show ?case by (auto intro: trancl_into_trancl2)
qed auto

lemma visit_complete:
  "visit items visiting visited x = Inl e \<Longrightarrow> path_to (edges items) visiting x \<Longrightarrow>
     x \<in> set (dict_keys items) \<Longrightarrow> edges items `` UNIV \<subseteq> set (dict_keys items) \<Longrightarrow>
     \<not> acyclic (edges items)"
  "visit_all items visiting visited ds = Inl e \<Longrightarrow>
     \<forall>d \<in> set ds. path_to (edges items) visiting d \<Longrightarrow>
     set ds \<subseteq> set (dict_keys items) \<Longrightarrow> edges items `` UNIV \<subseteq> set (dict_keys items) \<Longrightarrow>
     \<not> acyclic (edges items)"
proof (induction items visiting visited x and items visiting visited ds
    arbitrary: e and e rule: visit_visit_all.induct)
  case (1 items visiting visited x)
  show ?case
  proof (cases "x \<in> set visiting")
    case True
    with "1.prems"(2) have "(x, x) \<in> (edges items)\<^sup>+" by (rule path_to_trancl)
    then show ?thesis by (auto simp: acyclic_def)
  next
    case False
    from "1.prems"(3) obtain it where it: "map_of items x = Some it"
      using map_of_eq_None_iff [of items x] by (cases "map_of items x") auto
    from "1.prems"(1) False it have nv: "x \<notin> set visited"
      and err: "visit_all items (visiting @ [x]) visited (dependencies it) = Inl e"
      by (auto simp: visit.simps [of items visiting visited x] result_simps split: if_splits)
    have dep: "(x, d) \<in> edges items" if "d \<in> set (dependencies it)" for d
      using it that by (auto simp: edges_def)
    then have "\<forall>d \<in> set (dependencies it). path_to (edges items) (visiting @ [x]) d"
      using "1.prems"(2) by (blast intro: path_to_snoc)
    moreover have "set (dependencies it) \<subseteq> set (dict_keys items)"
      using dep "1.prems"(4) by blast
    ultimately show ?thesis
      using "1.IH" [OF nv False it err] "1.prems"(4) by blast
  qed
next
  case (3 items visiting visited d ds)
  show ?case
  proof (cases "visit items visiting visited d")
    case (Inl e')
    from "3.IH"(1) [OF Inl] "3.prems"(2-4) show ?thesis by simp
  next
    case (Inr ws)
    with "3.prems"(1) have "visit_all items visiting ws ds = Inl e" by simp
    from "3.IH"(2) [OF Inr this] "3.prems"(2-4) show ?thesis by simp
  qed
qed simp

lemma wf_converse_edges:
  assumes "set (dict_keys items) \<subseteq> Wellfounded.acc ((edges items)\<inverse>)"
  shows "wf ((edges items)\<inverse>)"
proof (rule acc_wfI, rule allI)
  fix x
  show "x \<in> Wellfounded.acc ((edges items)\<inverse>)"
  proof (cases "x \<in> set (dict_keys items)")
    case False
    then have "map_of items x = None" by (simp add: map_of_eq_None_iff)
    then show ?thesis by - (rule accI, simp add: edges_def)
  qed (use assms in auto)
qed

lemma assert_acyclic_iff:
  assumes "edges items `` UNIV \<subseteq> set (dict_keys items)"
  shows "assert_acyclic items = Inr () \<longleftrightarrow> acyclic (edges items)"
proof
  assume "assert_acyclic items = Inr ()"
  then obtain vs where "visit_all items [] [] (dict_keys items) = Inr vs"
    by (auto simp: assert_acyclic_def result_simps)
  from visit_sound(2) [OF this] have "wf ((edges items)\<inverse>)"
    by (intro wf_converse_edges) auto
  then show "acyclic (edges items)"
    using wf_acyclic acyclic_converse by blast
next
  assume "acyclic (edges items)"
  then show "assert_acyclic items = Inr ()"
    using visit_complete(2) [of items "[]" "[]" "dict_keys items"] assms
    by (cases "visit_all items [] [] (dict_keys items)") (auto simp: assert_acyclic_def)
qed

section \<open>The plan validator\<close>

definition by_id_of :: "work_item list \<Rightarrow> work_item dict" where
  "by_id_of its = map (\<lambda>it. (item_id it, it)) its"

lemma keys_by_id_of [simp]: "dict_keys (by_id_of its) = map item_id its"
  by (simp add: by_id_of_def comp_def)

lemma set_by_id_of [simp]: "(x, it) \<in> set (by_id_of its) \<longleftrightarrow> it \<in> set its \<and> x = item_id it"
  by (auto simp: by_id_of_def)

lemma fst_set_by_id_of [simp]: "fst ` set (by_id_of its) = item_id ` set its"
  by (force simp: by_id_of_def)

lemma map_of_by_id_of:
  "distinct (map item_id its) \<Longrightarrow> map_of (by_id_of its) x = Some it \<longleftrightarrow> it \<in> set its \<and> item_id it = x"
  by (subst map_of_eq_Some_iff) (auto simp: by_id_of_def comp_def)

lemma edges_by_id_of:
  "distinct (map item_id its) \<Longrightarrow> edges (by_id_of its) = item_deps its"
  by (auto simp: edges_def item_deps_def map_of_by_id_of)

lemma collect_items_iff:
  "collect_items acc its = Inr by_id \<longleftrightarrow>
     (\<forall>it \<in> set its. item_ok it) \<and> distinct (map item_id its) \<and>
     set (map item_id its) \<inter> set (dict_keys acc) = {} \<and> by_id = acc @ by_id_of its"
proof (induction its arbitrary: acc)
  case Nil
  then show ?case by (auto simp: by_id_of_def)
next
  case (Cons it its)
  show ?case
  proof (cases "item_id it \<in> set (dict_keys acc)")
    case True
    then show ?thesis by (auto simp: result_simps)
  next
    case False
    then show ?thesis
      by (auto simp: result_simps Cons.IH dset_fresh by_id_of_def)
  qed
qed

lemma collect_items_Nil_iff [result_simps]:
  "collect_items [] its = Inr by_id \<longleftrightarrow>
     (\<forall>it \<in> set its. item_ok it) \<and> distinct (map item_id its) \<and> by_id = by_id_of its"
  by (simp add: collect_items_iff)

lemma sort_Nil_iff [simp]: "sort xs = [] \<longleftrightarrow> xs = []"
  by (metis length_0_conv length_sort)

lemma missing_in_Nil_iff [simp]: "missing_in ids d = [] \<longleftrightarrow> set ids \<subseteq> set (dict_keys d)"
  by (auto simp: missing_in_def filter_empty_conv)

lemma plan_validate_limits_iff:
  "plan_validate p ms mt mc = Inr u \<longleftrightarrow>
     plan_ok p \<and> in_limit (total_seconds (work_items p)) ms \<and>
     in_limit (total_tokens (work_items p)) mt \<and> in_limit (total_cost (work_items p)) mc"
proof -
  have *: "assert_acyclic (by_id_of (work_items p)) = Inr () \<longleftrightarrow> acyclic (item_deps (work_items p))"
    if "distinct (map item_id (work_items p))"
      and "\<forall>it \<in> set (work_items p). set (dependencies it) \<subseteq> item_id ` set (work_items p)"
    using that by (subst assert_acyclic_iff) (auto simp: edges_by_id_of item_deps_def)
  show ?thesis
    unfolding plan_validate_def plan_ok_def plan_ids_def
    by (auto simp: result_simps * list_ex_iff)
qed

lemma in_limit_None [simp]: "in_limit x None"
  by (simp add: in_limit_def)

lemma plan_validate_iff [result_simps]: "plan_validate p None None None = Inr u \<longleftrightarrow> plan_ok p"
  by (simp add: plan_validate_limits_iff)

section \<open>Round trips\<close>

lemma optional_int_jopt [simp]: "optional_int (jopt JInt x) = Inr x"
  by (cases x) auto

lemma optional_float_jopt [simp]: "optional_float (jopt JFloat x) = Inr x"
  by (cases x) auto

lemma string_tuple_jstrs [simp]: "string_tuple (jstrs xs) = Inr xs"
  by (simp add: jstrs_def)

lemma budget_roundtrip [simp]: "budget_from_dict (budget_to_dict b) = Inr b"
  by (simp add: budget_from_dict_def budget_to_dict_def dget_def jget_def)

lemma item_validate_ok: "item_ok it \<Longrightarrow> item_validate it = Inr ()"
  by (simp add: item_validate_iff)

lemma item_roundtrip: "item_ok it \<Longrightarrow> item_from_dict (JObj (item_to_dict it)) = Inr it"
  by (cases it) (simp add: item_from_dict_def item_to_dict_def dget_def jget_def item_validate_ok Let_def)

lemma item_from_dict_ok: "item_from_dict v = Inr it \<Longrightarrow> item_ok it"
  by (auto simp: item_from_dict_def result_simps Let_def)

lemma policy_roundtrip [simp]: "policy_from_dict (policy_to_dict p) = Inr p"
  by (simp add: policy_from_dict_def policy_to_dict_def dget_def jget_def)

lemma list_or_empty_JList [simp]: "list_or_empty (JList xs) = Inr xs"
  by (simp add: list_or_empty_def)

lemma plan_from_dict_ok: "plan_from_dict v = Inr p \<Longrightarrow> plan_ok p"
  by (auto simp: plan_from_dict_def result_simps Let_def)

lemma plan_from_to_dict: "plan_ok p \<Longrightarrow> plan_from_dict (plan_to_dict p) = Inr p"
proof -
  assume ok: "plan_ok p"
  then have "rmap item_from_dict (map (\<lambda>it. JObj (item_to_dict it)) (work_items p)) = Inr (work_items p)"
    by (intro rmap_map_Inr item_roundtrip) (auto simp: plan_ok_def)
  moreover have "plan_validate p None None None = Inr ()"
    using ok by (simp add: plan_validate_iff)
  ultimately show ?thesis
    by (cases p) (simp add: plan_from_dict_def plan_to_dict_def dget_def jget_def Let_def)
qed

section \<open>A sample plan\<close>

text \<open>Build, then verify, with an optional polishing step; used by the concrete witnesses.\<close>

definition sample_item :: "string \<Rightarrow> work_kind \<Rightarrow> string list \<Rightarrow> work_item" where
  "sample_item i k deps =
     \<lparr>item_id = i, title = ''step'', kind = work_kind_value k, agent_role = ''executor'',
      dependencies = deps, inputs = [], expected_outputs = [], acceptance_checks = [],
      required_capabilities = [''local''], risk = risk_level_value Low, budget = default_budget\<rparr>"

definition sample_plan :: plan_document where
  "sample_plan =
     \<lparr>revision = 1, plan_goal = ''ship'', success_criteria = [''works''], assumptions = [],
      work_items = [sample_item ''build'' KExecute [], sample_item ''verify'' KVerify [''build''],
                    sample_item ''polish'' KExecute [''build'']],
      completion_policy = \<lparr>required_work_item_ids = [''build'', ''verify''], require_verifier = True\<rparr>,
      schema_version = 1\<rparr>"

lemma sample_item_sel [simp]:
  "item_id (sample_item i k deps) = i" "dependencies (sample_item i k deps) = deps"
  "kind (sample_item i k deps) = work_kind_value k"
  by (simp_all add: sample_item_def)

lemma sample_plan_items [simp]:
  "work_items sample_plan = [sample_item ''build'' KExecute [], sample_item ''verify'' KVerify [''build''],
     sample_item ''polish'' KExecute [''build'']]"
  by (simp add: sample_plan_def)

lemma sample_plan_validates: "plan_validate sample_plan None None None = Inr ()"
  by code_simp

lemma sample_plan_ok [simp]: "plan_ok sample_plan"
  using sample_plan_validates by (simp add: plan_validate_iff)

section \<open>Properties\<close>

text \<open>C3: The validator decides well-formedness: a plan passes \<open>validate\<close> with the given run
  budgets exactly when it meets the declarative contract (unique identifiers, known kinds and
  risks, resolvable dependencies, an acyclic graph, resolvable required items, a verifier when
  one is demanded) and its totals stay within the budgets.\<close>

theorem plan_validate_decides:
  "plan_validate p ms mt mc = Inr () \<longleftrightarrow>
     plan_ok p \<and> in_limit (total_seconds (work_items p)) ms \<and>
     in_limit (total_tokens (work_items p)) mt \<and> in_limit (total_cost (work_items p)) mc"
  by (rule plan_validate_limits_iff)

text \<open>The depth-first cycle search is exact: over items whose dependencies all name items,
  it returns normally exactly when the dependency relation has no cycle.\<close>

theorem cycle_search_exact:
  assumes "edges items `` UNIV \<subseteq> set (dict_keys items)"
  shows "assert_acyclic items = Inr () \<longleftrightarrow> acyclic (edges items)"
  using assms by (rule assert_acyclic_iff)

theorem cycle_search_exact_witness:
  "\<not> acyclic (edges (by_id_of [sample_item ''a'' KPlan [''b''], sample_item ''b'' KPlan [''a'']]))"
proof -
  let ?items = "by_id_of [sample_item ''a'' KPlan [''b''], sample_item ''b'' KPlan [''a'']]"
  have "edges ?items `` UNIV \<subseteq> set (dict_keys ?items)"
    by (auto simp: edges_by_id_of item_deps_def sample_item_def)
  moreover have "assert_acyclic ?items \<noteq> Inr ()" by code_simp
  ultimately show ?thesis using cycle_search_exact [of ?items] by blast
qed

text \<open>C4: Serialising a well-formed plan to its dictionary form and reading it back gives the
  same plan, and every plan the reader accepts, whatever the input, is well-formed.\<close>

theorem plan_dict_roundtrip:
  assumes "plan_ok p"
  shows "plan_from_dict (plan_to_dict p) = Inr p \<and> (\<forall>v q. plan_from_dict v = Inr q \<longrightarrow> plan_ok q)"
  using assms by (auto intro: plan_from_to_dict plan_from_dict_ok)

theorem plan_dict_roundtrip_witness:
  "plan_ok sample_plan \<and> plan_from_dict (plan_to_dict sample_plan) = Inr sample_plan"
  using plan_dict_roundtrip [of sample_plan] by simp

end
