(* ===== verification/Plan_Graph.thy ===== *)
theory Plan_Graph
  imports Domain_Laws
begin

text \<open>
  \<open>orchestrator/plan_graph.py\<close>: replanning by patches that do not rewrite completed work,
  the ready and blocked frontiers of the dependency graph, and the completion test.
\<close>

section \<open>Patches\<close>

text \<open>Equality of two work items, as the dataclass compares them field by field.\<close>

definition item_eq :: "work_item \<Rightarrow> work_item \<Rightarrow> bool" where
  "item_eq a b \<longleftrightarrow>
     item_id a = item_id b \<and> title a = title b \<and> kind a = kind b \<and> agent_role a = agent_role b \<and>
     dependencies a = dependencies b \<and> obj_eq (inputs a) (inputs b) \<and>
     expected_outputs a = expected_outputs b \<and> acceptance_checks a = acceptance_checks b \<and>
     required_capabilities a = required_capabilities b \<and> risk a = risk b \<and> budget a = budget b"

definition succeeded_ids :: "work_status dict \<Rightarrow> string list" where
  "succeeded_ids statuses = map fst (filter (\<lambda>kv. snd kv = WSucceeded) statuses)"

definition items_by_id :: "work_item list \<Rightarrow> work_item dict" where
  "items_by_id its = foldl (\<lambda>d it. dset (item_id it) it d) [] its"

definition cancel_item :: "string list \<Rightarrow> work_item dict \<Rightarrow> string \<Rightarrow> work_item dict result" where
  "cancel_item succeeded items i =
     rbind (raise_unless (i \<notin> set succeeded)
              (DomainError ''cannot cancel succeeded work item {}'' [i])) (\<lambda>_.
     rbind (raise_unless (i \<in> set (dict_keys items))
              (DomainError ''cannot cancel missing work item {}'' [i])) (\<lambda>_.
     Inr (dpop i items)))"

definition update_item :: "string list \<Rightarrow> work_item dict \<Rightarrow> work_item \<Rightarrow> work_item dict result" where
  "update_item succeeded items it =
     (case map_of items (item_id it) of
        None \<Rightarrow> Inl (DomainError ''cannot update missing work item {}'' [item_id it])
      | Some old \<Rightarrow>
          rbind (raise_unless (\<not> (item_id it \<in> set succeeded \<and> \<not> item_eq it old))
                   (DomainError ''cannot modify succeeded work item {}'' [item_id it])) (\<lambda>_.
          Inr (dset (item_id it) it items)))"

definition add_item :: "work_item dict \<Rightarrow> work_item \<Rightarrow> work_item dict result" where
  "add_item items it =
     rbind (raise_unless (item_id it \<notin> set (dict_keys items))
              (DomainError ''cannot add duplicate work item {}'' [item_id it])) (\<lambda>_.
     Inr (dset (item_id it) it items))"

definition active_items :: "work_status dict \<Rightarrow> work_item list \<Rightarrow> work_item list" where
  "active_items statuses its = filter (\<lambda>it. map_of statuses (item_id it) \<noteq> Some WSucceeded) its"

definition patched_plan :: "plan_document \<Rightarrow> plan_patch \<Rightarrow> work_item dict \<Rightarrow> plan_document" where
  "patched_plan plan patch items =
     plan\<lparr>revision := revision plan + 1,
          assumptions := assumptions plan @ [''Replan: '' @ py_strip (patch_reason patch)],
          work_items := map snd items,
          completion_policy := (completion_policy plan)
            \<lparr>required_work_item_ids :=
               filter (\<lambda>i. i \<in> set (dict_keys items)) (required_work_item_ids (completion_policy plan))
               @ map item_id (patch_add patch)\<rparr>\<rparr>"

definition apply_plan_patch ::
    "plan_document \<Rightarrow> plan_patch \<Rightarrow> work_status dict \<Rightarrow> int option \<Rightarrow> int option \<Rightarrow> rat option
     \<Rightarrow> plan_document result" where
  "apply_plan_patch plan patch statuses max_total_seconds max_total_tokens max_total_cost_usd =
     rbind (raise_unless (patch_base_revision patch = revision plan)
              (ConcurrencyError ''patch targets revision {}, current is {}''
                 [show_int (patch_base_revision patch), show_int (revision plan)])) (\<lambda>_.
     rbind (raise_unless (\<not> py_blank (patch_reason patch))
              (DomainError ''plan patch requires a reason'' [])) (\<lambda>_.
     let succeeded = succeeded_ids statuses in
     rbind (rfold (cancel_item succeeded) (items_by_id (work_items plan)) (patch_cancel patch)) (\<lambda>items1.
     rbind (rfold (update_item succeeded) items1 (patch_update patch)) (\<lambda>items2.
     rbind (rfold add_item items2 (patch_add patch)) (\<lambda>items.
     let updated = patched_plan plan patch items in
     rbind (plan_validate updated None None None) (\<lambda>_.
     let active = active_items statuses (work_items updated) in
     rbind (raise_unless (in_limit (total_seconds active) max_total_seconds)
              (DomainError ''active plan budget exceeds run budget (seconds)'' [])) (\<lambda>_.
     rbind (raise_unless (in_limit (total_tokens active) max_total_tokens)
              (DomainError ''active plan budget exceeds run budget (tokens)'' [])) (\<lambda>_.
     rbind (raise_unless (in_limit (total_cost active) max_total_cost_usd)
              (DomainError ''active plan budget exceeds run budget (cost)'' [])) (\<lambda>_.
     Inr updated)))))))))"

section \<open>Scheduling\<close>

definition schedulable :: "work_status \<Rightarrow> bool" where
  "schedulable s \<longleftrightarrow> s = WPending \<or> s = WReady"

definition dead_status :: "work_status option \<Rightarrow> bool" where
  "dead_status s \<longleftrightarrow> s \<in> {Some WFailed, Some WCancelled, Some WBlocked}"

definition is_ready :: "work_status dict \<Rightarrow> work_item \<Rightarrow> bool" where
  "is_ready statuses it \<longleftrightarrow>
     schedulable (dget statuses (item_id it) WPending) \<and>
     \<not> list_ex (\<lambda>d. dead_status (map_of statuses d)) (dependencies it) \<and>
     list_all (\<lambda>d. map_of statuses d = Some WSucceeded) (dependencies it)"

definition ready_work_item_ids :: "plan_document \<Rightarrow> work_status dict \<Rightarrow> string list" where
  "ready_work_item_ids p statuses = map item_id (filter (is_ready statuses) (work_items p))"

definition is_blocked :: "work_status dict \<Rightarrow> work_item \<Rightarrow> bool" where
  "is_blocked statuses it \<longleftrightarrow>
     schedulable (dget statuses (item_id it) WPending) \<and>
     list_ex (\<lambda>d. dead_status (map_of statuses d)) (dependencies it)"

definition blocked_work_item_ids :: "plan_document \<Rightarrow> work_status dict \<Rightarrow> string list" where
  "blocked_work_item_ids p statuses = map item_id (filter (is_blocked statuses) (work_items p))"

definition plan_is_complete :: "plan_document \<Rightarrow> work_status dict \<Rightarrow> int option \<Rightarrow> bool" where
  "plan_is_complete p statuses verified_revision =
     (let required = (if required_work_item_ids (completion_policy p) \<noteq> []
                      then required_work_item_ids (completion_policy p)
                      else map item_id (work_items p))
      in if required = [] \<or> \<not> list_all (\<lambda>i. map_of statuses i = Some WSucceeded) required then False
         else if \<not> require_verifier (completion_policy p) then True
         else let verifier_ids =
                    map item_id (filter (\<lambda>it. kind it = work_kind_value KVerify) (work_items p))
              in verifier_ids \<noteq> [] \<and>
                 list_ex (\<lambda>i. map_of statuses i = Some WSucceeded) verifier_ids \<and>
                 verified_revision = Some (revision p))"

definition graph_view :: "plan_document \<Rightarrow> work_status dict \<Rightarrow> json" where
  "graph_view p statuses =
     JObj [(''revision'', JInt (revision p)),
           (''nodes'', JList (map (\<lambda>it. JObj (dset ''status''
                (JStr (work_status_value (dget statuses (item_id it) WPending))) (item_to_dict it)))
              (work_items p))),
           (''edges'', JList (concat (map (\<lambda>it. map (\<lambda>d.
                JObj [(''from'', JStr d), (''to'', JStr (item_id it))]) (dependencies it))
              (work_items p))))]"

section \<open>Laws of patching\<close>

lemma items_by_id_distinct:
  assumes "distinct (map item_id its)"
  shows "items_by_id its = by_id_of its"
proof -
  have "foldl (\<lambda>d it. dset (item_id it) it d) acc its = acc @ by_id_of its"
    if "distinct (map item_id its)" "set (map item_id its) \<inter> set (dict_keys acc) = {}" for acc
    using that
  proof (induction its arbitrary: acc)
    case (Cons it its)
    then show ?case by (simp add: dset_fresh by_id_of_def)
  qed (simp add: by_id_of_def)
  from this [of "[]"] assms show ?thesis by (simp add: items_by_id_def)
qed

text \<open>Every entry of the dictionary of items is stored under its own identifier.\<close>

definition keyed :: "work_item dict \<Rightarrow> bool" where
  "keyed d \<longleftrightarrow> dict_wf d \<and> (\<forall>x it. map_of d x = Some it \<longrightarrow> item_id it = x)"

lemma keyed_by_id_of: "distinct (map item_id its) \<Longrightarrow> keyed (by_id_of its)"
  by (auto simp: keyed_def dict_wf_def map_of_by_id_of simp del: map_of_eq_Some_iff)

lemma keyed_dset: "keyed d \<Longrightarrow> keyed (dset (item_id it) it d)"
  by (auto simp: keyed_def dict_simps)

lemma keyed_dpop: "keyed d \<Longrightarrow> keyed (dpop x d)"
  by (auto simp: keyed_def dict_simps)

lemma keyed_ids: "keyed d \<Longrightarrow> map item_id (map snd d) = dict_keys d"
  by (auto simp: keyed_def map_of_eqI_wf)

lemma succeeded_ids_iff:
  "dict_wf statuses \<Longrightarrow> i \<in> set (succeeded_ids statuses) \<longleftrightarrow> map_of statuses i = Some WSucceeded"
  by (force simp: succeeded_ids_def dict_wf_def)

lemma cancel_item_eq [result_simps]:
  "cancel_item succ d i = Inr d' \<longleftrightarrow> i \<notin> set succ \<and> i \<in> set (dict_keys d) \<and> d' = dpop i d"
  by (auto simp: cancel_item_def result_simps)

lemma update_item_eq [result_simps]:
  "update_item succ d it = Inr d' \<longleftrightarrow>
     (\<exists>old. map_of d (item_id it) = Some old \<and> (item_id it \<in> set succ \<longrightarrow> item_eq it old) \<and>
            d' = dset (item_id it) it d)"
  by (auto simp: update_item_def result_simps split: option.splits)

lemma add_item_eq [result_simps]:
  "add_item d it = Inr d' \<longleftrightarrow> item_id it \<notin> set (dict_keys d) \<and> d' = dset (item_id it) it d"
  by (auto simp: add_item_def result_simps)

lemma item_eq_item_id: "item_eq a b \<Longrightarrow> item_id a = item_id b"
  by (simp add: item_eq_def)

text \<open>The dictionaries the three loops of a successful patch go through.\<close>

lemma apply_plan_patchE:
  assumes "apply_plan_patch plan patch statuses ms mt mc = Inr updated"
  obtains items1 items2 items where
    "patch_base_revision patch = revision plan" "\<not> py_blank (patch_reason patch)"
    "rfold (cancel_item (succeeded_ids statuses)) (items_by_id (work_items plan)) (patch_cancel patch) = Inr items1"
    "rfold (update_item (succeeded_ids statuses)) items1 (patch_update patch) = Inr items2"
    "rfold add_item items2 (patch_add patch) = Inr items"
    "updated = patched_plan plan patch items" "plan_ok updated"
    "in_limit (total_seconds (active_items statuses (work_items updated))) ms"
    "in_limit (total_tokens (active_items statuses (work_items updated))) mt"
    "in_limit (total_cost (active_items statuses (work_items updated))) mc"
  using assms by (auto simp: apply_plan_patch_def result_simps Let_def)

lemma cancel_loop_keyed:
  assumes "rfold (cancel_item succ) d is = Inr d'" and "keyed d"
  shows "keyed d'"
  using assms by (rule rfold_invariant) (auto simp: result_simps intro: keyed_dpop)

lemma update_loop_keyed:
  assumes "rfold (update_item succ) d its = Inr d'" and "keyed d"
  shows "keyed d'"
  using assms by (rule rfold_invariant) (auto simp: result_simps intro: keyed_dset)

lemma add_loop_keyed:
  assumes "rfold add_item d its = Inr d'" and "keyed d"
  shows "keyed d'"
  using assms by (rule rfold_invariant) (auto simp: result_simps intro: keyed_dset)

text \<open>No loop touches the entry of a succeeded item, up to equality of work items.\<close>

definition keeps :: "string \<Rightarrow> work_item \<Rightarrow> work_item dict \<Rightarrow> bool" where
  "keeps x it d \<longleftrightarrow> (\<exists>it'. map_of d x = Some it' \<and> item_eq\<^sup>*\<^sup>* it' it)"

lemma keeps_cancel_loop:
  assumes "rfold (cancel_item succ) d is = Inr d'" and "keeps x it d" and "x \<in> set succ"
  shows "keeps x it d'"
  using assms(1,2) by (rule rfold_invariant) (use assms(3) in \<open>auto simp: result_simps keeps_def dict_simps\<close>)

lemma keeps_update_loop:
  assumes "rfold (update_item succ) d its = Inr d'" and "keeps x it d" and "x \<in> set succ"
  shows "keeps x it d'"
  using assms(1,2)
proof (rule rfold_invariant)
  fix s new t
  assume "keeps x it s" and "update_item succ s new = Inr t"
  then show "keeps x it t"
    using assms(3) by (auto simp: result_simps keeps_def dict_simps intro: converse_rtranclp_into_rtranclp)
qed

lemma keeps_add_loop:
  assumes "rfold add_item d its = Inr d'" and "keeps x it d"
  shows "keeps x it d'"
  using assms
proof (rule rfold_invariant)
  fix s new t
  assume "keeps x it s" and "add_item s new = Inr t"
  moreover from this have "item_id new \<noteq> x"
    using map_of_eq_None_iff [of s x] by (auto simp: result_simps keeps_def)
  ultimately show "keeps x it t" by (auto simp: result_simps keeps_def dict_simps)
qed

section \<open>Laws of scheduling\<close>

lemma ready_blocked_disjoint:
  assumes "plan_ok p"
  shows "set (ready_work_item_ids p s) \<inter> set (blocked_work_item_ids p s) = {}"
proof -
  from assms have "inj_on item_id (set (work_items p))"
    by (simp add: plan_ok_def plan_ids_def distinct_map)
  then show ?thesis
    by (auto simp: ready_work_item_ids_def blocked_work_item_ids_def is_ready_def is_blocked_def
        dest: inj_onD)
qed

lemma finite_item_deps: "finite (item_deps its)"
proof -
  have "item_deps its \<subseteq> (\<Union>it \<in> set its. Pair (item_id it) ` set (dependencies it))"
    by (auto simp: item_deps_def)
  then show ?thesis by (rule finite_subset) auto
qed

lemma wf_item_deps: "plan_ok p \<Longrightarrow> wf ((item_deps (work_items p))\<inverse>)"
  by (simp add: plan_ok_def finite_acyclic_wf_converse finite_item_deps)

text \<open>A schedulable item that no schedulable item of the plan precedes.\<close>

lemma minimal_schedulable:
  assumes "plan_ok p" and "it \<in> set (work_items p)" and "P (item_id it)"
  obtains m where "m \<in> set (work_items p)" "P (item_id m)"
    "\<And>d. d \<in> set (dependencies m) \<Longrightarrow> \<not> P d"
proof -
  let ?Q = "{x. P x \<and> x \<in> set (plan_ids p)}"
  from assms have "item_id it \<in> ?Q" by (simp add: plan_ids_def)
  then obtain z where z: "z \<in> ?Q"
    and min: "\<And>y. (y, z) \<in> (item_deps (work_items p))\<inverse> \<Longrightarrow> y \<notin> ?Q"
    by (rule wfE_min [OF wf_item_deps [OF assms(1)]]) blast
  from z obtain m where m: "m \<in> set (work_items p)" "item_id m = z" "P z"
    by (auto simp: plan_ids_def)
  show ?thesis
  proof
    show "m \<in> set (work_items p)" "P (item_id m)" using m by simp_all
    fix d
    assume d: "d \<in> set (dependencies m)"
    then have "(d, z) \<in> (item_deps (work_items p))\<inverse>" using m by (auto simp: item_deps_def)
    moreover from assms(1) m d have "d \<in> set (plan_ids p)" by (auto simp: plan_ok_def)
    ultimately show "\<not> P d" using min by blast
  qed
qed

section \<open>Identifiers of a patched plan\<close>

lemma keys_dpop: "set (dict_keys (dpop k d)) = set (dict_keys d) - {k}"
  by (simp add: dpop_def AList.delete_keys)

lemma cancel_loop_keys:
  "rfold (cancel_item succ) d is = Inr d' \<Longrightarrow> set (dict_keys d') = set (dict_keys d) - set is"
proof (induction "is" arbitrary: d)
  case (Cons i "is")
  from Cons.prems have "rfold (cancel_item succ) (dpop i d) is = Inr d'"
    by (auto simp: result_simps)
  from Cons.IH [OF this] show ?case by (simp only: keys_dpop list.set) blast
qed simp

lemma update_loop_keys:
  "rfold (update_item succ) d its = Inr d' \<Longrightarrow> dict_keys d' = dict_keys d"
proof (induction its arbitrary: d)
  case (Cons it its)
  then show ?case by (auto simp: result_simps dset_keys_present)
qed simp

lemma add_loop_keys:
  "rfold add_item d its = Inr d' \<Longrightarrow> dict_keys d' = dict_keys d @ map item_id its"
proof (induction its arbitrary: d)
  case (Cons it its)
  from Cons.prems have "item_id it \<notin> set (dict_keys d)"
    and "rfold add_item (dset (item_id it) it d) its = Inr d'"
    by (auto simp: result_simps)
  with Cons.IH show ?case by (simp add: dset_fresh)
qed simp

lemma patched_keys:
  assumes ok: "plan_ok plan"
    and c: "rfold (cancel_item succ) (items_by_id (work_items plan)) (patch_cancel patch) = Inr items1"
    and u: "rfold (update_item succ) items1 (patch_update patch) = Inr items2"
    and a: "rfold add_item items2 (patch_add patch) = Inr items"
  shows "keyed items" and "plan_ids (patched_plan plan patch items) = dict_keys items"
    and "set (dict_keys items) = set (plan_ids plan) - set (patch_cancel patch) \<union> item_id ` set (patch_add patch)"
proof -
  from ok have d: "distinct (map item_id (work_items plan))" by (simp add: plan_ok_def plan_ids_def)
  have "keyed items1" by (rule cancel_loop_keyed [OF c]) (simp add: items_by_id_distinct d keyed_by_id_of)
  then show k: "keyed items" using update_loop_keyed [OF u] add_loop_keyed [OF a] by blast
  then show "plan_ids (patched_plan plan patch items) = dict_keys items"
    using keyed_ids [OF k] by (simp add: plan_ids_def patched_plan_def)
  show "set (dict_keys items) = set (plan_ids plan) - set (patch_cancel patch) \<union> item_id ` set (patch_add patch)"
    using cancel_loop_keys [OF c] update_loop_keys [OF u] add_loop_keys [OF a] d
    by (simp add: items_by_id_distinct plan_ids_def)
qed

section \<open>Properties\<close>

definition sample_patch :: plan_patch where
  "sample_patch =
     \<lparr>patch_base_revision = 1, patch_reason = ''polish failed'', patch_evidence_refs = [],
      patch_add = [sample_item ''polish2'' KExecute [''verify'']], patch_update = [],
      patch_cancel = [''polish''], patch_schema_version = 1\<rparr>"

definition sample_statuses :: "work_status dict" where
  "sample_statuses = [(''build'', WSucceeded), (''verify'', WPending), (''polish'', WFailed)]"

definition sample_updated :: plan_document where
  "sample_updated = patched_plan sample_plan sample_patch
     [(''build'', sample_item ''build'' KExecute []),
      (''verify'', sample_item ''verify'' KVerify [''build'']),
      (''polish2'', sample_item ''polish2'' KExecute [''verify''])]"

lemma sample_patch_applies:
  "apply_plan_patch sample_plan sample_patch sample_statuses (Some 2000) None None = Inr sample_updated"
  by code_simp

text \<open>C5: Replanning never rewrites completed work: every item of the old plan that had
  succeeded is still in the patched plan, under the same identifier and equal to the old
  item field by field (updates may only replace it by an equal item).\<close>

theorem patch_preserves_history:
  assumes "apply_plan_patch plan patch statuses ms mt mc = Inr updated"
    and "plan_ok plan" and "dict_wf statuses"
    and "it \<in> set (work_items plan)" and "map_of statuses (item_id it) = Some WSucceeded"
  shows "\<exists>it' \<in> set (work_items updated). item_id it' = item_id it \<and> item_eq\<^sup>*\<^sup>* it' it"
  using assms(1)
proof (rule apply_plan_patchE)
  fix items1 items2 items
  assume c: "rfold (cancel_item (succeeded_ids statuses)) (items_by_id (work_items plan)) (patch_cancel patch) = Inr items1"
    and u: "rfold (update_item (succeeded_ids statuses)) items1 (patch_update patch) = Inr items2"
    and a: "rfold add_item items2 (patch_add patch) = Inr items"
    and upd: "updated = patched_plan plan patch items"
  let ?x = "item_id it"
  have succ: "?x \<in> set (succeeded_ids statuses)"
    using assms(3,5) by (simp add: succeeded_ids_iff)
  have "distinct (map item_id (work_items plan))"
    using assms(2) by (simp add: plan_ok_def plan_ids_def)
  then have "keeps ?x it (items_by_id (work_items plan))"
    using assms(4) map_of_by_id_of [of "work_items plan" ?x it]
    by (simp add: keeps_def items_by_id_distinct)
  then have "keeps ?x it items"
    using keeps_cancel_loop [OF c _ succ] keeps_update_loop [OF u _ succ] keeps_add_loop [OF a]
    by blast
  then obtain it' where it': "map_of items ?x = Some it'" "item_eq\<^sup>*\<^sup>* it' it"
    by (auto simp: keeps_def)
  with patched_keys(1) [OF assms(2) c u a] have "item_id it' = ?x"
    by (simp add: keyed_def)
  moreover from it'(1) have "it' \<in> set (work_items updated)"
    by (force simp: upd patched_plan_def dest: map_of_SomeD)
  ultimately show ?thesis using it'(2) by blast
qed

theorem patch_preserves_history_witness:
  "\<exists>it' \<in> set (work_items sample_updated). item_id it' = ''build'' \<and>
     item_eq\<^sup>*\<^sup>* it' (sample_item ''build'' KExecute [])"
proof -
  have it: "sample_item ''build'' KExecute [] \<in> set (work_items sample_plan)"
    by simp
  have st: "map_of sample_statuses (item_id (sample_item ''build'' KExecute [])) = Some WSucceeded"
    by (simp add: sample_statuses_def)
  have "dict_wf sample_statuses" by (simp add: sample_statuses_def dict_wf_def)
  from patch_preserves_history [OF sample_patch_applies sample_plan_ok this it st]
  show ?thesis by simp
qed

text \<open>C6: A successful patch yields a well-formed plan of the next revision whose identifiers
  are those of the old plan without the cancelled ones and with the added ones, and whose
  unfinished work fits every remaining run budget.\<close>

theorem patch_result:
  assumes "apply_plan_patch plan patch statuses ms mt mc = Inr updated" and "plan_ok plan"
  shows "plan_ok updated \<and> revision updated = revision plan + 1 \<and>
    set (plan_ids updated) =
      set (plan_ids plan) - set (patch_cancel patch) \<union> item_id ` set (patch_add patch) \<and>
    in_limit (total_seconds (active_items statuses (work_items updated))) ms \<and>
    in_limit (total_tokens (active_items statuses (work_items updated))) mt \<and>
    in_limit (total_cost (active_items statuses (work_items updated))) mc"
  using assms(1)
  by (rule apply_plan_patchE) (use patched_keys [OF assms(2)] in \<open>auto simp: patched_plan_def\<close>)

theorem patch_result_witness:
  "plan_ok sample_updated \<and> set (plan_ids sample_updated) = {''build'', ''verify'', ''polish2''}"
  using patch_result [OF sample_patch_applies sample_plan_ok]
  by (auto simp: plan_ids_def sample_patch_def)

text \<open>C7: The ready and blocked frontiers are exact: an item is offered for execution exactly
  when it has not started and all its dependencies succeeded, it is reported blocked exactly
  when it has not started and a dependency failed, was cancelled or is blocked, and no item
  is both.\<close>

theorem frontier_exact:
  assumes "plan_ok p" and "it \<in> set (work_items p)"
  shows "(item_id it \<in> set (ready_work_item_ids p statuses) \<longleftrightarrow>
           schedulable (dget statuses (item_id it) WPending) \<and>
           (\<forall>d \<in> set (dependencies it). map_of statuses d = Some WSucceeded)) \<and>
         (item_id it \<in> set (blocked_work_item_ids p statuses) \<longleftrightarrow>
           schedulable (dget statuses (item_id it) WPending) \<and>
           (\<exists>d \<in> set (dependencies it). map_of statuses d \<in> {Some WFailed, Some WCancelled, Some WBlocked})) \<and>
         set (ready_work_item_ids p statuses) \<inter> set (blocked_work_item_ids p statuses) = {}"
proof (intro conjI)
  have inj: "inj_on item_id (set (work_items p))"
    using assms(1) by (simp add: plan_ok_def plan_ids_def distinct_map)
  show "item_id it \<in> set (ready_work_item_ids p statuses) \<longleftrightarrow>
           schedulable (dget statuses (item_id it) WPending) \<and>
           (\<forall>d \<in> set (dependencies it). map_of statuses d = Some WSucceeded)"
    using assms(2) inj
    by (auto simp: ready_work_item_ids_def is_ready_def list_all_iff list_ex_iff dead_status_def
        dest: inj_onD)
  show "item_id it \<in> set (blocked_work_item_ids p statuses) \<longleftrightarrow>
           schedulable (dget statuses (item_id it) WPending) \<and>
           (\<exists>d \<in> set (dependencies it). map_of statuses d \<in> {Some WFailed, Some WCancelled, Some WBlocked})"
    using assms(2) inj
    by (auto simp: blocked_work_item_ids_def is_blocked_def list_ex_iff dead_status_def dest: inj_onD)
  show "set (ready_work_item_ids p statuses) \<inter> set (blocked_work_item_ids p statuses) = {}"
    by (rule ready_blocked_disjoint [OF assms(1)])
qed

theorem frontier_exact_witness:
  "''verify'' \<in> set (ready_work_item_ids sample_plan [(''build'', WSucceeded)]) \<and>
   ''polish'' \<in> set (blocked_work_item_ids sample_plan [(''build'', WFailed)])"
  using frontier_exact [of sample_plan "sample_item ''verify'' KVerify [''build'']" "[(''build'', WSucceeded)]"]
    frontier_exact [of sample_plan "sample_item ''polish'' KExecute [''build'']" "[(''build'', WFailed)]"]
  by (simp add: schedulable_def dget_def)

text \<open>C8: The graph never deadlocks: in a well-formed plan with unstarted work and no work in
  flight, some item is ready to run or some item can be marked blocked.\<close>

theorem schedule_progress:
  assumes "plan_ok p"
    and idle: "\<forall>it \<in> set (work_items p).
      dget statuses (item_id it) WPending \<notin> {WLeased, WRunning, WVerifying}"
    and "it \<in> set (work_items p)" and "schedulable (dget statuses (item_id it) WPending)"
  shows "ready_work_item_ids p statuses \<noteq> [] \<or> blocked_work_item_ids p statuses \<noteq> []"
proof -
  obtain m where m: "m \<in> set (work_items p)" "schedulable (dget statuses (item_id m) WPending)"
    and min: "\<And>d. d \<in> set (dependencies m) \<Longrightarrow> \<not> schedulable (dget statuses d WPending)"
    using minimal_schedulable [OF assms(1,3), of "\<lambda>x. schedulable (dget statuses x WPending)"] assms(4)
    by blast
  have "map_of statuses d = Some WSucceeded \<or> dead_status (map_of statuses d)"
    if d: "d \<in> set (dependencies m)" for d
  proof -
    from assms(1) m(1) d obtain it' where "it' \<in> set (work_items p)" "item_id it' = d"
      by (force simp: plan_ok_def plan_ids_def)
    with idle have "dget statuses d WPending \<notin> {WLeased, WRunning, WVerifying}" by blast
    with min [OF d] show ?thesis
      by (cases "map_of statuses d"; cases "the (map_of statuses d)")
        (auto simp: dget_def schedulable_def dead_status_def)
  qed
  then have "is_ready statuses m \<or> is_blocked statuses m"
    using m(2) by (auto simp: is_ready_def is_blocked_def list_all_iff list_ex_iff)
  with m(1) show ?thesis
    by (auto simp: ready_work_item_ids_def blocked_work_item_ids_def filter_empty_conv)
qed

theorem schedule_progress_witness:
  "\<not> (ready_work_item_ids sample_plan [] = [] \<and> blocked_work_item_ids sample_plan [] = [])"
proof -
  have "sample_item ''build'' KExecute [] \<in> set (work_items sample_plan)" by simp
  then show ?thesis
    using schedule_progress [of sample_plan "[]" "sample_item ''build'' KExecute []"]
    by (simp add: dget_def schedulable_def)
qed

end
