(* ===== verification/Interfaces.thy ===== *)
theory Interfaces
  imports Prelude
begin

text \<open>
  The contracts the components of the runtime rely on, stated once over abstract operations:
  a state folded from a log of events, and a table of legal status changes. The components
  interpret them on their own definitions.
\<close>

section \<open>States folded from an event log\<close>

locale event_fold =
  fixes apply_one :: "'s \<Rightarrow> 'e \<Rightarrow> 's result"
    and version_of :: "'s \<Rightarrow> int"
  assumes version_step: "apply_one s e = Inr t \<Longrightarrow> version_of t = version_of s + 1"
begin

lemma fold_version: "rfold apply_one s es = Inr t \<Longrightarrow> version_of t = version_of s + int (length es)"
proof (induction es arbitrary: s)
  case (Cons e es)
  then obtain s' where "apply_one s e = Inr s'" "rfold apply_one s' es = Inr t"
    by (auto simp: rbind_eq_Inr)
  with Cons.IH [of s'] version_step [of s e s'] show ?case by simp
qed simp

text \<open>Folding the tail of a log from a snapshot of its prefix is folding the whole log.\<close>

lemma fold_from_snapshot:
  "rfold apply_one s es = Inr snap \<Longrightarrow> rfold apply_one s (es @ fs) = rfold apply_one snap fs"
  by (simp add: rfold_append)

lemma fold_prefix:
  assumes "rfold apply_one s (es @ fs) = Inr t"
  shows "\<exists>snap. rfold apply_one s es = Inr snap \<and> rfold apply_one snap fs = Inr t"
  using assms by (auto simp: rfold_append rbind_eq_Inr)

end

text \<open>The same, with an invariant that every event keeps.\<close>

locale event_fold_inv = event_fold apply_one version_of
  for apply_one :: "'s \<Rightarrow> 'e \<Rightarrow> 's result" and version_of :: "'s \<Rightarrow> int" +
  fixes inv :: "'s \<Rightarrow> bool"
  assumes inv_step: "inv s \<Longrightarrow> apply_one s e = Inr t \<Longrightarrow> inv t"
begin

lemma fold_inv: "rfold apply_one s es = Inr t \<Longrightarrow> inv s \<Longrightarrow> inv t"
  by (erule rfold_invariant) (auto intro: inv_step)

end

section \<open>Tables of legal status changes\<close>

locale transition_table =
  fixes targets :: "'s \<Rightarrow> 's set"
    and final :: "'s \<Rightarrow> bool"
  assumes final_stuck: "final s \<Longrightarrow> targets s = {}"
begin

lemma final_stays: "(s, t) \<in> {(a, b). b \<in> targets a}\<^sup>* \<Longrightarrow> final s \<Longrightarrow> t = s"
  by (induction rule: rtrancl_induct) (auto simp: final_stuck)

end

section \<open>Stores with optimistic appends\<close>

text \<open>
  What a client of an event store relies on: an append at the version it read folds its events
  into the state it read, and the next read sees the result.
\<close>

locale versioned_store =
  fixes snapshot :: "'d \<Rightarrow> 's result"
    and version_of :: "'s \<Rightarrow> int"
    and append :: "int \<Rightarrow> 'e list \<Rightarrow> 'd \<Rightarrow> ('s \<times> 'd) result"
    and apply_all :: "'s \<Rightarrow> 'e list \<Rightarrow> 's result"
    and ok :: "'d \<Rightarrow> bool"
  assumes append_current:
    "ok d \<Longrightarrow> snapshot d = Inr s \<Longrightarrow> es \<noteq> [] \<Longrightarrow> append (version_of s) es d = Inr (t, d') \<Longrightarrow>
     apply_all s es = Inr t \<and> snapshot d' = Inr t \<and> ok d'"
begin

text \<open>A client reads, computes events from what it read, and appends them.\<close>

lemma read_then_append:
  assumes "ok d" and "snapshot d = Inr s" and "es \<noteq> []"
    and "rbind (snapshot d) (\<lambda>s. append (version_of s) es d) = Inr (t, d')"
  shows "apply_all s es = Inr t" "snapshot d' = Inr t" "ok d'"
  using append_current [OF assms(1-3), of t d'] assms(2,4) by simp_all

text \<open>Two clients in a row: the second one sees the events of both.\<close>

lemma two_appends:
  assumes "ok d" and "snapshot d = Inr s" and "es \<noteq> []" and "fs \<noteq> []"
    and "append (version_of s) es d = Inr (t, d1)" and "append (version_of t) fs d1 = Inr (u, d2)"
  shows "snapshot d2 = Inr u" "rbind (apply_all s es) (\<lambda>t. apply_all t fs) = Inr u"
  using append_current [OF assms(1-3,5)] append_current [of d1 t fs u d2] assms(4,6) by simp_all

end

end
