(* ===== verification/Durable_Reducer.thy ===== *)
theory Durable_Reducer
  imports Plan_Graph Interfaces
begin

text \<open>
  \<open>orchestrator/durable_reducer.py\<close>: the aggregate of a run, the tables of legal status
  changes, and the reducer that folds workflow events into the aggregate. The aggregate is
  the snapshot the repository stores; its plan is kept in dictionary form, as the code keeps
  it, and read back with \<open>plan_from_dict\<close>.
\<close>

section \<open>Status tables\<close>

fun run_transitions :: "run_status \<Rightarrow> run_status set" where
  "run_transitions RQueued = {RRunning, RPaused, RCancelled, RFailed}"
| "run_transitions RRunning = {RPaused, RWaitingApproval, RCompleted, RFailed, RCancelled}"
| "run_transitions RPaused = {RRunning, RCancelled, RFailed}"
| "run_transitions RWaitingApproval = {RRunning, RCancelled, RFailed}"
| "run_transitions _ = {}"

fun work_transitions :: "work_status \<Rightarrow> work_status set" where
  "work_transitions WPending = {WReady, WBlocked, WCancelled}"
| "work_transitions WReady = {WLeased, WBlocked, WCancelled}"
| "work_transitions WLeased = {WRunning, WVerifying, WReady, WFailed, WCancelled}"
| "work_transitions WRunning = {WSucceeded, WFailed, WReady, WBlocked, WCancelled}"
| "work_transitions WVerifying = {WSucceeded, WFailed, WReady, WBlocked, WCancelled}"
| "work_transitions WFailed = {WReady, WBlocked, WCancelled}"
| "work_transitions WBlocked = {WReady, WCancelled}"
| "work_transitions _ = {}"

section \<open>The aggregate\<close>

record aggregate =
  ag_run_id :: string
  ag_version :: int
  ag_project_id :: "string option"
  ag_goal :: string
  ag_status :: "run_status option"
  ag_policy :: obj
  ag_workspace :: json
  ag_plan_revision :: "int option"
  ag_plan :: "json option"
  ag_statuses :: "work_status dict"
  ag_attempts :: "string dict"
  ag_checkpoints :: "obj dict"
  ag_verified :: "int option"
  ag_evidence :: "obj list"
  ag_artifacts :: "obj list"
  ag_approvals :: "obj dict"
  ag_created_at :: "time option"
  ag_updated_at :: "time option"

definition empty_aggregate :: "string \<Rightarrow> aggregate" where
  "empty_aggregate run_id =
     \<lparr>ag_run_id = run_id, ag_version = 0, ag_project_id = None, ag_goal = [], ag_status = None,
      ag_policy = [], ag_workspace = JNull, ag_plan_revision = None, ag_plan = None,
      ag_statuses = [], ag_attempts = [], ag_checkpoints = [], ag_verified = None,
      ag_evidence = [], ag_artifacts = [], ag_approvals = [], ag_created_at = None,
      ag_updated_at = None\<rparr>"

section \<open>Helpers of the reducer\<close>

definition transition_run :: "aggregate \<Rightarrow> string \<Rightarrow> aggregate result" where
  "transition_run st target =
     (if map_option run_status_value (ag_status st) = Some target then Inr st
      else case ag_status st of
        None \<Rightarrow> Inl (DomainError ''invalid run transition from {} to {}'' [''None'', target])
      | Some current \<Rightarrow>
          rbind (raise_unless (current \<notin> terminal_run_statuses)
                   (DomainError ''terminal run cannot transition from {} to {}''
                      [run_status_value current, target])) (\<lambda>_.
          case run_status_of target of
            None \<Rightarrow> Inl (DomainError ''invalid run transition from {} to {}''
                           [run_status_value current, target])
          | Some t \<Rightarrow>
              rbind (raise_unless (t \<in> run_transitions current)
                       (DomainError ''invalid run transition from {} to {}''
                          [run_status_value current, target])) (\<lambda>_.
              Inr (st\<lparr>ag_status := Some t\<rparr>))))"

definition transition_work :: "aggregate \<Rightarrow> string \<Rightarrow> work_status \<Rightarrow> aggregate result" where
  "transition_work st i target =
     (case map_of (ag_statuses st) i of
        None \<Rightarrow> Inl (DomainError ''unknown work item: {}'' [i])
      | Some current \<Rightarrow>
          if current = target then Inr st
          else rbind (raise_unless (target \<in> work_transitions current)
                        (DomainError ''invalid work transition for {}: {} to {}''
                           [i, work_status_value current, work_status_value target])) (\<lambda>_.
               Inr (st\<lparr>ag_statuses := dset i target (ag_statuses st)\<rparr>)))"

text \<open>The first mapping of a list of values whose \<open>id\<close> is the given one.\<close>

fun find_item :: "json list \<Rightarrow> string \<Rightarrow> obj option result" where
  "find_item [] i = Inr None"
| "find_item (v # vs) i =
     rbind (as_mapping v) (\<lambda>item.
     if py_eq (jget item ''id'') (JStr i) then Inr (Some item) else find_item vs i)"

definition plan_items_of :: "json option \<Rightarrow> json list result" where
  "plan_items_of plan =
     rbind (as_mapping (case plan of None \<Rightarrow> JObj [] | Some v \<Rightarrow> py_or v (JObj []))) (\<lambda>m.
     py_iter (dget m ''work_items'' (JList [])))"

definition plan_item :: "aggregate \<Rightarrow> string \<Rightarrow> obj result" where
  "plan_item st i =
     rbind (plan_items_of (ag_plan st)) (\<lambda>items.
     rbind (find_item items i) (\<lambda>found.
     case found of
       None \<Rightarrow> Inl (DomainError ''work item {} is absent from current plan'' [i])
     | Some item \<Rightarrow> Inr item))"

definition payload_str :: "workflow_event \<Rightarrow> string \<Rightarrow> string result" where
  "payload_str ev k = rbind (jindex (payload ev) k) py_str"

text \<open>\<open>item["kind"] == WorkItemKind.VERIFY.value\<close>.\<close>

definition is_verify_item :: "obj \<Rightarrow> bool result" where
  "is_verify_item item =
     rbind (jindex item ''kind'') (\<lambda>k. Inr (py_eq k (JStr (work_kind_value KVerify))))"

section \<open>One handler per event type\<close>

definition on_run_created :: "aggregate \<Rightarrow> workflow_event \<Rightarrow> aggregate result" where
  "on_run_created st ev =
     rbind (raise_unless (ag_version st = 0) (DomainError ''run_created can only be the first event'' [])) (\<lambda>_.
     rbind (payload_str ev ''project_id'') (\<lambda>project.
     rbind (payload_str ev ''goal'') (\<lambda>g.
     rbind (as_mapping (py_or (jget (payload ev) ''policy'') (JObj []))) (\<lambda>policy.
     Inr (st\<lparr>ag_project_id := Some project, ag_goal := g, ag_status := Some RQueued,
             ag_policy := policy, ag_workspace := jget policy ''workspace'',
             ag_created_at := Some (created_at ev)\<rparr>)))))"

definition invalidate_approval :: "int \<Rightarrow> obj \<Rightarrow> obj" where
  "invalidate_approval r approval =
     (if jget approval ''status'' \<in> {JStr ''pending'', JStr ''approved''} \<and>
         \<not> py_eq (jget approval ''plan_revision'') (JInt r)
      then dset ''status'' (JStr ''invalidated'') approval else approval)"

definition on_plan_committed :: "aggregate \<Rightarrow> workflow_event \<Rightarrow> aggregate result" where
  "on_plan_committed st ev =
     rbind (jindex (payload ev) ''plan'') (\<lambda>v.
     rbind (plan_from_dict v) (\<lambda>plan.
     rbind (case ag_plan_revision st of
              Some current \<Rightarrow> raise_unless (revision plan = current + 1)
                (DomainError ''plan revisions must be contiguous'' [])
            | None \<Rightarrow> raise_unless (revision plan = 1)
                (DomainError ''first plan revision must be 1'' [])) (\<lambda>_.
     Inr (st\<lparr>ag_plan := Some (plan_to_dict plan),
             ag_plan_revision := Some (revision plan),
             ag_verified := None,
             ag_approvals := map (\<lambda>(k, a). (k, invalidate_approval (revision plan) a)) (ag_approvals st),
             ag_statuses := map (\<lambda>it. (item_id it, dget (ag_statuses st) (item_id it) WPending))
                              (work_items plan)\<rparr>))))"

definition on_work_ready :: "aggregate \<Rightarrow> workflow_event \<Rightarrow> aggregate result" where
  "on_work_ready st ev =
     rbind (payload_str ev ''work_item_id'') (\<lambda>i. transition_work st i WReady)"

definition on_work_leased :: "aggregate \<Rightarrow> workflow_event \<Rightarrow> aggregate result" where
  "on_work_leased st ev =
     rbind (payload_str ev ''work_item_id'') (\<lambda>i.
     rbind (transition_work st i WLeased) (\<lambda>st'.
     rbind (payload_str ev ''attempt_id'') (\<lambda>a.
     Inr (st'\<lparr>ag_attempts := dset i a (ag_attempts st')\<rparr>))))"

definition on_work_started :: "aggregate \<Rightarrow> workflow_event \<Rightarrow> aggregate result" where
  "on_work_started st ev =
     rbind (payload_str ev ''work_item_id'') (\<lambda>i.
     rbind (plan_item st i) (\<lambda>item.
     rbind (is_verify_item item) (\<lambda>v.
     transition_work st i (if v then WVerifying else WRunning))))"

definition on_checkpoint_committed :: "aggregate \<Rightarrow> workflow_event \<Rightarrow> aggregate result" where
  "on_checkpoint_committed st ev =
     rbind (payload_str ev ''work_item_id'') (\<lambda>i.
     rbind (payload_str ev ''attempt_id'') (\<lambda>a.
     rbind (rbind (jindex (payload ev) ''sequence'') py_int) (\<lambda>n.
     Inr (st\<lparr>ag_checkpoints := dset i
            [(''attempt_id'', JStr a), (''sequence'', JInt n),
             (''checkpoint'', py_or (jget (payload ev) ''checkpoint'') (JObj []))]
            (ag_checkpoints st)\<rparr>))))"

definition on_work_succeeded :: "aggregate \<Rightarrow> workflow_event \<Rightarrow> aggregate result" where
  "on_work_succeeded st ev =
     rbind (payload_str ev ''work_item_id'') (\<lambda>i.
     rbind (transition_work st i WSucceeded) (\<lambda>st1.
     let st2 = st1\<lparr>ag_attempts := dpop i (ag_attempts st1)\<rparr> in
     rbind (plan_item st2 i) (\<lambda>item.
     rbind (is_verify_item item) (\<lambda>v.
     Inr (if v then st2\<lparr>ag_verified := ag_plan_revision st2\<rparr> else st2)))))"

definition failure_target :: "string \<Rightarrow> work_status result" where
  "failure_target s =
     (if s = work_status_value WFailed then Inr WFailed
      else if s = work_status_value WReady then Inr WReady
      else if s = work_status_value WBlocked then Inr WBlocked
      else Inl (DomainError ''invalid work failure target: {}'' [s]))"

definition on_work_failed :: "aggregate \<Rightarrow> workflow_event \<Rightarrow> aggregate result" where
  "on_work_failed st ev =
     rbind (payload_str ev ''work_item_id'') (\<lambda>i.
     rbind (py_str (dget (payload ev) ''next_status'' (JStr (work_status_value WFailed)))) (\<lambda>s.
     rbind (failure_target s) (\<lambda>target.
     rbind (transition_work st i target) (\<lambda>st'.
     Inr (st'\<lparr>ag_attempts := dpop i (ag_attempts st'),
              ag_verified := None,
              ag_evidence := ag_evidence st' @
                [[(''event_id'', JStr (event_id ev)),
                  (''kind'', JStr ''execution_failure''),
                  (''work_item_id'', JStr i),
                  (''attempt_id'', jget (payload ev) ''attempt_id''),
                  (''outcome'', py_or (jget (payload ev) ''outcome'') (JObj [])),
                  (''next_status'', JStr s)]]\<rparr>)))))"

definition on_work_blocked :: "aggregate \<Rightarrow> workflow_event \<Rightarrow> aggregate result" where
  "on_work_blocked st ev =
     rbind (payload_str ev ''work_item_id'') (\<lambda>i. transition_work st i WBlocked)"

definition on_work_cancelled :: "aggregate \<Rightarrow> workflow_event \<Rightarrow> aggregate result" where
  "on_work_cancelled st ev =
     rbind (payload_str ev ''work_item_id'') (\<lambda>i.
     rbind (transition_work st i WCancelled) (\<lambda>st'.
     Inr (st'\<lparr>ag_attempts := dpop i (ag_attempts st')\<rparr>)))"

definition on_evidence_recorded :: "aggregate \<Rightarrow> workflow_event \<Rightarrow> aggregate result" where
  "on_evidence_recorded st ev =
     Inr (st\<lparr>ag_evidence := ag_evidence st @
            [dsetdefault ''event_id'' (JStr (event_id ev)) (payload ev)]\<rparr>)"

definition on_artifact_registered :: "aggregate \<Rightarrow> workflow_event \<Rightarrow> aggregate result" where
  "on_artifact_registered st ev =
     (let artifact = dsetdefault ''event_id'' (JStr (event_id ev)) (payload ev)
      in if list_ex (\<lambda>item. py_eq (jget item ''id'') (jget artifact ''id'')) (ag_artifacts st)
         then Inr st
         else Inr (st\<lparr>ag_artifacts := ag_artifacts st @ [artifact]\<rparr>))"

definition on_approval_requested :: "aggregate \<Rightarrow> workflow_event \<Rightarrow> aggregate result" where
  "on_approval_requested st ev =
     rbind (payload_str ev ''approval_id'') (\<lambda>a.
     transition_run
       (st\<lparr>ag_approvals := dset a (dset ''status'' (JStr ''pending'') (payload ev)) (ag_approvals st)\<rparr>)
       (run_status_value RWaitingApproval))"

definition on_approval_decided :: "aggregate \<Rightarrow> workflow_event \<Rightarrow> aggregate result" where
  "on_approval_decided st ev =
     rbind (payload_str ev ''approval_id'') (\<lambda>a.
     let approval = dget (ag_approvals st) a [];
         ok = truthy (jget (payload ev) ''approved'') in
     rbind (raise_unless (approval \<noteq> [] \<and> jget approval ''status'' = JStr ''pending'')
              (DomainError ''approval is missing or already decided'' [])) (\<lambda>_.
     transition_run
       (st\<lparr>ag_approvals := dset a
             (dset ''decided_at'' (JInt (created_at ev))
               (dset ''decided_by'' (jget (payload ev) ''decided_by'')
                 (dset ''status'' (JStr (if ok then ''approved'' else ''rejected'')) approval)))
             (ag_approvals st)\<rparr>)
       (run_status_value (if ok then RRunning else RFailed))))"

definition completion_allowed :: "aggregate \<Rightarrow> bool result" where
  "completion_allowed st =
     (case ag_plan st of
        None \<Rightarrow> Inr False
      | Some v \<Rightarrow>
          if \<not> truthy v then Inr False
          else rbind (plan_from_dict v) (\<lambda>plan.
               Inr (plan_is_complete plan (ag_statuses st) (ag_verified st))))"

definition on_run_status_changed :: "aggregate \<Rightarrow> workflow_event \<Rightarrow> aggregate result" where
  "on_run_status_changed st ev =
     rbind (payload_str ev ''status'') (\<lambda>target.
     rbind (if target = run_status_value RCompleted
            then rbind (completion_allowed st) (\<lambda>ok. raise_unless ok
                   (DomainError ''run cannot complete without current verified plan'' []))
            else Inr ()) (\<lambda>_.
     transition_run st target))"

text \<open>The \<open>elif\<close> chain over the event type.\<close>

definition dispatch_event :: "aggregate \<Rightarrow> workflow_event \<Rightarrow> aggregate result" where
  "dispatch_event st ev =
     (let ty = event_type ev in
      if ty = ''run_created'' then on_run_created st ev
      else if ag_status st = None then Inl (DomainError ''run_created must precede other events'' [])
      else if ty = ''plan_committed'' then on_plan_committed st ev
      else if ty = ''work_ready'' then on_work_ready st ev
      else if ty = ''work_leased'' then on_work_leased st ev
      else if ty = ''work_started'' then on_work_started st ev
      else if ty = ''checkpoint_committed'' then on_checkpoint_committed st ev
      else if ty = ''work_succeeded'' then on_work_succeeded st ev
      else if ty = ''work_failed'' then on_work_failed st ev
      else if ty = ''work_blocked'' then on_work_blocked st ev
      else if ty = ''work_cancelled'' then on_work_cancelled st ev
      else if ty = ''evidence_recorded'' then on_evidence_recorded st ev
      else if ty = ''artifact_registered'' then on_artifact_registered st ev
      else if ty = ''approval_requested'' then on_approval_requested st ev
      else if ty = ''approval_decided'' then on_approval_decided st ev
      else if ty = ''run_status_changed'' then on_run_status_changed st ev
      else Inl (DomainError ''unknown workflow event type: {}'' [ty]))"

definition apply_event :: "aggregate \<Rightarrow> workflow_event \<Rightarrow> aggregate result" where
  "apply_event st ev =
     rbind (raise_unless (ag_run_id st = event_run_id ev)
              (DomainError ''event run_id does not match aggregate'' [])) (\<lambda>_.
     let expected_version = ag_version st + 1 in
     rbind (raise_unless (event_version ev = None \<or> event_version ev = Some expected_version)
              (DomainError ''event version is not next aggregate version'' [show_int expected_version])) (\<lambda>_.
     rbind (dispatch_event st ev) (\<lambda>st'.
     Inr (st'\<lparr>ag_version := expected_version, ag_updated_at := Some (created_at ev)\<rparr>))))"

definition replay_events :: "string \<Rightarrow> workflow_event list \<Rightarrow> aggregate result" where
  "replay_events run_id events = rfold apply_event (empty_aggregate run_id) events"

end
