(* ===== verification/Reducer_Laws.thy ===== *)
theory Reducer_Laws
  imports Durable_Reducer
begin

text \<open>
  The laws of the reducer: inversion of its helpers, the invariant of the aggregate that every
  event keeps, and how the status of the run and of its work items may move.
\<close>

section \<open>Inversion of the helpers\<close>

lemma transition_run_eq:
  "transition_run st target = Inr st' \<longleftrightarrow>
     (\<exists>c t. ag_status st = Some c \<and> target = run_status_value t \<and>
        (c = t \<or> c \<notin> terminal_run_statuses \<and> t \<in> run_transitions c) \<and>
        st' = st\<lparr>ag_status := Some t\<rparr>)"
proof (cases "ag_status st")
  case None
  then show ?thesis by (simp add: transition_run_def)
next
  case (Some c)
  show ?thesis
  proof (cases "target = run_status_value c")
    case True
    have "st = st\<lparr>ag_status := Some c\<rparr>" using Some by simp
    moreover have "c \<notin> run_transitions c" by (cases c) auto
    ultimately show ?thesis
      using Some True by (auto simp: transition_run_def dest: run_status_value_inj)
  next
    case False
    then show ?thesis
      using Some by (auto simp: transition_run_def result_simps run_status_of_Some
          split: option.splits dest: run_status_value_inj)
  qed
qed

lemma transition_work_eq:
  "transition_work st i t = Inr st' \<longleftrightarrow>
     (\<exists>c. map_of (ag_statuses st) i = Some c \<and> (c = t \<or> t \<in> work_transitions c) \<and>
          st' = st\<lparr>ag_statuses := dset i t (ag_statuses st)\<rparr>)"
proof (cases "map_of (ag_statuses st) i")
  case (Some c)
  have "st = st\<lparr>ag_statuses := dset i t (ag_statuses st)\<rparr>" if "c = t"
    using Some that by (simp add: dset_same)
  moreover have "c \<notin> work_transitions c" by (cases c) auto
  ultimately show ?thesis
    using Some by (auto simp: transition_work_def result_simps)
qed (simp add: transition_work_def)

lemma failure_target_eq:
  "failure_target s = Inr t \<longleftrightarrow> t \<in> {WFailed, WReady, WBlocked} \<and> s = work_status_value t"
  by (auto simp: failure_target_def split: if_splits)

lemma plan_items_of_plan [simp]:
  "plan_items_of (Some (plan_to_dict p)) = Inr (map (\<lambda>it. JObj (item_to_dict it)) (work_items p))"
  by (simp add: plan_items_of_def plan_to_dict_def py_or_def dget_def)

lemma jget_item_to_dict [simp]:
  "jget (item_to_dict it) ''id'' = JStr (item_id it)"
  "jget (item_to_dict it) ''kind'' = JStr (kind it)"
  "jget (item_to_dict it) ''risk_level'' = JStr (risk it)"
  "jget (item_to_dict it) ''inputs'' = JObj (inputs it)"
  by (simp_all add: item_to_dict_def jget_def dget_def)

lemma find_item_dicts:
  "find_item (map (\<lambda>it. JObj (item_to_dict it)) its) i =
     Inr (map_option item_to_dict (List.find (\<lambda>it. item_id it = i) its))"
  by (induction its) auto

lemma is_verify_item_dict [simp]:
  "is_verify_item (item_to_dict it) = Inr (kind it = work_kind_value KVerify)"
  by (simp add: is_verify_item_def jindex_def item_to_dict_def)

lemma plan_ok_distinct: "plan_ok p \<Longrightarrow> distinct (map item_id (work_items p))"
  by (simp add: plan_ok_def plan_ids_def)

lemma find_by_id: "List.find (\<lambda>it. item_id it = i) its = map_of (by_id_of its) i"
  by (induction its) (auto simp: by_id_of_def)

text \<open>The aggregate holds the plan \<open>p\<close>.\<close>

definition holds_plan :: "aggregate \<Rightarrow> plan_document \<Rightarrow> bool" where
  "holds_plan st p \<longleftrightarrow>
     plan_ok p \<and> ag_plan st = Some (plan_to_dict p) \<and> ag_plan_revision st = Some (revision p) \<and>
     dict_keys (ag_statuses st) = plan_ids p"

lemma plan_item_eq:
  assumes "plan_ok p" and "ag_plan st = Some (plan_to_dict p)"
  shows "plan_item st i = Inr item \<longleftrightarrow>
     (\<exists>it \<in> set (work_items p). item_id it = i \<and> item = item_to_dict it)"
proof -
  have "List.find (\<lambda>it. item_id it = i) (work_items p) = Some it \<longleftrightarrow>
      it \<in> set (work_items p) \<and> item_id it = i" for it
    using plan_ok_distinct [OF assms(1)] by (auto simp: find_by_id map_of_by_id_of)
  moreover have "plan_item st i = Inr item \<longleftrightarrow>
      (\<exists>it. List.find (\<lambda>it. item_id it = i) (work_items p) = Some it \<and> item = item_to_dict it)"
    using assms(2) by (auto simp: plan_item_def find_item_dicts split: option.splits)
  ultimately show ?thesis by auto
qed

section \<open>Case analysis on the event\<close>

lemma if_InrE:
  assumes "(if c then a else b) = Inr x"
  obtains "c" "a = Inr x" | "\<not> c" "b = Inr x"
  using assms by (cases c) auto

lemma dispatch_eventE:
  assumes "dispatch_event st ev = Inr st'"
  obtains
    (created) "event_type ev = ''run_created''" "on_run_created st ev = Inr st'"
  | (planned) "ag_status st \<noteq> None" "event_type ev = ''plan_committed''" "on_plan_committed st ev = Inr st'"
  | (ready) "ag_status st \<noteq> None" "event_type ev = ''work_ready''" "on_work_ready st ev = Inr st'"
  | (leased) "ag_status st \<noteq> None" "event_type ev = ''work_leased''" "on_work_leased st ev = Inr st'"
  | (started) "ag_status st \<noteq> None" "event_type ev = ''work_started''" "on_work_started st ev = Inr st'"
  | (checkpoint) "ag_status st \<noteq> None" "event_type ev = ''checkpoint_committed''"
      "on_checkpoint_committed st ev = Inr st'"
  | (succeeded) "ag_status st \<noteq> None" "event_type ev = ''work_succeeded''"
      "on_work_succeeded st ev = Inr st'"
  | (failed) "ag_status st \<noteq> None" "event_type ev = ''work_failed''" "on_work_failed st ev = Inr st'"
  | (blocked) "ag_status st \<noteq> None" "event_type ev = ''work_blocked''" "on_work_blocked st ev = Inr st'"
  | (cancelled) "ag_status st \<noteq> None" "event_type ev = ''work_cancelled''"
      "on_work_cancelled st ev = Inr st'"
  | (evidence) "ag_status st \<noteq> None" "event_type ev = ''evidence_recorded''"
      "on_evidence_recorded st ev = Inr st'"
  | (artifact) "ag_status st \<noteq> None" "event_type ev = ''artifact_registered''"
      "on_artifact_registered st ev = Inr st'"
  | (requested) "ag_status st \<noteq> None" "event_type ev = ''approval_requested''"
      "on_approval_requested st ev = Inr st'"
  | (decided) "ag_status st \<noteq> None" "event_type ev = ''approval_decided''"
      "on_approval_decided st ev = Inr st'"
  | (status) "ag_status st \<noteq> None" "event_type ev = ''run_status_changed''"
      "on_run_status_changed st ev = Inr st'"
  using assms unfolding dispatch_event_def Let_def
  by (elim if_InrE) (erule that, assumption, assumption | erule that, assumption | simp)+

lemmas handler_defs = on_run_created_def on_plan_committed_def on_work_ready_def on_work_leased_def
  on_work_started_def on_checkpoint_committed_def on_work_succeeded_def on_work_failed_def
  on_work_blocked_def on_work_cancelled_def on_evidence_recorded_def on_artifact_registered_def
  on_approval_requested_def on_approval_decided_def on_run_status_changed_def

text \<open>A successful event went through the guards and one handler.\<close>

lemma apply_event_eq [result_simps]:
  "apply_event st ev = Inr st' \<longleftrightarrow>
     ag_run_id st = event_run_id ev \<and>
     (event_version ev = None \<or> event_version ev = Some (ag_version st + 1)) \<and>
     (\<exists>st1. dispatch_event st ev = Inr st1 \<and>
        st' = st1\<lparr>ag_version := ag_version st + 1, ag_updated_at := Some (created_at ev)\<rparr>)"
  by (auto simp: apply_event_def result_simps Let_def)

section \<open>What each kind of handler leaves alone\<close>

lemma work_handlers_frame:
  assumes "on_work_ready st ev = Inr st' \<or> on_work_leased st ev = Inr st' \<or>
    on_work_started st ev = Inr st' \<or> on_work_succeeded st ev = Inr st' \<or>
    on_work_failed st ev = Inr st' \<or> on_work_blocked st ev = Inr st' \<or>
    on_work_cancelled st ev = Inr st'"
  shows "ag_status st' = ag_status st" "ag_plan st' = ag_plan st"
    "ag_plan_revision st' = ag_plan_revision st" "ag_approvals st' = ag_approvals st"
    "ag_run_id st' = ag_run_id st" "ag_checkpoints st' = ag_checkpoints st"
  using assms
  by (auto simp: handler_defs transition_work_eq result_simps Let_def split: if_splits)

lemma work_handlers_move:
  assumes "on_work_ready st ev = Inr st' \<or> on_work_leased st ev = Inr st' \<or>
    on_work_started st ev = Inr st' \<or> on_work_succeeded st ev = Inr st' \<or>
    on_work_failed st ev = Inr st' \<or> on_work_blocked st ev = Inr st' \<or>
    on_work_cancelled st ev = Inr st'"
  shows "\<exists>i c t. map_of (ag_statuses st) i = Some c \<and> (c = t \<or> t \<in> work_transitions c) \<and>
    ag_statuses st' = dset i t (ag_statuses st)"
  using assms
  by (elim disjE)
    (force simp: handler_defs transition_work_eq result_simps Let_def split: if_splits)+

section \<open>The invariant of the aggregate\<close>

text \<open>A recorded verification belongs to the current revision and to a succeeded verifier.\<close>

definition verified_by :: "aggregate \<Rightarrow> plan_document \<Rightarrow> bool" where
  "verified_by st p \<longleftrightarrow>
     (\<forall>r. ag_verified st = Some r \<longrightarrow> r = revision p \<and>
        (\<exists>it \<in> set (work_items p). kind it = work_kind_value KVerify \<and>
           map_of (ag_statuses st) (item_id it) = Some WSucceeded))"

definition plan_inv :: "aggregate \<Rightarrow> bool" where
  "plan_inv st \<longleftrightarrow>
     ag_plan st = None \<and> ag_plan_revision st = None \<and> ag_statuses st = [] \<and> ag_verified st = None \<or>
     (\<exists>p. holds_plan st p \<and> verified_by st p)"

definition ag_inv :: "aggregate \<Rightarrow> bool" where
  "ag_inv st \<longleftrightarrow>
     plan_inv st \<and> dict_wf (ag_attempts st) \<and> dict_wf (ag_checkpoints st) \<and>
     dict_wf (ag_approvals st) \<and> 0 \<le> ag_version st \<and>
     (ag_status st = None \<longleftrightarrow> ag_version st = 0)"

lemma empty_aggregate_inv: "ag_inv (empty_aggregate r)"
  by (simp add: ag_inv_def plan_inv_def empty_aggregate_def)

lemma plan_inv_cong:
  "ag_plan st' = ag_plan st \<Longrightarrow> ag_plan_revision st' = ag_plan_revision st \<Longrightarrow>
   ag_statuses st' = ag_statuses st \<Longrightarrow> ag_verified st' = ag_verified st \<Longrightarrow>
   plan_inv st' = plan_inv st"
  by (simp add: plan_inv_def holds_plan_def verified_by_def)

text \<open>One legal status change keeps the plan part, if the verification is kept or dropped.\<close>

lemma plan_inv_move:
  assumes inv: "plan_inv st" and c: "map_of (ag_statuses st) i = Some c"
    and legal: "c = t \<or> t \<in> work_transitions c"
    and frame: "ag_plan st' = ag_plan st" "ag_plan_revision st' = ag_plan_revision st"
      "ag_statuses st' = dset i t (ag_statuses st)"
    and ver: "ag_verified st' = ag_verified st \<or> ag_verified st' = None"
  shows "plan_inv st'"
proof -
  from inv c obtain p where p: "holds_plan st p" "verified_by st p"
    by (auto simp: plan_inv_def)
  have "holds_plan st' p"
    using p(1) frame dset_keys_present [OF c] by (simp add: holds_plan_def)
  moreover have "map_of (ag_statuses st') x = Some WSucceeded"
    if "map_of (ag_statuses st) x = Some WSucceeded" for x
    using that c legal frame(3) by (auto simp: dict_simps)
  then have "verified_by st' p"
    using p(2) ver unfolding verified_by_def by (metis option.distinct(1))
  ultimately show ?thesis by (auto simp: plan_inv_def)
qed

lemma plan_inv_succeeded:
  assumes inv: "plan_inv st" and ok: "on_work_succeeded st ev = Inr st'"
  shows "plan_inv st'"
proof -
  from ok obtain i c item v st1 where
    c: "map_of (ag_statuses st) i = Some c" "c = WSucceeded \<or> WSucceeded \<in> work_transitions c"
    and st1: "st1 = st\<lparr>ag_statuses := dset i WSucceeded (ag_statuses st),
                    ag_attempts := dpop i (ag_attempts st)\<rparr>"
    and item: "plan_item st1 i = Inr item" "is_verify_item item = Inr v"
    and st': "st' = (if v then st1\<lparr>ag_verified := ag_plan_revision st1\<rparr> else st1)"
    by (auto simp: on_work_succeeded_def transition_work_eq result_simps Let_def)
  have inv1: "plan_inv st1"
    by (rule plan_inv_move [OF inv c]) (simp_all add: st1)
  show ?thesis
  proof (cases v)
    case False
    with inv1 st' show ?thesis by simp
  next
    case True
    from inv c(1) obtain p where p: "holds_plan st p" by (auto simp: plan_inv_def)
    then have p1: "holds_plan st1 p"
      using dset_keys_present [OF c(1)] by (simp add: holds_plan_def st1)
    with item(1) obtain it where it: "it \<in> set (work_items p)" "item_id it = i" "item = item_to_dict it"
      using plan_item_eq [of p st1 i item] by (auto simp: holds_plan_def)
    with item(2) True have "kind it = work_kind_value KVerify" by simp
    with it p1 have "verified_by st' p"
      unfolding verified_by_def st' using True by (auto simp: st1 dict_simps holds_plan_def)
    moreover have "holds_plan st' p" using p1 st' True by (simp add: holds_plan_def)
    ultimately show ?thesis by (auto simp: plan_inv_def)
  qed
qed

lemma plan_inv_work_handlers:
  assumes inv: "plan_inv st"
    and ok: "on_work_ready st ev = Inr st' \<or> on_work_leased st ev = Inr st' \<or>
      on_work_started st ev = Inr st' \<or> on_work_succeeded st ev = Inr st' \<or>
      on_work_failed st ev = Inr st' \<or> on_work_blocked st ev = Inr st' \<or>
      on_work_cancelled st ev = Inr st'"
  shows "plan_inv st'"
proof (cases "on_work_succeeded st ev = Inr st'")
  case True
  with inv show ?thesis by (rule plan_inv_succeeded)
next
  case False
  with ok have "ag_verified st' = ag_verified st \<or> ag_verified st' = None"
    by (auto simp: handler_defs transition_work_eq result_simps Let_def)
  with work_handlers_move [OF ok] work_handlers_frame(2,3) [OF ok] inv show ?thesis
    by (blast intro: plan_inv_move)
qed

lemma dispatch_groupE:
  assumes "dispatch_event st ev = Inr st'"
  obtains
    (created) "event_type ev = ''run_created''" "on_run_created st ev = Inr st'"
  | (planned) "ag_status st \<noteq> None" "on_plan_committed st ev = Inr st'"
  | (work) "ag_status st \<noteq> None" "on_work_ready st ev = Inr st' \<or> on_work_leased st ev = Inr st' \<or>
      on_work_started st ev = Inr st' \<or> on_work_succeeded st ev = Inr st' \<or>
      on_work_failed st ev = Inr st' \<or> on_work_blocked st ev = Inr st' \<or>
      on_work_cancelled st ev = Inr st'"
  | (checkpoint) "ag_status st \<noteq> None" "on_checkpoint_committed st ev = Inr st'"
  | (evidence) "ag_status st \<noteq> None" "on_evidence_recorded st ev = Inr st'"
  | (artifact) "ag_status st \<noteq> None" "on_artifact_registered st ev = Inr st'"
  | (requested) "ag_status st \<noteq> None" "on_approval_requested st ev = Inr st'"
  | (decided) "ag_status st \<noteq> None" "on_approval_decided st ev = Inr st'"
  | (status) "ag_status st \<noteq> None" "on_run_status_changed st ev = Inr st'"
  using assms by (cases rule: dispatch_eventE) (rule that; blast)+

lemma work_handlers_attempts:
  assumes "on_work_ready st ev = Inr st' \<or> on_work_leased st ev = Inr st' \<or>
    on_work_started st ev = Inr st' \<or> on_work_succeeded st ev = Inr st' \<or>
    on_work_failed st ev = Inr st' \<or> on_work_blocked st ev = Inr st' \<or>
    on_work_cancelled st ev = Inr st'" and "dict_wf (ag_attempts st)"
  shows "dict_wf (ag_attempts st')"
  using assms
  by (auto simp: handler_defs transition_work_eq result_simps Let_def)

lemma dispatch_dicts:
  assumes "dispatch_event st ev = Inr st'"
  shows "ag_status st' \<noteq> None"
    and "dict_wf (ag_attempts st) \<Longrightarrow> dict_wf (ag_attempts st')"
    and "dict_wf (ag_checkpoints st) \<Longrightarrow> dict_wf (ag_checkpoints st')"
    and "dict_wf (ag_approvals st) \<Longrightarrow> dict_wf (ag_approvals st')"
proof -
  have keys: "map (fst \<circ> (\<lambda>(k, a). (k, f a))) d = dict_keys d" for f and d :: "obj dict"
    by (induction d) auto
  show "ag_status st' \<noteq> None"
    using assms
  proof (cases rule: dispatch_groupE)
    case work
    then show ?thesis using work_handlers_frame(1) [OF work(2)] by simp
  qed (auto simp: handler_defs result_simps Let_def transition_run_eq split: if_splits)
  show "dict_wf (ag_attempts st')" if "dict_wf (ag_attempts st)"
    using assms
  proof (cases rule: dispatch_groupE)
    case work
    from work_handlers_attempts [OF work(2) that] show ?thesis .
  qed (use that in \<open>auto simp: handler_defs result_simps Let_def transition_run_eq split: if_splits\<close>)
  show "dict_wf (ag_checkpoints st')" if "dict_wf (ag_checkpoints st)"
    using assms
  proof (cases rule: dispatch_groupE)
    case work
    with that show ?thesis using work_handlers_frame(6) [OF work(2)] by simp
  qed (use that in \<open>auto simp: handler_defs result_simps Let_def transition_run_eq split: if_splits\<close>)
  show "dict_wf (ag_approvals st')" if "dict_wf (ag_approvals st)"
    using assms
  proof (cases rule: dispatch_groupE)
    case work
    with that show ?thesis using work_handlers_frame(4) [OF work(2)] by simp
  next
    case planned
    with that show ?thesis
      by (auto simp: on_plan_committed_def result_simps dict_wf_def keys)
  qed (use that in \<open>auto simp: handler_defs result_simps Let_def transition_run_eq split: if_splits\<close>)
qed

lemma on_plan_committedE:
  assumes "on_plan_committed st ev = Inr st'"
  obtains v p where "map_of (payload ev) ''plan'' = Some v" "plan_from_dict v = Inr p" "plan_ok p"
    "case ag_plan_revision st of Some current \<Rightarrow> revision p = current + 1 | None \<Rightarrow> revision p = 1"
    "st' = st\<lparr>ag_plan := Some (plan_to_dict p), ag_plan_revision := Some (revision p),
             ag_verified := None,
             ag_approvals := map (\<lambda>(k, a). (k, invalidate_approval (revision p) a)) (ag_approvals st),
             ag_statuses := map (\<lambda>it. (item_id it, dget (ag_statuses st) (item_id it) WPending))
                              (work_items p)\<rparr>"
  using assms unfolding on_plan_committed_def result_simps
  by (elim exE conjE) (rule that, auto dest: plan_from_dict_ok simp: result_simps split: option.splits)

lemma plan_inv_planned:
  assumes "on_plan_committed st ev = Inr st'"
  shows "plan_inv st'"
proof -
  from assms obtain p where "holds_plan st' p" "verified_by st' p"
    by (rule on_plan_committedE) (simp add: holds_plan_def verified_by_def plan_ids_def comp_def)
  then show ?thesis by (auto simp: plan_inv_def)
qed

lemma dispatch_plan_inv:
  assumes "dispatch_event st ev = Inr st'" and inv: "plan_inv st"
  shows "plan_inv st'"
  using assms(1)
proof (cases rule: dispatch_groupE)
  case planned
  then show ?thesis by (simp add: plan_inv_planned)
next
  case work
  from inv work(2) show ?thesis by (rule plan_inv_work_handlers)
qed (use inv in \<open>auto simp: handler_defs result_simps Let_def transition_run_eq
      intro: iffD2 [OF plan_inv_cong] split: if_splits\<close>)

lemma apply_event_inv:
  assumes "apply_event st ev = Inr st'" and inv: "ag_inv st"
  shows "ag_inv st'"
proof -
  from assms(1) obtain st1 where d: "dispatch_event st ev = Inr st1"
    and st': "st' = st1\<lparr>ag_version := ag_version st + 1, ag_updated_at := Some (created_at ev)\<rparr>"
    by (auto simp: result_simps)
  from dispatch_plan_inv [OF d] inv have "plan_inv st1" by (simp add: ag_inv_def)
  then have "plan_inv st'" unfolding st' by (rule iffD2 [OF plan_inv_cong, rotated -1]) simp_all
  moreover have "ag_status st1 \<noteq> None" "dict_wf (ag_attempts st1)" "dict_wf (ag_checkpoints st1)"
    "dict_wf (ag_approvals st1)"
    using inv dispatch_dicts [OF d] by (simp_all add: ag_inv_def)
  ultimately show ?thesis using inv by (simp add: ag_inv_def st')
qed

section \<open>Interpretation of the interfaces\<close>

interpretation run_log: event_fold_inv apply_event ag_version ag_inv
proof unfold_locales
  fix s e t
  assume *: "apply_event s e = Inr t"
  then show "ag_version t = ag_version s + 1" by (auto simp: apply_event_eq)
  show "ag_inv s \<Longrightarrow> ag_inv t" using * by (rule apply_event_inv)
qed

interpretation run_table: transition_table run_transitions "\<lambda>s. s \<in> terminal_run_statuses"
  by unfold_locales (auto simp: terminal_run_statuses_def)

interpretation work_table: transition_table work_transitions "\<lambda>s. s \<in> {WSucceeded, WCancelled}"
  by unfold_locales auto

section \<open>How statuses move\<close>

lemma dispatch_run_status:
  assumes "dispatch_event st ev = Inr st'" and "ag_inv st" and "ag_status st = Some s"
  shows "\<exists>t. ag_status st' = Some t \<and> (s = t \<or> t \<in> run_transitions s)"
  using assms(1)
proof (cases rule: dispatch_groupE)
  case created
  with assms(2,3) show ?thesis by (auto simp: on_run_created_def result_simps ag_inv_def)
next
  case work
  then show ?thesis using work_handlers_frame(1) [OF work(2)] assms(3) by simp
qed (use assms(3) in \<open>auto simp: handler_defs result_simps Let_def transition_run_eq split: if_splits\<close>)

lemma dispatch_work_status:
  assumes "dispatch_event st ev = Inr st'" and "ag_inv st" and "map_of (ag_statuses st') i = Some t"
  shows "case map_of (ag_statuses st) i of None \<Rightarrow> t = WPending | Some s \<Rightarrow> s = t \<or> t \<in> work_transitions s"
  using assms(1)
proof (cases rule: dispatch_groupE)
  case planned
  from planned(2) have "map_of (ag_statuses st') i = Some t \<longrightarrow> t = dget (ag_statuses st) i WPending"
    by (rule on_plan_committedE) (auto dest!: map_of_SomeD)
  with assms(3) have "t = dget (ag_statuses st) i WPending" by simp
  then show ?thesis by (simp add: dget_def split: option.splits)
next
  case work
  from work_handlers_move [OF work(2)] show ?thesis
    using assms(3) by (auto simp: dict_simps split: if_splits option.splits)
qed (use assms(3) in \<open>auto simp: handler_defs result_simps Let_def transition_run_eq
    split: if_splits option.splits\<close>)

lemma completing_event:
  assumes "dispatch_event st ev = Inr st'" and "ag_status st \<noteq> Some RCompleted"
    and "ag_status st' = Some RCompleted"
  shows "completion_allowed st = Inr True"
  using assms(1)
proof (cases rule: dispatch_groupE)
  case work
  then show ?thesis using work_handlers_frame(1) [OF work(2)] assms(2,3) by simp
next
  case planned
  with assms(2,3) show ?thesis by (auto elim: on_plan_committedE)
next
  case requested
  with assms(3) show ?thesis
    by (auto simp: on_approval_requested_def result_simps transition_run_eq dest: run_status_value_inj)
next
  case decided
  with assms(3) show ?thesis
    by (auto simp: on_approval_decided_def result_simps Let_def transition_run_eq
        dest: run_status_value_inj split: if_splits)
next
  case status
  then obtain target where target: "transition_run st target = Inr st'"
    and guard: "target = run_status_value RCompleted \<Longrightarrow> completion_allowed st = Inr True"
    by (auto simp: on_run_status_changed_def result_simps split: if_splits)
  from target assms(3) have "target = run_status_value RCompleted"
    by (auto simp: transition_run_eq)
  then show ?thesis by (rule guard)
next
  case created
  with assms(3) show ?thesis by (auto simp: on_run_created_def result_simps)
next
  case checkpoint
  with assms(2,3) show ?thesis by (auto simp: on_checkpoint_committed_def result_simps)
next
  case evidence
  with assms(2,3) show ?thesis by (auto simp: on_evidence_recorded_def)
next
  case artifact
  with assms(2,3) show ?thesis by (auto simp: on_artifact_registered_def Let_def split: if_splits)
qed

lemma plan_to_dict_inj:
  assumes "plan_ok p" "plan_ok q" "plan_to_dict p = plan_to_dict q"
  shows "p = q"
  using plan_from_to_dict [OF assms(1)] plan_from_to_dict [OF assms(2)] assms(3)
  by (metis sum.inject(2))

lemma holds_plan_unique: "holds_plan st p \<Longrightarrow> holds_plan st q \<Longrightarrow> p = q"
  unfolding holds_plan_def by (rule plan_to_dict_inj) simp_all

lemma completion_allowed_holds:
  assumes "holds_plan st p"
  shows "completion_allowed st = Inr (plan_is_complete p (ag_statuses st) (ag_verified st))"
proof -
  have "truthy (plan_to_dict p)" by (simp add: plan_to_dict_def)
  moreover from assms have "ag_plan st = Some (plan_to_dict p)"
    and "plan_from_dict (plan_to_dict p) = Inr p"
    by (auto simp: holds_plan_def intro: plan_from_to_dict)
  ultimately show ?thesis by (simp add: completion_allowed_def)
qed

lemma completion_allowed_plan:
  assumes "plan_inv st" and "completion_allowed st = Inr True"
  shows "\<exists>p. holds_plan st p \<and> verified_by st p \<and> plan_is_complete p (ag_statuses st) (ag_verified st)"
proof -
  from assms(2) have "ag_plan st \<noteq> None" unfolding completion_allowed_def by (cases "ag_plan st") auto
  with assms(1) obtain p where "holds_plan st p" "verified_by st p" by (auto simp: plan_inv_def)
  with completion_allowed_holds [of st p] assms(2) show ?thesis by auto
qed

end
