(* ===== verification/Reducer_Properties.thy ===== *)
theory Reducer_Properties
  imports Reducer_Laws
begin

text \<open>
  What the event-sourced aggregate guarantees, as theorems about \<open>apply_event\<close> and
  \<open>replay_events\<close>, with a sample log that takes a run from its creation to a verified
  completion.
\<close>

section \<open>A sample log\<close>

definition sample_event :: "int \<Rightarrow> string \<Rightarrow> obj \<Rightarrow> workflow_event" where
  "sample_event n ty pl =
     \<lparr>event_type = ty, payload = pl, event_run_id = ''r'', event_id = ''e'' @ show_int n,
      event_version = Some n, actor = ''test'', created_at = n\<rparr>"

definition work_payload :: "string \<Rightarrow> obj" where
  "work_payload i = [(''work_item_id'', JStr i), (''attempt_id'', JStr ''a'')]"

definition sample_log :: "workflow_event list" where
  "sample_log =
     [sample_event 1 ''run_created'' [(''project_id'', JStr ''p''), (''goal'', JStr ''ship'')],
      sample_event 2 ''plan_committed'' [(''plan'', plan_to_dict sample_plan)],
      sample_event 3 ''run_status_changed'' [(''status'', JStr ''running'')],
      sample_event 4 ''work_ready'' (work_payload ''build''),
      sample_event 5 ''work_leased'' (work_payload ''build''),
      sample_event 6 ''work_started'' (work_payload ''build''),
      sample_event 7 ''work_succeeded'' (work_payload ''build''),
      sample_event 8 ''work_ready'' (work_payload ''verify''),
      sample_event 9 ''work_leased'' (work_payload ''verify''),
      sample_event 10 ''work_started'' (work_payload ''verify''),
      sample_event 11 ''work_succeeded'' (work_payload ''verify'')]"

definition completing :: workflow_event where
  "completing = sample_event 12 ''run_status_changed'' [(''status'', JStr ''completed'')]"

text \<open>The state a log leads to, for logs that replay without an exception.\<close>

definition state_after :: "workflow_event list \<Rightarrow> aggregate" where
  "state_after es = (case replay_events ''r'' es of Inr st \<Rightarrow> st | Inl _ \<Rightarrow> empty_aggregate ''r'')"

lemma sample_log_replays: "replay_events ''r'' sample_log = Inr (state_after sample_log)"
  by code_simp

lemma sample_completes: "apply_event (state_after sample_log) completing = Inr (state_after (sample_log @ [completing]))"
  by code_simp

lemma sample_statuses_after:
  "ag_status (state_after sample_log) = Some RRunning"
  "ag_status (state_after (sample_log @ [completing])) = Some RCompleted"
  "map_of (ag_statuses (state_after sample_log)) ''build'' = Some WSucceeded"
  "map_of (ag_statuses (state_after (sample_log @ [completing]))) ''build'' = Some WSucceeded"
  by code_simp+

lemma replay_log_inv: "replay_events run_id events = Inr st \<Longrightarrow> ag_inv st"
  unfolding replay_events_def by (rule run_log.fold_inv [OF _ empty_aggregate_inv])

lemma completing_from_running:
  assumes "dispatch_event st ev = Inr st'" and "ag_inv st" and "ag_status st \<noteq> Some RCompleted"
    and "ag_status st' = Some RCompleted"
  shows "ag_status st = Some RRunning"
proof (cases "ag_status st")
  case None
  with assms(1,4) show ?thesis
    by (cases rule: dispatch_groupE) (auto simp: on_run_created_def result_simps)
next
  case (Some s)
  from dispatch_run_status [OF assms(1,2) Some] assms(3,4) Some have "RCompleted \<in> run_transitions s"
    by auto
  with Some show ?thesis by (cases s) auto
qed

lemma plan_committed_handler:
  assumes "apply_event st ev = Inr st'" and "event_type ev = ''plan_committed''"
  shows "on_plan_committed st ev = Inr (st'\<lparr>ag_version := ag_version st, ag_updated_at := ag_updated_at st\<rparr>)"
proof -
  from assms(1) obtain st1 where d: "dispatch_event st ev = Inr st1"
    and st': "st' = st1\<lparr>ag_version := ag_version st + 1, ag_updated_at := Some (created_at ev)\<rparr>"
    by (auto simp: result_simps)
  from d assms(2) have "on_plan_committed st ev = Inr st1"
    by (simp add: dispatch_event_def Let_def split: if_splits)
  moreover from this have "st1 = st'\<lparr>ag_version := ag_version st, ag_updated_at := ag_updated_at st\<rparr>"
    unfolding st' by (rule on_plan_committedE) simp
  ultimately show ?thesis by simp
qed

section \<open>Properties\<close>

text \<open>C9: Every state reached by replaying a log satisfies the aggregate invariant (statuses are
  keyed by the identifiers of the current well-formed plan, a recorded verification is of the
  current revision and of a succeeded verifier, dictionaries have unique keys) and its version
  is the number of events in the log.\<close>

theorem replay_invariant:
  assumes "replay_events run_id events = Inr st"
  shows "ag_inv st \<and> ag_version st = int (length events)"
  using assms run_log.fold_inv [OF _ empty_aggregate_inv] run_log.fold_version
  unfolding replay_events_def by (fastforce simp: empty_aggregate_def)

theorem replay_invariant_witness:
  "ag_inv (state_after sample_log) \<and> ag_version (state_after sample_log) = 11"
  using replay_invariant [OF sample_log_replays] by (simp add: sample_log_def)

text \<open>Replaying the events after a stored snapshot gives the state a full replay of the log
  gives, failures included, so a snapshot can stand for the prefix it was folded from.\<close>

theorem replay_from_snapshot:
  assumes "replay_events run_id es = Inr snapshot"
  shows "replay_events run_id (es @ fs) = rfold apply_event snapshot fs"
  using assms unfolding replay_events_def by (rule run_log.fold_from_snapshot)

theorem replay_from_snapshot_witness:
  "replay_events ''r'' (sample_log @ [completing]) = rfold apply_event (state_after sample_log) [completing]"
  by (rule replay_from_snapshot [OF sample_log_replays])

text \<open>C10: A run status moves only along the table of run transitions, and once a run is
  completed, failed or cancelled no event changes its status again.\<close>

theorem terminal_run_absorbing:
  assumes "ag_inv st" and "apply_event st ev = Inr st'" and "ag_status st = Some s"
  shows "\<exists>t. ag_status st' = Some t \<and> (t = s \<or> t \<in> run_transitions s) \<and>
    (s \<in> terminal_run_statuses \<longrightarrow> t = s)"
proof -
  from assms(2) obtain st1 where "dispatch_event st ev = Inr st1" "ag_status st' = ag_status st1"
    by (auto simp: result_simps)
  with dispatch_run_status [OF _ assms(1,3)] run_table.final_stuck show ?thesis by fastforce
qed

theorem terminal_run_absorbing_witness:
  "\<exists>t. ag_status (state_after (sample_log @ [completing])) = Some t \<and>
    (t = RRunning \<or> t \<in> run_transitions RRunning)"
proof -
  have "ag_inv (state_after sample_log)" using replay_log_inv [OF sample_log_replays] .
  from terminal_run_absorbing [OF this sample_completes sample_statuses_after(1)] show ?thesis by blast
qed

text \<open>C11: No event completes a run unless the current plan is complete: it is a running run that
  holds a well-formed plan whose required items (all items when none are listed) have
  succeeded and, when the policy demands a verifier, a verify item succeeded and the recorded
  verification is of the current revision.\<close>

theorem completion_needs_verified_plan:
  assumes "ag_inv st" and "apply_event st ev = Inr st'"
    and "ag_status st \<noteq> Some RCompleted" and "ag_status st' = Some RCompleted"
  shows "\<exists>p. ag_status st = Some RRunning \<and> holds_plan st p \<and>
    (\<forall>i \<in> set (if required_work_item_ids (completion_policy p) = [] then plan_ids p
              else required_work_item_ids (completion_policy p)).
        map_of (ag_statuses st) i = Some WSucceeded) \<and>
    (require_verifier (completion_policy p) \<longrightarrow>
       ag_verified st = ag_plan_revision st \<and>
       (\<exists>it \<in> set (work_items p). kind it = ''verify'' \<and>
          map_of (ag_statuses st) (item_id it) = Some WSucceeded))"
proof -
  from assms(2) obtain st1 where st1: "dispatch_event st ev = Inr st1" "ag_status st' = ag_status st1"
    by (auto simp: result_simps)
  with completing_event [OF st1(1) assms(3)] assms(4) have "completion_allowed st = Inr True" by simp
  moreover have "plan_inv st" using assms(1) by (simp add: ag_inv_def)
  ultimately obtain p where p: "holds_plan st p" "verified_by st p"
    and c: "plan_is_complete p (ag_statuses st) (ag_verified st)"
    using completion_allowed_plan by blast
  have "ag_status st = Some RRunning" by (rule completing_from_running [OF st1(1) assms(1,3)]) (use st1 assms(4) in simp)
  with p c show ?thesis
    by (intro exI [of _ p])
      (auto simp: plan_is_complete_def verified_by_def holds_plan_def plan_ids_def Let_def list_all_iff
        split: if_splits)
qed

theorem completion_needs_verified_plan_witness:
  "\<exists>p. ag_status (state_after sample_log) = Some RRunning \<and> holds_plan (state_after sample_log) p"
proof -
  have "ag_inv (state_after sample_log)" using replay_log_inv [OF sample_log_replays] .
  from completion_needs_verified_plan [OF this sample_completes _ sample_statuses_after(2)]
  show ?thesis by (auto simp: sample_statuses_after)
qed

text \<open>C12: One event moves a work item only along the table of work transitions, a new item
  starts as pending, and a succeeded or cancelled item keeps its status for as long as it
  stays in the plan.\<close>

theorem work_status_legal:
  assumes "ag_inv st" and "apply_event st ev = Inr st'" and "map_of (ag_statuses st') i = Some t"
  shows "case map_of (ag_statuses st) i of
      None \<Rightarrow> t = WPending
    | Some s \<Rightarrow> (t = s \<or> t \<in> work_transitions s) \<and> (s \<in> {WSucceeded, WCancelled} \<longrightarrow> t = s)"
proof -
  from assms(2) obtain st1 where "dispatch_event st ev = Inr st1" "ag_statuses st' = ag_statuses st1"
    by (auto simp: result_simps)
  with dispatch_work_status [OF _ assms(1), of ev st1 i t] assms(3) work_table.final_stuck
  show ?thesis by (fastforce split: option.splits)
qed

theorem work_status_legal_witness:
  "map_of (ag_statuses (state_after sample_log)) ''build'' = Some WSucceeded \<and>
   map_of (ag_statuses (state_after (sample_log @ [completing]))) ''build'' = Some WSucceeded"
proof -
  have "ag_inv (state_after sample_log)" using replay_log_inv [OF sample_log_replays] .
  from work_status_legal [OF this sample_completes sample_statuses_after(4)]
  show ?thesis by (simp add: sample_statuses_after)
qed

text \<open>Committing a plan advances the revision by exactly one (or starts at one), forgets the
  recorded verification, leaves no pending or approved approval of another revision, keeps
  the status of every surviving item and starts new items as pending.\<close>

theorem plan_commit_effect:
  assumes "apply_event st ev = Inr st'" and "event_type ev = ''plan_committed''"
  shows "\<exists>p. holds_plan st' p \<and>
    revision p = (case ag_plan_revision st of None \<Rightarrow> 1 | Some r \<Rightarrow> r + 1) \<and>
    ag_verified st' = None \<and>
    (\<forall>(k, a) \<in> set (ag_approvals st'). jget a ''status'' \<in> {JStr ''pending'', JStr ''approved''} \<longrightarrow>
       py_eq (jget a ''plan_revision'') (JInt (revision p))) \<and>
    (\<forall>i \<in> set (plan_ids p). map_of (ag_statuses st') i = Some (dget (ag_statuses st) i WPending))"
proof -
  from assms have "on_plan_committed st ev = Inr (st'\<lparr>ag_version := ag_version st, ag_updated_at := ag_updated_at st\<rparr>)"
    by (rule plan_committed_handler)
  then show ?thesis
  proof (rule on_plan_committedE)
    fix v p
    assume p: "plan_ok p"
      and r: "case ag_plan_revision st of Some current \<Rightarrow> revision p = current + 1 | None \<Rightarrow> revision p = 1"
      and st': "st'\<lparr>ag_version := ag_version st, ag_updated_at := ag_updated_at st\<rparr> =
        st\<lparr>ag_plan := Some (plan_to_dict p), ag_plan_revision := Some (revision p),
           ag_verified := None,
           ag_approvals := map (\<lambda>(k, a). (k, invalidate_approval (revision p) a)) (ag_approvals st),
           ag_statuses := map (\<lambda>it. (item_id it, dget (ag_statuses st) (item_id it) WPending))
                            (work_items p)\<rparr>"
    have f: "ag_plan st' = Some (plan_to_dict p)" "ag_plan_revision st' = Some (revision p)"
      "ag_verified st' = None"
      "ag_approvals st' = map (\<lambda>(k, a). (k, invalidate_approval (revision p) a)) (ag_approvals st)"
      "ag_statuses st' = map (\<lambda>it. (item_id it, dget (ag_statuses st) (item_id it) WPending)) (work_items p)"
      using arg_cong [OF st', of ag_plan] arg_cong [OF st', of ag_plan_revision]
        arg_cong [OF st', of ag_verified] arg_cong [OF st', of ag_approvals]
        arg_cong [OF st', of ag_statuses] by simp_all
    have "py_eq (jget a ''plan_revision'') (JInt (revision p))"
      if "(k, a) \<in> set (ag_approvals st')" "jget a ''status'' \<in> {JStr ''pending'', JStr ''approved''}" for k a
      using that by (auto simp: f(4) invalidate_approval_def jget_def dget_def dict_simps split: if_splits)
    moreover have "map_of (ag_statuses st') i = Some (dget (ag_statuses st) i WPending)"
      if "i \<in> set (plan_ids p)" for i
      unfolding f(5) by (rule map_of_is_SomeI) (use p that in \<open>auto simp: plan_ok_def plan_ids_def comp_def\<close>)
    moreover have "holds_plan st' p" using p f by (simp add: holds_plan_def plan_ids_def comp_def)
    ultimately show ?thesis using r f(3) by (intro exI [of _ p]) (auto split: option.splits)
  qed
qed

theorem plan_commit_effect_witness:
  "\<exists>p. holds_plan (state_after (take 2 sample_log)) p \<and> revision p = 1"
proof -
  have "apply_event (state_after (take 1 sample_log)) (sample_log ! 1) = Inr (state_after (take 2 sample_log))"
    by code_simp
  moreover have "event_type (sample_log ! 1) = ''plan_committed''"
    by (simp add: sample_log_def sample_event_def)
  moreover have "ag_plan_revision (state_after (take 1 sample_log)) = None" by code_simp
  ultimately show ?thesis
    using plan_commit_effect [of "state_after (take 1 sample_log)" "sample_log ! 1"] by auto
qed

end
