(* ===== verification/Workflow_Tables.thy ===== *)
theory Workflow_Tables
  imports Durable_Reducer "HOL-Library.Product_Lexorder"
begin

text \<open>
  The schema of \<open>orchestrator/workflow_repository.py\<close>: one record per table row, and the
  database as a record of tables. Rows are kept in insertion order. A unique constraint is a
  conflict test at the insertion; foreign keys are not enforced (SQLite, the backend of the
  tests, does not enforce them by default, and the code inserts parents first). The database
  also counts the \<open>uuid4\<close> calls made so far: the generator itself is the parameter \<open>uuid\<close> of
  the operations.
\<close>

record project_row =
  pr_id :: string
  pr_name :: string
  pr_max_runs :: int
  pr_max_active :: int
  pr_created :: time

record member_row =
  mb_project :: string
  mb_subject :: string
  mb_role :: string
  mb_created :: time

record run_row =
  rn_id :: string
  rn_project :: string
  rn_goal :: string
  rn_status :: "run_status option"
  rn_version :: int
  rn_plan_revision :: "int option"
  rn_snapshot :: aggregate
  rn_key :: "string option"
  rn_created :: time
  rn_updated :: time

record plan_row =
  pl_run :: string
  pl_revision :: int
  pl_plan :: obj
  pl_reason :: json
  pl_created :: time

record item_row =
  it_run :: string
  it_id :: string
  it_plan_revision :: int
  it_json :: obj
  it_status :: work_status
  it_caps :: json
  it_priority :: int
  it_not_before :: "time option"
  it_attempts :: int
  it_max_attempts :: int
  it_fence :: int
  it_owner :: "string option"
  it_lease :: "time option"
  it_attempt :: "string option"
  it_created :: time
  it_updated :: time

text \<open>An attempt has a work status or is \<open>"expired"\<close>.\<close>

datatype attempt_status = AStatus work_status | AExpired

record attempt_row =
  at_id :: string
  at_run :: string
  at_item :: string
  at_number :: int
  at_worker :: string
  at_fence :: int
  at_status :: attempt_status
  at_lease :: time
  at_started :: "time option"
  at_completed :: "time option"
  at_outcome :: "obj option"
  at_created :: time

record checkpoint_row =
  cp_id :: string
  cp_attempt :: string
  cp_seq :: int
  cp_json :: obj
  cp_created :: time

record evidence_row =
  ev_id :: string
  ev_run :: string
  ev_item :: json
  ev_kind :: string
  ev_payload :: obj
  ev_created :: time

record artifact_row =
  ar_id :: string
  ar_run :: string
  ar_item :: json
  ar_uri :: string
  ar_sha :: string
  ar_size :: int
  ar_media :: json
  ar_sensitivity :: json
  ar_name :: json
  ar_metadata :: obj
  ar_created :: time

record approval_row =
  ap_id :: string
  ap_run :: string
  ap_revision :: json
  ap_digest :: json
  ap_status :: string
  ap_requested_by :: string
  ap_decided_by :: json
  ap_reason :: json
  ap_created :: time
  ap_decided :: "time option"

record effect_row =
  ef_id :: string
  ef_run :: string
  ef_item :: string
  ef_attempt :: string
  ef_seq :: int
  ef_status :: string
  ef_result :: "obj option"
  ef_created :: time
  ef_updated :: time

record outbox_row =
  ob_id :: string
  ob_event :: string
  ob_run :: string
  ob_type :: string
  ob_payload :: obj
  ob_created :: time
  ob_published :: "time option"

record worker_row =
  wk_id :: string
  wk_caps :: "string list"
  wk_status :: string
  wk_seen :: time

record lock_row =
  lk_project :: string
  lk_attempt :: "string option"
  lk_lease :: "time option"
  lk_updated :: time

text \<open>The event table has the columns of a workflow event.\<close>

record db =
  projects :: "project_row list"
  memberships :: "member_row list"
  runs :: "run_row list"
  events :: "workflow_event list"
  plans :: "plan_row list"
  items :: "item_row list"
  attempts :: "attempt_row list"
  checkpoints :: "checkpoint_row list"
  evidence :: "evidence_row list"
  artifacts :: "artifact_row list"
  approvals :: "approval_row list"
  effects :: "effect_row list"
  outbox :: "outbox_row list"
  workers :: "worker_row list"
  locks :: "lock_row list"
  uuids :: nat

definition empty_db :: db where
  "empty_db =
     \<lparr>projects = [], memberships = [], runs = [], events = [], plans = [], items = [],
      attempts = [], checkpoints = [], evidence = [], artifacts = [], approvals = [],
      effects = [], outbox = [], workers = [], locks = [], uuids = 0\<rparr>"

text \<open>
  Values written to typed columns. The code passes JSON scalars of the right type; a value of
  another type would be converted or refused by the database driver, which is outside the
  model.
\<close>

fun str_col :: "json \<Rightarrow> string result" where
  "str_col (JStr s) = Inr s"
| "str_col _ = Inl (Unsupported ''non-string in a text column'')"

fun int_col :: "json \<Rightarrow> int result" where
  "int_col (JInt i) = Inr i"
| "int_col _ = Inl (Unsupported ''non-integer in an integer column'')"

definition live_attempt :: "attempt_status \<Rightarrow> bool" where
  "live_attempt s \<longleftrightarrow> s \<in> {AStatus WLeased, AStatus WRunning, AStatus WVerifying}"

definition active_status :: "work_status \<Rightarrow> bool" where
  "active_status s \<longleftrightarrow> s \<in> {WLeased, WRunning, WVerifying}"

definition is_integration :: "obj \<Rightarrow> bool" where
  "is_integration item \<longleftrightarrow> py_eq (jget item ''kind'') (JStr (work_kind_value KIntegrate))"

definition same_item :: "string \<Rightarrow> string \<Rightarrow> item_row \<Rightarrow> bool" where
  "same_item r i row \<longleftrightarrow> it_run row = r \<and> it_id row = i"

definition find_run :: "db \<Rightarrow> string \<Rightarrow> run_row option" where
  "find_run db r = first_where (\<lambda>row. rn_id row = r) (runs db)"

definition find_row :: "db \<Rightarrow> string \<Rightarrow> string \<Rightarrow> item_row option" where
  "find_row db r i = first_where (same_item r i) (items db)"

definition find_attempt :: "db \<Rightarrow> string \<Rightarrow> attempt_row option" where
  "find_attempt db a = first_where (\<lambda>row. at_id row = a) (attempts db)"

definition events_of :: "db \<Rightarrow> string \<Rightarrow> workflow_event list" where
  "events_of db r = filter (\<lambda>ev. event_run_id ev = r) (events db)"

definition update_items :: "string \<Rightarrow> string \<Rightarrow> (item_row \<Rightarrow> item_row) \<Rightarrow> db \<Rightarrow> db" where
  "update_items r i f db = db\<lparr>items := update_where (same_item r i) f (items db)\<rparr>"

definition update_attempt :: "string \<Rightarrow> (attempt_row \<Rightarrow> attempt_row) \<Rightarrow> db \<Rightarrow> db" where
  "update_attempt a f db = db\<lparr>attempts := update_where (\<lambda>row. at_id row = a) f (attempts db)\<rparr>"

definition take_uuid :: "db \<Rightarrow> db" where
  "take_uuid db = db\<lparr>uuids := Suc (uuids db)\<rparr>"

end
