(* ===== verification/Workflow_Repository.thy ===== *)
theory Workflow_Repository
  imports Workflow_Tables
begin

text \<open>
  \<open>SqlWorkflowRepository\<close> of \<open>orchestrator/workflow_repository.py\<close>. An operation takes the
  database and gives the new database with its result, or an exception; a transaction that
  raises is rolled back, so the caller goes on with the database it had. Each operation reads
  the clock once (\<open>now\<close>), and \<open>uuid n\<close> is the \<open>n\<close>-th identifier \<open>uuid4\<close> returns.
\<close>

section \<open>Recording and projecting events\<close>

definition event_obj :: "workflow_event \<Rightarrow> obj" where
  "event_obj ev =
     [(''event_id'', JStr (event_id ev)),
      (''version'', jopt JInt (event_version ev)),
      (''actor'', JStr (actor ev)),
      (''created_at'', JInt (created_at ev)),
      (''payload'', JObj (payload ev))]"

definition record_event :: "(nat \<Rightarrow> string) \<Rightarrow> db \<Rightarrow> workflow_event \<Rightarrow> db result" where
  "record_event uuid db ev =
     rbind (insert_row ''workflow_events''
              (\<lambda>e. event_id e = event_id ev \<or>
                    event_run_id e = event_run_id ev \<and> event_version e = event_version ev)
              ev (events db)) (\<lambda>evs.
     rbind (insert_row ''workflow_outbox''
              (\<lambda>o'. ob_id o' = uuid (uuids db) \<or> ob_event o' = event_id ev)
              \<lparr>ob_id = uuid (uuids db), ob_event = event_id ev, ob_run = event_run_id ev,
               ob_type = event_type ev, ob_payload = event_obj ev, ob_created = created_at ev,
               ob_published = None\<rparr>
              (outbox db)) (\<lambda>obs.
     Inr (take_uuid (db\<lparr>events := evs, outbox := obs\<rparr>))))"

text \<open>The rows \<open>_project_event\<close> writes for the items of a committed plan.\<close>

definition project_plan_item :: "string \<Rightarrow> int \<Rightarrow> time \<Rightarrow> db \<Rightarrow> json \<Rightarrow> db result" where
  "project_plan_item r rv now db v =
     rbind (as_mapping v) (\<lambda>item.
     rbind (rbind (jindex item ''id'') str_col) (\<lambda>i.
     rbind (as_mapping (py_or (jget item ''budget'') (JObj []))) (\<lambda>bud.
     rbind (py_int (dget bud ''max_attempts'' (JInt 3))) (\<lambda>ma.
     let caps = dget item ''required_capabilities'' (JList []) in
     case find_row db r i of
       None \<Rightarrow> Inr (db\<lparr>items := items db @
         [\<lparr>it_run = r, it_id = i, it_plan_revision = rv, it_json = item,
           it_status = WPending, it_caps = caps, it_priority = 0, it_not_before = None,
           it_attempts = 0, it_max_attempts = ma, it_fence = 0, it_owner = None,
           it_lease = None, it_attempt = None, it_created = now, it_updated = now\<rparr>]\<rparr>)
     | Some _ \<Rightarrow> Inr (update_items r i
         (\<lambda>row. row\<lparr>it_plan_revision := rv, it_json := item, it_caps := caps,
                    it_max_attempts := ma, it_updated := now\<rparr>) db)))))"

definition plan_item_ids :: "json list \<Rightarrow> string list result" where
  "plan_item_ids vs = rmap (\<lambda>v. rbind (as_mapping v) (\<lambda>item. rbind (jindex item ''id'') str_col)) vs"

definition project_plan :: "db \<Rightarrow> workflow_event \<Rightarrow> db result" where
  "project_plan db ev =
     (let r = event_run_id ev; now = created_at ev in
     rbind (rbind (jindex (payload ev) ''plan'') dict_or_empty) (\<lambda>plan.
     rbind (rbind (jindex plan ''revision'') int_col) (\<lambda>rv.
     let db1 = db\<lparr>approvals := update_where
                 (\<lambda>a. ap_run a = r \<and> ap_status a \<in> {''pending'', ''approved''} \<and>
                      \<not> py_eq (ap_revision a) (JInt rv))
                 (\<lambda>a. a\<lparr>ap_status := ''invalidated'', ap_decided := Some now\<rparr>) (approvals db)\<rparr> in
     rbind (insert_row ''plan_revisions'' (\<lambda>p. pl_run p = r \<and> pl_revision p = rv)
              \<lparr>pl_run = r, pl_revision = rv, pl_plan = plan,
               pl_reason = jget (payload ev) ''reason'', pl_created = now\<rparr> (plans db1)) (\<lambda>pls.
     rbind (rbind (jindex plan ''work_items'') py_iter) (\<lambda>vs.
     rbind (rfold (project_plan_item r rv now) (db1\<lparr>plans := pls\<rparr>) vs) (\<lambda>db2.
     rbind (plan_item_ids vs) (\<lambda>ids.
     Inr (db2\<lparr>items := update_where
            (\<lambda>row. it_run row = r \<and> it_status row \<noteq> WSucceeded \<and> (ids \<noteq> [] \<longrightarrow> it_id row \<notin> set ids))
            (\<lambda>row. row\<lparr>it_status := WCancelled, it_updated := now\<rparr>) (items db2)\<rparr>))))))))"

text \<open>\<open>work_ready\<close>, \<open>work_blocked\<close>: only the status moves.\<close>

definition project_work_status :: "work_status \<Rightarrow> db \<Rightarrow> workflow_event \<Rightarrow> db result" where
  "project_work_status target db ev =
     rbind (rbind (jindex (payload ev) ''work_item_id'') str_col) (\<lambda>i.
     Inr (update_items (event_run_id ev) i
            (\<lambda>row. row\<lparr>it_status := target, it_updated := created_at ev\<rparr>) db))"

definition truthy_id :: "string option \<Rightarrow> string option" where
  "truthy_id a = (case a of Some s \<Rightarrow> if s = [] then None else Some s | None \<Rightarrow> None)"

definition project_work_cancelled :: "db \<Rightarrow> workflow_event \<Rightarrow> db result" where
  "project_work_cancelled db ev =
     rbind (rbind (jindex (payload ev) ''work_item_id'') str_col) (\<lambda>i.
     let r = event_run_id ev; now = created_at ev;
         current = (case find_row db r i of None \<Rightarrow> None | Some row \<Rightarrow> truthy_id (it_attempt row));
         db1 = (case current of
                  None \<Rightarrow> db
                | Some a \<Rightarrow>
                    (update_attempt a
                       (\<lambda>row. if live_attempt (at_status row)
                              then row\<lparr>at_status := AStatus WCancelled, at_completed := Some now,
                                       at_outcome := Some [(''cancelled'', JBool True),
                                         (''reason'', dget (payload ev) ''reason'' (JStr ''work cancelled''))]\<rparr>
                              else row) db)
                    \<lparr>locks := update_where (\<lambda>l. lk_attempt l = Some a)
                       (\<lambda>l. l\<lparr>lk_attempt := None, lk_lease := None, lk_updated := now\<rparr>) (locks db)\<rparr>)
     in Inr (update_items r i
          (\<lambda>row. row\<lparr>it_status := WCancelled, it_updated := now, it_attempt := None,
                     it_owner := None, it_lease := None, it_not_before := None\<rparr>) db1))"

definition project_work_leased :: "db \<Rightarrow> workflow_event \<Rightarrow> db result" where
  "project_work_leased db ev =
     rbind (rbind (jindex (payload ev) ''work_item_id'') str_col) (\<lambda>i.
     rbind (case map_of (payload ev) ''attempt_id'' of
              None \<Rightarrow> Inr None
            | Some v \<Rightarrow> rbind (str_col v) (\<lambda>s. Inr (Some s))) (\<lambda>a.
     Inr (update_items (event_run_id ev) i
            (\<lambda>row. row\<lparr>it_status := WLeased, it_updated := created_at ev, it_attempt := a\<rparr>) db)))"

definition project_work_started :: "db \<Rightarrow> workflow_event \<Rightarrow> db result" where
  "project_work_started db ev =
     rbind (rbind (jindex (payload ev) ''work_item_id'') str_col) (\<lambda>i.
     case find_row db (event_run_id ev) i of
       None \<Rightarrow> Inl (NoResultFound ''work_items'')
     | Some item \<Rightarrow>
         let target = (if py_eq (jget (it_json item) ''kind'') (JStr ''verify'')
                       then WVerifying else WRunning)
         in Inr (update_items (event_run_id ev) i
                   (\<lambda>row. row\<lparr>it_status := target, it_updated := created_at ev\<rparr>) db))"

definition finish_item :: "work_status \<Rightarrow> time \<Rightarrow> item_row \<Rightarrow> item_row" where
  "finish_item target now row =
     row\<lparr>it_status := target, it_updated := now, it_attempt := None, it_owner := None,
         it_lease := None\<rparr>"

definition project_work_succeeded :: "db \<Rightarrow> workflow_event \<Rightarrow> db result" where
  "project_work_succeeded db ev =
     rbind (rbind (jindex (payload ev) ''work_item_id'') str_col) (\<lambda>i.
     Inr (update_items (event_run_id ev) i (finish_item WSucceeded (created_at ev)) db))"

definition project_work_failed :: "db \<Rightarrow> workflow_event \<Rightarrow> db result" where
  "project_work_failed db ev =
     rbind (rbind (jindex (payload ev) ''work_item_id'') str_col) (\<lambda>i.
     rbind (rbind (str_col (dget (payload ev) ''next_status'' (JStr (work_status_value WFailed))))
              failure_target) (\<lambda>target.
     let now = created_at ev; db1 = update_items (event_run_id ev) i (finish_item target now) db in
     rbind (insert_row ''workflow_evidence'' (\<lambda>e. ev_id e = event_id ev)
              \<lparr>ev_id = event_id ev, ev_run = event_run_id ev, ev_item = JStr i,
               ev_kind = ''execution_failure'',
               ev_payload = [(''attempt_id'', jget (payload ev) ''attempt_id''),
                             (''outcome'', py_or (jget (payload ev) ''outcome'') (JObj [])),
                             (''next_status'', JStr (work_status_value target))],
               ev_created = now\<rparr> (evidence db1)) (\<lambda>evd.
     Inr (db1\<lparr>evidence := evd\<rparr>))))"

definition project_evidence :: "db \<Rightarrow> workflow_event \<Rightarrow> db result" where
  "project_evidence db ev =
     rbind (py_str (py_or (jget (payload ev) ''evidence_id'') (JStr (event_id ev)))) (\<lambda>e.
     rbind (py_str (dget (payload ev) ''kind'' (JStr ''diagnostic''))) (\<lambda>k.
     rbind (insert_row ''workflow_evidence'' (\<lambda>row. ev_id row = e)
              \<lparr>ev_id = e, ev_run = event_run_id ev, ev_item = jget (payload ev) ''work_item_id'',
               ev_kind = k, ev_payload = payload ev, ev_created = created_at ev\<rparr> (evidence db)) (\<lambda>evd.
     Inr (db\<lparr>evidence := evd\<rparr>))))"

definition artifact_columns :: "string list" where
  "artifact_columns =
     [''id'', ''run_id'', ''work_item_id'', ''uri'', ''sha256'', ''size'', ''media_type'',
      ''sensitivity'', ''name'']"

definition project_artifact :: "db \<Rightarrow> workflow_event \<Rightarrow> db result" where
  "project_artifact db ev =
     (let pl = payload ev in
     rbind (rbind (jindex pl ''id'') str_col) (\<lambda>i.
     if list_ex (\<lambda>a. ar_id a = i) (artifacts db) then Inr db
     else
       rbind (rbind (jindex pl ''uri'') str_col) (\<lambda>uri.
       rbind (rbind (jindex pl ''sha256'') str_col) (\<lambda>sha.
       rbind (py_int (dget pl ''size'' (JInt 0))) (\<lambda>sz.
       Inr (db\<lparr>artifacts := artifacts db @
         [\<lparr>ar_id = i, ar_run = event_run_id ev, ar_item = jget pl ''work_item_id'', ar_uri = uri,
           ar_sha = sha, ar_size = sz, ar_media = jget pl ''media_type'',
           ar_sensitivity = dget pl ''sensitivity'' (JStr ''internal''),
           ar_name = jget pl ''name'',
           ar_metadata = filter (\<lambda>kv. fst kv \<notin> set artifact_columns) pl,
           ar_created = created_at ev\<rparr>]\<rparr>))))))"

definition project_approval_requested :: "db \<Rightarrow> workflow_event \<Rightarrow> db result" where
  "project_approval_requested db ev =
     (let pl = payload ev in
     rbind (rbind (jindex pl ''approval_id'') str_col) (\<lambda>a.
     rbind (jindex pl ''plan_revision'') (\<lambda>rv.
     rbind (jindex pl ''effect_digest'') (\<lambda>dg.
     rbind (insert_row ''workflow_approvals'' (\<lambda>row. ap_id row = a)
              \<lparr>ap_id = a, ap_run = event_run_id ev, ap_revision = rv, ap_digest = dg,
               ap_status = ''pending'', ap_requested_by = actor ev, ap_decided_by = JNull,
               ap_reason = JNull, ap_created = created_at ev, ap_decided = None\<rparr> (approvals db)) (\<lambda>aps.
     Inr (db\<lparr>approvals := aps\<rparr>))))))"

definition project_approval_decided :: "db \<Rightarrow> workflow_event \<Rightarrow> db result" where
  "project_approval_decided db ev =
     (let pl = payload ev in
     rbind (rbind (jindex pl ''approval_id'') str_col) (\<lambda>a.
     Inr (db\<lparr>approvals := update_where (\<lambda>row. ap_id row = a)
            (\<lambda>row. row\<lparr>ap_status := (if truthy (jget pl ''approved'') then ''approved'' else ''rejected''),
                       ap_decided_by := jget pl ''decided_by'', ap_reason := jget pl ''reason'',
                       ap_decided := Some (created_at ev)\<rparr>) (approvals db)\<rparr>)))"

definition project_event :: "db \<Rightarrow> workflow_event \<Rightarrow> db result" where
  "project_event db ev =
     (let ty = event_type ev in
      if ty = ''plan_committed'' then project_plan db ev
      else if ty = ''work_ready'' then project_work_status WReady db ev
      else if ty = ''work_blocked'' then project_work_status WBlocked db ev
      else if ty = ''work_cancelled'' then project_work_cancelled db ev
      else if ty = ''work_leased'' then project_work_leased db ev
      else if ty = ''work_started'' then project_work_started db ev
      else if ty = ''work_succeeded'' then project_work_succeeded db ev
      else if ty = ''work_failed'' then project_work_failed db ev
      else if ty = ''evidence_recorded'' then project_evidence db ev
      else if ty = ''artifact_registered'' then project_artifact db ev
      else if ty = ''approval_requested'' then project_approval_requested db ev
      else if ty = ''approval_decided'' then project_approval_decided db ev
      else Inr db)"

text \<open>The loop of \<open>_append_locked\<close>: number, reduce, record and project each event.\<close>

fun append_loop ::
    "(nat \<Rightarrow> string) \<Rightarrow> bool \<Rightarrow> string \<Rightarrow> int \<Rightarrow> aggregate \<Rightarrow> db \<Rightarrow> workflow_event list
     \<Rightarrow> (aggregate \<times> db) result" where
  "append_loop uuid project r version ag db [] = Inr (ag, db)"
| "append_loop uuid project r version ag db (ev # evs) =
     rbind (raise_unless (event_run_id ev = r)
              (DomainError ''cannot append event to a different run'' [])) (\<lambda>_.
     let materialized = ev\<lparr>event_version := Some (version + 1)\<rparr> in
     rbind (apply_event ag materialized) (\<lambda>ag'.
     rbind (record_event uuid db materialized) (\<lambda>db1.
     rbind (if project then project_event db1 materialized else Inr db1) (\<lambda>db2.
     append_loop uuid project r (version + 1) ag' db2 evs))))"

definition store_snapshot :: "aggregate \<Rightarrow> run_row \<Rightarrow> run_row" where
  "store_snapshot ag row =
     row\<lparr>rn_status := ag_status ag, rn_version := ag_version ag,
         rn_plan_revision := ag_plan_revision ag, rn_snapshot := ag,
         rn_updated := (case ag_updated_at ag of Some t \<Rightarrow> t | None \<Rightarrow> rn_updated row)\<rparr>"

definition append_locked ::
    "(nat \<Rightarrow> string) \<Rightarrow> bool \<Rightarrow> db \<Rightarrow> run_row \<Rightarrow> aggregate \<Rightarrow> workflow_event list
     \<Rightarrow> (aggregate \<times> db) result" where
  "append_locked uuid project db run_row ag evs =
     rbind (append_loop uuid project (rn_id run_row) (rn_version run_row) ag db evs) (\<lambda>(ag', db').
     let matches = (\<lambda>row. rn_id row = rn_id run_row \<and> rn_version row = rn_version run_row) in
     rbind (raise_unless (length (filter matches (runs db')) = 1)
              (ConcurrencyError ''run {} changed during append'' [rn_id run_row])) (\<lambda>_.
     Inr (ag', db'\<lparr>runs := update_where matches (store_snapshot ag') (runs db')\<rparr>)))"

definition lock_run :: "db \<Rightarrow> string \<Rightarrow> run_row result" where
  "lock_run db r = (case find_run db r of None \<Rightarrow> Inl (FileNotFoundError r) | Some row \<Rightarrow> Inr row)"

section \<open>Projects, members and runs\<close>

definition create_project :: "time \<Rightarrow> string \<Rightarrow> string option \<Rightarrow> db \<Rightarrow> db" where
  "create_project now project_id name db =
     db\<lparr>projects :=
          (if list_ex (\<lambda>p. pr_id p = project_id) (projects db) then projects db
           else projects db @ [\<lparr>pr_id = project_id,
             pr_name = (case truthy_id name of Some n \<Rightarrow> n | None \<Rightarrow> project_id),
             pr_max_runs = 20, pr_max_active = 200, pr_created = now\<rparr>]),
        locks :=
          (if list_ex (\<lambda>l. lk_project l = project_id) (locks db) then locks db
           else locks db @ [\<lparr>lk_project = project_id, lk_attempt = None, lk_lease = None,
             lk_updated = now\<rparr>])\<rparr>"

definition set_project_limits :: "time \<Rightarrow> string \<Rightarrow> int \<Rightarrow> int \<Rightarrow> db \<Rightarrow> db result" where
  "set_project_limits now project_id max_runs max_active db =
     rbind (raise_unless (\<not> (max_runs < 1 \<or> max_active < 1))
              (DomainError ''project limits must be positive'' [])) (\<lambda>_.
     let db1 = create_project now project_id None db in
     Inr (db1\<lparr>projects := update_where (\<lambda>p. pr_id p = project_id)
            (\<lambda>p. p\<lparr>pr_max_runs := max_runs, pr_max_active := max_active\<rparr>) (projects db1)\<rparr>))"

definition set_membership :: "time \<Rightarrow> string \<Rightarrow> string \<Rightarrow> string \<Rightarrow> db \<Rightarrow> db result" where
  "set_membership now project_id subject role db =
     rbind (raise_unless (role \<in> {''owner'', ''operator'', ''approver'', ''viewer''})
              (DomainError ''unknown project role: {}'' [role])) (\<lambda>_.
     let db1 = create_project now project_id None db;
         is_row = (\<lambda>m. mb_project m = project_id \<and> mb_subject m = subject) in
     Inr (db1\<lparr>memberships :=
            (if list_ex is_row (memberships db1)
             then update_where is_row (\<lambda>m. m\<lparr>mb_role := role\<rparr>) (memberships db1)
             else memberships db1 @ [\<lparr>mb_project = project_id, mb_subject = subject,
                    mb_role = role, mb_created = now\<rparr>])\<rparr>))"

definition get_membership_role :: "db \<Rightarrow> string \<Rightarrow> string \<Rightarrow> string option" where
  "get_membership_role db project_id subject =
     map_option mb_role
       (first_where (\<lambda>m. mb_project m = project_id \<and> mb_subject m = subject) (memberships db))"

definition open_run :: "run_row \<Rightarrow> bool" where
  "open_run row \<longleftrightarrow>
     rn_status row \<in> {Some RQueued, Some RRunning, Some RPaused, Some RWaitingApproval}"

definition run_by_key :: "db \<Rightarrow> string \<Rightarrow> string option \<Rightarrow> run_row option" where
  "run_by_key db project_id key =
     (case truthy_id key of
        None \<Rightarrow> None
      | Some k \<Rightarrow> first_where (\<lambda>row. rn_project row = project_id \<and> rn_key row = Some k) (runs db))"

text \<open>The row of a new run, its first event, and the insertion of both.\<close>

definition new_run_row :: "string \<Rightarrow> string \<Rightarrow> string \<Rightarrow> string option \<Rightarrow> time \<Rightarrow> aggregate \<Rightarrow> run_row" where
  "new_run_row rid project_id goal key now ag =
     \<lparr>rn_id = rid, rn_project = project_id, rn_goal = goal, rn_status = ag_status ag,
      rn_version = ag_version ag, rn_plan_revision = None, rn_snapshot = ag, rn_key = key,
      rn_created = now, rn_updated = now\<rparr>"

definition insert_run ::
    "(nat \<Rightarrow> string) \<Rightarrow> time \<Rightarrow> string \<Rightarrow> string \<Rightarrow> obj \<Rightarrow> string option \<Rightarrow> string \<Rightarrow> string
     \<Rightarrow> db \<Rightarrow> (aggregate \<times> db) result" where
  "insert_run uuid now project_id goal policy key rid act db =
     (let ev = (event_create (uuid (uuids db)) now rid ''run_created''
                  [(''project_id'', JStr project_id), (''goal'', JStr goal),
                   (''policy'', JObj policy)] act)\<lparr>event_version := Some 1\<rparr>;
          db1 = take_uuid db in
      rbind (apply_event (empty_aggregate rid) ev) (\<lambda>ag.
      rbind (insert_row ''workflow_runs''
               (\<lambda>row. rn_id row = rid \<or> rn_project row = project_id \<and> key \<noteq> None \<and> rn_key row = key)
               (new_run_row rid project_id goal key now ag) (runs db1)) (\<lambda>rns.
      rbind (record_event uuid (db1\<lparr>runs := rns\<rparr>) ev) (\<lambda>db2.
      Inr (ag, db2)))))"

definition open_runs :: "db \<Rightarrow> string \<Rightarrow> int" where
  "open_runs db project_id =
     int (length (filter (\<lambda>row. rn_project row = project_id \<and> open_run row) (runs db)))"

definition create_run ::
    "(nat \<Rightarrow> string) \<Rightarrow> time \<Rightarrow> string \<Rightarrow> string \<Rightarrow> obj \<Rightarrow> string option \<Rightarrow> string option \<Rightarrow> string
     \<Rightarrow> db \<Rightarrow> (aggregate \<times> db) result" where
  "create_run uuid now project_id goal policy key run_id act db =
     rbind (raise_unless (\<not> py_blank goal) (DomainError ''run goal is required'' [])) (\<lambda>_.
     let db1 = create_project now project_id None db in
     case run_by_key db1 project_id key of
       Some row \<Rightarrow> Inr (rn_snapshot row, db1)
     | None \<Rightarrow>
         (case first_where (\<lambda>p. pr_id p = project_id) (projects db1) of
            None \<Rightarrow> Inl (NoResultFound ''projects'')
          | Some proj \<Rightarrow>
              rbind (raise_unless (\<not> pr_max_runs proj \<le> open_runs db1 project_id)
                       (DomainError ''project {} reached its concurrent run limit ({})''
                          [project_id, show_int (pr_max_runs proj)])) (\<lambda>_.
              case truthy_id run_id of
                Some r \<Rightarrow> insert_run uuid now project_id goal policy key r act db1
              | None \<Rightarrow> insert_run uuid now project_id goal policy key (uuid (uuids db1)) act
                          (take_uuid db1))))"

definition get_snapshot :: "db \<Rightarrow> string \<Rightarrow> aggregate result" where
  "get_snapshot db r =
     (case find_run db r of None \<Rightarrow> Inl (FileNotFoundError r) | Some row \<Rightarrow> Inr (rn_snapshot row))"

definition append_events ::
    "(nat \<Rightarrow> string) \<Rightarrow> string \<Rightarrow> int \<Rightarrow> workflow_event list \<Rightarrow> db \<Rightarrow> (aggregate \<times> db) result" where
  "append_events uuid r expected_version evs db =
     (if evs = [] then rbind (get_snapshot db r) (\<lambda>ag. Inr (ag, db))
      else
        rbind (lock_run db r) (\<lambda>row.
        if rn_version row \<noteq> expected_version then
          (if length (filter (\<lambda>e. event_id e \<in> set (map event_id evs)) (events db)) = length evs
           then Inr (rn_snapshot row, db)
           else Inl (ConcurrencyError ''run {} expected version {}, current is {}''
                       [r, show_int expected_version, show_int (rn_version row)]))
        else append_locked uuid True db row (rn_snapshot row) evs))"

end
