(* ===== verification/Workflow_Leases.thy ===== *)
theory Workflow_Leases
  imports Workflow_Repository
begin

text \<open>
  The worker protocol of \<open>orchestrator/workflow_repository.py\<close>: claiming ready work under a
  lease, and the operations an attempt performs with its fencing token until it completes or
  its lease is reaped. Claims run one at a time (the SQLite claim lock, the row locks of
  PostgreSQL), so each operation is one step on the database.
\<close>

section \<open>Leases and retries\<close>

text \<open>\<open>LEASE_SECONDS\<close>, in microseconds.\<close>

definition lease_span :: time where
  "lease_span = 60 * 1000000"

text \<open>\<open>timedelta(seconds=x)\<close> in microseconds: the fraction is rounded half to even.\<close>

definition timedelta_micros :: "rat \<Rightarrow> time" where
  "timedelta_micros x =
     trunc_rat x * 1000000 + round_half_even (fl (1000000 * (x - of_int (trunc_rat x))))"

definition next_status_after_failure :: "bool \<Rightarrow> item_row \<Rightarrow> work_status" where
  "next_status_after_failure retryable item =
     (if retryable \<and> it_attempts item < it_max_attempts item then WReady else WFailed)"

text \<open>\<open>base\<close> is \<open>retry_backoff_base_seconds\<close>; the constructor takes \<open>max(0.0, base)\<close>.\<close>

definition retry_delay :: "rat \<Rightarrow> work_status \<Rightarrow> item_row \<Rightarrow> rat" where
  "retry_delay base target item =
     (if target = WReady then fl (max 0 base * 2 ^ nat (max 0 (it_attempts item - 1))) else 0)"

definition delay_json :: "work_status \<Rightarrow> rat \<Rightarrow> json" where
  "delay_json target delay = (if target = WReady then JFloat delay else JInt 0)"

definition retry_at :: "time \<Rightarrow> rat \<Rightarrow> time option" where
  "retry_at now delay = (if delay = 0 then None else Some (now + timedelta_micros delay))"

section \<open>Helpers\<close>

definition lock_attempt :: "db \<Rightarrow> string \<Rightarrow> int \<Rightarrow> (attempt_row \<times> item_row) result" where
  "lock_attempt db a fence =
     (case find_attempt db a of
        None \<Rightarrow> Inl (FileNotFoundError a)
      | Some att \<Rightarrow>
          (case find_row db (at_run att) (at_item att) of
             None \<Rightarrow> Inl (StaleLeaseError ''stale fencing token for attempt {}'' [a])
           | Some item \<Rightarrow>
               if at_fence att \<noteq> fence \<or> it_fence item \<noteq> fence
               then Inl (StaleLeaseError ''stale fencing token for attempt {}'' [a])
               else Inr (att, item)))"

definition snapshot_locked :: "db \<Rightarrow> string \<Rightarrow> aggregate result" where
  "snapshot_locked db r =
     (case find_run db r of
        None \<Rightarrow> Inl (NoResultFound ''workflow_runs'') | Some row \<Rightarrow> Inr (rn_snapshot row))"

definition run_project :: "db \<Rightarrow> string \<Rightarrow> string result" where
  "run_project db r =
     (case find_run db r of
        None \<Rightarrow> Inl (NoResultFound ''workflow_runs'') | Some row \<Rightarrow> Inr (rn_project row))"

text \<open>The newest checkpoint of any attempt of the item, by creation time, then sequence.\<close>

fun newest_checkpoint :: "checkpoint_row list \<Rightarrow> checkpoint_row option" where
  "newest_checkpoint [] = None"
| "newest_checkpoint (c # cs) =
     (case newest_checkpoint cs of
        None \<Rightarrow> Some c
      | Some d \<Rightarrow> if (cp_created c, cp_seq c) < (cp_created d, cp_seq d) then Some d else Some c)"

definition latest_checkpoint_for_item :: "db \<Rightarrow> string \<Rightarrow> string \<Rightarrow> obj option" where
  "latest_checkpoint_for_item db r i =
     map_option cp_json (newest_checkpoint
       (filter (\<lambda>c. list_ex (\<lambda>a. at_id a = cp_attempt c \<and> at_run a = r \<and> at_item a = i) (attempts db))
          (checkpoints db)))"

definition upsert_worker :: "string \<Rightarrow> string list \<Rightarrow> time \<Rightarrow> bool \<Rightarrow> db \<Rightarrow> db" where
  "upsert_worker w caps now preserve db =
     (let sorted_caps = sort (remdups caps) in
      db\<lparr>workers :=
        (if list_ex (\<lambda>row. wk_id row = w) (workers db)
         then update_where (\<lambda>row. wk_id row = w)
                (\<lambda>row. row\<lparr>wk_status := ''online'', wk_seen := now,
                           wk_caps := (if preserve then wk_caps row else sorted_caps)\<rparr>) (workers db)
         else workers db @ [\<lparr>wk_id = w, wk_caps = sorted_caps, wk_status = ''online'',
                wk_seen = now\<rparr>])\<rparr>)"

text \<open>\<open>UPDATE project_integration_locks ... WHERE project_id = p AND attempt_id = a\<close>.\<close>

definition set_lock_lease :: "string \<Rightarrow> string \<Rightarrow> time \<Rightarrow> time \<Rightarrow> db \<Rightarrow> db" where
  "set_lock_lease p a until now db =
     db\<lparr>locks := update_where (\<lambda>l. lk_project l = p \<and> lk_attempt l = Some a)
          (\<lambda>l. l\<lparr>lk_lease := Some until, lk_updated := now\<rparr>) (locks db)\<rparr>"

definition drop_lock :: "string \<Rightarrow> string option \<Rightarrow> time \<Rightarrow> db \<Rightarrow> db" where
  "drop_lock p a now db =
     db\<lparr>locks := update_where (\<lambda>l. lk_project l = p \<and> lk_attempt l = a)
          (\<lambda>l. l\<lparr>lk_attempt := None, lk_lease := None, lk_updated := now\<rparr>) (locks db)\<rparr>"

definition release_integration_lock ::
    "attempt_row \<Rightarrow> item_row \<Rightarrow> time \<Rightarrow> db \<Rightarrow> db result" where
  "release_integration_lock att item now db =
     (if \<not> is_integration (it_json item) then Inr db
      else rbind (run_project db (at_run att)) (\<lambda>p. Inr (drop_lock p (Some (at_id att)) now db)))"

text \<open>
  The end of an operation of a worker: one event on the run, recorded and reduced, not
  projected again (\<open>_append_locked(..., project=False)\<close>).
\<close>

definition append_own ::
    "(nat \<Rightarrow> string) \<Rightarrow> time \<Rightarrow> string \<Rightarrow> string \<Rightarrow> obj \<Rightarrow> string \<Rightarrow> db \<Rightarrow> (aggregate \<times> db) result" where
  "append_own uuid now r ty pl act db =
     rbind (lock_run db r) (\<lambda>row.
     append_locked uuid False (take_uuid db) row (rn_snapshot row)
       [event_create (uuid (uuids db)) now r ty pl act])"

definition worker_actor :: "string \<Rightarrow> string" where
  "worker_actor w = ''worker:'' @ w"

section \<open>Claiming work\<close>

text \<open>The candidate rows of the query, each with the project of its run.\<close>

definition claimable :: "time \<Rightarrow> string option \<Rightarrow> db \<Rightarrow> item_row \<Rightarrow> bool" where
  "claimable now run_filter db item \<longleftrightarrow>
     it_status item = WReady \<and>
     (case find_run db (it_run item) of None \<Rightarrow> False | Some row \<Rightarrow> rn_status row = Some RRunning) \<and>
     (case it_not_before item of None \<Rightarrow> True | Some t \<Rightarrow> t \<le> now) \<and>
     (case run_filter of None \<Rightarrow> True | Some r \<Rightarrow> it_run item = r)"

text \<open>A negative \<open>LIMIT\<close> is no limit in SQLite.\<close>

definition sql_limit :: "int \<Rightarrow> 'a list \<Rightarrow> 'a list" where
  "sql_limit n xs = (if n < 0 then xs else take (nat n) xs)"

text \<open>Rows that tie in \<open>ORDER BY priority DESC, created_at\<close> keep the order of the table.\<close>

definition claim_candidates :: "time \<Rightarrow> string option \<Rightarrow> int \<Rightarrow> db \<Rightarrow> item_row list" where
  "claim_candidates now run_filter limit db =
     sql_limit (max (limit * 8) limit)
       (sort_key (\<lambda>item. (- it_priority item, it_created item))
          (filter (claimable now run_filter db) (items db)))"

definition required_capabilities_of :: "item_row \<Rightarrow> json list result" where
  "required_capabilities_of item =
     rbind (py_iter (py_or (it_caps item) (JList []))) (\<lambda>vs.
     rbind (raise_unless (list_all (\<lambda>v. case v of JList _ \<Rightarrow> False | JObj _ \<Rightarrow> False | _ \<Rightarrow> True) vs)
              (TypeError ''unhashable type'')) (\<lambda>_. Inr vs))"

definition covers :: "string list \<Rightarrow> json list \<Rightarrow> bool" where
  "covers caps required \<longleftrightarrow> list_all (\<lambda>v. list_ex (\<lambda>c. v = JStr c) caps) required"

definition active_count :: "db \<Rightarrow> string \<Rightarrow> int" where
  "active_count db p =
     int (length (filter (\<lambda>item. active_status (it_status item) \<and>
        (case find_run db (it_run item) of None \<Rightarrow> False | Some row \<Rightarrow> rn_project row = p))
        (items db)))"

text \<open>
  The loop state: the database, the leases granted, the caches \<open>active_by_project\<close> and
  \<open>limit_by_project\<close>, and whether the loop has hit its \<open>break\<close>.
\<close>

record claim_state =
  cs_db :: db
  cs_claimed :: "leased_work_item list"
  cs_active :: "int dict"
  cs_limit :: "int dict"
  cs_done :: bool

definition cache_project :: "string \<Rightarrow> claim_state \<Rightarrow> claim_state result" where
  "cache_project p cs =
     (if map_of (cs_active cs) p \<noteq> None then Inr cs
      else (case first_where (\<lambda>row. pr_id row = p) (projects (cs_db cs)) of
              None \<Rightarrow> Inl (NoResultFound ''projects'')
            | Some row \<Rightarrow>
                Inr (cs\<lparr>cs_limit := dset p (pr_max_active row) (cs_limit cs),
                        cs_active := dset p (active_count (cs_db cs) p) (cs_active cs)\<rparr>)))"

text \<open>\<open>lock["attempt_id"] and lock["lease_expires_at"] and lease > now\<close>.\<close>

definition lock_is_held :: "time \<Rightarrow> lock_row \<Rightarrow> bool" where
  "lock_is_held now l \<longleftrightarrow>
     truthy_id (lk_attempt l) \<noteq> None \<and> (case lk_lease l of None \<Rightarrow> False | Some t \<Rightarrow> now < t)"

definition integration_busy :: "time \<Rightarrow> string \<Rightarrow> item_row \<Rightarrow> db \<Rightarrow> bool result" where
  "integration_busy now p item db =
     (if \<not> is_integration (it_json item) then Inr False
      else (case first_where (\<lambda>l. lk_project l = p) (locks db) of
              None \<Rightarrow> Inl (NoResultFound ''project_integration_locks'')
            | Some l \<Rightarrow> Inr (lock_is_held now l)))"

text \<open>The guarded \<open>UPDATE work_items\<close> of a claim, and whether it changed a row.\<close>

definition claim_guard :: "item_row \<Rightarrow> item_row \<Rightarrow> bool" where
  "claim_guard seen row \<longleftrightarrow>
     same_item (it_run seen) (it_id seen) row \<and> it_status row = WReady \<and> it_fence row = it_fence seen"

definition lease_row :: "string \<Rightarrow> time \<Rightarrow> string \<Rightarrow> item_row \<Rightarrow> item_row \<Rightarrow> item_row" where
  "lease_row w now a seen row =
     row\<lparr>it_status := WLeased, it_attempts := it_attempts seen + 1, it_fence := it_fence seen + 1,
         it_owner := Some w, it_lease := Some (now + lease_span), it_attempt := Some a,
         it_updated := now\<rparr>"

definition new_attempt :: "string \<Rightarrow> time \<Rightarrow> string \<Rightarrow> item_row \<Rightarrow> attempt_row" where
  "new_attempt w now a seen =
     \<lparr>at_id = a, at_run = it_run seen, at_item = it_id seen, at_number = it_attempts seen + 1,
      at_worker = w, at_fence = it_fence seen + 1, at_status = AStatus WLeased,
      at_lease = now + lease_span, at_started = None, at_completed = None, at_outcome = None,
      at_created = now\<rparr>"

definition take_integration_lock :: "time \<Rightarrow> string \<Rightarrow> string \<Rightarrow> item_row \<Rightarrow> db \<Rightarrow> db" where
  "take_integration_lock now p a item db =
     (if is_integration (it_json item)
      then db\<lparr>locks := update_where (\<lambda>l. lk_project l = p)
             (\<lambda>l. l\<lparr>lk_attempt := Some a, lk_lease := Some (now + lease_span), lk_updated := now\<rparr>)
             (locks db)\<rparr>
      else db)"

definition grant_lease ::
    "(nat \<Rightarrow> string) \<Rightarrow> string \<Rightarrow> time \<Rightarrow> string \<Rightarrow> item_row \<Rightarrow> db \<Rightarrow> (leased_work_item \<times> db) option result" where
  "grant_lease uuid w now p item db =
     (let a = uuid (uuids db); db0 = take_uuid db in
      if \<not> list_ex (claim_guard item) (items db0) then Inr None
      else
        rbind (insert_row ''work_attempts''
                 (\<lambda>row. at_id row = a \<or> at_run row = it_run item \<and> at_item row = it_id item \<and>
                         at_number row = it_attempts item + 1)
                 (new_attempt w now a item) (attempts db0)) (\<lambda>atts.
        rbind (append_own uuid now (it_run item) ''work_leased''
                 [(''work_item_id'', JStr (it_id item)), (''attempt_id'', JStr a)]
                 (worker_actor w)
                 (take_integration_lock now p a item
                    (db0\<lparr>items := update_where (claim_guard item) (lease_row w now a item) (items db0),
                         attempts := atts\<rparr>))) (\<lambda>(_, db1).
        Inr (Some (\<lparr>leased_run_id = it_run item, leased_item_id = it_id item,
                    leased_attempt_id = a, leased_fencing_token = it_fence item + 1,
                    leased_expires_at = now + lease_span, leased_item = it_json item,
                    leased_checkpoint = latest_checkpoint_for_item db1 (it_run item) (it_id item)\<rparr>,
                   db1)))))"

definition claim_one ::
    "(nat \<Rightarrow> string) \<Rightarrow> string \<Rightarrow> string list \<Rightarrow> int \<Rightarrow> time \<Rightarrow> claim_state \<Rightarrow> string \<times> item_row
     \<Rightarrow> claim_state result" where
  "claim_one uuid w caps limit now cs pitem =
     (let (p, item) = pitem in
      if cs_done cs then Inr cs
      else
        rbind (required_capabilities_of item) (\<lambda>required.
        if \<not> covers caps required then Inr cs
        else
          rbind (cache_project p cs) (\<lambda>cs1.
          if dget (cs_limit cs1) p 0 \<le> dget (cs_active cs1) p 0 then Inr cs1
          else
            rbind (integration_busy now p item (cs_db cs1)) (\<lambda>busy.
            if busy then Inr cs1
            else
              rbind (grant_lease uuid w now p item (cs_db cs1)) (\<lambda>granted.
              case granted of
                None \<Rightarrow> Inr (cs1\<lparr>cs_db := take_uuid (cs_db cs1)\<rparr>)
              | Some (lease, db') \<Rightarrow>
                  let claimed = cs_claimed cs1 @ [lease] in
                  Inr (cs1\<lparr>cs_db := db', cs_claimed := claimed,
                           cs_active := dset p (dget (cs_active cs1) p 0 + 1) (cs_active cs1),
                           cs_done := limit \<le> int (length claimed)\<rparr>))))))"

definition claim_work ::
    "(nat \<Rightarrow> string) \<Rightarrow> time \<Rightarrow> string \<Rightarrow> string list \<Rightarrow> int \<Rightarrow> string option \<Rightarrow> db
     \<Rightarrow> (leased_work_item list \<times> db) result" where
  "claim_work uuid now w caps limit run_filter db =
     (let db1 = upsert_worker w caps now False db in
      rbind (rmap (\<lambda>item. rbind (run_project db1 (it_run item)) (\<lambda>p. Inr (p, item)))
               (claim_candidates now run_filter limit db1)) (\<lambda>rows.
      rbind (rfold (claim_one uuid w caps limit now)
               \<lparr>cs_db = db1, cs_claimed = [], cs_active = [], cs_limit = [], cs_done = False\<rparr> rows) (\<lambda>cs.
      Inr (cs_claimed cs, cs_db cs))))"

end
