(* ===== verification/Workflow_Attempts.thy ===== *)
theory Workflow_Attempts
  imports Workflow_Leases
begin

text \<open>
  The operations of a running attempt in \<open>orchestrator/workflow_repository.py\<close>: start, renew,
  checkpoint and complete, each under the attempt's fencing token; the reaper of expired
  leases; the ledger of effects and the registration of artifacts.
\<close>

section \<open>Start and renew\<close>

definition start_attempt ::
    "(nat \<Rightarrow> string) \<Rightarrow> time \<Rightarrow> string \<Rightarrow> int \<Rightarrow> db \<Rightarrow> (aggregate \<times> db) result" where
  "start_attempt uuid now a fence db =
     rbind (lock_attempt db a fence) (\<lambda>(att, item).
     if at_status att \<in> {AStatus WRunning, AStatus WVerifying}
     then rbind (snapshot_locked db (at_run att)) (\<lambda>ag. Inr (ag, db))
     else
       rbind (raise_unless (at_status att = AStatus WLeased)
                (StaleLeaseError ''attempt {} is not leased'' [a])) (\<lambda>_.
       rbind (raise_unless (\<not> at_lease att \<le> now)
                (StaleLeaseError ''attempt {} lease expired'' [a])) (\<lambda>_.
       let target = (if py_eq (jget (it_json item) ''kind'') (JStr ''verify'')
                     then WVerifying else WRunning);
           db1 = update_attempt a (\<lambda>row. row\<lparr>at_status := AStatus target, at_started := Some now\<rparr>) db;
           db2 = update_items (at_run att) (at_item att)
                   (\<lambda>row. row\<lparr>it_status := target, it_updated := now\<rparr>) db1
       in append_own uuid now (at_run att) ''work_started''
            [(''work_item_id'', JStr (at_item att)), (''attempt_id'', JStr a)]
            (worker_actor (at_worker att)) db2)))"

definition renew_lease :: "time \<Rightarrow> string \<Rightarrow> int \<Rightarrow> db \<Rightarrow> (time \<times> db) result" where
  "renew_lease now a fence db =
     rbind (lock_attempt db a fence) (\<lambda>(att, item).
     rbind (raise_unless (live_attempt (at_status att))
              (StaleLeaseError ''attempt {} is terminal'' [a])) (\<lambda>_.
     rbind (raise_unless (it_attempt item = Some a)
              (StaleLeaseError ''attempt {} was superseded'' [a])) (\<lambda>_.
     let until = now + lease_span;
         db1 = update_attempt a (\<lambda>row. row\<lparr>at_lease := until\<rparr>) db;
         db2 = update_items (at_run att) (at_item att)
                 (\<lambda>row. row\<lparr>it_lease := Some until, it_updated := now\<rparr>) db1 in
     rbind (if is_integration (it_json item)
            then rbind (run_project db2 (at_run att)) (\<lambda>p. Inr (set_lock_lease p a until now db2))
            else Inr db2) (\<lambda>db3.
     Inr (until, upsert_worker (at_worker att) [] now True db3)))))"

section \<open>Checkpoints\<close>

text \<open>The checkpoint of the attempt with the greatest sequence number.\<close>

fun last_checkpoint :: "checkpoint_row list \<Rightarrow> checkpoint_row option" where
  "last_checkpoint [] = None"
| "last_checkpoint (c # cs) =
     (case last_checkpoint cs of
        None \<Rightarrow> Some c
      | Some d \<Rightarrow> if cp_seq c < cp_seq d then Some d else Some c)"

definition checkpoints_of :: "db \<Rightarrow> string \<Rightarrow> checkpoint_row list" where
  "checkpoints_of db a = filter (\<lambda>c. cp_attempt c = a) (checkpoints db)"

definition commit_checkpoint ::
    "(nat \<Rightarrow> string) \<Rightarrow> time \<Rightarrow> string \<Rightarrow> int \<Rightarrow> obj \<Rightarrow> db \<Rightarrow> (aggregate \<times> db) result" where
  "commit_checkpoint uuid now a fence checkpoint db =
     rbind (lock_attempt db a fence) (\<lambda>(att, _).
     rbind (raise_unless (live_attempt (at_status att))
              (StaleLeaseError ''attempt {} cannot checkpoint'' [a])) (\<lambda>_.
     let prev = last_checkpoint (checkpoints_of db a) in
     rbind (py_int (dget checkpoint ''sequence''
              (JInt (case prev of Some c \<Rightarrow> cp_seq c + 1 | None \<Rightarrow> 1)))) (\<lambda>seqno.
     let stale = (case prev of Some c \<Rightarrow> seqno \<le> cp_seq c | None \<Rightarrow> False) in
     if stale then
       (if (case prev of Some c \<Rightarrow> seqno = cp_seq c \<and> obj_eq (cp_json c) checkpoint | None \<Rightarrow> False)
        then rbind (snapshot_locked db (at_run att)) (\<lambda>ag. Inr (ag, db))
        else Inl (DomainError ''checkpoint sequence must increase monotonically'' []))
     else
       (let pl = dset ''sequence'' (JInt seqno) checkpoint in
        rbind (insert_row ''work_checkpoints''
                 (\<lambda>c. cp_id c = uuid (uuids db) \<or> cp_attempt c = a \<and> cp_seq c = seqno)
                 \<lparr>cp_id = uuid (uuids db), cp_attempt = a, cp_seq = seqno, cp_json = pl,
                  cp_created = now\<rparr> (checkpoints db)) (\<lambda>cps.
        append_own uuid now (at_run att) ''checkpoint_committed''
          [(''work_item_id'', JStr (at_item att)), (''attempt_id'', JStr a),
           (''sequence'', JInt seqno), (''checkpoint'', JObj pl)]
          (worker_actor (at_worker att)) (take_uuid (db\<lparr>checkpoints := cps\<rparr>)))))))"

section \<open>Completion\<close>

text \<open>\<open>outcome.get("succeeded") or outcome.get("status") in {"succeeded", "completed", "passed"}\<close>.\<close>

definition outcome_succeeded :: "obj \<Rightarrow> bool result" where
  "outcome_succeeded outcome =
     (if truthy (jget outcome ''succeeded'') then Inr True
      else (case jget outcome ''status'' of
              JStr s \<Rightarrow> Inr (s \<in> {''succeeded'', ''completed'', ''passed''})
            | JList _ \<Rightarrow> Inl (TypeError ''unhashable type'')
            | JObj _ \<Rightarrow> Inl (TypeError ''unhashable type'')
            | _ \<Rightarrow> Inr False))"

definition complete_cancelled ::
    "time \<Rightarrow> attempt_row \<Rightarrow> item_row \<Rightarrow> obj \<Rightarrow> db \<Rightarrow> (aggregate \<times> db) result" where
  "complete_cancelled now att item outcome db =
     (let db1 = update_attempt (at_id att)
                  (\<lambda>row. row\<lparr>at_status := AStatus WCancelled, at_completed := Some now,
                             at_outcome := Some (dset ''cancelled'' (JBool True) outcome)\<rparr>) db;
          db2 = update_items (at_run att) (at_item att)
                  (\<lambda>row. row\<lparr>it_owner := None, it_lease := None, it_attempt := None,
                             it_updated := now\<rparr>) db1 in
      rbind (release_integration_lock att item now db2) (\<lambda>db3.
      rbind (snapshot_locked db3 (at_run att)) (\<lambda>ag. Inr (ag, db3))))"

text \<open>The event a completion appends, with the status of the item and the retry delay.\<close>

definition completion_event ::
    "rat \<Rightarrow> attempt_row \<Rightarrow> item_row \<Rightarrow> bool \<Rightarrow> obj \<Rightarrow> work_status \<times> rat \<times> string \<times> obj" where
  "completion_event base att item succeeded outcome =
     (if succeeded
      then (WSucceeded, 0, ''work_succeeded'',
            [(''work_item_id'', JStr (at_item att)), (''attempt_id'', JStr (at_id att)),
             (''outcome'', JObj outcome)])
      else
        let target = next_status_after_failure (truthy (dget outcome ''retryable'' (JBool True))) item;
            delay = retry_delay base target item
        in (target, delay, ''work_failed'',
            [(''work_item_id'', JStr (at_item att)), (''attempt_id'', JStr (at_id att)),
             (''next_status'', JStr (work_status_value target)), (''outcome'', JObj outcome),
             (''retry_after_seconds'', delay_json target delay),
             (''dead_lettered'', JBool (target = WFailed))]))"

definition settle_item :: "work_status \<Rightarrow> time \<Rightarrow> rat \<Rightarrow> item_row \<Rightarrow> item_row" where
  "settle_item target now delay row =
     row\<lparr>it_status := target, it_owner := None, it_lease := None, it_attempt := None,
         it_not_before := retry_at now delay, it_updated := now\<rparr>"

definition complete_attempt ::
    "(nat \<Rightarrow> string) \<Rightarrow> rat \<Rightarrow> time \<Rightarrow> string \<Rightarrow> int \<Rightarrow> obj \<Rightarrow> db \<Rightarrow> (aggregate \<times> db) result" where
  "complete_attempt uuid base now a fence outcome db =
     rbind (lock_attempt db a fence) (\<lambda>(att, item).
     if it_status item = WCancelled then complete_cancelled now att item outcome db
     else
       rbind (outcome_succeeded outcome) (\<lambda>succeeded.
       let target_attempt = (if succeeded then WSucceeded else WFailed) in
       if at_status att \<in> {AStatus WSucceeded, AStatus WFailed} then
         (if at_status att = AStatus target_attempt \<and>
             obj_eq (case at_outcome att of None \<Rightarrow> [] | Some d \<Rightarrow> d) outcome
          then rbind (snapshot_locked db (at_run att)) (\<lambda>ag. Inr (ag, db))
          else Inl (StaleLeaseError ''attempt {} already completed'' [a]))
       else
         rbind (raise_unless (it_attempt item = Some a)
                  (StaleLeaseError ''attempt {} was superseded'' [a])) (\<lambda>_.
         let (target, delay, ty, pl) = completion_event base att item succeeded outcome;
             db1 = update_attempt a
                     (\<lambda>row. row\<lparr>at_status := AStatus target_attempt, at_completed := Some now,
                                at_outcome := Some outcome\<rparr>) db;
             db2 = update_items (at_run att) (at_item att) (settle_item target now delay) db1 in
         rbind (release_integration_lock att item now db2) (\<lambda>db3.
         append_own uuid now (at_run att) ty pl (worker_actor (at_worker att)) db3))))"

section \<open>Expired leases\<close>

definition lease_expired :: "time \<Rightarrow> item_row \<Rightarrow> bool" where
  "lease_expired now item \<longleftrightarrow>
     active_status (it_status item) \<and> (case it_lease item of None \<Rightarrow> False | Some t \<Rightarrow> t < now)"

definition expired_rows :: "time \<Rightarrow> int \<Rightarrow> db \<Rightarrow> item_row list" where
  "expired_rows now limit db =
     sql_limit limit
       (sort_key (\<lambda>item. case it_lease item of None \<Rightarrow> 0 | Some t \<Rightarrow> t)
          (filter (lease_expired now) (items db)))"

definition expire_payload :: "rat \<Rightarrow> item_row \<Rightarrow> obj" where
  "expire_payload base item =
     (let target = next_status_after_failure True item; delay = retry_delay base target item in
      [(''work_item_id'', JStr (it_id item)), (''attempt_id'', jopt JStr (it_attempt item)),
       (''next_status'', JStr (work_status_value target)),
       (''outcome'', JObj [(''failure_kind'', JStr ''lease_expired''), (''retryable'', JBool True)]),
       (''retry_after_seconds'', delay_json target delay),
       (''dead_lettered'', JBool (target = WFailed))])"

definition release_one ::
    "(nat \<Rightarrow> string) \<Rightarrow> rat \<Rightarrow> time \<Rightarrow> db \<Rightarrow> item_row \<Rightarrow> db result" where
  "release_one uuid base now db item =
     (let target = next_status_after_failure True item;
          delay = retry_delay base target item;
          db1 = (case truthy_id (it_attempt item) of
                   None \<Rightarrow> db
                 | Some a \<Rightarrow> update_attempt a
                     (\<lambda>row. row\<lparr>at_status := AExpired, at_completed := Some now\<rparr>) db);
          db2 = db1\<lparr>items := update_where
                  (\<lambda>row. same_item (it_run item) (it_id item) row \<and> it_fence row = it_fence item)
                  (settle_item target now delay) (items db1)\<rparr> in
      rbind (if is_integration (it_json item)
             then rbind (run_project db2 (it_run item)) (\<lambda>p. Inr (drop_lock p (it_attempt item) now db2))
             else Inr db2) (\<lambda>db3.
      rbind (append_own uuid now (it_run item) ''work_failed'' (expire_payload base item)
               ''lease-reaper'' db3) (\<lambda>(_, db4).
      Inr db4)))"

definition release_expired_leases ::
    "(nat \<Rightarrow> string) \<Rightarrow> rat \<Rightarrow> time \<Rightarrow> int \<Rightarrow> db \<Rightarrow> (int \<times> db) result" where
  "release_expired_leases uuid base now limit db =
     (let rows = expired_rows now limit db in
      rbind (rfold (release_one uuid base now) db rows) (\<lambda>db'.
      Inr (int (length rows), db')))"

section \<open>Effects and artifacts\<close>

text \<open>A reservation reports the status and, for a completed effect, the stored result.\<close>

definition reserve_effect ::
    "time \<Rightarrow> string \<Rightarrow> string \<Rightarrow> string \<Rightarrow> string \<Rightarrow> int \<Rightarrow> db \<Rightarrow> (string \<times> obj option) \<times> db" where
  "reserve_effect now e r i a seqno db =
     (case first_where (\<lambda>row. ef_id row = e) (effects db) of
        Some row \<Rightarrow> ((ef_status row, ef_result row), db)
      | None \<Rightarrow>
          ((''reserved'', None),
           db\<lparr>effects := effects db @
             [\<lparr>ef_id = e, ef_run = r, ef_item = i, ef_attempt = a, ef_seq = seqno,
               ef_status = ''started'', ef_result = None, ef_created = now, ef_updated = now\<rparr>]\<rparr>))"

definition complete_effect :: "time \<Rightarrow> string \<Rightarrow> obj \<Rightarrow> db \<Rightarrow> db result" where
  "complete_effect now e outcome db =
     (case first_where (\<lambda>row. ef_id row = e) (effects db) of
        None \<Rightarrow> Inl (FileNotFoundError e)
      | Some row \<Rightarrow>
          if ef_status row = ''completed'' then
            rbind (raise_unless (obj_eq (case ef_result row of None \<Rightarrow> [] | Some d \<Rightarrow> d) outcome)
                     (DomainError ''completed effect result is immutable'' [])) (\<lambda>_. Inr db)
          else
            rbind (raise_unless (length (filter (\<lambda>r. ef_id r = e) (effects db)) = 1)
                     (DomainError ''effect {} could not be completed'' [e])) (\<lambda>_.
            Inr (db\<lparr>effects := update_where (\<lambda>r. ef_id r = e)
                   (\<lambda>r. r\<lparr>ef_status := ''completed'', ef_result := Some outcome,
                          ef_updated := now\<rparr>) (effects db)\<rparr>)))"

definition register_artifact ::
    "(nat \<Rightarrow> string) \<Rightarrow> time \<Rightarrow> string \<Rightarrow> obj \<Rightarrow> string option \<Rightarrow> string \<Rightarrow> db
     \<Rightarrow> (aggregate \<times> db) result" where
  "register_artifact uuid now r artifact item act db =
     rbind (get_snapshot db r) (\<lambda>ag.
     let pl = dset ''work_item_id'' (jopt JStr item) artifact in
     rbind (raise_unless (truthy (jget pl ''id'') \<and> truthy (jget pl ''uri'') \<and> truthy (jget pl ''sha256''))
              (DomainError ''artifact id, uri, and sha256 are required'' [])) (\<lambda>_.
     append_events uuid r (ag_version ag)
       [event_create (uuid (uuids db)) now r ''artifact_registered'' pl act] (take_uuid db)))"

definition mark_outbox_published :: "time \<Rightarrow> string list \<Rightarrow> db \<Rightarrow> db" where
  "mark_outbox_published now ids db =
     (if ids = [] then db
      else db\<lparr>outbox := update_where (\<lambda>o'. ob_id o' \<in> set ids)
             (\<lambda>o'. o'\<lparr>ob_published := Some now\<rparr>) (outbox db)\<rparr>)"

end
