(* ===== verification/Workflow_Frames.thy ===== *)
theory Workflow_Frames
  imports Workflow_Attempts Reducer_Laws
begin

text \<open>
  What the operations of the repository leave alone. The rows a projection may touch are
  described by views of the database: the log (runs, events, outbox), the identity of every
  attempt, the lease counters of every work item, and the checkpoints.
\<close>

section \<open>Views\<close>

definition same_log :: "db \<Rightarrow> db \<Rightarrow> bool" where
  "same_log db db' \<longleftrightarrow> runs db' = runs db \<and> events db' = events db \<and> outbox db' = outbox db"

text \<open>What identifies an attempt, and the counters of an item; both outlive status changes.\<close>

definition att_key :: "attempt_row \<Rightarrow> string \<times> string \<times> string \<times> int \<times> int" where
  "att_key row = (at_id row, at_run row, at_item row, at_number row, at_fence row)"

definition item_key :: "item_row \<Rightarrow> string \<times> string" where
  "item_key row = (it_run row, it_id row)"

definition item_counters :: "item_row \<Rightarrow> string \<times> string \<times> int \<times> int" where
  "item_counters row = (it_run row, it_id row, it_attempts row, it_fence row)"

definition item_keys :: "db \<Rightarrow> (string \<times> string) list" where
  "item_keys db = map item_key (items db)"

text \<open>The items grow only by rows with fresh keys and zero counters.\<close>

definition grown_items :: "item_row list \<Rightarrow> item_row list \<Rightarrow> bool" where
  "grown_items xs ys \<longleftrightarrow>
     (\<exists>new. map item_counters ys = map item_counters xs @ map (\<lambda>(r, i). (r, i, 0, 0)) new \<and>
        distinct new \<and> set new \<inter> set (map item_key xs) = {})"

definition same_leases :: "db \<Rightarrow> db \<Rightarrow> bool" where
  "same_leases db db' \<longleftrightarrow>
     map att_key (attempts db') = map att_key (attempts db) \<and>
     grown_items (items db) (items db') \<and> checkpoints db' = checkpoints db"

lemma same_log_refl [simp]: "same_log db db"
  by (simp add: same_log_def)

lemma same_log_trans: "same_log a b \<Longrightarrow> same_log b c \<Longrightarrow> same_log a c"
  by (simp add: same_log_def)

lemma item_key_counters: "map item_key xs = map (\<lambda>(r, i, _). (r, i)) (map item_counters xs)"
  by (simp add: item_key_def item_counters_def)

lemma grown_items_eq: "map item_counters ys = map item_counters xs \<Longrightarrow> grown_items xs ys"
  by (auto simp: grown_items_def intro: exI [of _ "[]"])

lemma grown_items_keys:
  assumes "grown_items xs ys"
  obtains new where "map item_key ys = map item_key xs @ new" "distinct new"
    "set new \<inter> set (map item_key xs) = {}"
    "map item_counters ys = map item_counters xs @ map (\<lambda>(r, i). (r, i, 0, 0)) new"
proof -
  from assms obtain new where *: "map item_counters ys = map item_counters xs @ map (\<lambda>(r, i). (r, i, 0, 0)) new"
    "distinct new" "set new \<inter> set (map item_key xs) = {}"
    by (auto simp: grown_items_def)
  moreover have "map item_key ys = map item_key xs @ new"
    unfolding item_key_counters *(1) by (simp add: case_prod_unfold comp_def)
  ultimately show ?thesis by (intro that)
qed

lemma grown_items_trans:
  assumes "grown_items xs ys" and "grown_items ys zs"
  shows "grown_items xs zs"
proof -
  from assms(1) obtain n1 where 1: "map item_key ys = map item_key xs @ n1" "distinct n1"
    "set n1 \<inter> set (map item_key xs) = {}"
    "map item_counters ys = map item_counters xs @ map (\<lambda>(r, i). (r, i, 0, 0)) n1"
    by (rule grown_items_keys)
  from assms(2) obtain n2 where 2: "distinct n2" "set n2 \<inter> set (map item_key ys) = {}"
    "map item_counters zs = map item_counters ys @ map (\<lambda>(r, i). (r, i, 0, 0)) n2"
    by (rule grown_items_keys)
  have "map item_counters zs = map item_counters xs @ map (\<lambda>(r, i). (r, i, 0, 0)) (n1 @ n2)"
    using 1(4) 2(3) by simp
  moreover have "distinct (n1 @ n2)" "set (n1 @ n2) \<inter> set (map item_key xs) = {}"
    using 1(1,2,3) 2(1,2) by (auto simp del: set_map)
  ultimately show ?thesis unfolding grown_items_def by blast
qed

lemma same_leases_refl [simp]: "same_leases db db"
  by (simp add: same_leases_def grown_items_eq)

lemma same_leases_trans: "same_leases a b \<Longrightarrow> same_leases b c \<Longrightarrow> same_leases a c"
  by (auto simp: same_leases_def intro: grown_items_trans)

text \<open>Updates that keep the counters.\<close>

definition keeps_counters :: "(item_row \<Rightarrow> item_row) \<Rightarrow> bool" where
  "keeps_counters f \<longleftrightarrow> (\<forall>row. item_counters (f row) = item_counters row)"

definition keeps_att_key :: "(attempt_row \<Rightarrow> attempt_row) \<Rightarrow> bool" where
  "keeps_att_key f \<longleftrightarrow> (\<forall>row. att_key (f row) = att_key row)"

lemma update_where_counters:
  "keeps_counters f \<Longrightarrow> map item_counters (update_where p f rows) = map item_counters rows"
  by (simp add: map_update_where_frame keeps_counters_def)

lemma update_where_att_key:
  "keeps_att_key f \<Longrightarrow> map att_key (update_where p f rows) = map att_key rows"
  by (simp add: map_update_where_frame keeps_att_key_def)

lemma update_items_log [simp]: "same_log db (update_items r i f db')\<longleftrightarrow> same_log db db'"
  by (simp add: update_items_def same_log_def)

lemma update_attempt_log [simp]: "same_log db (update_attempt a f db') \<longleftrightarrow> same_log db db'"
  by (simp add: update_attempt_def same_log_def)

lemma update_items_leases: "keeps_counters f \<Longrightarrow> same_leases db (update_items r i f db)"
  by (simp add: update_items_def same_leases_def update_where_counters grown_items_eq)

lemma update_attempt_leases: "keeps_att_key f \<Longrightarrow> same_leases db (update_attempt a f db)"
  by (simp add: update_attempt_def same_leases_def update_where_att_key grown_items_eq)

section \<open>Projections\<close>

definition frame :: "db \<Rightarrow> db \<Rightarrow> bool" where
  "frame db db' \<longleftrightarrow> same_log db db' \<and> same_leases db db' \<and> projects db' = projects db \<and>
     uuids db' = uuids db \<and> effects db' = effects db"

lemma frame_refl [simp]: "frame db db"
  by (simp add: frame_def)

lemma frame_trans: "frame a b \<Longrightarrow> frame b c \<Longrightarrow> frame a c"
  by (auto simp: frame_def intro: same_log_trans same_leases_trans)

lemma frame_update_items: "keeps_counters f \<Longrightarrow> frame db (update_items r i f db)"
  unfolding frame_def by (intro conjI update_items_leases) (simp_all add: update_items_def same_log_def)

lemma frame_update_attempt: "keeps_att_key f \<Longrightarrow> frame db (update_attempt a f db)"
  unfolding frame_def by (intro conjI update_attempt_leases) (simp_all add: update_attempt_def same_log_def)

lemma frame_locks [simp]: "frame db (db\<lparr>locks := x\<rparr>)"
  and frame_evidence [simp]: "frame db (db\<lparr>evidence := y\<rparr>)"
  and frame_artifacts [simp]: "frame db (db\<lparr>artifacts := z\<rparr>)"
  and frame_approvals [simp]: "frame db (db\<lparr>approvals := u\<rparr>)"
  and frame_plans [simp]: "frame db (db\<lparr>plans := v\<rparr>)"
  and frame_workers [simp]: "frame db (db\<lparr>workers := w\<rparr>)"
  by (simp_all add: frame_def same_log_def same_leases_def grown_items_eq)

lemma frame_append_item:
  assumes "find_row db r i = None" and "item_counters row = (r, i, 0, 0)"
  shows "frame db (db\<lparr>items := items db @ [row]\<rparr>)"
proof -
  from assms(1) have "(r, i) \<notin> set (map item_key (items db))"
    by (auto simp: find_row_def first_where_None_iff same_item_def item_key_def)
  then have "grown_items (items db) (items db @ [row])"
    using assms(2) by (auto simp: grown_items_def intro!: exI [of _ "[(r, i)]"] simp del: set_map)
  then show ?thesis by (simp add: frame_def same_log_def same_leases_def)
qed

lemma frame_items:
  "keeps_counters f \<Longrightarrow> frame db (db\<lparr>items := update_where p f (items db)\<rparr>)"
  by (simp add: frame_def same_log_def same_leases_def grown_items_eq update_where_counters)

lemma project_plan_item_frame: "project_plan_item r rv now db v = Inr db' \<Longrightarrow> frame db db'"
  unfolding project_plan_item_def Let_def result_simps
  by (elim exE conjE)
    (auto split: option.splits intro!: frame_append_item frame_update_items
      simp: keeps_counters_def item_counters_def)

lemma project_plan_frame:
  assumes "project_plan db ev = Inr db'"
  shows "frame db db'"
proof -
  let ?r = "event_run_id ev" and ?now = "created_at ev"
  from assms obtain rv aps pls vs db2 p where
    fold: "rfold (project_plan_item ?r rv ?now) (db\<lparr>approvals := aps, plans := pls\<rparr>) vs = Inr db2"
    and db': "db' = db2\<lparr>items := update_where p
            (\<lambda>row. row\<lparr>it_status := WCancelled, it_updated := ?now\<rparr>) (items db2)\<rparr>"
    unfolding project_plan_def Let_def result_simps by (elim exE conjE) blast
  have "frame db (db\<lparr>approvals := aps, plans := pls\<rparr>)"
    by (rule frame_trans [OF frame_approvals frame_plans])
  then have "frame db db2"
    using fold by (elim rfold_invariant [where P = "frame db"])
      (auto intro: frame_trans project_plan_item_frame)
  moreover have "frame db2 db'"
    unfolding db' by (rule frame_items) (simp add: keeps_counters_def item_counters_def)
  ultimately show ?thesis by (rule frame_trans)
qed

lemma project_work_cancelled_frame:
  assumes "project_work_cancelled db ev = Inr db'"
  shows "frame db db'"
proof -
  have keep: "keeps_att_key (\<lambda>row. if live_attempt (at_status row) then row\<lparr>at_status := s, at_completed := c,
      at_outcome := q\<rparr> else row)" for s c q
    by (simp add: keeps_att_key_def att_key_def)
  have 1: "frame db ((update_attempt a (\<lambda>row. if live_attempt (at_status row)
      then row\<lparr>at_status := s, at_completed := c, at_outcome := q\<rparr> else row) db)\<lparr>locks := l\<rparr>)" for a s c q l
    by (rule frame_trans [OF frame_update_attempt [OF keep] frame_locks])
  have 2: "frame db db1 \<Longrightarrow> frame db (update_items r i (\<lambda>row. row\<lparr>it_status := s, it_updated := t,
      it_attempt := a, it_owner := w, it_lease := l, it_not_before := n\<rparr>) db1)" for db1 r i s t a w l n
    by (erule frame_trans, rule frame_update_items) (simp add: keeps_counters_def item_counters_def)
  from assms show ?thesis
    unfolding project_work_cancelled_def Let_def result_simps
    by (elim exE conjE) (auto split: option.splits intro!: 1 2)
qed

lemmas project_defs = project_work_status_def project_work_leased_def project_work_started_def
  project_work_succeeded_def project_work_failed_def project_evidence_def project_artifact_def
  project_approval_requested_def project_approval_decided_def

lemma project_simple_frame:
  "project_work_status s db ev = Inr db' \<Longrightarrow> frame db db'"
  "project_work_leased db ev = Inr db' \<Longrightarrow> frame db db'"
  "project_work_started db ev = Inr db' \<Longrightarrow> frame db db'"
  "project_work_succeeded db ev = Inr db' \<Longrightarrow> frame db db'"
  "project_work_failed db ev = Inr db' \<Longrightarrow> frame db db'"
  "project_evidence db ev = Inr db' \<Longrightarrow> frame db db'"
  "project_artifact db ev = Inr db' \<Longrightarrow> frame db db'"
  "project_approval_requested db ev = Inr db' \<Longrightarrow> frame db db'"
  "project_approval_decided db ev = Inr db' \<Longrightarrow> frame db db'"
  by (auto simp: project_defs Let_def result_simps finish_item_def keeps_counters_def item_counters_def
      intro!: frame_update_items frame_trans [OF frame_update_items frame_evidence]
      split: option.splits if_splits)

lemma project_event_frame:
  assumes "project_event db ev = Inr db'"
  shows "frame db db'"
  using assms unfolding project_event_def Let_def
  by (elim if_InrE)
    (erule project_plan_frame project_work_cancelled_frame project_simple_frame | simp)+

end
