(* ===== verification/Workflow_Log.thy ===== *)
theory Workflow_Log
  imports Workflow_Frames
begin

text \<open>
  The event log of the repository: what an append writes, and the invariant that ties the runs,
  the events and the outbox together. A run row is a cache: it holds the replay of its events.
\<close>

section \<open>What an append records\<close>

fun number_events :: "int \<Rightarrow> workflow_event list \<Rightarrow> workflow_event list" where
  "number_events v [] = []"
| "number_events v (e # es) = e\<lparr>event_version := Some (v + 1)\<rparr> # number_events (v + 1) es"

text \<open>An outbox row reports an event.\<close>

definition reports :: "outbox_row \<Rightarrow> workflow_event \<Rightarrow> bool" where
  "reports o' ev \<longleftrightarrow> ob_event o' = event_id ev \<and> ob_run o' = event_run_id ev \<and>
     ob_type o' = event_type ev \<and> ob_payload o' = event_obj ev \<and> ob_created o' = created_at ev"

definition logs :: "workflow_event list \<Rightarrow> db \<Rightarrow> db \<Rightarrow> bool" where
  "logs ms db db' \<longleftrightarrow>
     runs db' = runs db \<and> events db' = events db @ ms \<and>
     (\<exists>os. outbox db' = outbox db @ os \<and> list_all2 reports os ms) \<and>
     distinct (map event_id ms) \<and> set (map event_id ms) \<inter> set (map event_id (events db)) = {}"

definition only_leases_kept :: "db \<Rightarrow> db \<Rightarrow> bool" where
  "only_leases_kept db db' \<longleftrightarrow>
     same_leases db db' \<and> projects db' = projects db \<and> effects db' = effects db"

lemma only_leases_kept_trans:
  "only_leases_kept a b \<Longrightarrow> only_leases_kept b c \<Longrightarrow> only_leases_kept a c"
  by (auto simp: only_leases_kept_def intro: same_leases_trans)

lemma record_event_logs:
  assumes "record_event uuid db ev = Inr db'"
  shows "logs [ev] db db' \<and> only_leases_kept db db' \<and> items db' = items db"
  using assms
  by (auto simp: record_event_def result_simps logs_def reports_def take_uuid_def
      only_leases_kept_def same_leases_def grown_items_eq)

lemma logs_frame: "logs ms db db1 \<Longrightarrow> frame db1 db2 \<Longrightarrow> logs ms db db2"
  by (auto simp: logs_def frame_def same_log_def)

lemma logs_append: "logs [m] a b \<Longrightarrow> logs ms b c \<Longrightarrow> logs (m # ms) a c"
  by (auto simp: logs_def list_all2_Cons2 list_all2_Nil2)

lemma frame_leases_kept: "frame db db' \<Longrightarrow> only_leases_kept db db'"
  by (simp add: frame_def only_leases_kept_def)

lemma append_loop_logs:
  assumes "append_loop uuid project r v ag db evs = Inr (ag', db')"
  shows "rfold apply_event ag (number_events v evs) = Inr ag' \<and>
    logs (number_events v evs) db db' \<and> only_leases_kept db db' \<and>
    (\<forall>ev \<in> set (number_events v evs). event_run_id ev = r)"
  using assms
proof (induction evs arbitrary: v ag db)
  case Nil
  then show ?case
    by (simp add: logs_def only_leases_kept_def)
next
  case (Cons ev evs)
  let ?m = "ev\<lparr>event_version := Some (v + 1)\<rparr>"
  from Cons.prems obtain ag1 db1 db2 where r: "event_run_id ev = r"
    and ag1: "apply_event ag ?m = Inr ag1" and db1: "record_event uuid db ?m = Inr db1"
    and db2: "(if project then project_event db1 ?m else Inr db1) = Inr db2"
    and rest: "append_loop uuid project r (v + 1) ag1 db2 evs = Inr (ag', db')"
    by (auto simp: result_simps Let_def)
  from db2 have fr: "frame db1 db2" by (auto split: if_splits dest: project_event_frame)
  note one = record_event_logs [OF db1] and ih = Cons.IH [OF rest]
  have "logs (?m # number_events (v + 1) evs) db db'"
    using one ih by (blast intro: logs_append logs_frame [OF _ fr])
  moreover have "only_leases_kept db db'"
    using one ih frame_leases_kept [OF fr] by (blast intro: only_leases_kept_trans)
  ultimately show ?case using ag1 ih r by simp
qed

lemma number_events_versions:
  "map event_version (number_events v evs) = map Some [v + 1..v + int (length evs)]"
proof (induction evs arbitrary: v)
  case (Cons ev evs)
  have eq: "v + 1 + int (length evs) = v + int (length (ev # evs))" by simp
  have "[v + 1..v + int (length (ev # evs))] = (v + 1) # [v + 1 + 1..v + int (length (ev # evs))]"
    by (simp add: upto.simps [of "v + 1"])
  then show ?case using Cons [of "v + 1"] unfolding eq by simp
qed simp

lemma upto_from_1: "0 \<le> n \<Longrightarrow> [1..n] @ [n + 1..n + int k] = [1..n + int k]"
  by (cases "n = 0") (auto intro: upto_split2 [symmetric])

lemma length_number_events [simp]: "length (number_events v evs) = length evs"
  by (induction evs arbitrary: v) auto

section \<open>The invariant of the log\<close>

definition run_faithful :: "db \<Rightarrow> run_row \<Rightarrow> bool" where
  "run_faithful db row \<longleftrightarrow>
     replay_events (rn_id row) (events_of db (rn_id row)) = Inr (rn_snapshot row) \<and>
     rn_version row = ag_version (rn_snapshot row) \<and>
     rn_status row = ag_status (rn_snapshot row) \<and>
     rn_plan_revision row = ag_plan_revision (rn_snapshot row) \<and>
     map event_version (events_of db (rn_id row)) = map Some [1..rn_version row]"

definition log_inv :: "db \<Rightarrow> bool" where
  "log_inv db \<longleftrightarrow>
     distinct (map rn_id (runs db)) \<and> distinct (map event_id (events db)) \<and>
     set (map event_run_id (events db)) \<subseteq> set (map rn_id (runs db)) \<and>
     list_all2 reports (outbox db) (events db) \<and>
     (\<forall>row \<in> set (runs db). run_faithful db row)"

lemma log_inv_same: "same_log db db' \<Longrightarrow> log_inv db' \<longleftrightarrow> log_inv db"
  by (simp add: log_inv_def run_faithful_def events_of_def same_log_def)

lemma log_inv_frame: "frame db db' \<Longrightarrow> log_inv db' \<longleftrightarrow> log_inv db"
  by (simp add: frame_def log_inv_same)

lemma run_faithful_length: "run_faithful db row \<Longrightarrow> 0 \<le> rn_version row \<and>
    length (events_of db (rn_id row)) = nat (rn_version row)"
  using run_log.fold_version [of "empty_aggregate (rn_id row)" "events_of db (rn_id row)"]
  by (auto simp: run_faithful_def replay_events_def empty_aggregate_def)

lemma ag_inv_snapshot: "run_faithful db row \<Longrightarrow> ag_inv (rn_snapshot row)"
  unfolding run_faithful_def replay_events_def
  by (blast intro: run_log.fold_inv empty_aggregate_inv)

lemma find_run_Some:
  "log_inv db \<Longrightarrow> find_run db r = Some row \<longleftrightarrow> row \<in> set (runs db) \<and> rn_id row = r"
proof -
  assume "log_inv db"
  then have d: "distinct (map rn_id (runs db))" by (simp add: log_inv_def)
  show ?thesis
  proof
    assume "find_run db r = Some row"
    then show "row \<in> set (runs db) \<and> rn_id row = r"
      by (auto simp: find_run_def dest: first_where_SomeD)
  next
    assume *: "row \<in> set (runs db) \<and> rn_id row = r"
    then obtain row' where "find_run db r = Some row'"
      by (cases "find_run db r") (auto simp: find_run_def first_where_None_iff)
    moreover from this have "row' \<in> set (runs db) \<and> rn_id row' = r"
      by (auto simp: find_run_def dest: first_where_SomeD)
    ultimately show "find_run db r = Some row"
      using * d by (metis distinct_map inj_onD)
  qed
qed

lemma append_locked_log_inv:
  assumes inv: "log_inv db" and row: "row \<in> set (runs db)" and run: "append_locked uuid project db row (rn_snapshot row) evs = Inr (ag', db')"
  shows "log_inv db'"
    and "\<exists>db1. logs (number_events (rn_version row) evs) db db1 \<and> only_leases_kept db db1 \<and>
      rfold apply_event (rn_snapshot row) (number_events (rn_version row) evs) = Inr ag' \<and>
      db' = db1\<lparr>runs := update_where (\<lambda>x. rn_id x = rn_id row) (store_snapshot ag') (runs db)\<rparr>"
proof -
  let ?ms = "number_events (rn_version row) evs" and ?r = "rn_id row"
  have same: "rn_id x = ?r \<longleftrightarrow> x = row" if "x \<in> set (runs db)" for x
    using inv row that by (auto simp: log_inv_def distinct_map inj_on_def)
  from run obtain db1 where loop: "append_loop uuid project ?r (rn_version row) (rn_snapshot row) db evs = Inr (ag', db1)"
    and db'0: "db' = db1\<lparr>runs := update_where (\<lambda>x. rn_id x = ?r \<and> rn_version x = rn_version row)
       (store_snapshot ag') (runs db1)\<rparr>"
    by (auto simp: append_locked_def result_simps Let_def)
  from append_loop_logs [OF loop] have fold: "rfold apply_event (rn_snapshot row) ?ms = Inr ag'"
    and lg: "logs ?ms db db1" and kept: "only_leases_kept db db1"
    and own: "\<forall>ev \<in> set ?ms. event_run_id ev = ?r" by auto
  have r1: "runs db1 = runs db" using lg by (simp add: logs_def)
  have db': "db' = db1\<lparr>runs := update_where (\<lambda>x. rn_id x = ?r) (store_snapshot ag') (runs db)\<rparr>"
    unfolding db'0 r1 using same by (auto simp: update_where_def)
  then show "\<exists>db1. logs ?ms db db1 \<and> only_leases_kept db db1 \<and>
      rfold apply_event (rn_snapshot row) ?ms = Inr ag' \<and>
      db' = db1\<lparr>runs := update_where (\<lambda>x. rn_id x = ?r) (store_snapshot ag') (runs db)\<rparr>"
    using lg kept fold by blast
  have ids: "map rn_id (runs db') = map rn_id (runs db)"
    unfolding db' by (simp add: map_update_where_frame store_snapshot_def)
  have evs: "events db' = events db @ ?ms" using lg by (simp add: db' logs_def)
  have obs: "list_all2 reports (outbox db') (events db')"
    using inv lg by (auto simp: db' logs_def log_inv_def list_all2_appendI)
  have of_r: "events_of db' ?r = events_of db ?r @ ?ms"
    using own by (simp add: events_of_def evs filter_id_conv)
  have of_x: "events_of db' x = events_of db x" if "x \<noteq> ?r" for x
    using own that by (auto simp: events_of_def evs filter_empty_conv)
  have row_f: "run_faithful db row" using inv row by (simp add: log_inv_def)
  have ver: "ag_version ag' = rn_version row + int (length evs)"
    using run_log.fold_version [OF fold] row_f by (simp add: run_faithful_def)
  have "run_faithful db' x" if "x \<in> set (runs db')" for x
  proof (cases "rn_id x = ?r")
    case True
    with that have x: "x = store_snapshot ag' row"
      by (auto simp: db' set_update_where same store_snapshot_def split: if_splits)
    have "replay_events ?r (events_of db' ?r) = Inr ag'"
      using row_f fold by (simp add: of_r replay_events_def rfold_append run_faithful_def)
    moreover have cnt: "[1..rn_version row] @ [rn_version row + 1..rn_version row + int (length evs)]
        = [1..rn_version row + int (length evs)]"
      using run_faithful_length [OF row_f] by (intro upto_from_1) simp
    have "map event_version (events_of db' ?r) = map Some [1..ag_version ag']"
      unfolding of_r ver map_append cnt [symmetric]
      using row_f by (simp add: run_faithful_def number_events_versions)
    ultimately show ?thesis by (simp add: run_faithful_def x store_snapshot_def)
  next
    case False
    with that have "x \<in> set (runs db)"
      by (auto simp: db' set_update_where store_snapshot_def split: if_splits)
    then have "run_faithful db x" using inv by (simp add: log_inv_def)
    with False show ?thesis by (simp add: run_faithful_def of_x)
  qed
  moreover have "set (map event_run_id (events db')) \<subseteq> set (map rn_id (runs db'))"
    using inv own row unfolding ids evs by (auto simp: log_inv_def)
  moreover have "distinct (map event_id (events db'))"
    using inv lg by (auto simp: evs logs_def log_inv_def)
  ultimately show "log_inv db'" using inv obs ids by (simp add: log_inv_def)
qed

end
