(* ===== verification/Workflow_Steps.thy ===== *)
theory Workflow_Steps
  imports Workflow_Log
begin

text \<open>
  The reachable states of the repository: a step relation with one rule per operation, and the
  two invariants of the database (the log, and the fencing tokens) carried through every step.
\<close>

section \<open>Fencing tokens\<close>

type_synonym att_view = "string \<times> string \<times> string \<times> int \<times> int"
type_synonym item_view = "string \<times> string \<times> int \<times> int"

definition attempts_at :: "att_view list \<Rightarrow> string \<Rightarrow> string \<Rightarrow> att_view list" where
  "attempts_at ks r i = filter (\<lambda>(_, r', i', _). r' = r \<and> i' = i) ks"

text \<open>The attempts of an item are numbered \<open>1, 2, ...\<close>; number and token agree and never repeat.\<close>

definition fence_ok :: "att_view list \<Rightarrow> item_view list \<Rightarrow> bool" where
  "fence_ok ks cs \<longleftrightarrow>
     distinct (map (\<lambda>(r, i, _). (r, i)) cs) \<and> distinct (map fst ks) \<and>
     (\<forall>(r, i, n, f) \<in> set cs. n = f \<and> 0 \<le> f \<and>
        map (\<lambda>(_, _, _, k). k) (attempts_at ks r i) = map (\<lambda>k. (k, k)) [1..f]) \<and>
     (\<forall>(_, r, i, _) \<in> set ks. (r, i) \<in> set (map (\<lambda>(r, i, _). (r, i)) cs))"

definition fence_inv :: "db \<Rightarrow> bool" where
  "fence_inv db \<longleftrightarrow> fence_ok (map att_key (attempts db)) (map item_counters (items db))"

lemma attempts_at_none:
  "(r, i) \<notin> set (map (\<lambda>(r, i, _). (r, i)) cs) \<Longrightarrow>
   \<forall>(_, r, i, _) \<in> set ks. (r, i) \<in> set (map (\<lambda>(r, i, _). (r, i)) cs) \<Longrightarrow> attempts_at ks r i = []"
  by (force simp: attempts_at_def filter_empty_conv)

lemma fence_ok_grow:
  assumes ok: "fence_ok ks cs" and new: "distinct new"
    and fresh: "set new \<inter> set (map (\<lambda>(r, i, _). (r, i)) cs) = {}"
  shows "fence_ok ks (cs @ map (\<lambda>(r, i). (r, i, 0, 0)) new)"
proof -
  have keys: "map (\<lambda>(r, i, _). (r, i)) (map (\<lambda>(r, i). (r, i, 0::int, 0::int)) new) = new"
    by (induction new) auto
  have all: "\<forall>(_, r, i, _) \<in> set ks. (r, i) \<in> set (map (\<lambda>(r, i, _). (r, i)) cs)"
    using ok by (simp add: fence_ok_def)
  have none: "attempts_at ks r i = []" if "(r, i) \<in> set new" for r i
  proof (rule attempts_at_none [OF _ all])
    from fresh that show "(r, i) \<notin> set (map (\<lambda>(r, i, _). (r, i)) cs)" by blast
  qed
  show ?thesis
    unfolding fence_ok_def map_append keys
  proof (intro conjI)
    show "\<forall>(_, r, i, _) \<in> set ks. (r, i) \<in> set (map (\<lambda>(r, i, _). (r, i)) cs @ new)"
      using all by auto
    show "distinct (map (\<lambda>(r, i, _). (r, i)) cs @ new)"
      using ok new fresh unfolding fence_ok_def distinct_append by blast
  qed (use ok new fresh none in \<open>auto simp: fence_ok_def\<close>)
qed

lemma fence_inv_same_leases: "fence_inv db \<Longrightarrow> same_leases db db' \<Longrightarrow> fence_inv db'"
  unfolding fence_inv_def same_leases_def grown_items_def item_key_counters
  by (elim conjE exE) (simp only: fence_ok_grow)

text \<open>A granted lease appends the next attempt.\<close>

lemma fence_ok_lease:
  assumes ok: "fence_ok ks cs" and mem: "(r, i, f, f) \<in> set cs" and a: "a \<notin> set (map fst ks)"
  shows "fence_ok (ks @ [(a, r, i, f + 1, f + 1)])
    (map (\<lambda>(r', i', n, g). if r' = r \<and> i' = i then (r', i', f + 1, f + 1) else (r', i', n, g)) cs)"
    (is "fence_ok ?ks (map ?up cs)")
proof -
  have keys: "map (\<lambda>(r, i, _). (r, i)) (map ?up cs) = map (\<lambda>(r, i, _). (r, i)) cs"
    by (induction cs) auto
  have of_ri: "attempts_at ?ks r i = attempts_at ks r i @ [(a, r, i, f + 1, f + 1)]"
    by (simp add: attempts_at_def)
  have of_other: "attempts_at ?ks r' i' = attempts_at ks r' i'" if "(r', i') \<noteq> (r, i)" for r' i'
    using that by (auto simp: attempts_at_def)
  have old: "0 \<le> f \<and> map (\<lambda>(_, _, _, k). k) (attempts_at ks r i) = map (\<lambda>k. (k, k)) [1..f]"
    using ok mem by (fastforce simp: fence_ok_def)
  then have next_one: "map (\<lambda>(_, _, _, k). k) (attempts_at ?ks r i) = map (\<lambda>k. (k, k)) [1..f + 1]"
    by (simp add: of_ri upto_rec2)
  have "\<forall>(r', i', n, g) \<in> set (map ?up cs). n = g \<and> 0 \<le> g \<and>
      map (\<lambda>(_, _, _, k). k) (attempts_at ?ks r' i') = map (\<lambda>k. (k, k)) [1..g]"
  proof clarify
    fix r' i' n g
    assume "(r', i', n, g) \<in> set (map ?up cs)"
    then obtain n0 g0 where c: "(r', i', n0, g0) \<in> set cs" "(r', i', n, g) = ?up (r', i', n0, g0)"
      by (fastforce split: if_splits)
    show "n = g \<and> 0 \<le> g \<and> map (\<lambda>(_, _, _, k). k) (attempts_at ?ks r' i') = map (\<lambda>k. (k, k)) [1..g]"
    proof (cases "r' = r \<and> i' = i")
      case True
      with c(2) old next_one show ?thesis by simp
    next
      case False
      with c ok show ?thesis by (fastforce simp: fence_ok_def of_other)
    qed
  qed
  moreover have "(r, i) \<in> set (map (\<lambda>(r, i, _). (r, i)) cs)" using mem by force
  moreover have "distinct (map fst ?ks)" using ok a by (simp add: fence_ok_def del: set_map)
  ultimately show ?thesis
    using ok unfolding fence_ok_def keys by (auto simp del: set_map)
qed

section \<open>The invariant of the database\<close>

text \<open>The checkpoints of one attempt have increasing sequence numbers.\<close>

definition sequence_inv :: "db \<Rightarrow> bool" where
  "sequence_inv db \<longleftrightarrow>
     sorted_wrt (\<lambda>c d. cp_attempt c = cp_attempt d \<longrightarrow> cp_seq c < cp_seq d) (checkpoints db)"

definition db_inv :: "db \<Rightarrow> bool" where
  "db_inv db \<longleftrightarrow> log_inv db \<and> fence_inv db \<and> sequence_inv db"

lemma same_leases_inv:
  "same_leases db db' \<Longrightarrow> fence_inv db \<and> sequence_inv db \<Longrightarrow> fence_inv db' \<and> sequence_inv db'"
  using fence_inv_same_leases by (auto simp: sequence_inv_def same_leases_def)

lemma db_inv_same: "db_inv db \<Longrightarrow> same_log db db' \<Longrightarrow> same_leases db db' \<Longrightarrow> db_inv db'"
  using same_leases_inv [of db db'] by (simp add: db_inv_def log_inv_same)

lemma db_inv_frame: "db_inv db \<Longrightarrow> frame db db' \<Longrightarrow> db_inv db'"
  by (auto simp: frame_def intro: db_inv_same)

lemma append_locked_inv:
  assumes "db_inv db" and "row \<in> set (runs db)"
    and "append_locked uuid project db row (rn_snapshot row) evs = Inr (ag', db')"
  shows "db_inv db' \<and> same_leases db db'"
proof -
  from assms have log: "log_inv db" by (simp add: db_inv_def)
  from append_locked_log_inv(2) [OF log assms(2,3)] have "same_leases db db'"
    by (auto simp: only_leases_kept_def same_leases_def)
  with append_locked_log_inv(1) [OF log assms(2,3)] assms(1) show ?thesis
    using same_leases_inv [of db db'] by (simp add: db_inv_def)
qed

lemma take_uuid_same [simp]: "same_log db (take_uuid db)" "same_leases db (take_uuid db)"
  by (simp_all add: take_uuid_def same_log_def same_leases_def grown_items_eq)

lemma take_uuid_inv [simp]: "db_inv (take_uuid db) = db_inv db"
  by (simp add: take_uuid_def db_inv_def log_inv_def run_faithful_def events_of_def fence_inv_def
      sequence_inv_def)

lemma lock_run_mem: "lock_run db r = Inr row \<Longrightarrow> row \<in> set (runs db) \<and> rn_id row = r"
  by (auto simp: lock_run_def find_run_def split: option.splits dest: first_where_SomeD)

lemma append_own_inv:
  assumes "db_inv db" and "append_own uuid now r ty pl act db = Inr (ag', db')"
  shows "db_inv db' \<and> same_leases db db'"
proof -
  from assms(2) obtain row where row: "row \<in> set (runs (take_uuid db))"
    and ap: "append_locked uuid False (take_uuid db) row (rn_snapshot row)
      [event_create (uuid (uuids db)) now r ty pl act] = Inr (ag', db')"
    by (auto simp: append_own_def result_simps take_uuid_def dest: lock_run_mem)
  have "db_inv (take_uuid db)" using assms(1) by simp
  from append_locked_inv [OF this row ap] show ?thesis
    by (auto intro: same_leases_trans [OF take_uuid_same(2)])
qed

text \<open>Attempts and items changed in place, then one event.\<close>

lemma append_own_after:
  assumes "db_inv db" and "same_log db db1" and "same_leases db db1"
    and "append_own uuid now r ty pl act db1 = Inr (ag', db')"
  shows "db_inv db' \<and> same_leases db db'"
  using append_own_inv [OF db_inv_same [OF assms(1-3)] assms(4)] assms(3)
  by (blast intro: same_leases_trans)

end
