(* ===== verification/Workflow_Reach.thy ===== *)
theory Workflow_Reach
  imports Workflow_Steps
begin

text \<open>
  Every operation of the repository keeps the invariant of the database, so every reachable
  database has it.
\<close>

section \<open>Projects, runs and appends\<close>

lemma create_project_same [simp]:
  "same_log db (create_project now p n db)" "same_leases db (create_project now p n db)"
  by (simp_all add: create_project_def same_log_def same_leases_def grown_items_eq)

lemma create_project_inv: "db_inv db \<Longrightarrow> db_inv (create_project now p n db)"
  by (rule db_inv_same [OF _ create_project_same])

lemma set_project_limits_inv:
  "set_project_limits now p a b db = Inr db' \<Longrightarrow> db_inv db \<Longrightarrow> db_inv db'"
  by (erule db_inv_same)
    (auto simp: set_project_limits_def result_simps Let_def create_project_def same_log_def
      same_leases_def grown_items_eq)

lemma set_membership_inv: "set_membership now p s r db = Inr db' \<Longrightarrow> db_inv db \<Longrightarrow> db_inv db'"
  by (erule db_inv_same)
    (auto simp: set_membership_def result_simps Let_def create_project_def same_log_def
      same_leases_def grown_items_eq)

lemma run_created_aggregate:
  assumes "apply_event (empty_aggregate r) ev = Inr ag"
  shows "event_run_id ev = r \<and> ag_version ag = 1 \<and> ag_status ag = Some RQueued \<and> ag_plan_revision ag = None"
proof -
  have "ag_status (empty_aggregate r) = None" by (simp add: empty_aggregate_def)
  with assms show ?thesis
    by (auto simp: apply_event_def dispatch_event_def Let_def result_simps on_run_created_def
        empty_aggregate_def split: if_splits)
qed

lemma fresh_run_log_inv:
  assumes inv: "log_inv db" and fresh: "\<forall>x \<in> set (runs db). rn_id x \<noteq> r"
    and ag: "apply_event (empty_aggregate r) ev = Inr ag" and v: "event_version ev = Some 1"
    and row: "rn_id row = r" "rn_status row = ag_status ag" "rn_version row = ag_version ag"
      "rn_plan_revision row = None" "rn_snapshot row = ag"
    and rec: "record_event uuid (db\<lparr>runs := runs db @ [row]\<rparr>) ev = Inr db'"
  shows "log_inv db'"
proof -
  from record_event_logs [OF rec] have lg: "logs [ev] (db\<lparr>runs := runs db @ [row]\<rparr>) db'" by simp
  have evs: "events db' = events db @ [ev]" and rns: "runs db' = runs db @ [row]"
    using lg by (simp_all add: logs_def)
  note new = run_created_aggregate [OF ag]
  have none: "events_of db r = []"
    using inv fresh unfolding log_inv_def events_of_def filter_empty_conv by fastforce
  have "events_of db' r = [ev]" using none new by (simp add: events_of_def evs)
  then have "run_faithful db' row"
    using ag new v row by (simp add: run_faithful_def replay_events_def)
  moreover have "run_faithful db' x" if "x \<in> set (runs db)" for x
  proof -
    have "events_of db' (rn_id x) = events_of db (rn_id x)"
      using that fresh new by (auto simp: events_of_def evs)
    with that inv show ?thesis by (simp add: log_inv_def run_faithful_def)
  qed
  ultimately show ?thesis
    using inv lg fresh new row(1)
    by (auto simp: log_inv_def evs rns logs_def list_all2_appendI)
qed

lemma insert_run_inv:
  assumes run: "insert_run uuid now p g pol key r act db = Inr (ag, db')" and inv: "db_inv db"
  shows "db_inv db'"
proof -
  let ?ev = "(event_create (uuid (uuids db)) now r ''run_created''
      [(''project_id'', JStr p), (''goal'', JStr g), (''policy'', JObj pol)] act)\<lparr>event_version := Some 1\<rparr>"
    and ?row = "new_run_row r p g key now ag" and ?db1 = "take_uuid db"
  from run have ag: "apply_event (empty_aggregate r) ?ev = Inr ag"
    and fresh: "\<forall>x \<in> set (runs ?db1). rn_id x \<noteq> r"
    and rec: "record_event uuid (?db1\<lparr>runs := runs ?db1 @ [?row]\<rparr>) ?ev = Inr db'"
    by (auto simp: insert_run_def Let_def result_simps simp del: apply_event_eq)
  have inv1: "db_inv ?db1" using inv by simp
  have "log_inv db'"
    using inv1 by (intro fresh_run_log_inv [OF _ fresh ag _ _ _ _ _ _ rec]) (simp_all add: db_inv_def new_run_row_def)
  moreover have "same_leases ?db1 db'"
    using record_event_logs [OF rec] by (simp add: only_leases_kept_def same_leases_def grown_items_eq)
  then have "fence_inv db' \<and> sequence_inv db'" using inv1 same_leases_inv by (simp add: db_inv_def)
  ultimately show ?thesis by (simp add: db_inv_def)
qed

lemma create_run_inv:
  assumes "create_run uuid now p g pol key rid act db = Inr (ag, db')" and "db_inv db"
  shows "db_inv db'"
proof -
  have "db_inv (create_project now p None db)" by (rule create_project_inv [OF assms(2)])
  with assms(1) show ?thesis
    by (auto simp: create_run_def Let_def result_simps split: option.splits intro: insert_run_inv)
qed

lemma append_events_inv:
  assumes "append_events uuid r v evs db = Inr (ag, db')" and "db_inv db"
  shows "db_inv db'"
  using assms
  by (auto simp: append_events_def result_simps split: if_splits
      dest!: lock_run_mem dest: append_locked_inv)

section \<open>Claims\<close>

lemma upsert_worker_same [simp]:
  "same_log db (upsert_worker w caps now b db)" "same_leases db (upsert_worker w caps now b db)"
  by (simp_all add: upsert_worker_def Let_def same_log_def same_leases_def grown_items_eq)

lemma fence_inv_counters:
  "fence_inv db \<Longrightarrow> row \<in> set (items db) \<Longrightarrow> it_attempts row = it_fence row \<and> 0 \<le> it_fence row"
  by (auto simp: fence_inv_def fence_ok_def item_counters_def)

lemma lease_rows_counters:
  assumes inv: "fence_inv db" and row: "row \<in> set (items db)" "claim_guard seen row"
    and seen: "it_attempts seen = it_fence seen"
  shows "map item_counters (update_where (claim_guard seen) (lease_row w now a seen) (items db)) =
    map (\<lambda>(r', i', n, g). if r' = it_run seen \<and> i' = it_id seen
           then (r', i', it_fence seen + 1, it_fence seen + 1) else (r', i', n, g))
      (map item_counters (items db))"
proof -
  have d: "distinct (map item_key (items db))"
    using inv by (simp add: fence_inv_def fence_ok_def item_key_counters)
  have only: "claim_guard seen x" if "x \<in> set (items db)" "it_run x = it_run seen" "it_id x = it_id seen" for x
  proof -
    have "item_key x = item_key row"
      using that row(2) by (simp add: item_key_def claim_guard_def same_item_def)
    then have "x = row" using d that(1) row(1) by (meson distinct_map inj_onD)
    with row(2) show ?thesis by simp
  qed
  show ?thesis
    using only seen
    by (auto simp: update_where_def item_counters_def lease_row_def claim_guard_def same_item_def)
qed

lemma grant_lease_inv:
  assumes grant: "grant_lease uuid w now p seen db = Inr (Some (lease, db'))" and inv: "db_inv db"
    and seen: "it_attempts seen = it_fence seen"
  shows "db_inv db'"
proof -
  let ?a = "uuid (uuids db)" and ?db0 = "take_uuid db"
  let ?its = "update_where (claim_guard seen) (lease_row w now ?a seen) (items ?db0)"
  let ?db1 = "take_integration_lock now p ?a seen
    (?db0\<lparr>items := ?its, attempts := attempts ?db0 @ [new_attempt w now ?a seen]\<rparr>)"
  from grant obtain row ag pl where
    row: "row \<in> set (items ?db0)" "claim_guard seen row"
    and fresh: "\<forall>x \<in> set (attempts ?db0). at_id x \<noteq> ?a"
    and ap: "append_own uuid now (it_run seen) ''work_leased'' pl (worker_actor w) ?db1 = Inr (ag, db')"
    by (auto simp: grant_lease_def Let_def result_simps list_ex_iff split: if_splits)
  have inv0: "db_inv ?db0" using inv by simp
  then have fi: "fence_inv ?db0" by (simp add: db_inv_def)
  have "item_counters row = (it_run seen, it_id seen, it_fence seen, it_fence seen)"
    using row fence_inv_counters [OF fi row(1)]
    by (simp add: item_counters_def claim_guard_def same_item_def)
  then have "(it_run seen, it_id seen, it_fence seen, it_fence seen) \<in> set (map item_counters (items ?db0))"
    using row(1) by (metis image_eqI set_map)
  moreover have "?a \<notin> set (map fst (map att_key (attempts ?db0)))"
    using fresh by (auto simp: att_key_def)
  ultimately have "fence_ok (map att_key (attempts ?db0) @ [(?a, it_run seen, it_id seen, it_fence seen + 1, it_fence seen + 1)])
     (map item_counters ?its)"
    unfolding lease_rows_counters [OF fi row seen]
    using fi unfolding fence_inv_def by (intro fence_ok_lease)
  then have "fence_inv ?db1"
    by (simp add: fence_inv_def take_integration_lock_def att_key_def new_attempt_def seen)
  moreover have "same_log ?db0 ?db1" "checkpoints ?db1 = checkpoints ?db0"
    by (simp_all add: take_integration_lock_def same_log_def)
  ultimately have "db_inv ?db1" using inv0 by (simp add: db_inv_def log_inv_same sequence_inv_def)
  from append_own_inv [OF this ap] show ?thesis by simp
qed

lemma cache_project_db: "cache_project p cs = Inr cs' \<Longrightarrow> cs_db cs' = cs_db cs \<and> cs_claimed cs' = cs_claimed cs \<and>
    cs_done cs' = cs_done cs"
  by (auto simp: cache_project_def split: if_splits option.splits)

text \<open>
  A turn of the loop either leaves the tables alone, at most filling the caches, or grants one
  lease.
\<close>

lemma claim_oneE:
  assumes "claim_one uuid w caps limit now cs (p, item) = Inr cs'"
  obtains
    (skip) cs1 where "cs1 = cs \<or> cache_project p cs = Inr cs1"
      "cs' = cs1 \<or> cs' = cs1\<lparr>cs_db := take_uuid (cs_db cs)\<rparr>"
  | (grant) lease required cs1 where "\<not> cs_done cs"
      "required_capabilities_of item = Inr required" "covers caps required"
      "cache_project p cs = Inr cs1" "dget (cs_active cs1) p 0 < dget (cs_limit cs1) p 0"
      "integration_busy now p item (cs_db cs) = Inr False"
      "grant_lease uuid w now p item (cs_db cs) = Inr (Some (lease, cs_db cs'))"
      "cs' = cs1\<lparr>cs_db := cs_db cs', cs_claimed := cs_claimed cs @ [lease],
         cs_active := dset p (dget (cs_active cs1) p 0 + 1) (cs_active cs1),
         cs_done := limit \<le> int (length (cs_claimed cs @ [lease]))\<rparr>"
proof (cases "cs_done cs")
  case True
  with assms show ?thesis by (intro skip [of cs]) (simp_all add: claim_one_def)
next
  case False
  with assms obtain required where req: "required_capabilities_of item = Inr required"
    by (auto simp: claim_one_def result_simps)
  show ?thesis
  proof (cases "covers caps required")
    case False
    with assms \<open>\<not> cs_done cs\<close> req show ?thesis by (intro skip [of cs]) (simp_all add: claim_one_def)
  next
    case True
    with assms False req obtain cs1 where c1: "cache_project p cs = Inr cs1"
      and rest: "(if dget (cs_limit cs1) p 0 \<le> dget (cs_active cs1) p 0 then Inr cs1
          else rbind (integration_busy now p item (cs_db cs1)) (\<lambda>busy.
            if busy then Inr cs1
            else rbind (grant_lease uuid w now p item (cs_db cs1)) (\<lambda>granted.
              case granted of
                None \<Rightarrow> Inr (cs1\<lparr>cs_db := take_uuid (cs_db cs1)\<rparr>)
              | Some (lease, db') \<Rightarrow>
                  let claimed = cs_claimed cs1 @ [lease] in
                  Inr (cs1\<lparr>cs_db := db', cs_claimed := claimed,
                           cs_active := dset p (dget (cs_active cs1) p 0 + 1) (cs_active cs1),
                           cs_done := limit \<le> int (length claimed)\<rparr>)))) = Inr cs'"
      by (auto simp: claim_one_def result_simps)
    note same = cache_project_db [OF c1]
    show ?thesis
    proof (cases "cs_claimed cs' = cs_claimed cs")
      case True
      with rest same show ?thesis
        by (intro skip [of cs1]) (auto simp: c1 result_simps Let_def split: if_splits option.splits)
    next
      case no: False
      with rest same obtain lease where
        "dget (cs_active cs1) p 0 < dget (cs_limit cs1) p 0"
        "integration_busy now p item (cs_db cs) = Inr False"
        "grant_lease uuid w now p item (cs_db cs) = Inr (Some (lease, cs_db cs'))"
        "cs' = cs1\<lparr>cs_db := cs_db cs', cs_claimed := cs_claimed cs @ [lease],
           cs_active := dset p (dget (cs_active cs1) p 0 + 1) (cs_active cs1),
           cs_done := limit \<le> int (length (cs_claimed cs @ [lease]))\<rparr>"
        by (auto simp: result_simps Let_def split: if_splits option.splits)
      then show ?thesis by (rule grant [OF False req True c1])
    qed
  qed
qed

lemma claim_one_inv:
  assumes "claim_one uuid w caps limit now cs (p, seen) = Inr cs'" and "db_inv (cs_db cs)"
    and "it_attempts seen = it_fence seen"
  shows "db_inv (cs_db cs')"
  using assms(1)
proof (cases rule: claim_oneE)
  case (skip cs1)
  then have "cs_db cs' = cs_db cs \<or> cs_db cs' = take_uuid (cs_db cs)"
    by (auto dest: cache_project_db)
  with assms(2) show ?thesis by auto
next
  case grant
  from grant_lease_inv [OF grant(7) assms(2,3)] show ?thesis .
qed

lemma claim_candidates_mem:
  "x \<in> set (claim_candidates now f limit db) \<Longrightarrow> x \<in> set (items db) \<and> claimable now f db x"
  by (auto simp: claim_candidates_def sql_limit_def split: if_splits dest: in_set_takeD)

lemma claim_work_inv:
  assumes "claim_work uuid now w caps limit f db = Inr (ls, db')" and inv: "db_inv db"
  shows "db_inv db'"
proof -
  let ?db1 = "upsert_worker w caps now False db"
  have inv1: "db_inv ?db1" by (rule db_inv_same [OF inv]) simp_all
  from assms(1) obtain rows cs where
    rows: "rmap (\<lambda>item. rbind (run_project ?db1 (it_run item)) (\<lambda>p. Inr (p, item)))
       (claim_candidates now f limit ?db1) = Inr rows"
    and cs: "rfold (claim_one uuid w caps limit now)
       \<lparr>cs_db = ?db1, cs_claimed = [], cs_active = [], cs_limit = [], cs_done = False\<rparr> rows = Inr cs"
    and db': "db' = cs_db cs"
    by (auto simp: claim_work_def Let_def result_simps)
  have "it_attempts (snd x) = it_fence (snd x)" if "x \<in> set rows" for x
  proof -
    from rows that have "snd x \<in> set (claim_candidates now f limit ?db1)"
      by (auto dest!: rmap_mem simp: result_simps)
    then show ?thesis
      using inv1 by (auto simp: db_inv_def dest!: claim_candidates_mem dest: fence_inv_counters)
  qed
  then show ?thesis
    unfolding db' using cs inv1
    by (elim rfold_invariant [where P = "\<lambda>cs. db_inv (cs_db cs)"]) (auto intro: claim_one_inv)
qed

section \<open>Attempts\<close>

lemma lock_attempt_eq [result_simps]:
  "lock_attempt db a fence = Inr (att, item) \<longleftrightarrow>
     find_attempt db a = Some att \<and> find_row db (at_run att) (at_item att) = Some item \<and>
     at_fence att = fence \<and> it_fence item = fence"
  by (auto simp: lock_attempt_def split: option.splits if_splits)

text \<open>One attempt and one item changed in place, their counters kept.\<close>

lemma touch_same:
  assumes "keeps_att_key f" and "keeps_counters g"
  shows "same_log db (update_items r i g (update_attempt a f db))"
    and "same_leases db (update_items r i g (update_attempt a f db))"
  by (simp, rule same_leases_trans [OF update_attempt_leases [OF assms(1)] update_items_leases [OF assms(2)]])

lemma drop_lock_same [simp]:
  "same_log db (drop_lock p a now db') = same_log db db'"
  "same_leases db (drop_lock p a now db') = same_leases db db'"
  by (simp_all add: drop_lock_def same_log_def same_leases_def)

lemma set_lock_lease_same [simp]:
  "same_log db (set_lock_lease p a u now db') = same_log db db'"
  "same_leases db (set_lock_lease p a u now db') = same_leases db db'"
  by (simp_all add: set_lock_lease_def same_log_def same_leases_def)

lemma release_integration_lock_same:
  "release_integration_lock att item now db1 = Inr db2 \<Longrightarrow> same_log db db1 \<Longrightarrow> same_leases db db1 \<Longrightarrow>
   same_log db db2 \<and> same_leases db db2"
  by (auto simp: release_integration_lock_def result_simps split: if_splits)

lemma start_attempt_inv:
  assumes "start_attempt uuid now a fence db = Inr (ag, db')" and "db_inv db"
  shows "db_inv db'"
proof -
  have touch: "same_log db (update_items r i (\<lambda>row. row\<lparr>it_status := t, it_updated := u\<rparr>)
        (update_attempt a (\<lambda>row. row\<lparr>at_status := s, at_started := n\<rparr>) db))"
    "same_leases db (update_items r i (\<lambda>row. row\<lparr>it_status := t, it_updated := u\<rparr>)
        (update_attempt a (\<lambda>row. row\<lparr>at_status := s, at_started := n\<rparr>) db))" for r i t u s n
    by (rule touch_same; simp add: keeps_att_key_def att_key_def keeps_counters_def item_counters_def)+
  from assms show ?thesis
    unfolding start_attempt_def Let_def
    by (auto simp: result_simps split: if_splits dest!: append_own_after [OF assms(2) touch])
qed

lemma renew_lease_inv:
  assumes "renew_lease now a fence db = Inr (u, db')" and "db_inv db"
  shows "db_inv db'"
proof -
  have touch: "same_log db (update_items r i (\<lambda>row. row\<lparr>it_lease := t, it_updated := n\<rparr>)
        (update_attempt a (\<lambda>row. row\<lparr>at_lease := s\<rparr>) db))"
    "same_leases db (update_items r i (\<lambda>row. row\<lparr>it_lease := t, it_updated := n\<rparr>)
        (update_attempt a (\<lambda>row. row\<lparr>at_lease := s\<rparr>) db))" for r i t n s
    by (rule touch_same; simp add: keeps_att_key_def att_key_def keeps_counters_def item_counters_def)+
  have up: "same_log db db1 \<Longrightarrow> same_leases db db1 \<Longrightarrow> db_inv (upsert_worker w c n b db1)" for db1 w c n b
    using db_inv_same [OF assms(2)] same_log_trans [OF _ upsert_worker_same(1)]
      same_leases_trans [OF _ upsert_worker_same(2)] by blast
  from assms(1) show ?thesis
    unfolding renew_lease_def Let_def
    by (auto simp: result_simps touch simp del: update_items_log intro!: up split: if_splits)
qed

lemma last_checkpoint_max:
  "last_checkpoint cs = None \<longleftrightarrow> cs = []"
  "last_checkpoint cs = Some c \<Longrightarrow> c \<in> set cs \<and> (\<forall>d \<in> set cs. cp_seq d \<le> cp_seq c)"
  by (induction cs arbitrary: c) (auto split: option.splits if_splits)

text \<open>A checkpoint is either the repetition of the last one, or a new one with a greater number.\<close>

lemma commit_checkpointE:
  assumes "commit_checkpoint uuid now a fence cp db = Inr (ag, db')"
  obtains
    (repeated) att item c where "lock_attempt db a fence = Inr (att, item)" "db' = db"
      "last_checkpoint (checkpoints_of db a) = Some c" "obj_eq (cp_json c) cp"
  | (fresh) att item seqno pl where "lock_attempt db a fence = Inr (att, item)"
      "live_attempt (at_status att)" "pl = dset ''sequence'' (JInt seqno) cp"
      "\<forall>d \<in> set (checkpoints_of db a). cp_seq d < seqno"
      "append_own uuid now (at_run att) ''checkpoint_committed''
          [(''work_item_id'', JStr (at_item att)), (''attempt_id'', JStr a),
           (''sequence'', JInt seqno), (''checkpoint'', JObj pl)]
          (worker_actor (at_worker att))
          (take_uuid (db\<lparr>checkpoints := checkpoints db @
             [\<lparr>cp_id = uuid (uuids db), cp_attempt = a, cp_seq = seqno, cp_json = pl, cp_created = now\<rparr>]\<rparr>))
        = Inr (ag, db')"
proof -
  from assms obtain att item seqno where lock: "lock_attempt db a fence = Inr (att, item)"
    and live: "live_attempt (at_status att)"
    and rest: "(if case last_checkpoint (checkpoints_of db a) of Some c \<Rightarrow> seqno \<le> cp_seq c | None \<Rightarrow> False
      then (if case last_checkpoint (checkpoints_of db a) of
                 Some c \<Rightarrow> seqno = cp_seq c \<and> obj_eq (cp_json c) cp | None \<Rightarrow> False
            then rbind (snapshot_locked db (at_run att)) (\<lambda>ag. Inr (ag, db))
            else Inl (DomainError ''checkpoint sequence must increase monotonically'' []))
      else
        (let pl = dset ''sequence'' (JInt seqno) cp in
         rbind (insert_row ''work_checkpoints''
                 (\<lambda>c. cp_id c = uuid (uuids db) \<or> cp_attempt c = a \<and> cp_seq c = seqno)
                 \<lparr>cp_id = uuid (uuids db), cp_attempt = a, cp_seq = seqno, cp_json = pl,
                  cp_created = now\<rparr> (checkpoints db)) (\<lambda>cps.
         append_own uuid now (at_run att) ''checkpoint_committed''
          [(''work_item_id'', JStr (at_item att)), (''attempt_id'', JStr a),
           (''sequence'', JInt seqno), (''checkpoint'', JObj pl)]
          (worker_actor (at_worker att)) (take_uuid (db\<lparr>checkpoints := cps\<rparr>))))) = Inr (ag, db')"
    by (auto simp: commit_checkpoint_def Let_def result_simps simp del: lock_attempt_eq)
  show ?thesis
  proof (cases "case last_checkpoint (checkpoints_of db a) of Some c \<Rightarrow> seqno \<le> cp_seq c | None \<Rightarrow> False")
    case True
    with rest show ?thesis
      by (auto simp: result_simps simp del: lock_attempt_eq split: option.splits if_splits
          intro: repeated [OF lock])
  next
    case False
    have "\<forall>d \<in> set (checkpoints_of db a). cp_seq d < seqno"
    proof (cases "last_checkpoint (checkpoints_of db a)")
      case None
      then show ?thesis by (simp add: last_checkpoint_max)
    next
      case (Some c)
      with False last_checkpoint_max(2) [OF Some] show ?thesis by fastforce
    qed
    with False rest show ?thesis
      by (intro fresh [OF lock live refl]) (auto simp: Let_def result_simps)
  qed
qed

lemma commit_checkpoint_inv:
  assumes "commit_checkpoint uuid now a fence cp db = Inr (ag, db')" and inv: "db_inv db"
  shows "db_inv db'"
  using assms(1)
proof (cases rule: commit_checkpointE)
  case repeated
  with inv show ?thesis by simp
next
  case (fresh att item seqno pl)
  let ?c = "\<lparr>cp_id = uuid (uuids db), cp_attempt = a, cp_seq = seqno, cp_json = pl, cp_created = now\<rparr>"
  let ?db1 = "db\<lparr>checkpoints := checkpoints db @ [?c]\<rparr>"
  have "same_log db ?db1" by (simp add: same_log_def)
  from log_inv_same [OF this] have "log_inv ?db1" using inv by (simp add: db_inv_def)
  moreover have "fence_inv ?db1" using inv by (simp add: db_inv_def fence_inv_def)
  moreover have "sequence_inv ?db1"
    using inv fresh(4) by (auto simp: db_inv_def sequence_inv_def sorted_wrt_append checkpoints_of_def)
  ultimately have "db_inv ?db1" by (simp add: db_inv_def)
  then have "db_inv (take_uuid ?db1)" by (simp only: take_uuid_inv)
  from append_own_inv [OF this fresh(5)] show ?thesis by simp
qed

lemma complete_attempt_inv:
  assumes "complete_attempt uuid base now a fence out db = Inr (ag, db')" and "db_inv db"
  shows "db_inv db'"
proof -
  have touch: "same_log db (update_items r i (settle_item t now d)
        (update_attempt a (\<lambda>row. row\<lparr>at_status := s, at_completed := c, at_outcome := q\<rparr>) db))"
    "same_leases db (update_items r i (settle_item t now d)
        (update_attempt a (\<lambda>row. row\<lparr>at_status := s, at_completed := c, at_outcome := q\<rparr>) db))" for r i t d s c q
    by (rule touch_same; simp add: keeps_att_key_def att_key_def keeps_counters_def item_counters_def settle_item_def)+
  have touch2: "same_log db (update_items r i (\<lambda>row. row\<lparr>it_owner := n1, it_lease := n2, it_attempt := n3, it_updated := now\<rparr>)
        (update_attempt b (\<lambda>row. row\<lparr>at_status := s, at_completed := c, at_outcome := q\<rparr>) db))"
    "same_leases db (update_items r i (\<lambda>row. row\<lparr>it_owner := n1, it_lease := n2, it_attempt := n3, it_updated := now\<rparr>)
        (update_attempt b (\<lambda>row. row\<lparr>at_status := s, at_completed := c, at_outcome := q\<rparr>) db))" for r i b n1 n2 n3 s c q
    by (rule touch_same; simp add: keeps_att_key_def att_key_def keeps_counters_def item_counters_def)+
  have cancelled: "db_inv db'" if "complete_cancelled now att item out db = Inr (ag, db')" for att item
    using that assms(2)
    by (auto simp: complete_cancelled_def result_simps Let_def
        dest!: release_integration_lock_same [OF _ touch2] intro: db_inv_same)
  from assms(1) show ?thesis
    unfolding complete_attempt_def Let_def
    using assms(2)
    by (auto simp: result_simps split: if_splits prod.splits dest: cancelled
        dest!: release_integration_lock_same [OF _ touch] append_own_after [OF assms(2)])
qed

lemma release_one_inv:
  assumes "release_one uuid base now db item = Inr db'" and "db_inv db"
  shows "db_inv db'"
proof -
  have cs: "keeps_counters (settle_item t now d)" for t d
    by (simp add: keeps_counters_def item_counters_def settle_item_def)
  have ak: "keeps_att_key (\<lambda>row. row\<lparr>at_status := s, at_completed := c\<rparr>)" for s c
    by (simp add: keeps_att_key_def att_key_def)
  have settle: "same_log db (db1\<lparr>items := update_where q (settle_item t now d) (items db1)\<rparr>) \<and>
      same_leases db (db1\<lparr>items := update_where q (settle_item t now d) (items db1)\<rparr>)"
    if "same_log db db1" "same_leases db db1" for db1 q t d
  proof -
    have "frame db1 (db1\<lparr>items := update_where q (settle_item t now d) (items db1)\<rparr>)"
      by (rule frame_items [OF cs])
    with that show ?thesis
      unfolding frame_def by (blast intro: same_log_trans same_leases_trans)
  qed
  have expire: "same_log db (case o' of None \<Rightarrow> db | Some a \<Rightarrow> update_attempt a
        (\<lambda>row. row\<lparr>at_status := AExpired, at_completed := Some now\<rparr>) db) \<and>
      same_leases db (case o' of None \<Rightarrow> db | Some a \<Rightarrow> update_attempt a
        (\<lambda>row. row\<lparr>at_status := AExpired, at_completed := Some now\<rparr>) db)" for o'
    by (cases o') (auto intro: update_attempt_leases [OF ak])
  from assms(1) show ?thesis
    unfolding release_one_def Let_def
    by (auto simp: result_simps settle expire split: if_splits dest!: append_own_after [OF assms(2), rotated -1])
qed

lemma release_expired_leases_inv:
  assumes "release_expired_leases uuid base now limit db = Inr (n, db')" and "db_inv db"
  shows "db_inv db'"
  using assms
  by (auto simp: release_expired_leases_def Let_def result_simps
      elim!: rfold_invariant [where P = db_inv] intro: release_one_inv)

section \<open>Effects, artifacts and the outbox\<close>

lemma effects_same [simp]:
  "same_log db (db\<lparr>effects := c\<rparr>)" "same_leases db (db\<lparr>effects := c\<rparr>)"
  by (simp_all add: same_log_def same_leases_def grown_items_eq)

lemma reserve_effect_inv: "db_inv db \<Longrightarrow> db_inv (snd (reserve_effect now e r i a n db))"
  by (auto simp: reserve_effect_def split: option.splits intro: db_inv_same)

lemma complete_effect_inv: "complete_effect now e out db = Inr db' \<Longrightarrow> db_inv db \<Longrightarrow> db_inv db'"
  by (auto simp: complete_effect_def result_simps split: option.splits if_splits intro: db_inv_same)

lemma register_artifact_inv:
  "register_artifact uuid now r art i act db = Inr (ag, db') \<Longrightarrow> db_inv db \<Longrightarrow> db_inv db'"
  by (auto simp: register_artifact_def result_simps Let_def dest!: append_events_inv)

lemma mark_outbox_inv: "db_inv db \<Longrightarrow> db_inv (mark_outbox_published now ids db)"
proof -
  assume inv: "db_inv db"
  have "list_all2 reports (update_where p (\<lambda>o'. o'\<lparr>ob_published := t\<rparr>) os) evs" if "list_all2 reports os evs" for p t os evs
    using that by (auto simp: update_where_def list_all2_map1 reports_def elim!: list_all2_mono)
  with inv show ?thesis
    by (auto simp: mark_outbox_published_def db_inv_def log_inv_def run_faithful_def events_of_def fence_inv_def
        sequence_inv_def)
qed

end
