(* ===== verification/Workflow_Effects.thy ===== *)
theory Workflow_Effects
  imports Workflow_Reach
begin

text \<open>
  What the operations of the repository leave in the tables: lookups after updates, the effect
  of the event an operation appends for itself, and the leases a claim grants.
\<close>

section \<open>Lookups after updates\<close>

lemma first_where_update:
  "(\<And>x. p (f x) = p x) \<Longrightarrow> first_where p (update_where p f xs) = map_option f (first_where p xs)"
  by (induction xs) (auto simp: first_where_def update_where_def)

lemma first_where_update_other:
  "(\<And>x. q (f x) = q x) \<Longrightarrow> (\<And>x. q x \<Longrightarrow> \<not> p x) \<Longrightarrow>
   first_where q (update_where p f xs) = first_where q xs"
  by (induction xs) (auto simp: first_where_def update_where_def)

definition keeps_key :: "(item_row \<Rightarrow> item_row) \<Rightarrow> bool" where
  "keeps_key f \<longleftrightarrow> (\<forall>row. item_key (f row) = item_key row)"

lemma find_row_update:
  "keeps_key f \<Longrightarrow> find_row (update_items r i f db) r' i' =
     (if r' = r \<and> i' = i then map_option f (find_row db r i) else find_row db r' i')"
  by (auto simp: find_row_def update_items_def keeps_key_def item_key_def same_item_def
      intro!: first_where_update first_where_update_other)

lemma find_attempt_update:
  "(\<And>row. at_id (f row) = at_id row) \<Longrightarrow> find_attempt (update_attempt a f db) a' =
     (if a' = a then map_option f (find_attempt db a) else find_attempt db a')"
  by (auto simp: find_attempt_def update_attempt_def
      intro!: first_where_update first_where_update_other)

lemma find_cong:
  "items db' = items db \<Longrightarrow> find_row db' r i = find_row db r i"
  "attempts db' = attempts db \<Longrightarrow> find_attempt db' a = find_attempt db a"
  "runs db' = runs db \<Longrightarrow> find_run db' r = find_run db r"
  by (simp_all add: find_row_def find_attempt_def find_run_def)

lemma find_row_mem: "find_row db r i = Some x \<Longrightarrow> x \<in> set (items db) \<and> it_run x = r \<and> it_id x = i"
  by (auto simp: find_row_def same_item_def dest: first_where_SomeD)

lemma find_attempt_mem: "find_attempt db a = Some x \<Longrightarrow> x \<in> set (attempts db) \<and> at_id x = a"
  by (auto simp: find_attempt_def dest: first_where_SomeD)

section \<open>The event an operation appends for itself\<close>

definition side_tables :: "db \<Rightarrow> _" where
  "side_tables db = (items db, attempts db, locks db, checkpoints db, projects db, workers db,
     effects db, approvals db, plans db)"

lemma append_loop_tables:
  "append_loop uuid False r v ag db evs = Inr (ag', db') \<Longrightarrow> side_tables db' = side_tables db"
proof (induction evs arbitrary: v ag db)
  case (Cons ev evs)
  from Cons.prems obtain ag1 db1 where
    rec: "record_event uuid db (ev\<lparr>event_version := Some (v + 1)\<rparr>) = Inr db1"
    and rest: "append_loop uuid False r (v + 1) ag1 db1 evs = Inr (ag', db')"
    by (auto simp: result_simps Let_def)
  from rec have "side_tables db1 = side_tables db"
    by (auto simp: record_event_def result_simps take_uuid_def side_tables_def)
  with Cons.IH [OF rest] show ?case by simp
qed simp

lemma append_own_effect:
  assumes inv: "db_inv db" and run: "append_own uuid now r ty pl act db = Inr (ag, db')"
  shows "side_tables db' = side_tables db"
    and "\<exists>row row'. find_run db r = Some row \<and> find_run db' r = Some row' \<and> rn_snapshot row' = ag \<and>
      rn_project row' = rn_project row \<and>
      events db' = events db @
        [(event_create (uuid (uuids db)) now r ty pl act)\<lparr>event_version := Some (rn_version row + 1)\<rparr>]"
    and "map (\<lambda>x. (rn_id x, rn_project x)) (runs db') = map (\<lambda>x. (rn_id x, rn_project x)) (runs db)"
proof -
  let ?ev = "event_create (uuid (uuids db)) now r ty pl act" and ?db0 = "take_uuid db"
  from run obtain row where row: "find_run db r = Some row"
    and ap: "append_locked uuid False ?db0 row (rn_snapshot row) [?ev] = Inr (ag, db')"
    by (auto simp: append_own_def result_simps lock_run_def split: option.splits)
  have inv0: "log_inv ?db0" using inv take_uuid_inv [of db] unfolding db_inv_def by blast
  have mem: "row \<in> set (runs ?db0)" and id: "rn_id row = r"
    using row by (auto simp: find_run_def take_uuid_def dest: first_where_SomeD)
  from append_locked_log_inv(2) [OF inv0 mem ap] obtain db1 where
    lg: "logs [?ev\<lparr>event_version := Some (rn_version row + 1)\<rparr>] ?db0 db1"
    and db': "db' = db1\<lparr>runs := update_where (\<lambda>x. rn_id x = r) (store_snapshot ag) (runs ?db0)\<rparr>"
    by (auto simp: id)
  from ap obtain db2 where loop: "append_loop uuid False (rn_id row) (rn_version row) (rn_snapshot row) ?db0 [?ev] = Inr (ag, db2)"
    and db'2: "db' = db2\<lparr>runs := runs db'\<rparr>"
    by (auto simp: append_locked_def result_simps Let_def)
  have "side_tables db2 = side_tables ?db0" by (rule append_loop_tables [OF loop])
  then show "side_tables db' = side_tables db"
    by (subst db'2) (simp add: side_tables_def take_uuid_def)
  have rns: "runs ?db0 = runs db" by (simp add: take_uuid_def)
  have "find_run db' r = map_option (store_snapshot ag) (find_run db r)"
    unfolding find_run_def db' rns by (simp add: first_where_update store_snapshot_def)
  with row have "find_run db' r = Some (store_snapshot ag row)" by simp
  moreover have "events db' = events db @ [?ev\<lparr>event_version := Some (rn_version row + 1)\<rparr>]"
    using lg by (simp add: db' logs_def take_uuid_def)
  ultimately show "\<exists>row row'. find_run db r = Some row \<and> find_run db' r = Some row' \<and>
      rn_snapshot row' = ag \<and> rn_project row' = rn_project row \<and>
      events db' = events db @ [?ev\<lparr>event_version := Some (rn_version row + 1)\<rparr>]"
    using row by (auto simp: store_snapshot_def)
  show "map (\<lambda>x. (rn_id x, rn_project x)) (runs db') = map (\<lambda>x. (rn_id x, rn_project x)) (runs db)"
    unfolding db' rns by (simp add: map_update_where_frame store_snapshot_def)
qed

lemma side_tables_eq:
  assumes "side_tables db' = side_tables db"
  shows "items db' = items db" "attempts db' = attempts db" "locks db' = locks db"
    "checkpoints db' = checkpoints db" "projects db' = projects db"
  using assms by (simp_all add: side_tables_def)

section \<open>Completion\<close>

lemma settle_item_simps [simp]:
  "it_status (settle_item t now d row) = t" "it_fence (settle_item t now d row) = it_fence row"
  "it_attempt (settle_item t now d row) = None" "it_lease (settle_item t now d row) = None"
  "it_not_before (settle_item t now d row) = retry_at now d"
  "it_run (settle_item t now d row) = it_run row" "it_id (settle_item t now d row) = it_id row"
  "it_attempts (settle_item t now d row) = it_attempts row"
  by (simp_all add: settle_item_def)

lemma keeps_key_settle [simp]: "keeps_key (settle_item t now d)"
  by (simp add: keeps_key_def item_key_def)

lemma drop_lock_tables [simp]:
  "items (drop_lock p a now db) = items db" "attempts (drop_lock p a now db) = attempts db"
  "runs (drop_lock p a now db) = runs db" "events (drop_lock p a now db) = events db"
  by (simp_all add: drop_lock_def)

lemma release_integration_lock_tables:
  "release_integration_lock att item now db = Inr db' \<Longrightarrow>
     items db' = items db \<and> attempts db' = attempts db \<and> runs db' = runs db \<and> events db' = events db"
  by (auto simp: release_integration_lock_def result_simps split: if_splits)

text \<open>A completion of a live attempt of an item that was not cancelled.\<close>

lemma complete_liveE:
  assumes inv: "db_inv db"
    and run: "complete_attempt uuid base now a fence out db = Inr (ag, db')"
    and lock: "lock_attempt db a fence = Inr (att, item)"
    and notc: "it_status item \<noteq> WCancelled"
    and fresh: "at_status att \<notin> {AStatus WSucceeded, AStatus WFailed}"
  obtains ok target delay ty pl where
    "outcome_succeeded out = Inr ok" "it_attempt item = Some a"
    "completion_event base att item ok out = (target, delay, ty, pl)"
    "find_row db' (at_run att) (at_item att) = Some (settle_item target now delay item)"
    "find_attempt db' a = Some (att\<lparr>at_status := AStatus (if ok then WSucceeded else WFailed),
        at_completed := Some now, at_outcome := Some out\<rparr>)"
    "snapshot_locked db' (at_run att) = Inr ag" "events db' = events db @ [last (events db')]"
    "event_type (last (events db')) = ty" "payload (last (events db')) = pl"
    "event_run_id (last (events db')) = at_run att"
proof -
  from run lock notc fresh obtain ok where ok: "outcome_succeeded out = Inr ok"
    and cur: "it_attempt item = Some a"
    by (auto simp: complete_attempt_def result_simps simp del: lock_attempt_eq)
  obtain target delay ty pl where ce: "completion_event base att item ok out = (target, delay, ty, pl)"
    by (cases "completion_event base att item ok out") auto
  let ?f = "\<lambda>row. row\<lparr>at_status := AStatus (if ok then WSucceeded else WFailed),
        at_completed := Some now, at_outcome := Some out\<rparr>"
  let ?db2 = "update_items (at_run att) (at_item att) (settle_item target now delay) (update_attempt a ?f db)"
  from run lock notc fresh ok cur ce obtain db3 where
    rel: "release_integration_lock att item now ?db2 = Inr db3"
    and own: "append_own uuid now (at_run att) ty pl (worker_actor (at_worker att)) db3 = Inr (ag, db')"
    by (auto simp: complete_attempt_def result_simps Let_def simp del: lock_attempt_eq)
  have touch: "same_log db ?db2" "same_leases db ?db2"
    by (rule touch_same; simp add: keeps_att_key_def att_key_def keeps_counters_def item_counters_def)+
  have same: "same_log db db3" "same_leases db db3"
    using release_integration_lock_same [OF rel touch] by auto
  have inv3: "db_inv db3" by (rule db_inv_same [OF inv same])
  note rel3 = release_integration_lock_tables [OF rel]
  note own3 = append_own_effect [OF inv3 own]
  have it: "items db' = items ?db2" "attempts db' = attempts ?db2"
    using side_tables_eq [OF own3(1)] rel3 by auto
  have "find_row db' (at_run att) (at_item att) = Some (settle_item target now delay item)"
  proof -
    have "find_row (update_attempt a ?f db) r i = find_row db r i" for r i
      by (rule find_cong(1)) (simp add: update_attempt_def)
    with lock find_cong(1) [OF it(1)] show ?thesis by (simp add: find_row_update lock_attempt_eq)
  qed
  moreover have "find_attempt db' a = Some (?f att)"
  proof -
    have "find_attempt ?db2 a = find_attempt (update_attempt a ?f db) a"
      by (rule find_cong(2)) (simp add: update_items_def)
    with lock find_cong(2) [OF it(2)] show ?thesis by (simp add: find_attempt_update lock_attempt_eq)
  qed
  moreover from own3(2) obtain row' where "find_run db' (at_run att) = Some row'" "rn_snapshot row' = ag"
    by blast
  then have "snapshot_locked db' (at_run att) = Inr ag" by (simp add: snapshot_locked_def)
  moreover have "events db3 = events db" using same(1) by (simp add: same_log_def)
  with own3(2) have "events db' = events db @ [last (events db')] \<and> event_type (last (events db')) = ty \<and>
      payload (last (events db')) = pl \<and> event_run_id (last (events db')) = at_run att"
    by (auto simp: event_create_def)
  ultimately show ?thesis using that [OF ok cur ce] by blast
qed

end
