(* ===== verification/Workflow_Claims.thy ===== *)
theory Workflow_Claims
  imports Workflow_Effects "HOL-Library.Sublist"
begin

text \<open>
  What a claim grants: the leased rows, how many, under which project limit, and how the
  integration lock of a project keeps two integration attempts apart.
\<close>

section \<open>One lease\<close>

lemma update_one:
  assumes "x \<in> set xs" and "g x" and "\<forall>y \<in> set xs. g y \<longrightarrow> y = x" and "distinct xs"
  obtains as bs where "xs = as @ x # bs" "update_where g f xs = as @ f x # bs"
proof -
  from assms(1) obtain as bs where xs: "xs = as @ x # bs" by (auto simp: in_set_conv_decomp)
  have "update_where g f as = as" "update_where g f bs = bs"
    using assms(3,4) by (auto simp: update_where_def xs intro!: map_idI)
  then have "update_where g f xs = as @ f x # bs" using assms(2) by (simp add: xs update_where_def)
  then show ?thesis using that xs by simp
qed

definition project_of :: "db \<Rightarrow> string \<Rightarrow> string option" where
  "project_of db r = map_option rn_project (find_run db r)"

lemma project_of_map: "project_of db r = map_of (map (\<lambda>x. (rn_id x, rn_project x)) (runs db)) r"
proof -
  have "map_option rn_project (first_where (\<lambda>row. rn_id row = r) rs) =
      map_of (map (\<lambda>x. (rn_id x, rn_project x)) rs) r" for rs
    by (induction rs) (auto simp: first_where_def)
  then show ?thesis by (simp add: project_of_def find_run_def)
qed

lemma run_project_eq: "run_project db r = Inr p \<longleftrightarrow> project_of db r = Some p"
  by (auto simp: run_project_def project_of_def split: option.splits)

lemma active_count_alt:
  "active_count db p =
     int (length (filter (\<lambda>x. active_status (it_status x) \<and> project_of db (it_run x) = Some p) (items db)))"
  unfolding active_count_def project_of_def by (rule arg_cong [of _ _ "\<lambda>n. int (length n)"])
    (auto intro!: filter_cong split: option.splits)

lemma fence_inv_distinct: "fence_inv db \<Longrightarrow> distinct (map item_key (items db))"
  by (simp add: fence_inv_def fence_ok_def item_key_counters)

text \<open>Everything a granted lease changes and says.\<close>

lemma grant_leaseE:
  assumes grant: "grant_lease uuid w now p seen db = Inr (Some (lease, db'))" and inv: "db_inv db"
    and seen: "it_attempts seen = it_fence seen"
  obtains as row bs where
    "items db = as @ row # bs" "item_key row = item_key seen" "it_status row = WReady"
    "it_fence row = it_fence seen"
    "items db' = as @ lease_row w now (uuid (uuids db)) seen row # bs"
    "leased_run_id lease = it_run seen" "leased_item_id lease = it_id seen"
    "leased_fencing_token lease = it_fence seen + 1" "leased_item lease = it_json seen"
    "leased_expires_at lease = now + lease_span" "leased_attempt_id lease = uuid (uuids db)"
    "attempts db' = attempts db @ [new_attempt w now (uuid (uuids db)) seen]"
    "locks db' = locks (take_integration_lock now p (uuid (uuids db)) seen db)"
    "projects db' = projects db" "project_of db' = project_of db"
proof -
  let ?a = "uuid (uuids db)" and ?db0 = "take_uuid db"
  let ?its = "update_where (claim_guard seen) (lease_row w now ?a seen) (items ?db0)"
  let ?db1 = "take_integration_lock now p ?a seen
    (?db0\<lparr>items := ?its, attempts := attempts ?db0 @ [new_attempt w now ?a seen]\<rparr>)"
  from grant obtain row ag pl where
    row: "row \<in> set (items ?db0)" "claim_guard seen row"
    and fresh: "\<forall>x \<in> set (attempts ?db0). at_id x \<noteq> ?a"
    and ap: "append_own uuid now (it_run seen) ''work_leased'' pl (worker_actor w) ?db1 = Inr (ag, db')"
    and lease: "leased_run_id lease = it_run seen" "leased_item_id lease = it_id seen"
      "leased_fencing_token lease = it_fence seen + 1" "leased_item lease = it_json seen"
      "leased_expires_at lease = now + lease_span" "leased_attempt_id lease = ?a"
    by (auto simp: grant_lease_def Let_def result_simps list_ex_iff split: if_splits)
  have items0: "items ?db0 = items db" by (simp add: take_uuid_def)
  have fi: "fence_inv db" using inv by (simp add: db_inv_def)
  note d = fence_inv_distinct [OF fi]
  have key: "item_key row = item_key seen" and st: "it_status row = WReady" "it_fence row = it_fence seen"
    using row(2) by (simp_all add: claim_guard_def same_item_def item_key_def)
  have only: "\<forall>y \<in> set (items db). claim_guard seen y \<longrightarrow> y = row"
  proof clarify
    fix y assume "y \<in> set (items db)" "claim_guard seen y"
    moreover from this have "item_key y = item_key row"
      unfolding key by (simp add: claim_guard_def same_item_def item_key_def)
    ultimately show "y = row" using d row(1) items0 by (metis distinct_map inj_onD)
  qed
  obtain as bs where split: "items db = as @ row # bs"
    "update_where (claim_guard seen) (lease_row w now ?a seen) (items db) = as @ lease_row w now ?a seen row # bs"
  proof (rule update_one [OF _ row(2) only])
    show "row \<in> set (items db)" using row(1) items0 by simp
    show "distinct (items db)" using d by (simp add: distinct_map)
  qed
  have "fence_ok (map att_key (attempts db) @ [(?a, it_run seen, it_id seen, it_fence seen + 1, it_fence seen + 1)])
     (map item_counters ?its)"
  proof -
    have "(it_run seen, it_id seen, it_fence seen, it_fence seen) \<in> set (map item_counters (items db))"
    proof -
      have "row \<in> set (items db)" using row(1) items0 by simp
      moreover from fence_inv_counters [OF fi this] row(2)
      have "item_counters row = (it_run seen, it_id seen, it_fence seen, it_fence seen)"
        by (simp add: item_counters_def claim_guard_def same_item_def)
      ultimately show ?thesis by (metis image_eqI set_map)
    qed
    moreover have "?a \<notin> set (map fst (map att_key (attempts db)))"
      using fresh by (auto simp: att_key_def take_uuid_def)
    moreover have "row \<in> set (items db)" using row(1) items0 by simp
    ultimately show ?thesis
      unfolding items0 lease_rows_counters [OF fi \<open>row \<in> set (items db)\<close> row(2) seen]
      using fi unfolding fence_inv_def by (intro fence_ok_lease)
  qed
  then have "fence_inv ?db1"
    by (simp add: fence_inv_def take_integration_lock_def att_key_def new_attempt_def seen take_uuid_def)
  moreover have "sequence_inv ?db1"
    using inv by (simp add: db_inv_def sequence_inv_def take_integration_lock_def take_uuid_def)
  moreover have "same_log db ?db1" by (simp add: take_integration_lock_def same_log_def take_uuid_def)
  then have "log_inv ?db1" using inv log_inv_same unfolding db_inv_def by blast
  ultimately have inv1: "db_inv ?db1" by (simp add: db_inv_def)
  note own = append_own_effect [OF inv1 ap]
  note tabs = side_tables_eq [OF own(1)]
  have "items db' = as @ lease_row w now ?a seen row # bs"
    using tabs(1) split(2) items0 by (simp add: take_integration_lock_def)
  moreover have "attempts db' = attempts db @ [new_attempt w now ?a seen]"
    using tabs(2) by (simp add: take_integration_lock_def take_uuid_def)
  moreover have "locks db' = locks (take_integration_lock now p ?a seen db)"
    using tabs(3) by (simp add: take_integration_lock_def take_uuid_def)
  moreover have "projects db' = projects db"
    using tabs(5) by (simp add: take_integration_lock_def take_uuid_def)
  moreover have "project_of db' = project_of db"
    using own(3) by (auto simp: project_of_map take_integration_lock_def take_uuid_def)
  ultimately show ?thesis using that split(1) key st lease by blast
qed

lemma lease_row_simps [simp]:
  "item_key (lease_row w now a seen row) = item_key row" "it_run (lease_row w now a seen row) = it_run row"
  "it_status (lease_row w now a seen row) = WLeased"
  by (simp_all add: lease_row_def item_key_def)

lemma grant_lease_active:
  assumes "grant_lease uuid w now p seen db = Inr (Some (lease, db'))" and "db_inv db"
    and "it_attempts seen = it_fence seen" and "project_of db (it_run seen) = Some p"
  shows "active_count db' q = active_count db q + (if q = p then 1 else 0)"
  using assms(1-3)
proof (rule grant_leaseE)
  fix as row bs
  assume its: "items db = as @ row # bs" "items db' = as @ lease_row w now (uuid (uuids db)) seen row # bs"
    and row: "item_key row = item_key seen" "it_status row = WReady"
    and pr: "project_of db' = project_of db"
  have "it_run row = it_run seen" using row(1) by (simp add: item_key_def)
  with assms(4) show ?thesis
    by (simp add: active_count_alt its pr row active_status_def)
qed

section \<open>The loop\<close>

text \<open>What holds of the loop state after a prefix of the candidate rows.\<close>

definition claim_loop :: "db \<Rightarrow> claim_state \<Rightarrow> bool" where
  "claim_loop db cs \<longleftrightarrow>
     db_inv (cs_db cs) \<and> projects (cs_db cs) = projects db \<and> project_of (cs_db cs) = project_of db \<and>
     (\<forall>p v. map_of (cs_active cs) p = Some v \<longrightarrow>
        v = active_count (cs_db cs) p \<and>
        (\<exists>row. first_where (\<lambda>x. pr_id x = p) (projects db) = Some row \<and>
          map_of (cs_limit cs) p = Some (pr_max_active row))) \<and>
     (\<forall>row \<in> set (projects db). first_where (\<lambda>x. pr_id x = pr_id row) (projects db) = Some row \<longrightarrow>
        active_count (cs_db cs) (pr_id row) \<le> max (active_count db (pr_id row)) (pr_max_active row))"

lemma claim_loop_cache:
  assumes "claim_loop db cs" and "cache_project p cs = Inr cs1"
  shows "claim_loop db cs1" and "map_of (cs_active cs1) p = Some (active_count (cs_db cs) p)"
proof -
  have "cs_db cs1 = cs_db cs" using cache_project_db [OF assms(2)] by simp
  show "claim_loop db cs1"
  proof (cases "map_of (cs_active cs) p")
    case (Some v)
    with assms show ?thesis by (simp add: cache_project_def)
  next
    case None
    with assms(2) obtain row where row: "first_where (\<lambda>x. pr_id x = p) (projects (cs_db cs)) = Some row"
      "cs1 = cs\<lparr>cs_limit := dset p (pr_max_active row) (cs_limit cs),
                cs_active := dset p (active_count (cs_db cs) p) (cs_active cs)\<rparr>"
      by (auto simp: cache_project_def split: option.splits)
    with assms(1) show ?thesis by (simp add: claim_loop_def dict_simps)
  qed
  show "map_of (cs_active cs1) p = Some (active_count (cs_db cs) p)"
    using assms by (auto simp: cache_project_def claim_loop_def dict_simps split: option.splits if_splits)
qed

lemma claim_loop_step:
  assumes step: "claim_one uuid w caps limit now cs (p, seen) = Inr cs'" and loop: "claim_loop db cs"
    and seen: "it_attempts seen = it_fence seen" and p: "project_of db (it_run seen) = Some p"
  shows "claim_loop db cs'"
  using step
proof (cases rule: claim_oneE)
  case (skip cs1)
  have 1: "claim_loop db cs1" using skip(1) loop claim_loop_cache(1) by auto
  have "cs_db cs1 = cs_db cs" using skip(1) by (auto dest: cache_project_db)
  moreover have "active_count (take_uuid d) = active_count d" "project_of (take_uuid d) = project_of d"
    "projects (take_uuid d) = projects d" for d
    by (simp_all add: fun_eq_iff active_count_def project_of_def find_run_def take_uuid_def)
  ultimately show ?thesis using skip(2) 1 by (auto simp: claim_loop_def)
next
  case (grant lease required cs1)
  note cached = claim_loop_cache [OF loop grant(4)]
  have db1: "cs_db cs1 = cs_db cs" using cache_project_db [OF grant(4)] by simp
  have inv: "db_inv (cs_db cs)" and pr: "projects (cs_db cs) = projects db"
    and po: "project_of (cs_db cs) = project_of db" using loop by (simp_all add: claim_loop_def)
  have act: "active_count (cs_db cs') q = active_count (cs_db cs) q + (if q = p then 1 else 0)" for q
    using grant_lease_active [OF grant(7) inv seen] p po by simp
  have inv': "db_inv (cs_db cs')" by (rule grant_lease_inv [OF grant(7) inv seen])
  have same: "projects (cs_db cs') = projects db" "project_of (cs_db cs') = project_of db"
    using grant(7) inv seen by (auto elim!: grant_leaseE simp: pr po)
  obtain prow where limit_p: "first_where (\<lambda>x. pr_id x = p) (projects db) = Some prow"
    "map_of (cs_limit cs1) p = Some (pr_max_active prow)"
    using cached(1) cached(2) unfolding claim_loop_def by (elim conjE allE [of _ p]) auto
  have fields: "cs_active cs' = dset p (active_count (cs_db cs) p + 1) (cs_active cs1)" "cs_limit cs' = cs_limit cs1"
    by (subst grant(8), simp add: dget_def cached(2))+
  show ?thesis
    unfolding claim_loop_def
  proof (intro conjI allI impI ballI)
    fix q v assume q: "map_of (cs_active cs') q = Some v"
    show "v = active_count (cs_db cs') q"
      using q cached(1) by (auto simp: fields dict_simps act claim_loop_def db1 split: if_splits)
    show "\<exists>row. first_where (\<lambda>x. pr_id x = q) (projects db) = Some row \<and>
        map_of (cs_limit cs') q = Some (pr_max_active row)"
      using q cached(1) limit_p by (auto simp: fields dict_simps claim_loop_def split: if_splits)
  next
    fix row assume row: "first_where (\<lambda>x. pr_id x = pr_id row) (projects db) = Some row" "row \<in> set (projects db)"
    have "active_count (cs_db cs) (pr_id row) \<le> max (active_count db (pr_id row)) (pr_max_active row)"
      using loop row by (simp add: claim_loop_def)
    moreover have "active_count (cs_db cs) p < pr_max_active row" if "pr_id row = p"
      using grant(5) cached(2) limit_p row(1) that by (simp add: dget_def)
    ultimately show "active_count (cs_db cs') (pr_id row) \<le> max (active_count db (pr_id row)) (pr_max_active row)"
      by (auto simp: act)
  qed (simp_all add: inv' same)
qed

section \<open>The leases of a claim\<close>

definition lease_of :: "leased_work_item \<Rightarrow> item_row \<Rightarrow> bool" where
  "lease_of l item \<longleftrightarrow>
     leased_run_id l = it_run item \<and> leased_item_id l = it_id item \<and>
     leased_fencing_token l = it_fence item + 1 \<and> leased_item l = it_json item"

definition lease_key :: "leased_work_item \<Rightarrow> string \<times> string" where
  "lease_key l = (leased_run_id l, leased_item_id l)"

definition capable :: "string list \<Rightarrow> item_row \<Rightarrow> bool" where
  "capable caps item \<longleftrightarrow>
     (case required_capabilities_of item of Inl _ \<Rightarrow> False | Inr required \<Rightarrow> covers caps required)"

text \<open>The leases granted after the candidate rows \<open>done\<close>.\<close>

definition leases_ok :: "string list \<Rightarrow> int \<Rightarrow> claim_state \<Rightarrow> (string \<times> item_row) list \<Rightarrow> bool" where
  "leases_ok caps limit cs seen_rows \<longleftrightarrow>
     subseq (map lease_key (cs_claimed cs)) (map (item_key \<circ> snd) seen_rows) \<and>
     (\<forall>l \<in> set (cs_claimed cs). \<exists>(p, item) \<in> set seen_rows. lease_of l item \<and> capable caps item) \<and>
     int (length (cs_claimed cs)) \<le> max 1 limit \<and>
     (\<not> cs_done cs \<longrightarrow> int (length (cs_claimed cs)) < max 1 limit)"

lemma leases_ok_step:
  assumes step: "claim_one uuid w caps limit now cs (p, seen) = Inr cs'" and loop: "claim_loop db cs"
    and seen: "it_attempts seen = it_fence seen" and ok: "leases_ok caps limit cs rows"
  shows "leases_ok caps limit cs' (rows @ [(p, seen)])"
  using step
proof (cases rule: claim_oneE)
  case (skip cs1)
  then have "cs_claimed cs' = cs_claimed cs" "cs_done cs' = cs_done cs"
    by (auto dest: cache_project_db)
  with ok show ?thesis by (auto simp: leases_ok_def)
next
  case (grant lease required cs1)
  have claimed: "cs_claimed cs' = cs_claimed cs @ [lease]"
    and fin: "cs_done cs' \<longleftrightarrow> limit \<le> int (length (cs_claimed cs @ [lease]))"
    by (subst grant(8), simp)+
  have inv: "db_inv (cs_db cs)" using loop by (simp add: claim_loop_def)
  have lease: "lease_of lease seen" "lease_key lease = item_key seen"
    using grant(7) inv seen by (auto elim!: grant_leaseE simp: lease_of_def lease_key_def item_key_def)
  have "capable caps seen" using grant(2,3) by (simp add: capable_def)
  then show ?thesis
    using ok lease grant(1) fin
    by (auto simp: leases_ok_def claimed intro: list_emb_append_mono)
qed

section \<open>The integration lock\<close>

definition integration_held :: "time \<Rightarrow> string \<Rightarrow> db \<Rightarrow> bool" where
  "integration_held now p db \<longleftrightarrow>
     (case first_where (\<lambda>l. lk_project l = p) (locks db) of None \<Rightarrow> False | Some l \<Rightarrow> lock_is_held now l)"

definition integration_leases :: "db \<Rightarrow> string \<Rightarrow> leased_work_item list \<Rightarrow> leased_work_item list" where
  "integration_leases db p ls =
     filter (\<lambda>l. is_integration (leased_item l) \<and> project_of db (leased_run_id l) = Some p) ls"

definition lock_ok :: "time \<Rightarrow> db \<Rightarrow> claim_state \<Rightarrow> bool" where
  "lock_ok now db cs \<longleftrightarrow>
     (\<forall>p. length (integration_leases db p (cs_claimed cs)) \<le> (if integration_held now p db then 0 else 1) \<and>
        (integration_held now p db \<or> integration_leases db p (cs_claimed cs) \<noteq> [] \<longrightarrow>
           integration_held now p (cs_db cs)))"

lemma take_lock_held:
  assumes "integration_busy now p seen db = Inr False" and "is_integration (it_json seen)" and "a \<noteq> []"
  shows "integration_held now q (take_integration_lock now p a seen db) \<longleftrightarrow>
     q = p \<or> integration_held now q db" and "\<not> integration_held now p db"
proof -
  let ?f = "\<lambda>l. l\<lparr>lk_attempt := Some a, lk_lease := Some (now + lease_span), lk_updated := now\<rparr>"
  have "first_where (\<lambda>l. lk_project l = q) (update_where (\<lambda>l. lk_project l = p) ?f (locks db)) =
      (if q = p then map_option ?f (first_where (\<lambda>l. lk_project l = p) (locks db))
       else first_where (\<lambda>l. lk_project l = q) (locks db))"
    by (auto intro!: first_where_update first_where_update_other)
  with assms show "integration_held now q (take_integration_lock now p a seen db) \<longleftrightarrow>
     q = p \<or> integration_held now q db"
    by (auto simp: integration_held_def take_integration_lock_def integration_busy_def lock_is_held_def
        lease_span_def truthy_id_def split: option.splits)
  show "\<not> integration_held now p db"
    using assms by (auto simp: integration_held_def integration_busy_def split: option.splits)
qed

lemma lock_ok_step:
  assumes step: "claim_one uuid w caps limit now cs (p, seen) = Inr cs'" and loop: "claim_loop db cs"
    and seen: "it_attempts seen = it_fence seen" and p: "project_of db (it_run seen) = Some p"
    and ok: "lock_ok now db cs" and ids: "\<forall>n. uuid n \<noteq> []"
  shows "lock_ok now db cs'"
  using step
proof (cases rule: claim_oneE)
  case (skip cs1)
  then have "cs_claimed cs' = cs_claimed cs" "locks (cs_db cs') = locks (cs_db cs)"
    by (auto simp: take_uuid_def dest: cache_project_db)
  with ok show ?thesis by (simp add: lock_ok_def integration_held_def)
next
  case (grant lease required cs1)
  have claimed: "cs_claimed cs' = cs_claimed cs @ [lease]" by (subst grant(8), simp)
  have inv: "db_inv (cs_db cs)" using loop by (simp add: claim_loop_def)
  let ?a = "uuid (uuids (cs_db cs))"
  have lease: "leased_run_id lease = it_run seen" "leased_item lease = it_json seen"
    and locks: "locks (cs_db cs') = locks (take_integration_lock now p ?a seen (cs_db cs))"
    using grant(7) inv seen by (auto elim!: grant_leaseE)
  have held: "integration_held now q (cs_db cs') =
      integration_held now q (take_integration_lock now p ?a seen (cs_db cs))" for q
    by (simp add: integration_held_def locks)
  show ?thesis
  proof (cases "is_integration (it_json seen)")
    case False
    then have "integration_leases db q (cs_claimed cs') = integration_leases db q (cs_claimed cs)" for q
      by (simp add: integration_leases_def claimed lease)
    with False ok show ?thesis by (simp add: lock_ok_def held take_integration_lock_def)
  next
    case True
    note lk = take_lock_held [OF grant(6) True, of ?a]
    have *: "integration_leases db q (cs_claimed cs') =
        integration_leases db q (cs_claimed cs) @ (if q = p then [lease] else [])" for q
      using True p by (auto simp: integration_leases_def claimed lease)
    have none: "integration_leases db p (cs_claimed cs) = []" "\<not> integration_held now p db"
      using ok lk(2) ids unfolding lock_ok_def by blast+
    show ?thesis
      unfolding lock_ok_def
    proof (intro allI)
      fix q
      from ok have "length (integration_leases db q (cs_claimed cs)) \<le> (if integration_held now q db then 0 else 1)"
        "integration_held now q db \<or> integration_leases db q (cs_claimed cs) \<noteq> [] \<longrightarrow>
           integration_held now q (cs_db cs)" by (simp_all add: lock_ok_def)
      then show "length (integration_leases db q (cs_claimed cs')) \<le> (if integration_held now q db then 0 else 1) \<and>
        (integration_held now q db \<or> integration_leases db q (cs_claimed cs') \<noteq> [] \<longrightarrow>
           integration_held now q (cs_db cs'))"
        using none ids lk(1) [of q] by (cases "q = p") (simp_all add: held *)
    qed
  qed
qed

section \<open>The claim as a whole\<close>

lemma upsert_worker_tables [simp]:
  "items (upsert_worker w caps now b db) = items db" "locks (upsert_worker w caps now b db) = locks db"
  "runs (upsert_worker w caps now b db) = runs db" "projects (upsert_worker w caps now b db) = projects db"
  by (simp_all add: upsert_worker_def Let_def)

lemma rmap_pairs:
  "rmap (\<lambda>x. rbind (f x) (\<lambda>p. Inr (p, x))) xs = Inr rows \<Longrightarrow> map snd rows = xs"
  by (induction xs arbitrary: rows) (auto simp: result_simps)

lemma claim_workE:
  assumes run: "claim_work uuid now w caps limit f db = Inr (ls, db')" and inv: "db_inv db"
    and ids: "\<forall>n. uuid n \<noteq> []"
  obtains cs rows where "ls = cs_claimed cs" "db' = cs_db cs" "claim_loop db cs" "lock_ok now db cs"
    "leases_ok caps limit cs rows" "map snd rows = claim_candidates now f limit db"
proof -
  let ?db1 = "upsert_worker w caps now False db"
  let ?cs0 = "\<lparr>cs_db = ?db1, cs_claimed = [], cs_active = [], cs_limit = [], cs_done = False\<rparr>"
  have cand: "claim_candidates now f limit ?db1 = claim_candidates now f limit db"
    by (simp add: claim_candidates_def claimable_def find_run_def fun_eq_iff cong: filter_cong)
  from run obtain rows cs where
    rows: "rmap (\<lambda>item. rbind (run_project ?db1 (it_run item)) (\<lambda>p. Inr (p, item)))
       (claim_candidates now f limit db) = Inr rows"
    and cs: "rfold (claim_one uuid w caps limit now) ?cs0 rows = Inr cs"
    and res: "ls = cs_claimed cs" "db' = cs_db cs"
    by (auto simp: claim_work_def Let_def result_simps cand)
  have po: "project_of ?db1 = project_of db" by (simp add: project_of_def find_run_def fun_eq_iff)
  have row: "it_attempts (snd x) = it_fence (snd x) \<and> project_of db (it_run (snd x)) = Some (fst x)"
    if "x \<in> set rows" for x
  proof -
    from rows that have "snd x \<in> set (claim_candidates now f limit db)"
      and "run_project ?db1 (it_run (snd x)) = Inr (fst x)"
      by (auto dest!: rmap_mem simp: result_simps)
    then show ?thesis
      using inv by (auto simp: db_inv_def run_project_eq po dest!: claim_candidates_mem dest: fence_inv_counters)
  qed
  have "db_inv ?db1" by (rule db_inv_same [OF inv]) simp_all
  then have "claim_loop db ?cs0"
    by (simp add: claim_loop_def po active_count_alt)
  moreover have "lock_ok now db ?cs0"
    by (simp add: lock_ok_def integration_leases_def integration_held_def)
  moreover have "leases_ok caps limit ?cs0 []" by (simp add: leases_ok_def max_def)
  ultimately have "claim_loop db cs \<and> lock_ok now db cs \<and> leases_ok caps limit cs ([] @ rows)"
  proof (rule_tac P = "\<lambda>cs pre. claim_loop db cs \<and> lock_ok now db cs \<and> leases_ok caps limit cs pre"
      in rfold_prefix_invariant [OF cs])
    fix s x t pre
    assume x: "x \<in> set rows" and s: "claim_loop db s \<and> lock_ok now db s \<and> leases_ok caps limit s pre"
      and st: "claim_one uuid w caps limit now s x = Inr t"
    from st have st': "claim_one uuid w caps limit now s (fst x, snd x) = Inr t" by simp
    from row [OF x] s show "claim_loop db t \<and> lock_ok now db t \<and> leases_ok caps limit t (pre @ [x])"
      using claim_loop_step [OF st'] lock_ok_step [OF st' _ _ _ _ ids] leases_ok_step [OF st', of db pre]
      by simp
  qed simp
  with that [OF res, of rows] rmap_pairs [OF rows] show ?thesis by simp
qed

end
