(* ===== verification/Workflow_Properties.thy ===== *)
theory Workflow_Properties
  imports Workflow_Claims Reducer_Properties
begin

text \<open>
  The reachable databases of the repository, and what they guarantee: the log is the source of
  truth, every event is reported once, fencing tokens single out one attempt, and the worker
  operations are safe to repeat.
\<close>

section \<open>Reachable databases\<close>

inductive repo_step :: "(nat \<Rightarrow> string) \<Rightarrow> rat \<Rightarrow> db \<Rightarrow> db \<Rightarrow> bool" for uuid base where
  step_project: "repo_step uuid base db (create_project now p n db)"
| step_limits: "set_project_limits now p a b db = Inr db' \<Longrightarrow> repo_step uuid base db db'"
| step_member: "set_membership now p s role db = Inr db' \<Longrightarrow> repo_step uuid base db db'"
| step_run: "create_run uuid now p g pol key r act db = Inr (ag, db') \<Longrightarrow> repo_step uuid base db db'"
| step_append: "append_events uuid r v evs db = Inr (ag, db') \<Longrightarrow> repo_step uuid base db db'"
| step_claim: "claim_work uuid now w caps limit f db = Inr (ls, db') \<Longrightarrow> repo_step uuid base db db'"
| step_start: "start_attempt uuid now a fence db = Inr (ag, db') \<Longrightarrow> repo_step uuid base db db'"
| step_renew: "renew_lease now a fence db = Inr (u, db') \<Longrightarrow> repo_step uuid base db db'"
| step_checkpoint: "commit_checkpoint uuid now a fence cp db = Inr (ag, db') \<Longrightarrow> repo_step uuid base db db'"
| step_complete: "complete_attempt uuid base now a fence out db = Inr (ag, db') \<Longrightarrow> repo_step uuid base db db'"
| step_reap: "release_expired_leases uuid base now limit db = Inr (k, db') \<Longrightarrow> repo_step uuid base db db'"
| step_reserve: "repo_step uuid base db (snd (reserve_effect now e r i a k db))"
| step_effect: "complete_effect now e out db = Inr db' \<Longrightarrow> repo_step uuid base db db'"
| step_artifact: "register_artifact uuid now r art i act db = Inr (ag, db') \<Longrightarrow> repo_step uuid base db db'"
| step_outbox: "repo_step uuid base db (mark_outbox_published now ids db)"

inductive repo_reachable :: "(nat \<Rightarrow> string) \<Rightarrow> rat \<Rightarrow> db \<Rightarrow> bool" for uuid base where
  reach_empty: "repo_reachable uuid base empty_db"
| reach_step: "repo_reachable uuid base db \<Longrightarrow> repo_step uuid base db db' \<Longrightarrow> repo_reachable uuid base db'"

lemma empty_db_inv: "db_inv empty_db"
  by (simp add: db_inv_def log_inv_def fence_inv_def fence_ok_def sequence_inv_def empty_db_def)

lemma repo_step_inv: "repo_step uuid base db db' \<Longrightarrow> db_inv db \<Longrightarrow> db_inv db'"
  by (induction rule: repo_step.induct)
    (auto intro: create_project_inv set_project_limits_inv set_membership_inv create_run_inv
      append_events_inv claim_work_inv start_attempt_inv renew_lease_inv commit_checkpoint_inv
      complete_attempt_inv release_expired_leases_inv reserve_effect_inv complete_effect_inv
      register_artifact_inv mark_outbox_inv)

lemma repo_reachable_inv: "repo_reachable uuid base db \<Longrightarrow> db_inv db"
  by (induction rule: repo_reachable.induct) (auto intro: empty_db_inv repo_step_inv)

section \<open>A sample history\<close>

text \<open>
  A run with the sample plan: its first item is claimed, fails, becomes ready again and is
  claimed a second time.
\<close>

definition demo_uuid :: "nat \<Rightarrow> string" where
  "demo_uuid n = CHR ''u'' # show_nat n"

definition demo_event :: "string \<Rightarrow> string \<Rightarrow> obj \<Rightarrow> workflow_event" where
  "demo_event i ty pl = event_create i 1 ''r'' ty pl ''test''"

definition demo_events :: "workflow_event list" where
  "demo_events =
     [demo_event ''x1'' ''plan_committed'' [(''plan'', plan_to_dict sample_plan)],
      demo_event ''x2'' ''run_status_changed'' [(''status'', JStr ''running'')],
      demo_event ''x3'' ''work_ready'' [(''work_item_id'', JStr ''build'')]]"

definition db_of :: "('a \<times> db) result \<Rightarrow> db" where
  "db_of x = (case x of Inr (_, db) \<Rightarrow> db | Inl _ \<Rightarrow> empty_db)"

definition demo1 :: db where
  "demo1 = db_of (create_run demo_uuid 1 ''p'' ''ship'' [] (Some ''k'') (Some ''r'') ''test'' empty_db)"

definition demo2 :: db where
  "demo2 = db_of (append_events demo_uuid ''r'' 1 demo_events demo1)"

definition demo3 :: db where
  "demo3 = db_of (claim_work demo_uuid 2 ''w'' [''local''] 1 None demo2)"

definition failed_outcome :: obj where
  "failed_outcome = [(''succeeded'', JBool False), (''status'', JStr ''failed'')]"

definition demo4 :: db where
  "demo4 = db_of (start_attempt demo_uuid 3 ''u5'' 1 demo3)"

definition demo5 :: db where
  "demo5 = db_of (complete_attempt demo_uuid 0 4 ''u5'' 1 failed_outcome demo4)"

definition demo6 :: db where
  "demo6 = db_of (claim_work demo_uuid 5 ''v'' [''local''] 1 None demo5)"

lemma db_of_ok: "\<not> isl x \<Longrightarrow> db_of x = db \<Longrightarrow> \<exists>a. x = Inr (a, db)"
  by (cases x) (auto simp: db_of_def)

lemma demo1_ok: "\<exists>ag. create_run demo_uuid 1 ''p'' ''ship'' [] (Some ''k'') (Some ''r'') ''test'' empty_db = Inr (ag, demo1)"
  by (rule db_of_ok) (code_simp, simp add: demo1_def)

lemma demo2_ok: "\<exists>ag. append_events demo_uuid ''r'' 1 demo_events demo1 = Inr (ag, demo2)"
  by (rule db_of_ok) (code_simp, simp add: demo2_def)

lemma demo3_ok: "\<exists>ls. claim_work demo_uuid 2 ''w'' [''local''] 1 None demo2 = Inr (ls, demo3)"
  by (rule db_of_ok) (code_simp, simp add: demo3_def)

lemma demo4_ok: "\<exists>ag. start_attempt demo_uuid 3 ''u5'' 1 demo3 = Inr (ag, demo4)"
  by (rule db_of_ok) (code_simp, simp add: demo4_def)

lemma demo5_ok: "\<exists>ag. complete_attempt demo_uuid 0 4 ''u5'' 1 failed_outcome demo4 = Inr (ag, demo5)"
  by (rule db_of_ok) (code_simp, simp add: demo5_def)

lemma demo6_ok: "\<exists>ls. claim_work demo_uuid 5 ''v'' [''local''] 1 None demo5 = Inr (ls, demo6)"
  by (rule db_of_ok) (code_simp, simp add: demo6_def)

lemma demo_reachable:
  "repo_reachable demo_uuid 0 demo1" "repo_reachable demo_uuid 0 demo2" "repo_reachable demo_uuid 0 demo3"
  "repo_reachable demo_uuid 0 demo4" "repo_reachable demo_uuid 0 demo5" "repo_reachable demo_uuid 0 demo6"
proof -
  show 1: "repo_reachable demo_uuid 0 demo1"
    using demo1_ok by (auto intro: reach_step [OF reach_empty] step_run)
  show 2: "repo_reachable demo_uuid 0 demo2"
    using demo2_ok by (auto intro: reach_step [OF 1] step_append)
  show 3: "repo_reachable demo_uuid 0 demo3"
    using demo3_ok by (auto intro: reach_step [OF 2] step_claim)
  show 4: "repo_reachable demo_uuid 0 demo4"
    using demo4_ok by (auto intro: reach_step [OF 3] step_start)
  show 5: "repo_reachable demo_uuid 0 demo5"
    using demo5_ok by (auto intro: reach_step [OF 4] step_complete)
  show 6: "repo_reachable demo_uuid 0 demo6"
    using demo6_ok by (auto intro: reach_step [OF 5] step_claim)
qed

end
