(* ===== verification/Workflow_Guarantees.thy ===== *)
theory Workflow_Guarantees
  imports Workflow_Properties
begin

text \<open>
  The guarantees of the repository as theorems about its reachable databases and about single
  operations on them.
\<close>

section \<open>The log\<close>

lemma runs_are_replays_inv:
  assumes "repo_reachable uuid base db" and "find_run db r = Some row"
  shows "run_faithful db row \<and> rn_id row = r \<and> map event_version (events_of db r) = map Some [1..rn_version row] \<and>
    int (length (events_of db r)) = rn_version row"
proof -
  have inv: "log_inv db" using repo_reachable_inv [OF assms(1)] by (simp add: db_inv_def)
  then have "row \<in> set (runs db)" "rn_id row = r" using assms(2) by (simp_all add: find_run_Some)
  moreover from this inv have "run_faithful db row" by (simp add: log_inv_def)
  ultimately show ?thesis using run_faithful_length [of db row] by (auto simp: run_faithful_def)
qed

text \<open>C13: A run row is a cache of its events: in every reachable database the snapshot of a run
  is the replay of the events stored for it, the events are numbered 1, 2, ... without a gap, the
  status, version and plan revision columns repeat the snapshot, and the snapshot satisfies the
  aggregate invariant.\<close>

theorem runs_are_replays:
  assumes "repo_reachable uuid base db" and "find_run db r = Some row"
  shows "replay_events r (events_of db r) = Inr (rn_snapshot row) \<and>
    map event_version (events_of db r) = map Some [1..rn_version row] \<and>
    rn_version row = ag_version (rn_snapshot row) \<and> rn_status row = ag_status (rn_snapshot row) \<and>
    rn_plan_revision row = ag_plan_revision (rn_snapshot row) \<and> ag_inv (rn_snapshot row)"
  using runs_are_replays_inv [OF assms] ag_inv_snapshot [of db row] by (auto simp: run_faithful_def)

lemma demo2_run: "find_run demo2 ''r'' \<noteq> None \<and> map_option rn_version (find_run demo2 ''r'') = Some 4"
  by code_simp

theorem runs_are_replays_witness:
  "\<exists>row. find_run demo2 ''r'' = Some row \<and> map event_version (events_of demo2 ''r'') = map Some [1..4] \<and>
     ag_inv (rn_snapshot row)"
proof -
  from demo2_run obtain row where row: "find_run demo2 ''r'' = Some row" "rn_version row = 4" by auto
  from runs_are_replays [OF demo_reachable(2) row(1)] show ?thesis unfolding row(2) using row(1) by blast
qed

text \<open>C14: The outbox holds exactly one row per recorded event, in the order of the events and
  with their content, and no event identifier is recorded twice.\<close>

theorem outbox_exactly_once:
  assumes "repo_reachable uuid base db"
  shows "list_all2 reports (outbox db) (events db) \<and> distinct (map ob_event (outbox db))"
proof -
  have inv: "log_inv db" using repo_reachable_inv [OF assms] by (simp add: db_inv_def)
  then have "list_all2 reports (outbox db) (events db)" by (simp add: log_inv_def)
  moreover from this have "map ob_event (outbox db) = map event_id (events db)"
    by (induction rule: list_all2_induct) (auto simp: reports_def)
  ultimately show ?thesis using inv by (simp add: log_inv_def)
qed

theorem outbox_exactly_once_witness:
  "list_all2 reports (outbox demo3) (events demo3) \<and> distinct (map ob_event (outbox demo3))"
  using outbox_exactly_once [OF demo_reachable(3)] .

text \<open>Appending is optimistic: events whose identifiers are all stored already are accepted
  again without effect, any other append against a stale version raises \<open>ConcurrencyError\<close>, and an
  append at the current version that succeeds records exactly the given events, renumbered, and
  advances the version by their number.\<close>

theorem append_optimistic:
  assumes reach: "repo_reachable uuid base db" and row: "find_run db r = Some row" and evs: "evs \<noteq> []"
  shows "(rn_version row \<noteq> v \<longrightarrow>
      append_events uuid r v evs db =
        (if length (filter (\<lambda>e. event_id e \<in> set (map event_id evs)) (events db)) = length evs
         then Inr (rn_snapshot row, db)
         else Inl (ConcurrencyError ''run {} expected version {}, current is {}''
                     [r, show_int v, show_int (rn_version row)]))) \<and>
    (rn_version row = v \<and> append_events uuid r v evs db = Inr (ag, db') \<longrightarrow>
      events db' = events db @ number_events v evs \<and> ag_version ag = v + int (length evs) \<and>
      get_snapshot db' r = Inr ag \<and> rfold apply_event (rn_snapshot row) (number_events v evs) = Inr ag)"
proof (intro conjI impI)
  have inv: "log_inv db" using repo_reachable_inv [OF reach] by (simp add: db_inv_def)
  then have mem: "row \<in> set (runs db)" "rn_id row = r" using row by (simp_all add: find_run_Some)
  show "append_events uuid r v evs db =
        (if length (filter (\<lambda>e. event_id e \<in> set (map event_id evs)) (events db)) = length evs
         then Inr (rn_snapshot row, db)
         else Inl (ConcurrencyError ''run {} expected version {}, current is {}''
                     [r, show_int v, show_int (rn_version row)]))" if "rn_version row \<noteq> v"
    using evs row that by (simp add: append_events_def lock_run_def)
  assume *: "rn_version row = v \<and> append_events uuid r v evs db = Inr (ag, db')"
  then have ap: "append_locked uuid True db row (rn_snapshot row) evs = Inr (ag, db')"
    using evs row by (elim conjE) (simp add: append_events_def lock_run_def)
  from append_locked_log_inv(2) [OF inv mem(1) ap] obtain db1 where
    lg: "logs (number_events v evs) db db1"
    and fold: "rfold apply_event (rn_snapshot row) (number_events v evs) = Inr ag"
    and db': "db' = db1\<lparr>runs := update_where (\<lambda>x. rn_id x = r) (store_snapshot ag) (runs db)\<rparr>"
    using * mem(2) by auto
  show "events db' = events db @ number_events v evs" using lg by (simp add: db' logs_def)
  show "rfold apply_event (rn_snapshot row) (number_events v evs) = Inr ag" by (rule fold)
  have "run_faithful db row" using inv mem by (simp add: log_inv_def)
  then show "ag_version ag = v + int (length evs)"
    using run_log.fold_version [OF fold] * by (simp add: run_faithful_def)
  have "find_run db' r = map_option (store_snapshot ag) (find_run db r)"
    unfolding find_run_def db' by (simp add: first_where_update store_snapshot_def)
  with row show "get_snapshot db' r = Inr ag" by (simp add: get_snapshot_def store_snapshot_def)
qed

lemma demo1_run: "map_option rn_version (find_run demo1 ''r'') = Some 1 \<and> length (events demo1) = 1 \<and>
    filter (\<lambda>e. event_id e \<in> set (map event_id demo_events)) (events demo1) = []"
  by code_simp

theorem append_optimistic_witness:
  "append_events demo_uuid ''r'' 7 demo_events demo1 =
     Inl (ConcurrencyError ''run {} expected version {}, current is {}'' [''r'', ''7'', ''1'']) \<and>
   length (events demo2) = 4"
proof -
  have ne: "demo_events \<noteq> []" "length demo_events = 3" by (simp_all add: demo_events_def)
  have digits: "show_int 7 = ''7''" "show_int 1 = ''1''" by code_simp+
  obtain row where row: "find_run demo1 ''r'' = Some row" "rn_version row = 1"
    using demo1_run by auto
  obtain ag where "append_events demo_uuid ''r'' 1 demo_events demo1 = Inr (ag, demo2)"
    using demo2_ok by blast
  with append_optimistic [OF demo_reachable(1) row(1) ne(1), of 7]
    append_optimistic [OF demo_reachable(1) row(1) ne(1), of 1 ag demo2] ne(2) digits demo1_run row(2)
  show ?thesis by auto
qed

section \<open>Fencing\<close>

definition attempts_of :: "db \<Rightarrow> string \<Rightarrow> string \<Rightarrow> attempt_row list" where
  "attempts_of db r i = filter (\<lambda>a. at_run a = r \<and> at_item a = i) (attempts db)"

lemma attempts_of_view: "map att_key (attempts_of db r i) = attempts_at (map att_key (attempts db)) r i"
  by (simp add: attempts_of_def attempts_at_def att_key_def filter_map comp_def)

lemma fence_inv_attempts:
  assumes "fence_inv db" and "x \<in> set (items db)"
  shows "map (\<lambda>a. (at_number a, at_fence a)) (attempts_of db (it_run x) (it_id x)) = map (\<lambda>k. (k, k)) [1..it_fence x]"
proof -
  have "item_counters x \<in> set (map item_counters (items db))" using assms(2) by simp
  with assms(1) have "map (\<lambda>(_, _, _, k). k) (attempts_at (map att_key (attempts db)) (it_run x) (it_id x)) =
      map (\<lambda>k. (k, k)) [1..it_fence x]"
    unfolding fence_inv_def fence_ok_def item_counters_def by (auto simp del: set_map)
  then show ?thesis by (simp add: attempts_of_view [symmetric] att_key_def comp_def)
qed

text \<open>C15: Fencing tokens are never reused: the attempts of a work item carry the tokens
  1, 2, ..., n in the order they were granted, where n is the token of the item's row, and the
  token of an attempt is also its number.\<close>

theorem fencing_tokens_sequential:
  assumes "repo_reachable uuid base db" and "find_row db r i = Some item"
  shows "map at_fence (attempts_of db r i) = [1..it_fence item] \<and>
    map at_number (attempts_of db r i) = [1..it_fence item] \<and> it_attempts item = it_fence item"
proof -
  have inv: "fence_inv db" using repo_reachable_inv [OF assms(1)] by (simp add: db_inv_def)
  have mem: "item \<in> set (items db)" "it_run item = r" "it_id item = i" using find_row_mem [OF assms(2)] by auto
  from fence_inv_attempts [OF inv mem(1)]
  have *: "map (\<lambda>a. (at_number a, at_fence a)) (attempts_of db r i) = map (\<lambda>k. (k, k)) [1..it_fence item]"
    by (simp add: mem)
  from arg_cong [OF *, of "map fst"] arg_cong [OF *, of "map snd"] fence_inv_counters [OF inv mem(1)]
  show ?thesis by (simp add: comp_def)
qed

text \<open>An attempt with its item, as one value that evaluates in one go.\<close>

definition attempt_view ::
    "db \<Rightarrow> string \<Rightarrow> (string \<times> string \<times> int \<times> attempt_status \<times> int \<times> work_status \<times> int \<times> int) option" where
  "attempt_view db a =
     (case find_attempt db a of
        None \<Rightarrow> None
      | Some att \<Rightarrow>
          map_option (\<lambda>item. (at_run att, at_item att, at_fence att, at_status att, it_fence item,
                              it_status item, it_attempts item, it_max_attempts item))
            (find_row db (at_run att) (at_item att)))"

lemma attempt_viewE:
  assumes "attempt_view db a = Some (r, i, f, s, g, t, n, m)"
  obtains att item where "find_attempt db a = Some att" "find_row db r i = Some item"
    "at_run att = r" "at_item att = i" "at_fence att = f" "at_status att = s" "it_fence item = g"
    "it_status item = t" "it_attempts item = n" "it_max_attempts item = m"
  using assms by (auto simp: attempt_view_def split: option.splits)

lemma demo6_view: "attempt_view demo6 ''u5'' =
    Some (''r'', ''build'', 1, AStatus WFailed, 2, WLeased, 2, 3)"
  by code_simp

lemma demo4_view: "attempt_view demo4 ''u5'' =
    Some (''r'', ''build'', 1, AStatus WRunning, 1, WRunning, 1, 3)"
  by code_simp

theorem fencing_tokens_sequential_witness: "map at_fence (attempts_of demo6 ''r'' ''build'') = [1, 2]"
proof -
  obtain item where item: "find_row demo6 ''r'' ''build'' = Some item" "it_fence item = 2"
    using demo6_view by (rule attempt_viewE)
  from fencing_tokens_sequential [OF demo_reachable(6) item(1)] show ?thesis
    by (simp add: item(2) upto.simps)
qed

text \<open>C16: At most one attempt of a work item holds a valid token: two attempts of the same item
  that both pass the fencing check are the same attempt, presented with the same token.\<close>

theorem single_fence_holder:
  assumes reach: "repo_reachable uuid base db"
    and a: "lock_attempt db a f = Inr (att, item)" and b: "lock_attempt db b g = Inr (att', item')"
    and same: "at_run att = at_run att'" "at_item att = at_item att'"
  shows "a = b \<and> f = g \<and> att = att'"
proof -
  have inv: "fence_inv db" using repo_reachable_inv [OF reach] by (simp add: db_inv_def)
  have item: "item = item'" and fg: "f = g" using a b same by (simp_all add: lock_attempt_eq)
  have mem: "item \<in> set (items db)" "it_run item = at_run att" "it_id item = at_item att"
    using a by (auto simp: lock_attempt_eq dest: find_row_mem)
  have in_list: "att \<in> set (attempts_of db (it_run item) (it_id item))"
    "att' \<in> set (attempts_of db (it_run item) (it_id item))"
    using a b same mem by (auto simp: lock_attempt_eq attempts_of_def dest: find_attempt_mem)
  have ids: "at_id att = a" "at_id att' = b" "at_fence att = at_fence att'"
    using a b fg by (auto simp: lock_attempt_eq dest: find_attempt_mem)
  have "distinct (map (\<lambda>a. (at_number a, at_fence a)) (attempts_of db (it_run item) (it_id item)))"
    unfolding fence_inv_attempts [OF inv mem(1)] by (simp add: distinct_map inj_on_def)
  moreover have "at_number x = at_fence x" if "x \<in> set (attempts_of db (it_run item) (it_id item))" for x
  proof -
    have "(at_number x, at_fence x) \<in> set (map (\<lambda>k. (k, k)) [1..it_fence item])"
      unfolding fence_inv_attempts [OF inv mem(1), symmetric] using that by auto
    then show ?thesis by auto
  qed
  ultimately have "att = att'" using in_list ids(3) by (auto simp: distinct_map inj_on_def)
  with ids fg show ?thesis by simp
qed

theorem single_fence_holder_witness:
  "\<exists>att item. lock_attempt demo4 ''u5'' 1 = Inr (att, item) \<and> ''u5'' = at_id att"
proof -
  obtain att item where l: "lock_attempt demo4 ''u5'' 1 = Inr (att, item)"
    using demo4_view by (rule attempt_viewE) (simp add: lock_attempt_eq)
  from single_fence_holder [OF demo_reachable(4) l l refl refl]
  have "''u5'' = at_id att" using l find_attempt_mem [of demo4 "''u5''" att] by (simp add: lock_attempt_eq)
  with l show ?thesis by blast
qed



section \<open>Completion\<close>

lemma complete_repeat:
  assumes "lock_attempt db a fence = Inr (att, item)" and "it_status item \<noteq> WCancelled"
    and "at_status att \<in> {AStatus WSucceeded, AStatus WFailed}"
  shows "complete_attempt uuid base now a fence out db =
    rbind (outcome_succeeded out) (\<lambda>ok.
      if at_status att = AStatus (if ok then WSucceeded else WFailed) \<and>
         obj_eq (case at_outcome att of None \<Rightarrow> [] | Some d \<Rightarrow> d) out
      then rbind (snapshot_locked db (at_run att)) (\<lambda>ag. Inr (ag, db))
      else Inl (StaleLeaseError ''attempt {} already completed'' [a]))"
  using assms by (simp add: complete_attempt_def Let_def)

text \<open>Reporting an outcome twice is harmless: when a completion of an attempt of a work item
  that is not cancelled has succeeded, the same report sent again, at any later time, returns
  the same snapshot and leaves the database as it is.\<close>

theorem complete_idempotent:
  assumes reach: "repo_reachable uuid base db"
    and run: "complete_attempt uuid base now a fence out db = Inr (ag, db')"
    and lock: "lock_attempt db a fence = Inr (att, item)" and notc: "it_status item \<noteq> WCancelled"
    and wf: "json_wf (JObj out)"
  shows "complete_attempt uuid' base' now' a fence out db' = Inr (ag, db')"
proof (cases "at_status att \<in> {AStatus WSucceeded, AStatus WFailed}")
  case True
  note again = complete_repeat [OF lock notc True]
  from run have "db' = db" unfolding again by (auto simp: result_simps split: if_splits)
  show ?thesis unfolding \<open>db' = db\<close> again using run [unfolded again] by (simp only: \<open>db' = db\<close>)
next
  case False
  obtain ok target delay ty pl where
    ok: "outcome_succeeded out = Inr ok" and ce: "completion_event base att item ok out = (target, delay, ty, pl)"
    and row: "find_row db' (at_run att) (at_item att) = Some (settle_item target now delay item)"
    and att: "find_attempt db' a = Some (att\<lparr>at_status := AStatus (if ok then WSucceeded else WFailed),
        at_completed := Some now, at_outcome := Some out\<rparr>)"
    and snap: "snapshot_locked db' (at_run att) = Inr ag"
    by (rule complete_liveE [OF repo_reachable_inv [OF reach] run lock notc False]) (rule that)
  have "target \<noteq> WCancelled"
    using ce by (auto simp: completion_event_def Let_def next_status_after_failure_def split: if_splits)
  moreover have "lock_attempt db' a fence = Inr (att\<lparr>at_status := AStatus (if ok then WSucceeded else WFailed),
        at_completed := Some now, at_outcome := Some out\<rparr>, settle_item target now delay item)"
    using lock row att by (simp add: lock_attempt_eq)
  ultimately show ?thesis
    using ok snap obj_eq_refl [OF wf] by (simp add: complete_attempt_def Let_def)
qed

lemma demo4_lockE:
  obtains att item where "lock_attempt demo4 ''u5'' 1 = Inr (att, item)" "it_status item = WRunning"
    "at_status att = AStatus WRunning" "it_attempts item = 1" "it_max_attempts item = 3"
    "at_run att = ''r''" "at_item att = ''build''"
  using demo4_view by (rule attempt_viewE) (simp add: lock_attempt_eq)

theorem complete_idempotent_witness:
  "\<exists>ag. complete_attempt demo_uuid 0 99 ''u5'' 1 failed_outcome demo5 = Inr (ag, demo5)"
proof -
  obtain ag where run: "complete_attempt demo_uuid 0 4 ''u5'' 1 failed_outcome demo4 = Inr (ag, demo5)"
    using demo5_ok by blast
  obtain att item where lock: "lock_attempt demo4 ''u5'' 1 = Inr (att, item)" "it_status item = WRunning"
    by (rule demo4_lockE)
  have "json_wf (JObj failed_outcome)" by (simp add: failed_outcome_def dict_wf_def)
  from complete_idempotent [OF demo_reachable(4) run lock(1) _ this] lock(2) show ?thesis by auto
qed

text \<open>C18: The retry policy: a failing outcome of a live attempt sends its item back to ready when
  the outcome is retryable and attempts are left, with a delay that doubles with every attempt,
  and to failed (dead-lettered) otherwise; the lease is given up either way and the event
  appended to the log says which.\<close>

theorem failure_retry_policy:
  assumes reach: "repo_reachable uuid base db"
    and run: "complete_attempt uuid base now a fence out db = Inr (ag, db')"
    and lock: "lock_attempt db a fence = Inr (att, item)" and notc: "it_status item \<noteq> WCancelled"
    and live: "live_attempt (at_status att)" and failing: "outcome_succeeded out = Inr False"
  shows "\<exists>row. find_row db' (at_run att) (at_item att) = Some row \<and>
    it_status row = (if truthy (dget out ''retryable'' (JBool True)) \<and> it_attempts item < it_max_attempts item
                     then WReady else WFailed) \<and>
    it_not_before row = (if it_status row = WReady
                         then retry_at now (fl (max 0 base * 2 ^ nat (max 0 (it_attempts item - 1)))) else None) \<and>
    it_owner row = None \<and> it_lease row = None \<and> it_attempt row = None \<and> it_fence row = it_fence item \<and>
    event_type (last (events db')) = ''work_failed'' \<and>
    jget (payload (last (events db'))) ''next_status'' = JStr (work_status_value (it_status row)) \<and>
    jget (payload (last (events db'))) ''dead_lettered'' = JBool (it_status row = WFailed)"
proof -
  have fresh: "at_status att \<notin> {AStatus WSucceeded, AStatus WFailed}" using live by (auto simp: live_attempt_def)
  obtain ok target delay ty pl where
    ok: "outcome_succeeded out = Inr ok" and ce: "completion_event base att item ok out = (target, delay, ty, pl)"
    and row: "find_row db' (at_run att) (at_item att) = Some (settle_item target now delay item)"
    and ev: "event_type (last (events db')) = ty" "payload (last (events db')) = pl"
    by (rule complete_liveE [OF repo_reachable_inv [OF reach] run lock notc fresh]) (rule that)
  have "\<not> ok" using ok failing by simp
  with ce have t: "next_status_after_failure (truthy (dget out ''retryable'' (JBool True))) item = target"
    and d: "retry_delay base target item = delay" and ty: "ty = ''work_failed''"
    and pl: "jget pl ''next_status'' = JStr (work_status_value target)" "jget pl ''dead_lettered'' = JBool (target = WFailed)"
    by (auto simp: completion_event_def Let_def jget_def dget_def)
  have "it_not_before (settle_item target now delay item) = (if target = WReady
      then retry_at now (fl (max 0 base * 2 ^ nat (max 0 (it_attempts item - 1)))) else None)"
    unfolding d [symmetric] by (simp add: retry_delay_def retry_at_def)
  moreover have "target = (if truthy (dget out ''retryable'' (JBool True)) \<and> it_attempts item < it_max_attempts item
      then WReady else WFailed)"
    unfolding t [symmetric] next_status_after_failure_def by (rule refl)
  moreover have "it_owner (settle_item target now delay item) = None" by (simp add: settle_item_def)
  ultimately show ?thesis
    using row ev ty pl by (intro exI [of _ "settle_item target now delay item"]) simp
qed

theorem failure_retry_policy_witness:
  "\<exists>row. find_row demo5 ''r'' ''build'' = Some row \<and> it_status row = WReady \<and> it_not_before row = None"
proof -
  obtain ag where run: "complete_attempt demo_uuid 0 4 ''u5'' 1 failed_outcome demo4 = Inr (ag, demo5)"
    using demo5_ok by blast
  obtain att item where lock: "lock_attempt demo4 ''u5'' 1 = Inr (att, item)" "it_status item = WRunning"
    "at_status att = AStatus WRunning" "it_attempts item = 1" "it_max_attempts item = 3"
    "at_run att = ''r''" "at_item att = ''build''"
    by (rule demo4_lockE)
  have out: "outcome_succeeded failed_outcome = Inr False" "truthy (dget failed_outcome ''retryable'' (JBool True))"
    by code_simp+
  from failure_retry_policy [OF demo_reachable(4) run lock(1) _ _ out(1)] lock out(2) show ?thesis
    by (auto simp: live_attempt_def retry_at_def)
qed

end
