(* ===== verification/Workflow_Admission.thy ===== *)
theory Workflow_Admission
  imports Workflow_Guarantees
begin

text \<open>
  Guarantees about what the repository lets in: which work a claim hands out and how much of
  it, which runs a project accepts, which checkpoints and effect results are recorded.
\<close>

section \<open>Claims\<close>

lemma capable_view: "capable caps item \<longleftrightarrow> (\<exists>vs. required_capabilities_of item = Inr vs \<and> covers caps vs)"
  by (auto simp: capable_def split: sum.splits)

lemma claim_candidates_distinct:
  assumes "distinct (map item_key (items db))"
  shows "distinct (map item_key (claim_candidates now f limit db))"
proof -
  let ?ys = "filter (claimable now f db) (items db)"
  have "distinct (map item_key ?ys)" using assms by (rule distinct_map_filter)
  then have "distinct (map item_key (sort_key g ?ys))" for g :: "item_row \<Rightarrow> int \<times> int"
    by (simp add: distinct_map)
  then show ?thesis
    by (simp add: claim_candidates_def sql_limit_def take_map [symmetric])
qed

lemma subseq_distinct: "subseq xs ys \<Longrightarrow> distinct ys \<Longrightarrow> distinct xs"
  by (induction rule: list_emb.induct) (auto dest: list_emb_set)

lemma demo_uuid_nonempty: "\<forall>n. demo_uuid n \<noteq> []"
  by (simp add: demo_uuid_def)

text \<open>C19: A claim hands out only work it may: at most \<open>limit\<close> leases (one, for a limit that is not
  positive), each for a row that was ready, due, in a running run and within the worker's
  capabilities, with the next fencing token of that row, and never two leases for one row.\<close>

theorem claim_respects_eligibility:
  assumes reach: "repo_reachable uuid base db" and ids: "\<forall>n. uuid n \<noteq> []"
    and run: "claim_work uuid now w caps limit f db = Inr (ls, db')"
  shows "int (length ls) \<le> max 1 limit \<and> distinct (map lease_key ls) \<and>
    (\<forall>l \<in> set ls. \<exists>item \<in> set (items db). claimable now f db item \<and> capable caps item \<and>
       leased_run_id l = it_run item \<and> leased_item_id l = it_id item \<and>
       leased_fencing_token l = it_fence item + 1 \<and> leased_item l = it_json item)"
proof -
  have inv: "db_inv db" by (rule repo_reachable_inv [OF reach])
  from run inv ids obtain cs rows where ls: "ls = cs_claimed cs" and ok: "leases_ok caps limit cs rows"
    and rows: "map snd rows = claim_candidates now f limit db"
    by (rule claim_workE)
  have "distinct (map item_key (items db))" using inv by (simp add: db_inv_def fence_inv_distinct)
  then have "distinct (map item_key (claim_candidates now f limit db))" by (rule claim_candidates_distinct)
  then have "distinct (map (item_key \<circ> snd) rows)" by (simp add: rows [symmetric] flip: map_map)
  moreover have "subseq (map lease_key ls) (map (item_key \<circ> snd) rows)" "int (length ls) \<le> max 1 limit"
    using ok by (simp_all add: leases_ok_def ls)
  ultimately have "distinct (map lease_key ls)" "int (length ls) \<le> max 1 limit"
    by (blast intro: subseq_distinct)+
  moreover have "\<exists>item \<in> set (items db). claimable now f db item \<and> capable caps item \<and> lease_of l item"
    if l: "l \<in> set ls" for l
  proof -
    from ok l obtain x where "x \<in> set rows" "lease_of l (snd x)" "capable caps (snd x)"
      by (fastforce simp: leases_ok_def ls)
    moreover from this(1) have "snd x \<in> set (map snd rows)" by simp
    ultimately show ?thesis using claim_candidates_mem unfolding rows by blast
  qed
  ultimately show ?thesis by (auto simp: lease_of_def)
qed

theorem claim_respects_eligibility_witness:
  "\<exists>ls. claim_work demo_uuid 2 ''w'' [''local''] 1 None demo2 = Inr (ls, demo3) \<and> length ls \<le> 1"
proof -
  obtain ls where ls: "claim_work demo_uuid 2 ''w'' [''local''] 1 None demo2 = Inr (ls, demo3)"
    using demo3_ok by blast
  from claim_respects_eligibility [OF demo_reachable(2) demo_uuid_nonempty ls] ls show ?thesis by auto
qed

text \<open>C20: A claim never takes a project over its limit of active work items: the number of leased,
  running and verifying items of a project after the claim is within the limit, or it was over
  the limit before and did not grow.\<close>

theorem claim_respects_project_limit:
  assumes reach: "repo_reachable uuid base db" and ids: "\<forall>n. uuid n \<noteq> []"
    and run: "claim_work uuid now w caps limit f db = Inr (ls, db')"
    and proj: "first_where (\<lambda>x. pr_id x = p) (projects db) = Some row"
  shows "active_count db' p \<le> max (active_count db p) (pr_max_active row)"
proof -
  from run repo_reachable_inv [OF reach] ids obtain cs rows where "db' = cs_db cs" "claim_loop db cs"
    by (rule claim_workE)
  with first_where_SomeD [OF proj] proj show ?thesis by (auto simp: claim_loop_def)
qed

lemma demo2_project: "map_option pr_max_active (first_where (\<lambda>x. pr_id x = ''p'') (projects demo2)) = Some 200"
  and demo2_active: "active_count demo2 ''p'' = 0"
  by code_simp+

theorem claim_respects_project_limit_witness: "active_count demo3 ''p'' \<le> 200"
proof -
  obtain ls where ls: "claim_work demo_uuid 2 ''w'' [''local''] 1 None demo2 = Inr (ls, demo3)"
    using demo3_ok by blast
  obtain row where "first_where (\<lambda>x. pr_id x = ''p'') (projects demo2) = Some row" "pr_max_active row = 200"
    using demo2_project by auto
  with claim_respects_project_limit [OF demo_reachable(2) demo_uuid_nonempty ls, of "''p''" row] demo2_active
  show ?thesis by simp
qed

text \<open>C21: Integration attempts of a project do not overlap: while the integration lock of a project
  is held under an unexpired lease a claim grants no integration item of the project, otherwise
  it grants at most one and the lock is held when the claim returns.\<close>

theorem integration_exclusive:
  assumes reach: "repo_reachable uuid base db" and ids: "\<forall>n. uuid n \<noteq> []"
    and run: "claim_work uuid now w caps limit f db = Inr (ls, db')"
  shows "length (integration_leases db p ls) \<le> (if integration_held now p db then 0 else 1) \<and>
    (integration_leases db p ls \<noteq> [] \<longrightarrow> integration_held now p db')"
proof -
  from run repo_reachable_inv [OF reach] ids obtain cs rows where
    "ls = cs_claimed cs" "db' = cs_db cs" "lock_ok now db cs"
    by (rule claim_workE)
  then show ?thesis by (auto simp: lock_ok_def)
qed

theorem integration_exclusive_witness:
  "\<exists>ls. claim_work demo_uuid 2 ''w'' [''local''] 1 None demo2 = Inr (ls, demo3) \<and>
     length (integration_leases demo2 ''p'' ls) \<le> 1"
proof -
  obtain ls where ls: "claim_work demo_uuid 2 ''w'' [''local''] 1 None demo2 = Inr (ls, demo3)"
    using demo3_ok by blast
  from integration_exclusive [OF demo_reachable(2) demo_uuid_nonempty ls, of "''p''"] ls show ?thesis
    by (auto split: if_splits)
qed

section \<open>Checkpoints\<close>

lemma sorted_of_attempt:
  "sorted_wrt (\<lambda>c d. cp_attempt c = cp_attempt d \<longrightarrow> cp_seq c < cp_seq d) cs \<Longrightarrow>
   sorted_wrt (<) (map cp_seq (filter (\<lambda>c. cp_attempt c = a) cs))"
  by (induction cs) (auto simp: sorted_wrt_map)

text \<open>The checkpoints of an attempt are recorded in strictly increasing order of their sequence
  numbers, whatever numbers the worker sends.\<close>

theorem checkpoint_sequences_increase:
  assumes "repo_reachable uuid base db"
  shows "sorted_wrt (<) (map cp_seq (checkpoints_of db a))"
proof -
  have "sorted_wrt (\<lambda>c d. cp_attempt c = cp_attempt d \<longrightarrow> cp_seq c < cp_seq d) (checkpoints db)"
    using repo_reachable_inv [OF assms] by (simp add: db_inv_def sequence_inv_def)
  then show ?thesis unfolding checkpoints_of_def by (rule sorted_of_attempt)
qed

definition demo7 :: db where
  "demo7 = db_of (commit_checkpoint demo_uuid 4 ''u5'' 1 [(''step'', JInt 1), (''sequence'', JInt 7)] demo4)"

lemma demo7_ok: "\<exists>ag. commit_checkpoint demo_uuid 4 ''u5'' 1 [(''step'', JInt 1), (''sequence'', JInt 7)] demo4 = Inr (ag, demo7)"
  by (rule db_of_ok) (code_simp, simp add: demo7_def)

theorem checkpoint_sequences_increase_witness:
  "sorted_wrt (<) (map cp_seq (checkpoints_of demo7 ''u5''))"
proof -
  have "repo_reachable demo_uuid 0 demo7"
    using demo7_ok by (auto intro: reach_step [OF demo_reachable(4)] step_checkpoint)
  from checkpoint_sequences_increase [OF this] show ?thesis .
qed

section \<open>Runs\<close>

lemma open_runs_create_project [simp]: "open_runs (create_project now p n db) q = open_runs db q"
  by (simp add: open_runs_def create_project_def)

lemma run_by_key_create_project [simp]: "run_by_key (create_project now p n db) q k = run_by_key db q k"
  by (simp add: run_by_key_def create_project_def split: option.splits)

lemma insert_run_effect:
  assumes "insert_run uuid now p g pol key r act db = Inr (ag, db')"
  shows "ag_status ag = Some RQueued \<and> ag_version ag = 1 \<and> runs db' = runs db @ [new_run_row r p g key now ag] \<and>
    projects db' = projects db \<and> (\<forall>x \<in> set (runs db). rn_id x \<noteq> r)"
proof -
  let ?ev = "(event_create (uuid (uuids db)) now r ''run_created''
      [(''project_id'', JStr p), (''goal'', JStr g), (''policy'', JObj pol)] act)\<lparr>event_version := Some 1\<rparr>"
    and ?row = "new_run_row r p g key now ag" and ?db1 = "take_uuid db"
  from assms have ag: "apply_event (empty_aggregate r) ?ev = Inr ag"
    and fresh: "\<forall>x \<in> set (runs ?db1). rn_id x \<noteq> r"
    and rec: "record_event uuid (?db1\<lparr>runs := runs ?db1 @ [?row]\<rparr>) ?ev = Inr db'"
    by (auto simp: insert_run_def Let_def result_simps simp del: apply_event_eq)
  from record_event_logs [OF rec] have "runs db' = runs ?db1 @ [?row]" "projects db' = projects ?db1"
    by (auto simp: logs_def only_leases_kept_def)
  with run_created_aggregate [OF ag] fresh show ?thesis by (simp add: take_uuid_def)
qed

text \<open>Run creation is idempotent and bounded: a creation with an idempotency key already used in
  the project returns the existing run's snapshot and adds nothing; any other successful creation
  adds exactly one queued run, under a new identifier, and only while the project has fewer open
  runs than its limit.\<close>

theorem run_admission:
  assumes run: "create_run uuid now p g pol key rid act db = Inr (ag, db')"
    and proj: "first_where (\<lambda>x. pr_id x = p) (projects db) = Some prow"
  shows "case run_by_key db p key of
      Some row \<Rightarrow> ag = rn_snapshot row \<and> runs db' = runs db \<and> events db' = events db
    | None \<Rightarrow> \<exists>row. runs db' = runs db @ [row] \<and> rn_snapshot row = ag \<and> rn_project row = p \<and> rn_key row = key \<and>
        rn_id row \<notin> set (map rn_id (runs db)) \<and> rn_status row = Some RQueued \<and>
        open_runs db' p = open_runs db p + 1 \<and> open_runs db' p \<le> pr_max_runs prow"
proof -
  let ?db1 = "create_project now p None db"
  have first: "first_where (\<lambda>x. pr_id x = p) (projects ?db1) = Some prow"
    using proj first_where_SomeD [OF proj] by (auto simp: create_project_def list_ex_iff)
  have rns: "runs ?db1 = runs db" and evs: "events ?db1 = events db" by (simp_all add: create_project_def)
  show ?thesis
  proof (cases "run_by_key db p key")
    case (Some row)
    with run rns evs show ?thesis by (auto simp: create_run_def Let_def result_simps)
  next
    case None
    with run first obtain r db2 where
      room: "\<not> pr_max_runs prow \<le> open_runs db p"
      and ins: "insert_run uuid now p g pol key r act db2 = Inr (ag, db')"
      and db2: "runs db2 = runs db"
      by (auto simp: create_run_def Let_def result_simps rns take_uuid_def split: option.splits)
    from insert_run_effect [OF ins] have
      eff: "ag_status ag = Some RQueued" "runs db' = runs db @ [new_run_row r p g key now ag]"
        "\<forall>x \<in> set (runs db). rn_id x \<noteq> r" by (auto simp: db2)
    have "open_runs db' p = open_runs db p + 1"
      by (simp add: open_runs_def eff(2) new_run_row_def open_run_def eff(1))
    with None room eff show ?thesis by (auto simp: new_run_row_def)
  qed
qed

lemma demo1_project: "map_option pr_max_runs (first_where (\<lambda>x. pr_id x = ''p'') (projects demo1)) = Some 20 \<and>
    \<not> isl (create_run demo_uuid 9 ''p'' ''again'' [] (Some ''k'') None ''test'' demo1) \<and>
    run_by_key demo1 ''p'' (Some ''k'') \<noteq> None"
  by code_simp

theorem run_admission_witness:
  "\<exists>ag db'. create_run demo_uuid 9 ''p'' ''again'' [] (Some ''k'') None ''test'' demo1 = Inr (ag, db') \<and>
     runs db' = runs demo1"
proof -
  obtain ag db' where run: "create_run demo_uuid 9 ''p'' ''again'' [] (Some ''k'') None ''test'' demo1 = Inr (ag, db')"
    using demo1_project by (cases "create_run demo_uuid 9 ''p'' ''again'' [] (Some ''k'') None ''test'' demo1") auto
  obtain prow where "first_where (\<lambda>x. pr_id x = ''p'') (projects demo1) = Some prow"
    using demo1_project by auto
  from run_admission [OF run this] run demo1_project show ?thesis by auto
qed

section \<open>Effects\<close>

text \<open>The result of an effect is written once: after a completion, reserving the effect reports
  it completed with that result, completing it again with an equal result changes nothing, and
  completing it with a different result is refused.\<close>

theorem effect_result_immutable:
  assumes run: "complete_effect now e out db = Inr db'" and wf: "json_wf (JObj out)"
  shows "\<exists>stored. reserve_effect now' e r i a n db' = ((''completed'', stored), db') \<and>
    obj_eq (case stored of None \<Rightarrow> [] | Some d \<Rightarrow> d) out \<and>
    complete_effect now' e other db' =
      (if obj_eq (case stored of None \<Rightarrow> [] | Some d \<Rightarrow> d) other then Inr db'
       else Inl (DomainError ''completed effect result is immutable'' []))"
proof -
  from run obtain row where row: "first_where (\<lambda>x. ef_id x = e) (effects db) = Some row"
    by (auto simp: complete_effect_def split: option.splits)
  show ?thesis
  proof (cases "ef_status row = ''completed''")
    case True
    with run row have "db' = db" "obj_eq (case ef_result row of None \<Rightarrow> [] | Some d \<Rightarrow> d) out"
      by (auto simp: complete_effect_def result_simps)
    with True row show ?thesis by (simp add: reserve_effect_def complete_effect_def raise_unless_def)
  next
    case False
    let ?f = "\<lambda>x. x\<lparr>ef_status := ''completed'', ef_result := Some out, ef_updated := now\<rparr>"
    from run row False have db': "db' = db\<lparr>effects := update_where (\<lambda>x. ef_id x = e) ?f (effects db)\<rparr>"
      by (auto simp: complete_effect_def result_simps)
    have "first_where (\<lambda>x. ef_id x = e) (effects db') = Some (?f row)"
      by (simp add: db' first_where_update row)
    then show ?thesis
      using obj_eq_refl [OF wf] by (simp add: reserve_effect_def complete_effect_def raise_unless_def)
  qed
qed

theorem effect_result_immutable_witness:
  "\<exists>db'. complete_effect 2 ''e'' [(''n'', JInt 1)] (snd (reserve_effect 1 ''e'' ''r'' ''i'' ''a'' 1 empty_db)) = Inr db' \<and>
     complete_effect 3 ''e'' [(''n'', JInt 1)] db' = Inr db' \<and>
     fst (fst (reserve_effect 3 ''e'' ''r'' ''i'' ''a'' 1 db')) = ''completed''"
proof -
  let ?db = "snd (reserve_effect 1 ''e'' ''r'' ''i'' ''a'' 1 empty_db)"
  have "\<not> isl (complete_effect 2 ''e'' [(''n'', JInt 1)] ?db)" by code_simp
  then obtain db' where run: "complete_effect 2 ''e'' [(''n'', JInt 1)] ?db = Inr db'"
    by (cases "complete_effect 2 ''e'' [(''n'', JInt 1)] ?db") auto
  have wf: "json_wf (JObj [(''n'', JInt 1)])" by (simp add: dict_wf_def)
  from effect_result_immutable [OF run wf, of 3 "''r''" "''i''" "''a''" 1 "[(''n'', JInt 1)]"] run
  show ?thesis by (auto simp del: dget_def)
qed

end
