(* ===== verification/Workflow_Queries.thy ===== *)
theory Workflow_Queries
  imports Workflow_Guarantees
begin

text \<open>
  The read side of \<open>orchestrator/workflow_repository.py\<close>: listings and counts over the tables. A
  query returns table rows; turning a row into a dictionary for the web layer is not modelled.
  Ordered queries keep the order of the table among rows that tie.
\<close>

section \<open>Listings\<close>

text \<open>\<open>max(1, min(limit, 1000))\<close>.\<close>

definition page_size :: "int \<Rightarrow> nat" where
  "page_size limit = nat (max 1 (min limit 1000))"

definition list_runs :: "db \<Rightarrow> string option \<Rightarrow> int \<Rightarrow> aggregate list" where
  "list_runs db project_id limit =
     sql_limit limit (map rn_snapshot (sort_key (\<lambda>row. - rn_updated row)
       (filter (\<lambda>row. case truthy_id project_id of None \<Rightarrow> True | Some p \<Rightarrow> rn_project row = p) (runs db))))"

definition version_or_0 :: "workflow_event \<Rightarrow> int" where
  "version_or_0 ev = (case event_version ev of None \<Rightarrow> 0 | Some v \<Rightarrow> v)"

definition list_events :: "db \<Rightarrow> string \<Rightarrow> int \<Rightarrow> int \<Rightarrow> workflow_event list" where
  "list_events db r after_version limit =
     take (page_size limit) (sort_key version_or_0
       (filter (\<lambda>ev. event_run_id ev = r \<and> after_version < version_or_0 ev) (events db)))"

definition list_audit_events :: "db \<Rightarrow> string \<Rightarrow> time option \<Rightarrow> int \<Rightarrow> (workflow_event \<times> string) list" where
  "list_audit_events db project_id after limit =
     map (\<lambda>ev. (ev, project_id)) (take (page_size limit)
       (sort_key (\<lambda>ev. (created_at ev, version_or_0 ev))
         (filter (\<lambda>ev. (case find_run db (event_run_id ev) of None \<Rightarrow> False | Some row \<Rightarrow> rn_project row = project_id) \<and>
                        (case after of None \<Rightarrow> True | Some t \<Rightarrow> t < created_at ev)) (events db))))"

definition get_plan :: "db \<Rightarrow> string \<Rightarrow> int option \<Rightarrow> obj result" where
  "get_plan db r rv =
     (case rv of
        None \<Rightarrow>
          rbind (get_snapshot db r) (\<lambda>ag.
          case ag_plan ag of
            None \<Rightarrow> Inl (FileNotFoundError (''run '' @ r @ '' has no plan''))
          | Some v \<Rightarrow> dict_or_empty v)
      | Some n \<Rightarrow>
          (case first_where (\<lambda>p. pl_run p = r \<and> pl_revision p = n) (plans db) of
             None \<Rightarrow> Inl (FileNotFoundError (''plan '' @ r @ ''/'' @ show_int n))
           | Some p \<Rightarrow> Inr (pl_plan p)))"

definition get_artifact :: "db \<Rightarrow> string \<Rightarrow> artifact_row result" where
  "get_artifact db i =
     (case first_where (\<lambda>a. ar_id a = i) (artifacts db) of
        None \<Rightarrow> Inl (FileNotFoundError i) | Some a \<Rightarrow> Inr a)"

definition list_artifacts :: "db \<Rightarrow> string \<Rightarrow> artifact_row list" where
  "list_artifacts db r = sort_key ar_created (filter (\<lambda>a. ar_run a = r) (artifacts db))"

definition list_approvals :: "db \<Rightarrow> string \<Rightarrow> string option \<Rightarrow> int \<Rightarrow> approval_row list" where
  "list_approvals db project_id status limit =
     take (page_size limit) (sort_key (\<lambda>a. - ap_created a)
       (filter (\<lambda>a. (case find_run db (ap_run a) of None \<Rightarrow> False | Some row \<Rightarrow> rn_project row = project_id) \<and>
                     (case status of None \<Rightarrow> True | Some s \<Rightarrow> ap_status a = s)) (approvals db)))"

definition list_outbox :: "db \<Rightarrow> time option \<Rightarrow> int \<Rightarrow> outbox_row list" where
  "list_outbox db after limit =
     sql_limit limit (sort_key ob_created
       (filter (\<lambda>o'. ob_published o' = None \<and> (case after of None \<Rightarrow> True | Some t \<Rightarrow> t < ob_created o')) (outbox db)))"

text \<open>A worker is online when it was seen within two lease periods.\<close>

definition list_workers :: "time \<Rightarrow> db \<Rightarrow> (worker_row \<times> bool) list" where
  "list_workers now db = map (\<lambda>w. (w, now - 2 * lease_span \<le> wk_seen w)) (workers db)"

section \<open>Counts\<close>

definition in_project :: "db \<Rightarrow> string option \<Rightarrow> item_row \<Rightarrow> bool" where
  "in_project db project_id item \<longleftrightarrow>
     (case find_run db (it_run item) of
        None \<Rightarrow> False
      | Some row \<Rightarrow> (case project_id of None \<Rightarrow> True | Some p \<Rightarrow> rn_project row = p))"

definition count_status :: "db \<Rightarrow> string option \<Rightarrow> work_status \<Rightarrow> nat" where
  "count_status db project_id s =
     length (filter (\<lambda>item. in_project db project_id item \<and> it_status item = s) (items db))"

definition all_work_statuses :: "work_status list" where
  "all_work_statuses =
     [WPending, WReady, WLeased, WRunning, WVerifying, WBlocked, WSucceeded, WFailed, WCancelled]"

record queue_stats =
  qs_by_status :: "nat dict"
  qs_ready :: nat
  qs_active :: nat
  qs_expired :: nat
  qs_dead_lettered :: nat

definition queue_statistics :: "time \<Rightarrow> db \<Rightarrow> string option \<Rightarrow> queue_stats" where
  "queue_statistics now db project_id =
     (let counts = filter (\<lambda>kv. snd kv \<noteq> 0)
                     (map (\<lambda>s. (work_status_value s, count_status db project_id s)) all_work_statuses);
          count = (\<lambda>s. dget counts (work_status_value s) 0)
      in \<lparr>qs_by_status = counts, qs_ready = count WReady,
          qs_active = sum_list (map count [WLeased, WRunning, WVerifying]),
          qs_expired = length (filter (\<lambda>item. in_project db project_id item \<and> lease_expired now item) (items db)),
          qs_dead_lettered = count WFailed\<rparr>)"

section \<open>Pages of the log\<close>

lemma filter_versions:
  assumes "map event_version evs = map Some [k + 1..k + int (length evs)]" and "k \<le> a"
  shows "filter (\<lambda>ev. a < version_or_0 ev) evs = drop (nat (a - k)) evs"
  using assms
proof (induction evs arbitrary: k)
  case (Cons ev evs)
  have up: "[k + 1..k + int (length (ev # evs))] = (k + 1) # [k + 1 + 1..k + 1 + int (length evs)]"
  proof -
    have "k + int (length (ev # evs)) = k + 1 + int (length evs)" by simp
    then show ?thesis by (simp only:) (simp add: upto.simps [of "k + 1"])
  qed
  from Cons.prems(1) have ev: "event_version ev = Some (k + 1)"
    and rest: "map event_version evs = map Some [k + 1 + 1..k + 1 + int (length evs)]"
    unfolding up by auto
  show ?case
  proof (cases "a = k")
    case True
    have "\<forall>x \<in> set evs. a < version_or_0 x"
    proof
      fix x assume "x \<in> set evs"
      then have "event_version x \<in> set (map Some [k + 1 + 1..k + 1 + int (length evs)])"
        unfolding rest [symmetric] by simp
      then show "a < version_or_0 x" by (auto simp: version_or_0_def True)
    qed
    with ev True show ?thesis by (simp add: version_or_0_def)
  next
    case False
    with Cons.prems(2) have "k + 1 \<le> a" by simp
    then have "nat (a - k) = Suc (nat (a - (k + 1)))" by simp
    with Cons.IH [OF rest \<open>k + 1 \<le> a\<close>] ev False Cons.prems(2) show ?thesis
      by (simp add: version_or_0_def)
  qed
qed simp

text \<open>Reading the log in pages loses and repeats nothing: the page after version \<open>n\<close> is the next
  stretch of the run's events, of the requested length clipped to between 1 and 1000.\<close>

theorem event_pages:
  assumes "repo_reachable uuid base db" and "find_run db r = Some row" and "0 \<le> n"
  shows "list_events db r n limit = take (nat (max 1 (min limit 1000))) (drop (nat n) (events_of db r))"
proof -
  from runs_are_replays_inv [OF assms(1,2)]
  have v: "map event_version (events_of db r) = map Some [1..rn_version row]"
    and len: "int (length (events_of db r)) = rn_version row" by auto
  then have "map event_version (events_of db r) = map Some [0 + 1..0 + int (length (events_of db r))]" by simp
  from filter_versions [OF this assms(3)]
  have page: "filter (\<lambda>ev. event_run_id ev = r \<and> n < version_or_0 ev) (events db) = drop (nat n) (events_of db r)"
    by (simp add: events_of_def conj_commute flip: filter_filter)
  have "sorted (map version_or_0 (events_of db r))"
  proof -
    have "map version_or_0 (events_of db r) =
        map (\<lambda>v. case v of None \<Rightarrow> 0 | Some v \<Rightarrow> v) (map event_version (events_of db r))"
      by (simp add: version_or_0_def)
    also have "\<dots> = [1..rn_version row]" unfolding v by (simp add: comp_def)
    finally show ?thesis by simp
  qed
  then have "sorted (map version_or_0 (drop (nat n) (events_of db r)))"
    by (simp add: drop_map [symmetric] sorted_wrt_drop)
  then show ?thesis by (simp add: list_events_def page page_size_def sort_key_id_if_sorted)
qed

theorem event_pages_witness:
  "list_events demo2 ''r'' 1 2 = take 2 (drop 1 (events_of demo2 ''r''))"
proof -
  from demo2_run obtain row where row: "find_run demo2 ''r'' = Some row" by auto
  from event_pages [OF demo_reachable(2) row, of 1 2] show ?thesis by simp
qed

end
