(* ===== verification/Canonical_Json.thy ===== *)
theory Canonical_Json
  imports Domain
begin

text \<open>
  \<open>json.dumps(value, sort_keys=True, separators=(",", ":"), ensure_ascii=False)\<close>, the text the
  program hashes to identify a plan item or an observation. The shortest decimal text of a float
  (Python's \<open>repr\<close>) is the parameter \<open>fr\<close>; a hash of the text is a parameter of its users.
\<close>

section \<open>Strings\<close>

definition hex_digit :: "nat \<Rightarrow> char" where
  "hex_digit n = (if n < 10 then char_of (48 + n) else char_of (87 + n))"

text \<open>The escapes of \<open>json.encoder\<close> without \<open>ensure_ascii\<close>: quote, backslash, control characters.\<close>

definition json_escape :: "char \<Rightarrow> string" where
  "json_escape c =
     (let n = of_char c :: nat in
      if n = 34 then [CHR 0x5C, CHR 0x22]
      else if n = 92 then [CHR 0x5C, CHR 0x5C]
      else if n = 10 then [CHR 0x5C, CHR ''n'']
      else if n = 13 then [CHR 0x5C, CHR ''r'']
      else if n = 9 then [CHR 0x5C, CHR ''t'']
      else if n = 12 then [CHR 0x5C, CHR ''f'']
      else if n = 8 then [CHR 0x5C, CHR ''b'']
      else if n < 32 then [CHR 0x5C, CHR ''u'', CHR ''0'', CHR ''0'', hex_digit (n div 16), hex_digit (n mod 16)]
      else [c])"

definition json_string :: "string \<Rightarrow> string" where
  "json_string s = [CHR 0x22] @ concat (map json_escape s) @ [CHR 0x22]"

section \<open>Values\<close>

text \<open>A mapping is written in the order of its keys.\<close>

fun sort_json :: "json \<Rightarrow> json" where
  "sort_json (JList xs) = JList (map sort_json xs)"
| "sort_json (JObj kvs) = JObj (sort_key fst (map (\<lambda>kv. (fst kv, sort_json (snd kv))) kvs))"
| "sort_json v = v"

fun write_json :: "(rat \<Rightarrow> string) \<Rightarrow> json \<Rightarrow> string" where
  "write_json fr JNull = ''null''"
| "write_json fr (JBool b) = (if b then ''true'' else ''false'')"
| "write_json fr (JInt i) = show_int i"
| "write_json fr (JFloat r) = fr r"
| "write_json fr (JStr s) = json_string s"
| "write_json fr (JList xs) = ''['' @ py_join '','' (map (write_json fr) xs) @ '']''"
| "write_json fr (JObj kvs) =
     CHR 0x7B # py_join '','' (map (\<lambda>kv. json_string (fst kv) @ '':'' @ write_json fr (snd kv)) kvs) @ [CHR 0x7D]"

definition canonical_json :: "(rat \<Rightarrow> string) \<Rightarrow> json \<Rightarrow> string" where
  "canonical_json fr v = write_json fr (sort_json v)"

section \<open>The text does not depend on the order of the keys\<close>

text \<open>Equality up to the order of keys, at every depth.\<close>

inductive same_json :: "json \<Rightarrow> json \<Rightarrow> bool" where
  same_atom: "same_json v v"
| same_list: "list_all2 same_json xs ys \<Longrightarrow> same_json (JList xs) (JList ys)"
| same_obj: "dict_wf as \<Longrightarrow> dict_wf bs \<Longrightarrow> set (dict_keys as) = set (dict_keys bs) \<Longrightarrow>
    (\<And>k v w. (k, v) \<in> set as \<Longrightarrow> (k, w) \<in> set bs \<Longrightarrow> same_json v w) \<Longrightarrow> same_json (JObj as) (JObj bs)"

lemma sorted_key_unique:
  assumes "map fst xs = map fst ys" and "distinct (map fst xs)"
    and "\<And>k v w. (k, v) \<in> set xs \<Longrightarrow> (k, w) \<in> set ys \<Longrightarrow> v = w"
  shows "xs = ys"
proof (rule nth_equalityI)
  show len: "length xs = length ys" using assms(1) by (rule map_eq_imp_length_eq)
  fix i assume i: "i < length xs"
  then have "fst (xs ! i) = fst (ys ! i)" using assms(1) len by (metis nth_map)
  moreover have "xs ! i \<in> set xs" "ys ! i \<in> set ys" using i len by simp_all
  ultimately show "xs ! i = ys ! i" using assms(3) by (metis prod.collapse)
qed

lemma same_json_sort: "same_json v w \<Longrightarrow> sort_json v = sort_json w"
proof (induction rule: same_json.induct)
  case (same_list xs ys)
  then show ?case by (simp add: list_all2_conv_all_nth list_eq_iff_nth_eq)
next
  case (same_obj as bs)
  let ?f = "\<lambda>kv. (fst kv, sort_json (snd kv))"
  let ?s = "\<lambda>zs. sort_key fst (map ?f zs)"
  have keys: "map fst (map ?f zs) = map fst zs" for zs :: obj by simp
  have set_s: "set (map fst (?s zs)) = set (dict_keys zs)" for zs :: obj by (simp add: image_image)
  have dist: "distinct (map fst (?s zs))" if "dict_wf zs" for zs :: obj
  proof -
    from that have "distinct (map fst (map ?f zs))" unfolding keys dict_wf_def .
    then have "distinct (map ?f zs) \<and> inj_on fst (set (map ?f zs))" by (simp only: distinct_map)
    then show ?thesis by (simp only: distinct_map distinct_sort set_sort)
  qed
  have "map fst (?s as) = map fst (?s bs)"
    using same_obj(1-3) by (intro sorted_distinct_set_unique sorted_sort_key dist) (simp_all only: set_s)
  moreover have "v = w" if "(k, v) \<in> set (?s as)" "(k, w) \<in> set (?s bs)" for k v w
    using that same_obj.IH by (auto simp: image_iff)
  ultimately have "?s as = ?s bs" using dist [OF same_obj(1)] by (intro sorted_key_unique) auto
  then show ?case by simp
qed simp

lemma canonical_json_order: "same_json v w \<Longrightarrow> canonical_json fr v = canonical_json fr w"
  by (simp add: canonical_json_def same_json_sort)

end
