(* ===== verification/Controller.thy ===== *)
theory Controller
  imports Workflow_Repository Canonical_Json
begin

text \<open>
  \<open>DurableController\<close> of \<open>orchestrator/controller.py\<close> over the database of the repository. The
  digest of an item is \<open>sha256\<close> of its canonical JSON text; the hash \<open>sha\<close> (text to hexadecimal
  text) and the float format \<open>fr\<close> are parameters. A planner is a pair of functions; the
  controller may have none. The retry loop of \<open>reconcile\<close> runs against \<open>interfere\<close>, what other
  writers do to the database between the read and the append of each attempt.
\<close>

section \<open>Decisions\<close>

record controller_decision =
  cd_action :: string
  cd_reason :: string
  cd_run :: string
  cd_version :: int
  cd_items :: "string list"

record planner =
  create_plan :: "string \<Rightarrow> aggregate \<Rightarrow> plan_document result"
  plan_recovery :: "plan_document \<Rightarrow> aggregate \<Rightarrow> obj list \<Rightarrow> plan_patch result"

definition item_from_snapshot :: "aggregate \<Rightarrow> string \<Rightarrow> obj result" where
  "item_from_snapshot ag i =
     rbind (plan_items_of (ag_plan ag)) (\<lambda>vs.
     rbind (find_item vs i) (\<lambda>found.
     case found of
       None \<Rightarrow> Inl (DomainError ''unknown work item: {}'' [i])
     | Some item \<Rightarrow> Inr item))"

definition approval_inputs :: "string list" where
  "approval_inputs = [''external_publish'', ''destructive'', ''secret_refs'', ''budget_override'']"

definition requires_approval :: "obj \<Rightarrow> bool result" where
  "requires_approval item =
     (if jget item ''risk_level'' \<in> {JStr (risk_level_value High), JStr (risk_level_value Critical)} then Inr True
      else rbind (as_mapping (py_or (jget item ''inputs'') (JObj []))) (\<lambda>ins.
           Inr (list_ex (\<lambda>k. truthy (jget ins k)) approval_inputs)))"

definition effect_digest :: "(string \<Rightarrow> string) \<Rightarrow> (rat \<Rightarrow> string) \<Rightarrow> int \<Rightarrow> obj \<Rightarrow> string" where
  "effect_digest sha fr rv item =
     sha (canonical_json fr (JObj [(''plan_revision'', JInt rv), (''item'', JObj item)]))"

definition matching_approval :: "aggregate \<Rightarrow> string \<Rightarrow> obj option" where
  "matching_approval ag dg =
     List.find (\<lambda>a. py_eq (jget a ''effect_digest'') (JStr dg) \<and>
                    jget a ''status'' \<in> {JStr ''pending'', JStr ''approved''})
       (map snd (ag_approvals ag))"

definition approved :: "aggregate \<Rightarrow> string \<Rightarrow> bool" where
  "approved ag dg \<longleftrightarrow>
     (case matching_approval ag dg of
        None \<Rightarrow> False
      | Some a \<Rightarrow> a \<noteq> [] \<and> jget a ''status'' = JStr ''approved'')"

definition ctl_event :: "(nat \<Rightarrow> string) \<Rightarrow> nat \<Rightarrow> time \<Rightarrow> string \<Rightarrow> string \<Rightarrow> obj \<Rightarrow> workflow_event" where
  "ctl_event uuid n now r ty pl = event_create (uuid n) now r ty pl ''controller''"

definition approval_request :: "string \<Rightarrow> string \<Rightarrow> int \<Rightarrow> string \<Rightarrow> obj \<Rightarrow> obj" where
  "approval_request a i rv dg item =
     [(''approval_id'', JStr a), (''work_item_id'', JStr i), (''plan_revision'', JInt rv),
      (''effect_digest'', JStr dg), (''risk_level'', dget item ''risk_level'' (JStr ''low''))]"

text \<open>
  The loop over the ready items: it stops at the first item that needs an approval it does not
  have, otherwise it makes every item ready. \<open>n\<close> counts the identifiers used.
\<close>

datatype ready_outcome = Waiting string | Scheduled "string list"

fun schedule_ready ::
    "(nat \<Rightarrow> string) \<Rightarrow> time \<Rightarrow> (int \<Rightarrow> obj \<Rightarrow> string) \<Rightarrow> aggregate \<Rightarrow> plan_document \<Rightarrow> nat \<Rightarrow> string list
     \<Rightarrow> (ready_outcome \<times> workflow_event list \<times> nat) result" where
  "schedule_ready uuid now digest ag plan n [] = Inr (Scheduled [], [], n)"
| "schedule_ready uuid now digest ag plan n (i # is) =
     rbind (item_from_snapshot ag i) (\<lambda>item.
     let dg = digest (revision plan) item in
     rbind (requires_approval item) (\<lambda>needs.
     if needs \<and> \<not> approved ag dg then
       (if matching_approval ag dg = None
        then Inr (Waiting i,
                  [ctl_event uuid (Suc n) now (ag_run_id ag) ''approval_requested''
                     (approval_request (uuid n) i (revision plan) dg item)], n + 2)
        else Inr (Waiting i, [], n))
     else
       (let (evs, m) = (if map_of (ag_statuses ag) i \<noteq> Some WReady
                        then ([ctl_event uuid n now (ag_run_id ag) ''work_ready'' [(''work_item_id'', JStr i)]], Suc n)
                        else ([], n)) in
        rbind (schedule_ready uuid now digest ag plan m is) (\<lambda>(out, more, k).
        Inr (case out of Waiting j \<Rightarrow> Waiting j | Scheduled js \<Rightarrow> Scheduled (i # js), evs @ more, k)))))"

fun block_events ::
    "(nat \<Rightarrow> string) \<Rightarrow> time \<Rightarrow> string \<Rightarrow> nat \<Rightarrow> string list \<Rightarrow> workflow_event list" where
  "block_events uuid now r n [] = []"
| "block_events uuid now r n (i # is) =
     ctl_event uuid n now r ''work_blocked'' [(''work_item_id'', JStr i), (''reason'', JStr ''dependency failed'')]
     # block_events uuid now r (Suc n) is"

definition status_event :: "(nat \<Rightarrow> string) \<Rightarrow> nat \<Rightarrow> time \<Rightarrow> string \<Rightarrow> run_status \<Rightarrow> workflow_event" where
  "status_event uuid n now r s =
     ctl_event uuid n now r ''run_status_changed'' [(''status'', JStr (run_status_value s))]"

definition idle_status :: "run_status option \<Rightarrow> bool" where
  "idle_status s \<longleftrightarrow>
     s \<in> {Some RPaused, Some RWaitingApproval, Some RCompleted, Some RFailed, Some RCancelled}"

definition status_text :: "run_status option \<Rightarrow> string" where
  "status_text s = (case s of None \<Rightarrow> ''None'' | Some t \<Rightarrow> run_status_value t)"

definition failed_items :: "aggregate \<Rightarrow> string list" where
  "failed_items ag = map fst (filter (\<lambda>kv. snd kv = WFailed) (ag_statuses ag))"

text \<open>What is decided once the ready items are scheduled.\<close>

definition decide_outcome ::
    "(nat \<Rightarrow> string) \<Rightarrow> time \<Rightarrow> bool \<Rightarrow> aggregate \<Rightarrow> plan_document \<Rightarrow> string list \<Rightarrow> string list
     \<Rightarrow> workflow_event list \<Rightarrow> nat \<Rightarrow> (controller_decision \<times> workflow_event list \<times> nat) result" where
  "decide_outcome uuid now has_planner ag plan ready scheduled evs n =
     (let d = \<lparr>cd_action = [], cd_reason = [], cd_run = ag_run_id ag, cd_version = ag_version ag, cd_items = []\<rparr>;
          failures = failed_items ag in
      if failures \<noteq> [] \<and> ready = [] then
        rbind (py_int (dget (ag_policy ag) ''max_replans'' (JInt 3))) (\<lambda>max_replans.
        if max_replans \<le> max 0 (revision plan - 1) then
          Inr (d\<lparr>cd_action := decision_type_value DFail, cd_reason := ''maximum replans exhausted'',
                 cd_items := failures\<rparr>,
               evs @ [status_event uuid n now (ag_run_id ag) RFailed], Suc n)
        else
          Inr (d\<lparr>cd_action := decision_type_value (if has_planner then DReplan else DFail),
                 cd_reason := ''terminal work item failure requires diagnosis and replan'',
                 cd_items := failures\<rparr>, evs, n))
      else
        Inr (d\<lparr>cd_action := decision_type_value DContinue,
               cd_reason := (if scheduled \<noteq> [] then ''ready work scheduled'' else ''work is in progress''),
               cd_items := scheduled\<rparr>, evs, n))"

definition decide ::
    "(nat \<Rightarrow> string) \<Rightarrow> nat \<Rightarrow> time \<Rightarrow> bool \<Rightarrow> (int \<Rightarrow> obj \<Rightarrow> string) \<Rightarrow> aggregate
     \<Rightarrow> (controller_decision \<times> workflow_event list \<times> nat) result" where
  "decide uuid n now has_planner digest ag =
     (let r = ag_run_id ag; st = ag_status ag;
          d = \<lparr>cd_action = ''continue'', cd_reason = ''run is '' @ status_text st, cd_run = r,
               cd_version = ag_version ag, cd_items = []\<rparr> in
      if idle_status st then Inr (d, [], n)
      else case ag_plan ag of
        None \<Rightarrow> Inr (d\<lparr>cd_action := ''replan'', cd_reason := ''run needs an initial plan''\<rparr>, [], n)
      | Some v \<Rightarrow>
          rbind (plan_from_dict v) (\<lambda>plan.
          if plan_is_complete plan (ag_statuses ag) (ag_verified ag) then
            Inr (d\<lparr>cd_action := ''complete'', cd_reason := ''current plan is verified''\<rparr>,
                 [status_event uuid n now r RCompleted], Suc n)
          else
            let (start, n1) = (if st = Some RQueued then ([status_event uuid n now r RRunning], Suc n) else ([], n));
                blocked = blocked_work_item_ids plan (ag_statuses ag);
                evs = start @ block_events uuid now r n1 blocked;
                ready = ready_work_item_ids plan (ag_statuses ag) in
            rbind (schedule_ready uuid now digest ag plan (n1 + length blocked) ready) (\<lambda>(out, more, n2).
            case out of
              Waiting i \<Rightarrow>
                Inr (d\<lparr>cd_action := ''wait_approval'',
                       cd_reason := ''work item '' @ i @ '' requires approval'', cd_items := [i]\<rparr>,
                     evs @ more, n2)
            | Scheduled js \<Rightarrow> decide_outcome uuid now has_planner ag plan ready js (evs @ more) n2)))"

section \<open>Plans\<close>

definition policy_limits :: "aggregate \<Rightarrow> (int option \<times> int option \<times> rat option) result" where
  "policy_limits ag =
     rbind (optional_int (jget (ag_policy ag) ''max_total_seconds'')) (\<lambda>s.
     rbind (optional_int (jget (ag_policy ag) ''max_total_tokens'')) (\<lambda>t.
     rbind (optional_float (jget (ag_policy ag) ''max_total_cost_usd'')) (\<lambda>c.
     Inr (s, t, c))))"

definition append_new ::
    "(nat \<Rightarrow> string) \<Rightarrow> time \<Rightarrow> string \<Rightarrow> int \<Rightarrow> string \<Rightarrow> obj \<Rightarrow> string \<Rightarrow> db \<Rightarrow> (aggregate \<times> db) result" where
  "append_new uuid now r v ty pl act db =
     append_events uuid r v [event_create (uuid (uuids db)) now r ty pl act] (take_uuid db)"

definition terminal_run :: "aggregate \<Rightarrow> bool" where
  "terminal_run ag \<longleftrightarrow> ag_status ag \<in> {Some RCompleted, Some RFailed, Some RCancelled}"

definition commit_plan ::
    "(nat \<Rightarrow> string) \<Rightarrow> time \<Rightarrow> string \<Rightarrow> plan_document \<Rightarrow> int option \<Rightarrow> string \<Rightarrow> string \<Rightarrow> db
     \<Rightarrow> (aggregate \<times> db) result" where
  "commit_plan uuid now r plan expected_version reason act db =
     rbind (get_snapshot db r) (\<lambda>ag.
     rbind (raise_unless (\<not> terminal_run ag)
              (DomainError ''cannot commit a plan to a terminal run'' [])) (\<lambda>_.
     let expected = (case ag_plan_revision ag of None \<Rightarrow> 1 | Some k \<Rightarrow> k + 1) in
     rbind (raise_unless (revision plan = expected)
              (ConcurrencyError ''plan revision must be {}, got {}'' [show_int expected, show_int (revision plan)])) (\<lambda>_.
     rbind (policy_limits ag) (\<lambda>(s, t, c).
     rbind (plan_validate plan s t c) (\<lambda>_.
     append_new uuid now r (case expected_version of None \<Rightarrow> ag_version ag | Some v \<Rightarrow> v) ''plan_committed''
       [(''plan'', plan_to_dict plan), (''reason'', JStr reason)] act db)))))"

definition apply_patch ::
    "(nat \<Rightarrow> string) \<Rightarrow> time \<Rightarrow> string \<Rightarrow> plan_patch \<Rightarrow> string \<Rightarrow> db \<Rightarrow> (aggregate \<times> db) result" where
  "apply_patch uuid now r patch act db =
     rbind (get_snapshot db r) (\<lambda>ag.
     case ag_plan ag of
       None \<Rightarrow> Inl (DomainError ''cannot patch a run without a plan'' [])
     | Some v \<Rightarrow>
         if \<not> truthy v then Inl (DomainError ''cannot patch a run without a plan'' [])
         else
           rbind (plan_from_dict v) (\<lambda>current.
           rbind (policy_limits ag) (\<lambda>(s, t, c).
           rbind (apply_plan_patch current patch (ag_statuses ag) s t c) (\<lambda>updated.
           commit_plan uuid now r updated (Some (ag_version ag)) (patch_reason patch) act db))))"

definition ensure_plan ::
    "(nat \<Rightarrow> string) \<Rightarrow> time \<Rightarrow> planner option \<Rightarrow> string \<Rightarrow> db \<Rightarrow> (aggregate \<times> db) result" where
  "ensure_plan uuid now port r db =
     rbind (get_snapshot db r) (\<lambda>ag.
     if ag_plan ag \<noteq> None then Inr (ag, db)
     else case port of
       None \<Rightarrow> Inl (DomainError ''run has no plan and no planner is configured'' [])
     | Some pp \<Rightarrow>
         rbind (create_plan pp (ag_goal ag) ag) (\<lambda>plan.
         commit_plan uuid now r plan None ''initial plan'' ''planner'' db))"

definition replan_from_evidence ::
    "(nat \<Rightarrow> string) \<Rightarrow> time \<Rightarrow> planner option \<Rightarrow> string \<Rightarrow> db \<Rightarrow> (aggregate \<times> db) result" where
  "replan_from_evidence uuid now port r db =
     (case port of
        None \<Rightarrow> Inl (DomainError ''no planner is configured'' [])
      | Some pp \<Rightarrow>
          rbind (get_snapshot db r) (\<lambda>ag.
          rbind (plan_from_dict (case ag_plan ag of None \<Rightarrow> JNull | Some v \<Rightarrow> v)) (\<lambda>plan.
          rbind (plan_recovery pp plan ag (ag_evidence ag)) (\<lambda>patch.
          apply_patch uuid now r patch ''planner'' db))))"

section \<open>Reconciliation\<close>

fun reconcile_loop ::
    "nat \<Rightarrow> (nat \<Rightarrow> db \<Rightarrow> db) \<Rightarrow> (nat \<Rightarrow> string) \<Rightarrow> time \<Rightarrow> bool \<Rightarrow> (int \<Rightarrow> obj \<Rightarrow> string) \<Rightarrow> string \<Rightarrow> db
     \<Rightarrow> (controller_decision \<times> db) result" where
  "reconcile_loop 0 interfere uuid now has_planner digest r db =
     Inl (ConcurrencyError ''run {} changed repeatedly during reconciliation'' [r])"
| "reconcile_loop (Suc k) interfere uuid now has_planner digest r db =
     rbind (get_snapshot db r) (\<lambda>ag.
     rbind (decide uuid (uuids db) now has_planner digest ag) (\<lambda>(d, evs, n).
     let db1 = db\<lparr>uuids := n\<rparr> in
     if evs = [] then Inr (d, db1)
     else
       let db2 = interfere k db1 in
       (case append_events uuid r (ag_version ag) evs db2 of
          Inr (ag', db') \<Rightarrow> Inr (d\<lparr>cd_version := ag_version ag'\<rparr>, db')
        | Inl (ConcurrencyError _ _) \<Rightarrow> reconcile_loop k interfere uuid now has_planner digest r db2
        | Inl e \<Rightarrow> Inl e)))"

definition reconcile ::
    "(nat \<Rightarrow> db \<Rightarrow> db) \<Rightarrow> (nat \<Rightarrow> string) \<Rightarrow> time \<Rightarrow> bool \<Rightarrow> (int \<Rightarrow> obj \<Rightarrow> string) \<Rightarrow> string \<Rightarrow> db
     \<Rightarrow> (controller_decision \<times> db) result" where
  "reconcile interfere uuid now has_planner digest r db =
     reconcile_loop 5 interfere uuid now has_planner digest r db"

fun advance ::
    "nat \<Rightarrow> nat \<Rightarrow> (nat \<Rightarrow> db \<Rightarrow> db) \<Rightarrow> (nat \<Rightarrow> string) \<Rightarrow> time \<Rightarrow> planner option \<Rightarrow> (int \<Rightarrow> obj \<Rightarrow> string) \<Rightarrow> string
     \<Rightarrow> db \<Rightarrow> (controller_decision \<times> db) result" where
  "advance max_decisions 0 interfere uuid now port digest r db =
     Inl (DomainError ''controller exceeded {} decisions without stabilizing'' [show_int (int max_decisions)])"
| "advance max_decisions (Suc k) interfere uuid now port digest r db =
     rbind (get_snapshot db r) (\<lambda>ag.
     if ag_plan ag = None then
       rbind (ensure_plan uuid now port r db) (\<lambda>(_, db1).
       advance max_decisions k interfere uuid now port digest r db1)
     else
       rbind (reconcile interfere uuid now (port \<noteq> None) digest r db) (\<lambda>(d, db1).
       if cd_action d \<noteq> decision_type_value DReplan \<or> port = None then Inr (d, db1)
       else
         rbind (replan_from_evidence uuid now port r db1) (\<lambda>(_, db2).
         advance max_decisions k interfere uuid now port digest r db2)))"

section \<open>Approvals, status changes, evidence\<close>

definition request_approval ::
    "(nat \<Rightarrow> string) \<Rightarrow> time \<Rightarrow> (int \<Rightarrow> obj \<Rightarrow> string) \<Rightarrow> string \<Rightarrow> string \<Rightarrow> string \<Rightarrow> db \<Rightarrow> (aggregate \<times> db) result" where
  "request_approval uuid now digest r i act db =
     rbind (get_snapshot db r) (\<lambda>ag.
     rbind (item_from_snapshot ag i) (\<lambda>item.
     case ag_plan_revision ag of
       None \<Rightarrow> Inl (Unsupported ''approval without a plan revision'')
     | Some rv \<Rightarrow>
         let dg = digest rv item in
         (case matching_approval ag dg of
            Some a \<Rightarrow> if a \<noteq> [] then Inr (ag, db) else Inl (Unsupported ''empty approval'')
          | None \<Rightarrow>
              append_new uuid now r (ag_version ag) ''approval_requested''
                (approval_request (uuid (uuids db)) i rv dg item) act (take_uuid db))))"

definition decide_approval ::
    "(nat \<Rightarrow> string) \<Rightarrow> time \<Rightarrow> string \<Rightarrow> string \<Rightarrow> bool \<Rightarrow> string \<Rightarrow> string \<Rightarrow> db \<Rightarrow> (aggregate \<times> db) result" where
  "decide_approval uuid now r a ok decided_by reason db =
     rbind (get_snapshot db r) (\<lambda>ag.
     let approval = dget (ag_approvals ag) a [] in
     rbind (raise_unless (approval \<noteq> [] \<and> jget approval ''status'' = JStr ''pending'')
              (DomainError ''approval is missing, invalidated, or already decided'' [])) (\<lambda>_.
     rbind (raise_unless (py_eq (jget approval ''plan_revision'') (jopt JInt (ag_plan_revision ag)))
              (DomainError ''approval belongs to an obsolete plan revision'' [])) (\<lambda>_.
     append_new uuid now r (ag_version ag) ''approval_decided''
       [(''approval_id'', JStr a), (''approved'', JBool ok), (''decided_by'', JStr decided_by),
        (''reason'', JStr reason)] (''user:'' @ decided_by) db)))"

fun cancel_events ::
    "(nat \<Rightarrow> string) \<Rightarrow> time \<Rightarrow> string \<Rightarrow> string \<Rightarrow> nat \<Rightarrow> work_status dict \<Rightarrow> workflow_event list" where
  "cancel_events uuid now r act n [] = []"
| "cancel_events uuid now r act n ((i, s) # sts) =
     (if s \<in> {WSucceeded, WCancelled} then cancel_events uuid now r act n sts
      else event_create (uuid n) now r ''work_cancelled''
             [(''work_item_id'', JStr i), (''reason'', JStr ''run cancelled'')] act
           # cancel_events uuid now r act (Suc n) sts)"

definition status_change_events ::
    "(nat \<Rightarrow> string) \<Rightarrow> time \<Rightarrow> string \<Rightarrow> nat \<Rightarrow> aggregate \<Rightarrow> string \<Rightarrow> workflow_event list" where
  "status_change_events uuid now act n ag status =
     event_create (uuid n) now (ag_run_id ag) ''run_status_changed'' [(''status'', JStr status)] act
     # (if status = run_status_value RCancelled
        then cancel_events uuid now (ag_run_id ag) act (Suc n) (ag_statuses ag) else [])"

definition change_status ::
    "(nat \<Rightarrow> string) \<Rightarrow> time \<Rightarrow> string \<Rightarrow> string \<Rightarrow> string \<Rightarrow> db \<Rightarrow> (aggregate \<times> db) result" where
  "change_status uuid now r status act db =
     rbind (get_snapshot db r) (\<lambda>ag.
     let evs = status_change_events uuid now act (uuids db) ag status in
     append_events uuid r (ag_version ag) evs (db\<lparr>uuids := uuids db + length evs\<rparr>))"

definition record_evidence ::
    "(nat \<Rightarrow> string) \<Rightarrow> time \<Rightarrow> string \<Rightarrow> obj \<Rightarrow> string \<Rightarrow> db \<Rightarrow> (aggregate \<times> db) result" where
  "record_evidence uuid now r pl act db =
     rbind (get_snapshot db r) (\<lambda>ag.
     append_new uuid now r (ag_version ag) ''evidence_recorded'' pl act db)"

end
