(* ===== verification/Controller_Laws.thy ===== *)
theory Controller_Laws
  imports Controller Workflow_Effects
begin

text \<open>
  The laws of the controller: a group of status moves over distinct work items always applies,
  so the events of a decision and of a cancellation are accepted by the reducer; and what the
  scheduling loop emits.
\<close>

section \<open>Groups of work status moves\<close>

lemma number_events_append:
  "number_events v (es @ fs) = number_events v es @ number_events (v + int (length es)) fs"
  by (induction es arbitrary: v) (auto simp: algebra_simps)

definition append_all :: "aggregate \<Rightarrow> workflow_event list \<Rightarrow> aggregate result" where
  "append_all ag es = rfold apply_event ag (number_events (ag_version ag) es)"

lemma append_all_append: "append_all ag (es @ fs) = rbind (append_all ag es) (\<lambda>ag'. append_all ag' fs)"
proof (cases "append_all ag es")
  case (Inr ag')
  then have "ag_version ag' = ag_version ag + int (length es)"
    using run_log.fold_version [of ag "number_events (ag_version ag) es" ag'] by (simp add: append_all_def)
  with Inr show ?thesis by (simp add: append_all_def number_events_append rfold_append)
qed (simp add: append_all_def number_events_append rfold_append)

lemma append_all_Nil [simp]: "append_all ag [] = Inr ag"
  by (simp add: append_all_def)

lemma append_all_one: "append_all ag [ev] = apply_event ag (ev\<lparr>event_version := Some (ag_version ag + 1)\<rparr>)"
  by (cases "apply_event ag (ev\<lparr>event_version := Some (ag_version ag + 1)\<rparr>)") (simp_all add: append_all_def)

text \<open>The event \<open>ev\<close> moves the work item \<open>i\<close> to the status \<open>t\<close>.\<close>

fun moves :: "string \<Rightarrow> workflow_event \<Rightarrow> string \<times> work_status \<Rightarrow> bool" where
  "moves r ev (i, t) \<longleftrightarrow>
     event_run_id ev = r \<and> map_of (payload ev) ''work_item_id'' = Some (JStr i) \<and>
     (t, event_type ev) \<in> {(WReady, ''work_ready''), (WBlocked, ''work_blocked''), (WCancelled, ''work_cancelled'')}"

text \<open>What a group of moves leaves alone.\<close>

definition only_work :: "aggregate \<Rightarrow> aggregate \<Rightarrow> bool" where
  "only_work ag ag' \<longleftrightarrow>
     ag_run_id ag' = ag_run_id ag \<and> ag_status ag' = ag_status ag \<and> ag_plan ag' = ag_plan ag \<and>
     ag_verified ag' = ag_verified ag \<and> ag_plan_revision ag' = ag_plan_revision ag \<and>
     ag_approvals ag' = ag_approvals ag"

lemma only_work_trans: "only_work a b \<Longrightarrow> only_work b c \<Longrightarrow> only_work a c"
  by (simp add: only_work_def)

lemma one_move:
  assumes "moves (ag_run_id ag) ev (i, t)" and "map_of (ag_statuses ag) i = Some c"
    and "t \<in> work_transitions c" and "ag_status ag \<noteq> None"
  shows "\<exists>ag'. append_all ag [ev] = Inr ag' \<and>
    only_work ag ag' \<and> ag_statuses ag' = dset i t (ag_statuses ag) \<and> ag_version ag' = ag_version ag + 1"
proof -
  have "c \<noteq> t" using assms(3) by (cases c) auto
  then show ?thesis
    using assms
    by (auto simp: append_all_one apply_event_def dispatch_event_def Let_def on_work_ready_def on_work_blocked_def
        on_work_cancelled_def payload_str_def jindex_def transition_work_def only_work_def
        split del: if_split)
qed

lemma group_of_moves:
  assumes "list_all2 (moves (ag_run_id ag)) evs ms" and "distinct (map fst ms)"
    and "\<forall>(i, t) \<in> set ms. \<exists>c. map_of (ag_statuses ag) i = Some c \<and> t \<in> work_transitions c"
    and "ag_status ag \<noteq> None"
  shows "\<exists>ag'. append_all ag evs = Inr ag' \<and>
    only_work ag ag' \<and> ag_version ag' = ag_version ag + int (length evs) \<and>
    (\<forall>i. map_of (ag_statuses ag') i =
       (case map_of ms i of Some t \<Rightarrow> Some t | None \<Rightarrow> map_of (ag_statuses ag) i))"
  using assms
proof (induction evs arbitrary: ms ag)
  case Nil
  then show ?case by (simp add: only_work_def)
next
  case (Cons ev evs)
  then obtain i t ms' where ms: "ms = (i, t) # ms'" "moves (ag_run_id ag) ev (i, t)"
    and rest: "list_all2 (moves (ag_run_id ag)) evs ms'"
    by (auto simp: list_all2_Cons1)
  with Cons.prems obtain c where "map_of (ag_statuses ag) i = Some c" "t \<in> work_transitions c" by auto
  from one_move [OF ms(2) this Cons.prems(4)] obtain ag1 where
    ag1: "append_all ag [ev] = Inr ag1"
    and w1: "only_work ag ag1" and s1: "ag_statuses ag1 = dset i t (ag_statuses ag)"
    and v1: "ag_version ag1 = ag_version ag + 1" by blast
  have "\<exists>c. map_of (ag_statuses ag1) j = Some c \<and> u \<in> work_transitions c"
    if "(j, u) \<in> set ms'" for j u
  proof -
    have "j \<noteq> i" using that Cons.prems(2) by (force simp: ms(1))
    moreover have "(j, u) \<in> set ms" using that by (simp add: ms(1))
    ultimately show ?thesis using Cons.prems(3) by (auto simp: s1 dict_simps)
  qed
  then have "\<exists>ag'. append_all ag1 evs = Inr ag' \<and>
    only_work ag1 ag' \<and> ag_version ag' = ag_version ag1 + int (length evs) \<and>
    (\<forall>j. map_of (ag_statuses ag') j =
       (case map_of ms' j of Some u \<Rightarrow> Some u | None \<Rightarrow> map_of (ag_statuses ag1) j))"
    using rest Cons.prems(2,4) w1 by (intro Cons.IH) (auto simp: ms(1) only_work_def)
  then obtain ag' where ag': "append_all ag1 evs = Inr ag'"
    "only_work ag1 ag'" "ag_version ag' = ag_version ag1 + int (length evs)"
    "\<forall>j. map_of (ag_statuses ag') j =
       (case map_of ms' j of Some u \<Rightarrow> Some u | None \<Rightarrow> map_of (ag_statuses ag1) j)" by blast
  have "map_of ms' i = None" using Cons.prems(2) by (simp add: ms(1) map_of_eq_None_iff)
  then have "map_of (ag_statuses ag') j =
       (case map_of ms j of Some u \<Rightarrow> Some u | None \<Rightarrow> map_of (ag_statuses ag) j)" for j
    using ag'(4) by (auto simp: ms(1) s1 dict_simps split: option.splits)
  with ag1 ag' w1 v1 append_all_append [of ag "[ev]" evs] show ?case by (auto intro: only_work_trans)
qed

section \<open>Changes of the run status\<close>

lemma status_move:
  assumes "event_run_id ev = ag_run_id ag" and "event_type ev = ''run_status_changed''"
    and "map_of (payload ev) ''status'' = Some (JStr (run_status_value t))"
    and "ag_status ag = Some c" and "t \<in> run_transitions c"
    and "t = RCompleted \<Longrightarrow> completion_allowed ag = Inr True"
  shows "\<exists>ag'. append_all ag [ev] = Inr ag' \<and>
    ag_status ag' = Some t \<and> ag_run_id ag' = ag_run_id ag \<and> ag_plan ag' = ag_plan ag \<and>
    ag_verified ag' = ag_verified ag \<and> ag_plan_revision ag' = ag_plan_revision ag \<and>
    ag_approvals ag' = ag_approvals ag \<and>
    ag_statuses ag' = ag_statuses ag \<and> ag_version ag' = ag_version ag + 1"
proof -
  have ne: "c \<noteq> t" "c \<notin> terminal_run_statuses"
    using assms(5) by (cases c; auto simp: terminal_run_statuses_def)+
  then have tr: "transition_run ag (run_status_value t) = Inr (ag\<lparr>ag_status := Some t\<rparr>)"
    unfolding transition_run_eq using assms(4,5) by auto
  have "(run_status_value t = run_status_value RCompleted) = (t = RCompleted)"
    by (cases t) simp_all
  then show ?thesis
    using assms(1-4,6) tr
    by (cases "t = RCompleted")
      (auto simp: append_all_one apply_event_def dispatch_event_def Let_def on_run_status_changed_def payload_str_def jindex_def
        simp del: run_status_value.simps)
qed

section \<open>What the loops emit\<close>

lemma block_events_moves:
  "list_all2 (moves r) (block_events uuid now r n is) (map (\<lambda>i. (i, WBlocked)) is)"
  by (induction "is" arbitrary: n) (auto simp: ctl_event_def event_create_def)

lemma item_from_snapshot_eq:
  assumes "plan_ok p" and "ag_plan ag = Some (plan_to_dict p)"
  shows "item_from_snapshot ag i = Inr item \<longleftrightarrow>
     (\<exists>it \<in> set (work_items p). item_id it = i \<and> item = item_to_dict it)"
  using plan_item_eq [OF assms, of i item]
  by (simp add: item_from_snapshot_def plan_item_def result_simps split: option.splits)

text \<open>An item may be scheduled: it needs no approval, or it has one for its digest.\<close>

definition cleared :: "(int \<Rightarrow> obj \<Rightarrow> string) \<Rightarrow> aggregate \<Rightarrow> int \<Rightarrow> obj \<Rightarrow> bool" where
  "cleared digest ag rv item \<longleftrightarrow>
     requires_approval item = Inr False \<or> requires_approval item = Inr True \<and> approved ag (digest rv item)"

definition pending_ready :: "aggregate \<Rightarrow> string list \<Rightarrow> string list" where
  "pending_ready ag is = filter (\<lambda>i. map_of (ag_statuses ag) i \<noteq> Some WReady) is"

definition asks_approval :: "aggregate \<Rightarrow> workflow_event \<Rightarrow> bool" where
  "asks_approval ag ev \<longleftrightarrow>
     event_type ev = ''approval_requested'' \<and> event_run_id ev = ag_run_id ag \<and>
     (\<exists>a. map_of (payload ev) ''approval_id'' = Some (JStr a))"

text \<open>
  The ready loop handles a prefix \<open>done\<close> of the ready items: each is cleared, the pending ones get
  a \<open>work_ready\<close> event. It stops early only at an item that needs an approval it does not have.
\<close>

definition scheduled_as ::
    "(int \<Rightarrow> obj \<Rightarrow> string) \<Rightarrow> aggregate \<Rightarrow> int \<Rightarrow> string list \<Rightarrow> ready_outcome \<Rightarrow> workflow_event list
     \<Rightarrow> string list \<Rightarrow> string list \<Rightarrow> workflow_event list \<Rightarrow> workflow_event list \<Rightarrow> bool" where
  "scheduled_as digest ag rv is out evs handled rest readied asks \<longleftrightarrow>
     is = handled @ rest \<and> evs = readied @ asks \<and>
     list_all2 (moves (ag_run_id ag)) readied (map (\<lambda>i. (i, WReady)) (pending_ready ag handled)) \<and>
     (\<forall>i \<in> set handled. \<exists>item. item_from_snapshot ag i = Inr item \<and> cleared digest ag rv item) \<and>
     (case out of
        Scheduled js \<Rightarrow> js = is \<and> rest = [] \<and> asks = []
      | Waiting j \<Rightarrow>
          rest \<noteq> [] \<and> j = hd rest \<and> (asks = [] \<or> (\<exists>ev. asks = [ev] \<and> asks_approval ag ev)) \<and>
          (\<exists>item. item_from_snapshot ag j = Inr item \<and> requires_approval item = Inr True \<and>
             \<not> approved ag (digest rv item)))"

lemma schedule_ready_emits:
  "schedule_ready uuid now digest ag plan n is = Inr (out, evs, m) \<Longrightarrow>
   \<exists>handled rest readied asks. scheduled_as digest ag (revision plan) is out evs handled rest readied asks"
proof (induction "is" arbitrary: n out evs m)
  case Nil
  then show ?case by (auto simp: scheduled_as_def pending_ready_def)
next
  case (Cons i "is")
  let ?rv = "revision plan"
  from Cons.prems obtain item needs where
    item: "item_from_snapshot ag i = Inr item" and needs: "requires_approval item = Inr needs"
    by (auto simp: result_simps Let_def)
  show ?case
  proof (cases "needs \<and> \<not> approved ag (digest ?rv item)")
    case True
    then have "scheduled_as digest ag ?rv (i # is) out evs [] (i # is) [] evs"
      using Cons.prems item needs
      by (auto simp: scheduled_as_def pending_ready_def asks_approval_def ctl_event_def event_create_def
          approval_request_def Let_def split: if_splits)
    then show ?thesis by blast
  next
    case False
    then have ok: "cleared digest ag ?rv item" using needs by (auto simp: cleared_def)
    let ?here = "if map_of (ag_statuses ag) i \<noteq> Some WReady
      then [ctl_event uuid n now (ag_run_id ag) ''work_ready'' [(''work_item_id'', JStr i)]] else []"
    from Cons.prems False item needs obtain k out' evs' m' where
      rest: "schedule_ready uuid now digest ag plan k is = Inr (out', evs', m')"
      and out: "out = (case out' of Waiting j \<Rightarrow> Waiting j | Scheduled js \<Rightarrow> Scheduled (i # js))"
      and evs: "evs = ?here @ evs'"
      by (auto simp: result_simps Let_def split: if_splits)
    from Cons.IH [OF rest] obtain handled rest' readied asks where
      ih: "scheduled_as digest ag ?rv is out' evs' handled rest' readied asks" by blast
    have "list_all2 (moves (ag_run_id ag)) ?here (map (\<lambda>i. (i, WReady)) (pending_ready ag [i]))"
      by (simp add: pending_ready_def ctl_event_def event_create_def)
    with ih item ok have "scheduled_as digest ag ?rv (i # is) out evs (i # handled) rest' (?here @ readied) asks"
      unfolding out evs
      by (cases out') (auto simp: scheduled_as_def pending_ready_def intro: list_all2_appendI)
    then show ?thesis by blast
  qed
qed

section \<open>The shape of a decision\<close>

definition status_change :: "string \<Rightarrow> run_status \<Rightarrow> workflow_event \<Rightarrow> bool" where
  "status_change r t ev \<longleftrightarrow>
     event_run_id ev = r \<and> event_type ev = ''run_status_changed'' \<and>
     map_of (payload ev) ''status'' = Some (JStr (run_status_value t))"

lemma status_event_change [simp]: "status_change r t (status_event uuid n now r t)"
  by (simp add: status_change_def status_event_def ctl_event_def event_create_def)

lemma decide_outcome_events:
  assumes "decide_outcome uuid now pl ag plan ready js evs n = Inr (d, evs', m)"
  shows "\<exists>tail. evs' = evs @ tail \<and> cd_action d \<noteq> ''complete'' \<and>
    (tail = [] \<or> (\<exists>ev. tail = [ev] \<and> status_change (ag_run_id ag) RFailed ev))"
  using assms
  by (auto simp: decide_outcome_def Let_def result_simps split: if_splits)

lemma decide_shape:
  assumes dec: "decide uuid n now pl digest ag = Inr (d, evs, m)" and "\<not> idle_status (ag_status ag)"
    and p: "holds_plan ag p"
  obtains (complete) "plan_is_complete p (ag_statuses ag) (ag_verified ag)" "cd_action d = ''complete''"
      "\<exists>ev. evs = [ev] \<and> status_change (ag_run_id ag) RCompleted ev"
  | (going) start blocks out sched handled rest readied asks tail where
      "\<not> plan_is_complete p (ag_statuses ag) (ag_verified ag)" "cd_action d \<noteq> ''complete''"
      "evs = start @ blocks @ sched @ tail"
      "if ag_status ag = Some RQueued then \<exists>ev. start = [ev] \<and> status_change (ag_run_id ag) RRunning ev
       else start = []"
      "list_all2 (moves (ag_run_id ag)) blocks
         (map (\<lambda>i. (i, WBlocked)) (blocked_work_item_ids p (ag_statuses ag)))"
      "scheduled_as digest ag (revision p) (ready_work_item_ids p (ag_statuses ag)) out sched
         handled rest readied asks"
      "tail = [] \<or> asks = [] \<and> (\<exists>ev. tail = [ev] \<and> status_change (ag_run_id ag) RFailed ev)"
proof -
  have v: "ag_plan ag = Some (plan_to_dict p)" and "plan_ok p" using p by (simp_all add: holds_plan_def)
  then have from_dict: "plan_from_dict (plan_to_dict p) = Inr p" by (simp add: plan_from_to_dict)
  show ?thesis
  proof (cases "plan_is_complete p (ag_statuses ag) (ag_verified ag)")
    case True
    then show ?thesis using dec assms(2) v from_dict
      by (intro complete) (auto simp: decide_def Let_def)
  next
    case False
    define start where "start = (if ag_status ag = Some RQueued
      then [status_event uuid n now (ag_run_id ag) RRunning] else [])"
    define n1 where "n1 = (if ag_status ag = Some RQueued then Suc n else n)"
    let ?ready = "ready_work_item_ids p (ag_statuses ag)"
    let ?blocked = "blocked_work_item_ids p (ag_statuses ag)"
    let ?blocks = "block_events uuid now (ag_run_id ag) n1 ?blocked"
    have pair: "(if ag_status ag = Some RQueued
      then ([status_event uuid n now (ag_run_id ag) RRunning], Suc n) else ([], n)) = (start, n1)"
      by (simp add: start_def n1_def)
    let ?d = "\<lparr>cd_action = ''continue'', cd_reason = ''run is '' @ status_text (ag_status ag),
      cd_run = ag_run_id ag, cd_version = ag_version ag, cd_items = []\<rparr>"
    have "rbind (schedule_ready uuid now digest ag p (n1 + length ?blocked) ?ready) (\<lambda>(out, more, n2).
      case out of
        Waiting i \<Rightarrow> Inr (?d\<lparr>cd_action := ''wait_approval'',
            cd_reason := ''work item '' @ i @ '' requires approval'', cd_items := [i]\<rparr>,
          (start @ ?blocks) @ more, n2)
      | Scheduled js \<Rightarrow> decide_outcome uuid now pl ag p ?ready js ((start @ ?blocks) @ more) n2) = Inr (d, evs, m)"
      using dec assms(2) v from_dict False unfolding decide_def Let_def pair by simp
    then obtain out more n2 where
      sr: "schedule_ready uuid now digest ag p (n1 + length ?blocked) ?ready = Inr (out, more, n2)"
      and dd0: "(case out of
        Waiting i \<Rightarrow> Inr (?d\<lparr>cd_action := ''wait_approval'',
            cd_reason := ''work item '' @ i @ '' requires approval'', cd_items := [i]\<rparr>,
          (start @ ?blocks) @ more, n2)
      | Scheduled js \<Rightarrow> decide_outcome uuid now pl ag p ?ready js ((start @ ?blocks) @ more) n2) = Inr (d, evs, m)"
      by (auto simp only: rbind_eq_Inr prod.case split_paired_all)
    have dd: "case out of
         Waiting i \<Rightarrow> evs = start @ ?blocks @ more \<and> cd_action d = ''wait_approval''
       | Scheduled js \<Rightarrow> decide_outcome uuid now pl ag p ?ready js (start @ ?blocks @ more) n2 = Inr (d, evs, m)"
      using dd0 by (cases out) auto
    from schedule_ready_emits [OF sr] obtain handled rest readied asks where
      sch: "scheduled_as digest ag (revision p) ?ready out more handled rest readied asks" by blast
    have "\<exists>tail. evs = start @ ?blocks @ more @ tail \<and> cd_action d \<noteq> ''complete'' \<and>
      (tail = [] \<or> asks = [] \<and> (\<exists>ev. tail = [ev] \<and> status_change (ag_run_id ag) RFailed ev))"
    proof (cases out)
      case (Scheduled js)
      with dd have "decide_outcome uuid now pl ag p ?ready js (start @ ?blocks @ more) n2 = Inr (d, evs, m)" by simp
      from decide_outcome_events [OF this] sch Scheduled show ?thesis by (auto simp: scheduled_as_def)
    qed (use dd in simp)
    then show ?thesis
      using False sch block_events_moves
      by (elim exE conjE) (rule going, auto simp: start_def)
  qed
qed

section \<open>Decisions apply\<close>

lemma ask_move:
  assumes "asks_approval ag0 ev" and "ag_run_id ag = ag_run_id ag0" and "ag_status ag = Some RRunning"
  shows "\<exists>ag'. append_all ag [ev] = Inr ag'"
  using assms
  by (auto simp: append_all_one asks_approval_def apply_event_def dispatch_event_def Let_def on_approval_requested_def
      payload_str_def jindex_def transition_run_def run_status_of_def all_run_statuses_def
      terminal_run_statuses_def)

lemma plan_distinct_frontier:
  assumes "plan_ok p"
  shows "distinct (ready_work_item_ids p sts)" "distinct (blocked_work_item_ids p sts)"
    "set (ready_work_item_ids p sts) \<inter> set (blocked_work_item_ids p sts) = {}"
  using plan_ok_distinct [OF assms] ready_blocked_disjoint [OF assms]
  by (auto simp: ready_work_item_ids_def blocked_work_item_ids_def distinct_map
      intro: inj_on_subset)

lemma frontier_status:
  assumes "holds_plan ag p"
    and "i \<in> set (ready_work_item_ids p (ag_statuses ag)) \<union> set (blocked_work_item_ids p (ag_statuses ag))"
  shows "map_of (ag_statuses ag) i \<in> {Some WPending, Some WReady}"
proof -
  from assms(2) have "schedulable (dget (ag_statuses ag) i WPending)" "i \<in> set (plan_ids p)"
    by (auto simp: ready_work_item_ids_def blocked_work_item_ids_def is_ready_def is_blocked_def plan_ids_def)
  moreover from this(2) assms(1) have "map_of (ag_statuses ag) i \<noteq> None"
    by (simp only: dict_keys_conv [symmetric] holds_plan_def)
  ultimately show ?thesis by (auto simp: schedulable_def dget_def split: option.splits)
qed

text \<open>The moves of a decision: the blocked items, then the items made ready.\<close>

definition frontier_moves :: "plan_document \<Rightarrow> aggregate \<Rightarrow> string list \<Rightarrow> (string \<times> work_status) list" where
  "frontier_moves p ag handled =
     map (\<lambda>i. (i, WBlocked)) (blocked_work_item_ids p (ag_statuses ag)) @
     map (\<lambda>i. (i, WReady)) (pending_ready ag handled)"

lemma frontier_moves_legal:
  assumes p: "holds_plan ag p" and pre: "ready_work_item_ids p (ag_statuses ag) = handled @ rest"
  shows "distinct (map fst (frontier_moves p ag handled))"
    and "\<forall>(i, t) \<in> set (frontier_moves p ag handled).
      \<exists>c. map_of (ag_statuses ag) i = Some c \<and> t \<in> work_transitions c"
proof -
  from p have ok: "plan_ok p" by (simp add: holds_plan_def)
  note fr = plan_distinct_frontier [OF ok, of "ag_statuses ag"]
  from fr show "distinct (map fst (frontier_moves p ag handled))"
    unfolding pre by (auto simp: frontier_moves_def pending_ready_def comp_def)
  show "\<forall>(i, t) \<in> set (frontier_moves p ag handled).
      \<exists>c. map_of (ag_statuses ag) i = Some c \<and> t \<in> work_transitions c"
  proof (intro ballI case_prodI2)
    fix x i t
    assume "x \<in> set (frontier_moves p ag handled)" "x = (i, t)"
    then have "i \<in> set (handled @ rest) \<union> set (blocked_work_item_ids p (ag_statuses ag))"
      and t: "t = WBlocked \<or> t = WReady \<and> map_of (ag_statuses ag) i \<noteq> Some WReady"
      by (auto simp: frontier_moves_def pending_ready_def)
    with frontier_status [OF p, of i] have "map_of (ag_statuses ag) i \<in> {Some WPending, Some WReady}"
      by (simp only: pre)
    with t show "\<exists>c. map_of (ag_statuses ag) i = Some c \<and> t \<in> work_transitions c" by auto
  qed
qed

lemma started:
  assumes "if ag_status ag = Some RQueued then \<exists>ev. start = [ev] \<and> status_change (ag_run_id ag) RRunning ev
       else start = []"
    and "\<not> idle_status (ag_status ag)" and "ag_status ag \<noteq> None"
  shows "\<exists>ag0. append_all ag start = Inr ag0 \<and>
    ag_status ag0 = Some RRunning \<and> ag_run_id ag0 = ag_run_id ag \<and> ag_statuses ag0 = ag_statuses ag \<and>
    ag_version ag0 = ag_version ag + int (length start)"
proof (cases "ag_status ag = Some RQueued")
  case True
  with assms(1) obtain ev where "start = [ev]" "status_change (ag_run_id ag) RRunning ev" by auto
  with status_move [of ev ag RRunning RQueued] True show ?thesis by (auto simp: status_change_def)
next
  case False
  with assms have "ag_status ag = Some RRunning"
    by (cases "the (ag_status ag)") (auto simp: idle_status_def)
  with False assms(1) show ?thesis by simp
qed

lemma decision_applies:
  assumes dec: "decide uuid n now pl digest ag = Inr (d, evs, m)" and busy: "\<not> idle_status (ag_status ag)"
    and p: "holds_plan ag p" and st: "ag_status ag \<noteq> None"
    and not_done: "ag_status ag = Some RQueued \<Longrightarrow> cd_action d \<noteq> ''complete''"
  shows "\<exists>ag'. append_all ag evs = Inr ag'"
  using dec busy p
proof (cases rule: decide_shape)
  case complete
  have "ag_status ag = Some RRunning"
    using busy st not_done complete(2) by (cases "the (ag_status ag)") (auto simp: idle_status_def)
  with complete(1,3) completion_allowed_holds [OF p] status_move [of "hd evs" ag RCompleted RRunning]
  show ?thesis by (auto simp: status_change_def)
next
  case (going start blocks out sched handled rest readied asks tail)
  from started [OF going(4) busy st] obtain ag0 where
    ag0: "append_all ag start = Inr ag0"
      "ag_status ag0 = Some RRunning" "ag_run_id ag0 = ag_run_id ag" "ag_statuses ag0 = ag_statuses ag"
      "ag_version ag0 = ag_version ag + int (length start)" by blast
  have pre: "ready_work_item_ids p (ag_statuses ag) = handled @ rest" and sched: "sched = readied @ asks"
    using going(6) by (simp_all add: scheduled_as_def)
  let ?ms = "frontier_moves p ag handled"
  have all: "list_all2 (moves (ag_run_id ag0)) (blocks @ readied) ?ms"
    using going(5,6) ag0(3) by (auto simp: frontier_moves_def scheduled_as_def intro: list_all2_appendI)
  have "\<exists>ag'. append_all ag0 (blocks @ readied) = Inr ag' \<and>
    only_work ag0 ag' \<and> ag_version ag' = ag_version ag0 + int (length (blocks @ readied)) \<and>
    (\<forall>i. map_of (ag_statuses ag') i =
       (case map_of ?ms i of Some t \<Rightarrow> Some t | None \<Rightarrow> map_of (ag_statuses ag0) i))"
    using all frontier_moves_legal [OF p pre] ag0(2)
    by (intro group_of_moves) (simp_all add: ag0(4))
  then obtain ag1 where ag1: "append_all ag0 (blocks @ readied) = Inr ag1"
    "only_work ag0 ag1" "ag_version ag1 = ag_version ag0 + int (length (blocks @ readied))" by blast
  have run: "ag_status ag1 = Some RRunning" "ag_run_id ag1 = ag_run_id ag"
    using ag1(2) ag0(2,3) by (simp_all add: only_work_def)
  have last: "asks @ tail = [] \<or> (\<exists>ev. asks @ tail = [ev] \<and>
      (asks_approval ag ev \<or> status_change (ag_run_id ag) RFailed ev))"
    using going(6,7) by (auto simp: scheduled_as_def split: ready_outcome.splits)
  have step: "\<exists>ag'. append_all ag1 [ev] = Inr ag'"
    if "asks_approval ag ev \<or> status_change (ag_run_id ag) RFailed ev" for ev
    using that ask_move [of ag ev ag1] status_move [of ev ag1 RFailed RRunning] run
    by (auto simp: status_change_def)
  from last have "\<exists>ag'. append_all ag1 (asks @ tail) = Inr ag'"
    using step by (elim disjE exE) (simp_all del: append_is_Nil_conv)
  moreover have "evs = start @ (blocks @ readied) @ (asks @ tail)" by (simp add: going(3) sched)
  moreover from this have "append_all ag evs = append_all ag1 (asks @ tail)"
    using append_all_append [of ag start] append_all_append [of ag0 "blocks @ readied"] ag0(1) ag1(1)
    by (simp only: rbind_Inr)
  ultimately show ?thesis by simp
qed

section \<open>The repository as a store of versioned runs\<close>

lemma append_events_current:
  assumes inv: "db_inv db" and snap: "get_snapshot db r = Inr s" and es: "es \<noteq> []"
    and ap: "append_events uuid r (ag_version s) es db = Inr (ag, db')"
  shows "append_all s es = Inr ag \<and> get_snapshot db' r = Inr ag \<and> db_inv db'"
proof -
  have log: "log_inv db" using inv by (simp add: db_inv_def)
  from snap obtain row where row: "find_run db r = Some row" and s: "s = rn_snapshot row"
    by (auto simp: get_snapshot_def split: option.splits)
  then have mem: "row \<in> set (runs db)" "rn_id row = r" using find_run_Some [OF log] by simp_all
  then have v: "rn_version row = ag_version s" using log by (simp add: log_inv_def run_faithful_def s)
  with ap row es have "append_locked uuid True db row (rn_snapshot row) es = Inr (ag, db')"
    by (simp add: append_events_def lock_run_def)
  from append_locked_log_inv(2) [OF log mem(1) this] obtain db1 where
    fold: "rfold apply_event (rn_snapshot row) (number_events (rn_version row) es) = Inr ag"
    and db': "db' = db1\<lparr>runs := update_where (\<lambda>x. rn_id x = r) (store_snapshot ag) (runs db)\<rparr>"
    using mem(2) by auto
  have "find_run db' r = map_option (store_snapshot ag) (find_run db r)"
    unfolding find_run_def db' by (simp add: first_where_update store_snapshot_def)
  with row have "get_snapshot db' r = Inr ag" by (simp add: get_snapshot_def store_snapshot_def)
  with fold v append_events_inv [OF ap inv] show ?thesis by (simp add: append_all_def s)
qed

interpretation run_store: versioned_store "\<lambda>db. get_snapshot db r" ag_version "append_events uuid r" append_all db_inv
  for r uuid
  by unfold_locales (rule append_events_current)

lemma uuids_frame [simp]:
  "get_snapshot (db\<lparr>uuids := k\<rparr>) r = get_snapshot db r" "db_inv (db\<lparr>uuids := k\<rparr>) = db_inv db"
  by (simp_all add: get_snapshot_def find_run_def db_inv_def log_inv_def run_faithful_def events_of_def
      fence_inv_def sequence_inv_def)

lemma take_uuid_snapshot [simp]: "get_snapshot (take_uuid db) r = get_snapshot db r"
  by (simp add: take_uuid_def)

lemma snapshot_inv: "db_inv db \<Longrightarrow> get_snapshot db r = Inr ag \<Longrightarrow> ag_inv ag"
  by (auto simp: get_snapshot_def db_inv_def log_inv_def find_run_Some split: option.splits
      intro: ag_inv_snapshot)

section \<open>Which errors an append can raise\<close>

definition no_conflict :: "'a result \<Rightarrow> bool" where
  "no_conflict m \<longleftrightarrow> (\<forall>s xs. m \<noteq> Inl (ConcurrencyError s xs))"

lemma no_conflict_simps [simp]:
  "no_conflict (Inr x)" "no_conflict (Inl e) \<longleftrightarrow> (\<forall>s xs. e \<noteq> ConcurrencyError s xs)"
  by (simp_all add: no_conflict_def)

lemma no_conflict_rbind [intro]:
  "no_conflict m \<Longrightarrow> (\<And>x. m = Inr x \<Longrightarrow> no_conflict (f x)) \<Longrightarrow> no_conflict (rbind m f)"
  by (cases m) (simp_all add: no_conflict_def)

lemma no_conflict_raise [intro]: "(\<And>s xs. e \<noteq> ConcurrencyError s xs) \<Longrightarrow> no_conflict (raise_unless c e)"
  by (simp add: raise_unless_def)

lemma no_conflict_insert [intro]: "no_conflict (insert_row t c x xs)"
  by (simp add: insert_row_def)

lemma no_conflict_jindex [intro]: "no_conflict (jindex d k)"
  by (simp add: jindex_def split: option.splits)

lemma no_conflict_str_col [intro]: "no_conflict (str_col v)"
  by (cases v) simp_all

lemma no_conflict_py_str [intro]: "no_conflict (py_str v)"
  by (cases v) simp_all

lemma no_conflict_record [intro]: "no_conflict (record_event uuid db ev)"
  unfolding record_event_def by (intro no_conflict_rbind no_conflict_insert) simp_all

text \<open>The events a controller decides on.\<close>

definition ctl_types :: "string set" where
  "ctl_types = {''run_status_changed'', ''work_ready'', ''work_blocked'', ''approval_requested''}"

lemma no_conflict_project:
  assumes "event_type ev \<in> ctl_types"
  shows "no_conflict (project_event db ev)"
  using assms
  by (auto simp: ctl_types_def project_event_def Let_def project_work_status_def project_approval_requested_def)
    (intro no_conflict_rbind no_conflict_jindex no_conflict_str_col no_conflict_insert; simp)+

lemma no_conflict_transition [intro]: "no_conflict (transition_run ag t)" "no_conflict (transition_work ag i w)"
  by (auto simp: transition_run_def transition_work_def intro!: no_conflict_rbind no_conflict_raise
      split: option.splits)

lemma no_conflict_completion:
  assumes "plan_inv ag"
  shows "no_conflict (completion_allowed ag)"
proof (cases "ag_plan ag")
  case (Some v)
  with assms obtain p where "holds_plan ag p" by (auto simp: plan_inv_def)
  then show ?thesis by (simp add: completion_allowed_holds)
qed (simp add: completion_allowed_def)

lemma no_conflict_payload [intro]: "no_conflict (payload_str ev k)"
  unfolding payload_str_def by (intro no_conflict_rbind) auto

lemma no_conflict_dispatch:
  assumes "plan_inv ag" and "event_type ev \<in> ctl_types"
  shows "no_conflict (dispatch_event ag ev)"
proof -
  have "no_conflict (on_run_status_changed ag ev)"
    unfolding on_run_status_changed_def
    by (intro no_conflict_rbind) (auto intro: no_conflict_completion [OF assms(1)])
  moreover have "no_conflict (on_work_ready ag ev)" "no_conflict (on_work_blocked ag ev)"
    "no_conflict (on_approval_requested ag ev)"
    unfolding on_work_ready_def on_work_blocked_def on_approval_requested_def by auto
  ultimately show ?thesis
    using assms(2) by (auto simp: ctl_types_def dispatch_event_def Let_def)
qed

lemma no_conflict_apply:
  assumes "ag_inv ag" and "event_type ev \<in> ctl_types"
  shows "no_conflict (apply_event ag ev)"
proof -
  have "no_conflict (dispatch_event ag ev)"
    using assms by (intro no_conflict_dispatch) (simp_all add: ag_inv_def)
  then show ?thesis unfolding apply_event_def Let_def by (intro no_conflict_rbind) auto
qed

lemma no_conflict_loop:
  assumes "ag_inv ag" and "event_type ` set evs \<subseteq> ctl_types"
  shows "no_conflict (append_loop uuid True r v ag db evs)"
  using assms
proof (induction evs arbitrary: v ag db)
  case (Cons ev evs)
  show ?case
    unfolding append_loop.simps Let_def
    using Cons.prems no_conflict_apply [OF Cons.prems(1), of "ev\<lparr>event_version := Some (v + 1)\<rparr>"]
      no_conflict_project [of "ev\<lparr>event_version := Some (v + 1)\<rparr>"]
    by (intro no_conflict_rbind no_conflict_raise no_conflict_record Cons.IH)
      (auto intro: apply_event_inv)
qed simp

lemma filter_by_key:
  "distinct (map f xs) \<Longrightarrow> x \<in> set xs \<Longrightarrow> P x \<Longrightarrow> filter (\<lambda>y. f y = f x \<and> P y) xs = [x]"
proof (induction xs)
  case (Cons a xs)
  have "filter (\<lambda>y. f y = f x \<and> P y) xs = []" if "a = x"
    using that Cons.prems(1) by (auto simp: filter_empty_conv) (metis imageI)
  with Cons show ?case by (cases "a = x") auto
qed simp

lemma no_conflict_locked:
  assumes inv: "log_inv db" and row: "row \<in> set (runs db)" and "event_type ` set evs \<subseteq> ctl_types"
  shows "no_conflict (append_locked uuid True db row (rn_snapshot row) evs)"
proof -
  have "run_faithful db row" using inv row by (simp add: log_inv_def)
  then have agi: "ag_inv (rn_snapshot row)" by (rule ag_inv_snapshot)
  have "length (filter (\<lambda>x. rn_id x = rn_id row \<and> rn_version x = rn_version row) (runs db')) = 1"
    if "append_loop uuid True (rn_id row) (rn_version row) (rn_snapshot row) db evs = Inr (ag, db')" for ag db'
  proof -
    from append_loop_logs [OF that] have "runs db' = runs db" by (simp add: logs_def)
    moreover have "filter (\<lambda>x. rn_id x = rn_id row \<and> rn_version x = rn_version row) (runs db) = [row]"
      using inv row by (intro filter_by_key) (simp_all add: log_inv_def)
    ultimately show ?thesis by simp
  qed
  then show ?thesis
    unfolding append_locked_def Let_def
    by (intro no_conflict_rbind no_conflict_loop agi assms(3) no_conflict_raise) auto
qed

lemma decide_no_plan:
  assumes "decide uuid n now pl digest ag = Inr (d, evs, m)" and "idle_status (ag_status ag) \<or> ag_plan ag = None"
  shows "evs = []"
  using assms by (auto simp: decide_def Let_def split: if_splits)

lemma plan_inv_holds: "plan_inv ag \<Longrightarrow> ag_plan ag \<noteq> None \<Longrightarrow> \<exists>p. holds_plan ag p"
  by (auto simp: plan_inv_def)

text \<open>The case analysis on a decision with events, for aggregates that satisfy the invariant.\<close>

lemma decide_planE:
  assumes "decide uuid n now pl digest ag = Inr (d, evs, m)" and "evs \<noteq> []" and "ag_inv ag"
  obtains p where "holds_plan ag p" "\<not> idle_status (ag_status ag)"
  using assms decide_no_plan [OF assms(1)] plan_inv_holds [of ag] by (auto simp: ag_inv_def)

lemma moves_types: "list_all2 (moves r) evs ms \<Longrightarrow> (\<forall>(i, t) \<in> set ms. t \<noteq> WCancelled) \<Longrightarrow>
    event_type ` set evs \<subseteq> ctl_types"
  by (induction rule: list_all2_induct) (auto simp: ctl_types_def)

lemma decide_types:
  assumes dec: "decide uuid n now pl digest ag = Inr (d, evs, m)" and "ag_inv ag"
  shows "event_type ` set evs \<subseteq> ctl_types"
proof (cases "evs = []")
  case False
  with assms obtain p where p: "holds_plan ag p" "\<not> idle_status (ag_status ag)"
    by (auto elim: decide_planE)
  from dec p(2,1) show ?thesis
  proof (cases rule: decide_shape)
    case complete
    then show ?thesis by (auto simp: status_change_def ctl_types_def)
  next
    case (going start blocks out sched handled rest readied asks tail)
    have "event_type ` set start \<subseteq> ctl_types"
      using going(4) by (auto simp: status_change_def ctl_types_def split: if_splits)
    moreover have "event_type ` set blocks \<subseteq> ctl_types"
      using going(5) by (rule moves_types) auto
    moreover have "event_type ` set readied \<subseteq> ctl_types"
      using going(6) by (intro moves_types [of "ag_run_id ag" _ "map (\<lambda>i. (i, WReady)) (pending_ready ag handled)"])
        (auto simp: scheduled_as_def)
    moreover have "event_type ` set (asks @ tail) \<subseteq> ctl_types"
      using going(6,7)
      by (auto simp: scheduled_as_def asks_approval_def status_change_def ctl_types_def split: ready_outcome.splits)
    ultimately show ?thesis using going(3,6) by (auto simp: scheduled_as_def)
  qed
qed simp

text \<open>An append that read the current version does not conflict.\<close>

lemma append_no_conflict:
  assumes inv: "db_inv db" and snap: "get_snapshot db r = Inr ag" and ty: "event_type ` set evs \<subseteq> ctl_types"
    and v: "ag_version ag = v"
  shows "no_conflict (append_events uuid r v evs db)"
proof -
  have log: "log_inv db" using inv by (simp add: db_inv_def)
  from snap obtain row where row: "find_run db r = Some row" and ag: "ag = rn_snapshot row"
    by (auto simp: get_snapshot_def split: option.splits)
  then have mem: "row \<in> set (runs db)" using find_run_Some [OF log] by simp
  then have "rn_version row = v" using log v by (simp add: log_inv_def run_faithful_def ag)
  with row snap show ?thesis
    using no_conflict_locked [OF log mem ty] by (simp add: append_events_def lock_run_def)
qed

section \<open>Deciding does not conflict\<close>

lemma no_conflict_values [intro]: "no_conflict (as_mapping v)" "no_conflict (py_int v)" "no_conflict (py_iter v)"
  by (cases v; simp split: option.splits)+

lemma no_conflict_find_item: "no_conflict (find_item vs i)"
  by (induction vs) auto

lemma no_conflict_item: "no_conflict (item_from_snapshot ag i)"
  unfolding item_from_snapshot_def plan_items_of_def
  by (intro no_conflict_rbind no_conflict_values no_conflict_find_item) (auto split: option.splits)

lemma no_conflict_requires: "no_conflict (requires_approval item)"
  by (auto simp: requires_approval_def)

lemma no_conflict_schedule: "no_conflict (schedule_ready uuid now digest ag plan n is)"
proof (induction "is" arbitrary: n)
  case (Cons i "is")
  show ?case
    unfolding schedule_ready.simps Let_def
    by (intro no_conflict_rbind no_conflict_item no_conflict_requires)
      (auto simp: split_beta intro!: no_conflict_rbind Cons)
qed simp

lemma no_conflict_decide:
  assumes "ag_inv ag"
  shows "no_conflict (decide uuid n now pl digest ag)"
proof (cases "idle_status (ag_status ag) \<or> ag_plan ag = None")
  case True
  then show ?thesis by (auto simp: decide_def Let_def)
next
  case False
  with assms obtain p where p: "holds_plan ag p" using plan_inv_holds [of ag] by (auto simp: ag_inv_def)
  then have "ag_plan ag = Some (plan_to_dict p)" "plan_from_dict (plan_to_dict p) = Inr p"
    by (auto simp: holds_plan_def intro: plan_from_to_dict)
  with False show ?thesis
    by (auto simp: decide_def Let_def decide_outcome_def
        intro!: no_conflict_rbind no_conflict_schedule split: ready_outcome.splits)
qed

lemma append_new_inv:
  assumes "append_new uuid now r v ty pl act db = Inr (ag, db')" and "db_inv db"
  shows "db_inv db'"
  using append_events_inv [OF assms(1) [unfolded append_new_def]] assms(2) by simp

end
