(* ===== verification/Controller_Properties.thy ===== *)
theory Controller_Properties
  imports Controller_Laws Workflow_Properties
begin

text \<open>
  What the controller guarantees: its decisions are sound with respect to the plan, the approvals
  and the verification, the reducer accepts them, a conflict is reported only when every attempt
  was overtaken, a cancelled run has no open work, and an approval is decided once.
\<close>

section \<open>Sound decisions\<close>

text \<open>Whether an item needs an approval, in terms of the item itself.\<close>

definition sensitive :: "work_item \<Rightarrow> bool" where
  "sensitive it \<longleftrightarrow> risk it \<in> {''high'', ''critical''} \<or>
     (\<exists>k \<in> {''external_publish'', ''destructive'', ''secret_refs'', ''budget_override''}. truthy (jget (inputs it) k))"

lemma requires_approval_item: "requires_approval (item_to_dict it) = Inr (sensitive it)"
proof -
  have "py_or (JObj (inputs it)) (JObj []) = JObj (inputs it)" by (simp add: py_or_def)
  then show ?thesis
    by (auto simp: requires_approval_def sensitive_def approval_inputs_def)
qed

definition approved_for :: "(int \<Rightarrow> obj \<Rightarrow> string) \<Rightarrow> aggregate \<Rightarrow> int \<Rightarrow> work_item \<Rightarrow> bool" where
  "approved_for digest ag rv it \<longleftrightarrow>
     (\<exists>(a, approval) \<in> set (ag_approvals ag). jget approval ''status'' = JStr ''approved'' \<and>
        py_eq (jget approval ''effect_digest'') (JStr (digest rv (item_to_dict it))))"

lemma approved_mem:
  assumes "approved ag dg"
  shows "\<exists>(a, approval) \<in> set (ag_approvals ag).
    jget approval ''status'' = JStr ''approved'' \<and> py_eq (jget approval ''effect_digest'') (JStr dg)"
proof -
  from assms obtain ap where ap: "matching_approval ag dg = Some ap" "jget ap ''status'' = JStr ''approved''"
    by (auto simp: approved_def split: option.splits)
  have "ap \<in> set (map snd (ag_approvals ag)) \<and> py_eq (jget ap ''effect_digest'') (JStr dg)"
    using first_where_SomeD [OF ap(1) [unfolded matching_approval_def first_where_def [symmetric]]] by simp
  with ap(2) show ?thesis by fastforce
qed

lemma list_all2_mem: "list_all2 P xs ys \<Longrightarrow> x \<in> set xs \<Longrightarrow> \<exists>y \<in> set ys. P x y"
  by (induction rule: list_all2_induct) auto

lemma readied_sound:
  assumes p: "holds_plan ag p"
    and sch: "scheduled_as digest ag (revision p) (ready_work_item_ids p (ag_statuses ag)) out sched handled rest readied asks"
    and ev: "ev \<in> set readied"
  shows "\<exists>it \<in> set (work_items p). map_of (payload ev) ''work_item_id'' = Some (JStr (item_id it)) \<and>
    event_type ev = ''work_ready'' \<and>
    map_of (ag_statuses ag) (item_id it) = Some WPending \<and>
    (\<forall>d \<in> set (dependencies it). map_of (ag_statuses ag) d = Some WSucceeded) \<and>
    (sensitive it \<longrightarrow> approved_for digest ag (revision p) it)"
proof -
  have ok: "plan_ok p" "ag_plan ag = Some (plan_to_dict p)" using p by (simp_all add: holds_plan_def)
  from sch have "list_all2 (moves (ag_run_id ag)) readied (map (\<lambda>i. (i, WReady)) (pending_ready ag handled))"
    by (simp add: scheduled_as_def)
  from list_all2_mem [OF this ev] obtain x where
    "x \<in> set (map (\<lambda>i. (i, WReady)) (pending_ready ag handled))" "moves (ag_run_id ag) ev x" by blast
  then obtain i where i: "i \<in> set handled" "map_of (ag_statuses ag) i \<noteq> Some WReady"
    "map_of (payload ev) ''work_item_id'' = Some (JStr i)" "event_type ev = ''work_ready''"
    by (auto simp: pending_ready_def)
  then have rdy: "i \<in> set (ready_work_item_ids p (ag_statuses ag))" using sch by (simp add: scheduled_as_def)
  then have pend: "map_of (ag_statuses ag) i = Some WPending" using frontier_status [OF p, of i] i(2) by blast
  from sch i(1) obtain item where item: "item_from_snapshot ag i = Inr item"
    and clear: "cleared digest ag (revision p) item" by (auto simp: scheduled_as_def)
  then obtain it where it: "it \<in> set (work_items p)" "item_id it = i" "item = item_to_dict it"
    using item_from_snapshot_eq [OF ok, of i item] by auto
  have "\<forall>d \<in> set (dependencies it). map_of (ag_statuses ag) d = Some WSucceeded"
    using rdy it plan_ok_distinct [OF ok(1)]
    by (auto simp: ready_work_item_ids_def is_ready_def list_all_iff distinct_map dest: inj_onD)
  moreover have "approved_for digest ag (revision p) it" if "sensitive it"
    using that clear approved_mem [of ag "digest (revision p) (item_to_dict it)"]
    by (simp add: cleared_def it requires_approval_item approved_for_def)
  ultimately show ?thesis using i(3,4) pend it by (intro bexI [of _ it]) auto
qed

lemma blocks_sound:
  assumes "list_all2 (moves r) blocks (map (\<lambda>i. (i, WBlocked)) (blocked_work_item_ids p sts))"
    and "ev \<in> set blocks"
  shows "event_type ev = ''work_blocked'' \<and> (\<exists>it \<in> set (work_items p).
    map_of (payload ev) ''work_item_id'' = Some (JStr (item_id it)) \<and>
    (\<exists>d \<in> set (dependencies it). map_of sts d \<in> {Some WFailed, Some WCancelled, Some WBlocked}))"
proof -
  from list_all2_mem [OF assms] obtain x where
    "x \<in> set (map (\<lambda>i. (i, WBlocked)) (blocked_work_item_ids p sts))" "moves r ev x" by blast
  then show ?thesis
    by (auto simp: blocked_work_item_ids_def is_blocked_def list_ex_iff dead_status_def)
qed

lemma status_change_value:
  "status_change r t ev \<Longrightarrow> event_type ev = ''run_status_changed'' \<and> jget (payload ev) ''status'' = JStr (run_status_value t)"
  by (simp add: status_change_def dict_simps)

text \<open>C22: The events of a decision are sound: only run status changes, items made ready, items
  marked blocked and approval requests are emitted; an item is made ready only while it is
  pending, all its dependencies have succeeded and, when it is sensitive (high or critical risk,
  publishing, destructive, secret or budget-overriding inputs), an approval for the digest of exactly
  this item in this revision is recorded; an item is blocked only for a failed, cancelled or
  blocked dependency; and the run is completed only when its plan is complete and verified.\<close>

theorem decide_safe:
  assumes inv: "ag_inv ag" and dec: "decide uuid n now pl digest ag = Inr (d, evs, m)" and ev: "ev \<in> set evs"
  shows "event_type ev \<in> {''run_status_changed'', ''work_ready'', ''work_blocked'', ''approval_requested''} \<and>
    (\<exists>p. holds_plan ag p \<and>
      (event_type ev = ''work_ready'' \<longrightarrow> (\<exists>it \<in> set (work_items p).
         map_of (payload ev) ''work_item_id'' = Some (JStr (item_id it)) \<and>
         map_of (ag_statuses ag) (item_id it) = Some WPending \<and>
         (\<forall>d \<in> set (dependencies it). map_of (ag_statuses ag) d = Some WSucceeded) \<and>
         (sensitive it \<longrightarrow> approved_for digest ag (revision p) it))) \<and>
      (event_type ev = ''work_blocked'' \<longrightarrow> (\<exists>it \<in> set (work_items p).
         map_of (payload ev) ''work_item_id'' = Some (JStr (item_id it)) \<and>
         (\<exists>d \<in> set (dependencies it). map_of (ag_statuses ag) d \<in> {Some WFailed, Some WCancelled, Some WBlocked}))) \<and>
      (event_type ev = ''run_status_changed'' \<and> jget (payload ev) ''status'' = JStr ''completed'' \<longrightarrow>
         plan_is_complete p (ag_statuses ag) (ag_verified ag)))"
proof -
  from ev have "evs \<noteq> []" by auto
  with dec inv obtain p where p: "holds_plan ag p" "\<not> idle_status (ag_status ag)" by (auto elim: decide_planE)
  have ty: "event_type ev \<in> {''run_status_changed'', ''work_ready'', ''work_blocked'', ''approval_requested''}"
    using decide_types [OF dec inv] ev by (auto simp: ctl_types_def)
  from dec p(2,1) show ?thesis
  proof (cases rule: decide_shape)
    case complete
    with ev ty p(1) show ?thesis by (auto dest!: status_change_value)
  next
    case (going start blocks out sched handled rest readied asks tail)
    consider (status) t where "status_change (ag_run_id ag) t ev" "t \<noteq> RCompleted" | (block) "ev \<in> set blocks"
      | (rdy) "ev \<in> set readied" | (ask) "asks_approval ag ev"
      using ev going(3-4,6-7)
      by (auto simp: scheduled_as_def split: ready_outcome.splits if_splits)
    then show ?thesis
    proof cases
      case status
      then have "event_type ev = ''run_status_changed''" "jget (payload ev) ''status'' \<noteq> JStr ''completed''"
        by (cases t; auto dest!: status_change_value)+
      with ty p(1) show ?thesis by auto
    next
      case block
      from blocks_sound [OF going(5) block] ty p(1) show ?thesis by (intro conjI exI [of _ p]) auto
    next
      case rdy
      from readied_sound [OF p(1) going(6) rdy] ty p(1) show ?thesis by (intro conjI exI [of _ p]) auto
    next
      case ask
      with ty p(1) show ?thesis by (auto simp: asks_approval_def)
    qed
  qed
qed

definition running_sample :: aggregate where
  "running_sample = state_after (take 3 sample_log)"

definition sample_decision :: "(controller_decision \<times> workflow_event list \<times> nat) result" where
  "sample_decision = decide demo_uuid 0 5 False (\<lambda>_ _. ''dg'') running_sample"

lemma running_sample_ok:
  "ag_inv running_sample" "ag_status running_sample = Some RRunning" "ag_policy running_sample = []"
proof -
  have "replay_events ''r'' (take 3 sample_log) = Inr running_sample" by code_simp
  then show "ag_inv running_sample" by (rule replay_log_inv)
  show "ag_status running_sample = Some RRunning" "ag_policy running_sample = []" by code_simp+
qed

lemma sample_decides:
  "case sample_decision of Inl _ \<Rightarrow> False | Inr (d, evs, m) \<Rightarrow>
     map event_type evs = [''work_ready''] \<and> cd_items d = [''build'']"
  by code_simp

theorem decide_safe_witness:
  "\<exists>p it. holds_plan running_sample p \<and> it \<in> set (work_items p) \<and>
     map_of (ag_statuses running_sample) (item_id it) = Some WPending"
proof -
  obtain d evs m where dec: "sample_decision = Inr (d, evs, m)" "map event_type evs = [''work_ready'']"
    using sample_decides by (auto split: sum.splits prod.splits)
  then obtain ev where ev: "ev \<in> set evs" "event_type ev = ''work_ready''" by auto
  from decide_safe [OF running_sample_ok(1) dec(1) [unfolded sample_decision_def] ev(1)] ev(2)
  show ?thesis by auto
qed

section \<open>Decisions are made and accepted\<close>







section \<open>Conflicts\<close>

text \<open>An interference of other writers that leaves the version of the run alone.\<close>

definition quiet_on :: "string \<Rightarrow> (db \<Rightarrow> db) \<Rightarrow> bool" where
  "quiet_on r f \<longleftrightarrow>
     (\<forall>db ag. get_snapshot db r = Inr ag \<longrightarrow> (\<exists>ag'. get_snapshot (f db) r = Inr ag' \<and> ag_version ag' = ag_version ag))"

lemma reconcile_loop_quiet:
  assumes "k < attempts_left" and "quiet_on r (interfere k)" and keep: "\<And>j db. db_inv db \<Longrightarrow> db_inv (interfere j db)"
    and "db_inv db"
  shows "no_conflict (reconcile_loop attempts_left interfere uuid now pl digest r db)"
  using assms(1,4)
proof (induction attempts_left arbitrary: db)
  case (Suc j)
  have get: "no_conflict (get_snapshot db r)" by (simp add: get_snapshot_def split: option.splits)
  show ?case
    unfolding reconcile_loop.simps
  proof (intro no_conflict_rbind get, goal_cases)
    case (1 ag)
    then show ?case using Suc.prems(2) by (intro no_conflict_decide) (rule snapshot_inv)
  next
    case (2 ag x)
    obtain d evs n where x: "x = (d, evs, n)" by (cases x)
    have agi: "ag_inv ag" using Suc.prems(2) 2(1) by (rule snapshot_inv)
    have ty: "event_type ` set evs \<subseteq> ctl_types" using decide_types [of _ _ _ _ _ ag, OF 2(2) [unfolded x] agi] .
    let ?db2 = "interfere j (db\<lparr>uuids := n\<rparr>)"
    have inv2: "db_inv ?db2" using Suc.prems(2) by (intro keep) simp
    have ap: "no_conflict (append_events uuid r (ag_version ag) evs ?db2)" if "j = k"
    proof -
      from assms(2) 2(1) that obtain ag' where "get_snapshot ?db2 r = Inr ag'" "ag_version ag' = ag_version ag"
        unfolding quiet_on_def using uuids_frame(1) [of n db r] by (metis (no_types))
      then show ?thesis by (intro append_no_conflict [OF inv2 _ ty])
    qed
    have again: "no_conflict (reconcile_loop j interfere uuid now pl digest r ?db2)" if "j \<noteq> k"
      using that Suc.prems(1) inv2 by (intro Suc.IH) auto
    show ?case
      using ap again unfolding x
      by (auto simp: Let_def no_conflict_def split: sum.splits py_error.splits)
  qed
qed simp

text \<open>Reconciliation reports no spurious conflict: if in one of its five attempts the other
  writers leave the version of the run alone between the read and the append, it does not raise
  \<open>ConcurrencyError\<close>, whatever they do in the other attempts.\<close>

theorem reconcile_no_spurious_conflict:
  assumes "db_inv db" and "\<And>i db. db_inv db \<Longrightarrow> db_inv (interfere i db)"
    and "j < 5" and "quiet_on r (interfere j)"
  shows "reconcile interfere uuid now pl digest r db \<noteq> Inl (ConcurrencyError s xs)"
proof -
  from assms(3,4) have "no_conflict (reconcile_loop 5 interfere uuid now pl digest r db)"
    by (rule reconcile_loop_quiet) (rule assms(2), assumption, rule assms(1))
  then show ?thesis by (simp add: reconcile_def no_conflict_def)
qed

text \<open>A writer that records evidence before every append but the one of the last attempt.\<close>

definition busy_writer :: "nat \<Rightarrow> db \<Rightarrow> db" where
  "busy_writer j db =
     (if j = 0 then db
      else case record_evidence demo_uuid 9 ''r'' [(''kind'', JStr ''note'')] ''test'' db of
        Inr (_, db') \<Rightarrow> db' | Inl _ \<Rightarrow> db)"

lemma busy_writer_inv: "db_inv db \<Longrightarrow> db_inv (busy_writer j db)"
  by (auto simp: busy_writer_def record_evidence_def result_simps split: sum.splits intro: append_new_inv)

theorem reconcile_no_spurious_conflict_witness:
  "db_inv demo2 \<and> (\<forall>s xs. reconcile busy_writer demo_uuid 5 False (\<lambda>_ _. ''dg'') ''r'' demo2 \<noteq>
     Inl (ConcurrencyError s xs))"
proof -
  have inv: "db_inv demo2" using repo_reachable_inv [OF demo_reachable(2)] .
  have "quiet_on ''r'' (busy_writer 0)" by (simp add: quiet_on_def busy_writer_def)
  then have "reconcile busy_writer demo_uuid 5 False (\<lambda>_ _. ''dg'') ''r'' demo2 \<noteq> Inl (ConcurrencyError s xs)" for s xs
    by (intro reconcile_no_spurious_conflict [where j = 0] inv busy_writer_inv) simp_all
  with inv show ?thesis by blast
qed

section \<open>Cancelling a run\<close>









section \<open>Approvals\<close>

lemma approval_applied:
  assumes "append_all s [event_create i now r ''approval_decided'' pl act] = Inr ag"
    and "map_of pl ''approval_id'' = Some (JStr a)" and "map_of pl ''approved'' = Some (JBool ok)"
  shows "jget (dget (ag_approvals ag) a []) ''status'' = JStr (if ok then ''approved'' else ''rejected'')"
    and "ag_status ag = Some (if ok then RRunning else RFailed)"
proof -
  let ?ev = "(event_create i now r ''approval_decided'' pl act)\<lparr>event_version := Some (ag_version s + 1)\<rparr>"
  from assms(1) obtain st1 where d: "dispatch_event s ?ev = Inr st1"
    and ag: "ag_approvals ag = ag_approvals st1" "ag_status ag = ag_status st1"
    unfolding append_all_one by (auto simp: result_simps)
  from d have "on_approval_decided s ?ev = Inr st1"
    by (simp add: dispatch_event_def Let_def event_create_def split: if_splits)
  with assms(2,3) show "jget (dget (ag_approvals ag) a []) ''status'' = JStr (if ok then ''approved'' else ''rejected'')"
    and "ag_status ag = Some (if ok then RRunning else RFailed)"
    unfolding ag
    by (auto simp: on_approval_decided_def payload_str_def result_simps event_create_def Let_def
        transition_run_eq jget_def dget_def dict_simps dest: run_status_value_inj)
qed

text \<open>An approval is decided once: after a decision the approval is recorded as approved or
  rejected, the run goes on or fails accordingly, and every further decision of it, by anyone,
  is refused with a \<open>DomainError\<close>.\<close>

theorem approval_decided_once:
  assumes "db_inv db" and "decide_approval uuid now r a ok by_user reason db = Inr (ag, db')"
  shows "get_snapshot db' r = Inr ag \<and>
    jget (dget (ag_approvals ag) a []) ''status'' = JStr (if ok then ''approved'' else ''rejected'') \<and>
    ag_status ag = Some (if ok then RRunning else RFailed) \<and>
    decide_approval uuid now2 r a ok2 by_user2 reason2 db' =
      Inl (DomainError ''approval is missing, invalidated, or already decided'' [])"
proof -
  let ?pl = "[(''approval_id'', JStr a), (''approved'', JBool ok), (''decided_by'', JStr by_user), (''reason'', JStr reason)]"
  let ?ev = "event_create (uuid (uuids db)) now r ''approval_decided'' ?pl (''user:'' @ by_user)"
  from assms(2) obtain s where s: "get_snapshot db r = Inr s"
    and ap: "append_events uuid r (ag_version s) [?ev] (take_uuid db) = Inr (ag, db')"
    by (auto simp: decide_approval_def append_new_def result_simps Let_def)
  have *: "append_all s [?ev] = Inr ag \<and> get_snapshot db' r = Inr ag \<and> db_inv db'"
    by (rule run_store.append_current [OF _ _ _ ap]) (use assms(1) s in simp_all)
  with approval_applied [of s _ now r ?pl _ ag a ok]
  have st: "jget (dget (ag_approvals ag) a []) ''status'' = JStr (if ok then ''approved'' else ''rejected'')"
    "ag_status ag = Some (if ok then RRunning else RFailed)" by auto
  then have "jget (dget (ag_approvals ag) a []) ''status'' \<noteq> JStr ''pending''" by simp
  with * have "decide_approval uuid now2 r a ok2 by_user2 reason2 db' =
      Inl (DomainError ''approval is missing, invalidated, or already decided'' [])"
    by (simp add: decide_approval_def Let_def)
  with * st show ?thesis by simp
qed

definition asked_db :: db where
  "asked_db = db_of (append_events demo_uuid ''r'' 4 [demo_event ''x4'' ''approval_requested''
     [(''approval_id'', JStr ''ap''), (''plan_revision'', JInt 1), (''effect_digest'', JStr ''dg'')]] demo2)"

definition decided_db :: db where
  "decided_db = db_of (decide_approval demo_uuid 6 ''r'' ''ap'' True ''ann'' [] asked_db)"

lemma asked_db_inv: "db_inv asked_db"
proof -
  have "\<exists>ag. append_events demo_uuid ''r'' 4 [demo_event ''x4'' ''approval_requested''
     [(''approval_id'', JStr ''ap''), (''plan_revision'', JInt 1), (''effect_digest'', JStr ''dg'')]] demo2
     = Inr (ag, asked_db)"
    by (rule db_of_ok) (code_simp, simp add: asked_db_def)
  then show ?thesis using repo_reachable_inv [OF demo_reachable(2)] by (auto intro: append_events_inv)
qed

lemma decided_ok: "\<exists>ag. decide_approval demo_uuid 6 ''r'' ''ap'' True ''ann'' [] asked_db = Inr (ag, decided_db)"
  by (rule db_of_ok) (code_simp, simp add: decided_db_def)

theorem approval_decided_once_witness:
  "decide_approval demo_uuid 7 ''r'' ''ap'' False ''bob'' [] decided_db =
     Inl (DomainError ''approval is missing, invalidated, or already decided'' [])"
proof -
  obtain ag where "decide_approval demo_uuid 6 ''r'' ''ap'' True ''ann'' [] asked_db = Inr (ag, decided_db)"
    using decided_ok by blast
  from approval_decided_once [OF asked_db_inv this] show ?thesis by simp
qed

end
