(* ===== verification/Float_Laws.thy ===== *)
theory Float_Laws
  imports Py_Value
begin

text \<open>
  The error of binary64 rounding: a positive rational and its float differ by at most one part
  in \<open>2 ^ 53\<close>, so the integer part of a fraction of a number is at most that fraction, up to an
  error the budgets of the program are too small to see.
\<close>

lemma round_half_even_error: "\<bar>of_int (round_half_even r) - r\<bar> \<le> 1 / 2"
proof -
  have "of_int \<lfloor>r\<rfloor> \<le> r" "r < of_int \<lfloor>r\<rfloor> + 1" by linarith+
  then show ?thesis by (auto simp: round_half_even_def Let_def abs_le_iff)
qed

lemma pow2_add_nat: "pow2 (a + int n) = pow2 a * 2 ^ n"
proof (cases "0 \<le> a")
  case True
  then show ?thesis by (simp add: pow2_def nat_add_distrib power_add)
next
  case False
  show ?thesis
  proof (cases "0 \<le> a + int n")
    case True
    then have "n = nat (a + int n) + nat (- a)" using False by simp
    then have "(2::rat) ^ n = 2 ^ nat (a + int n) * 2 ^ nat (- a)" by (metis power_add)
    with True False show ?thesis by (simp add: pow2_def)
  next
    case neg: False
    then have "nat (- a) = nat (- (a + int n)) + n" by simp
    then have "(2::rat) ^ nat (- a) = 2 ^ nat (- (a + int n)) * 2 ^ n" by (metis power_add)
    with neg False show ?thesis by (simp add: pow2_def)
  qed
qed

lemma bitlen_range:
  assumes "0 < n"
  shows "2 ^ (nat (bitlen n) - 1) \<le> n" "n < 2 ^ nat (bitlen n)" "0 < nat (bitlen n)"
proof -
  have "1 \<le> bitlen n" using assms by (simp add: bitlen_alt_def)
  then have "nat (bitlen n - 1) = nat (bitlen n) - 1" by simp
  then show "2 ^ (nat (bitlen n) - 1) \<le> n" using bitlen_bounds [OF assms] by (simp only:)
  show "n < 2 ^ nat (bitlen n)" using bitlen_bounds [OF assms] by simp
  show "0 < nat (bitlen n)" using \<open>1 \<le> bitlen n\<close> by simp
qed

lemma pow2_diff: "pow2 (int p - int q) = 2 ^ p / 2 ^ q"
proof -
  have "pow2 (int p) = pow2 (int p - int q) * 2 ^ q" using pow2_add_nat [of "int p - int q" q] by simp
  then show ?thesis by (simp add: pow2_def field_simps)
qed

lemma float_exponent_low:
  assumes "0 < x"
  shows "2 ^ 52 * pow2 (float_exponent x) \<le> x"
proof -
  obtain n d where q: "quotient_of x = (n, d)" by (cases "quotient_of x")
  have x: "x = of_int n / of_int d" and d: "0 < d" using quotient_of_div [OF q] quotient_of_denom_pos [OF q] by simp_all
  have n: "0 < n" using assms d unfolding x by (simp add: zero_less_divide_iff)
  define a where "a = nat (bitlen n)"
  define b where "b = nat (bitlen d)"
  let ?k = "int a - int b"
  have e: "float_exponent x = (if pow2 ?k \<le> x then ?k - 52 else ?k - 53)"
    by (simp add: float_exponent_def q a_def b_def Let_def)
  show ?thesis
  proof (cases "pow2 ?k \<le> x")
    case True
    with e pow2_add_nat [of "?k - 52" 52] show ?thesis by (simp add: mult.commute)
  next
    case False
    have "0 < a" using bitlen_range(3) [OF n] by (simp only: a_def)
    then have "?k - 1 = int (a - 1) - int b" by linarith
    then have "pow2 (?k - 1) = 2 ^ (a - 1) / 2 ^ b" by (simp only: pow2_diff)
    also have "\<dots> \<le> of_int n / of_int d"
    proof (rule frac_le)
      show "2 ^ (a - 1) \<le> (of_int n :: rat)"
        using bitlen_range(1) [OF n] unfolding a_def [symmetric] by (metis of_int_le_iff of_int_numeral of_int_power)
      show "of_int d \<le> (2 ^ b :: rat)"
        using bitlen_range(2) [OF d] unfolding b_def [symmetric] by (metis less_imp_le of_int_le_iff of_int_numeral of_int_power)
    qed (use d n in auto)
    finally have "pow2 (?k - 53 + int 52) \<le> x" by (simp add: x)
    with e False show ?thesis by (simp only: pow2_add_nat if_False mult.commute)
  qed
qed

lemma fl_error: "\<bar>fl x - x\<bar> \<le> \<bar>x\<bar> / 2 ^ 53"
proof (cases "x = 0")
  case False
  define e where "e = float_exponent \<bar>x\<bar>"
  define y where "y = \<bar>x\<bar> / pow2 e"
  have pos: "0 < pow2 e" by (rule pow2_pos)
  have "fl x = sgn x * of_int (round_half_even y) * pow2 e"
    using False by (simp add: fl_def Let_def e_def y_def)
  moreover have "x = sgn x * y * pow2 e" using pos by (simp add: y_def sgn_mult_abs)
  ultimately have "fl x - x = sgn x * (of_int (round_half_even y) - y) * pow2 e" by (simp add: algebra_simps)
  then have "\<bar>fl x - x\<bar> = \<bar>of_int (round_half_even y) - y\<bar> * pow2 e"
    using pos False by (simp add: abs_mult)
  also have "\<dots> \<le> 1 / 2 * pow2 e"
    using round_half_even_error [of y] pos by (intro mult_right_mono) auto
  also have "\<dots> \<le> \<bar>x\<bar> / 2 ^ 53"
    using float_exponent_low [of "\<bar>x\<bar>"] False by (simp add: e_def field_simps)
  finally show ?thesis .
qed simp

text \<open>The integer part of a fraction of a whole number, computed in floats.\<close>

definition share_of :: "int \<Rightarrow> rat \<Rightarrow> int" where
  "share_of n share = trunc_rat (fl (fl (of_int n) * share))"

lemma fl_product_bound:
  assumes n: "0 \<le> (n :: rat)" "n \<le> 2 ^ 40" and s: "0 \<le> s" "s \<le> 1"
  shows "0 \<le> fl (fl n * s)" "fl (fl n * s) \<le> n * s + 1 / 1024"
proof -
  have "n / 2 ^ 53 \<le> 1 / 8192" using n(2) by (simp add: field_simps)
  moreover have "\<bar>fl n - n\<bar> \<le> n / 2 ^ 53" using fl_error [of n] n(1) by simp
  ultimately have f1: "fl n \<le> n + 1 / 8192" by linarith
  have pos: "0 \<le> fl n" using n(1) by (rule fl_nonneg)
  then have p: "0 \<le> fl n * s" using s(1) by simp
  then show "0 \<le> fl (fl n * s)" by (rule fl_nonneg)
  have "fl n * s \<le> (n + 1 / 8192) * s" using f1 s(1) by (rule mult_right_mono)
  then have a: "fl n * s \<le> n * s + 1 / 8192" using s(2) by (simp add: distrib_right)
  have "fl n * s \<le> fl n" using mult_left_mono [OF s(2) pos] by simp
  then have "fl n * s \<le> 2 ^ 40 + 1" using f1 n(2) by linarith
  then have "fl n * s / 2 ^ 53 \<le> 1 / 8192 + 1 / 2 ^ 53" by (simp add: field_simps)
  moreover have "\<bar>fl (fl n * s) - fl n * s\<bar> \<le> fl n * s / 2 ^ 53" using fl_error [of "fl n * s"] p by simp
  ultimately have "fl (fl n * s) - fl n * s \<le> 1 / 8192 + 1 / 2 ^ 53" by linarith
  with a show "fl (fl n * s) \<le> n * s + 1 / 1024" using f1 by simp
qed

lemma share_of_bound:
  assumes "0 \<le> n" and "n \<le> 2 ^ 40" and "0 \<le> s" and "s \<le> 1"
  shows "0 \<le> share_of n s" "of_int (share_of n s) \<le> of_int n * s + 1 / 1024"
proof -
  have n: "0 \<le> (of_int n :: rat)" "(of_int n :: rat) \<le> 2 ^ 40"
    using assms(1,2) by (simp_all only: of_int_0_le_iff) (metis of_int_le_iff of_int_numeral of_int_power)
  note b = fl_product_bound [OF n assms(3,4)]
  then show "0 \<le> share_of n s" by (simp add: share_of_def trunc_rat_def)
  from b(1) have "of_int (share_of n s) \<le> fl (fl (of_int n) * s)" by (simp add: share_of_def trunc_rat_def)
  with b(2) show "of_int (share_of n s) \<le> of_int n * s + 1 / 1024" by (rule order_trans [rotated])
qed

end
