(* ===== verification/Recovery_Planner.thy ===== *)
theory Recovery_Planner
  imports Controller Float_Laws
begin

text \<open>
  The deterministic plans of the runtime: \<open>standard_profile_plan\<close> of \<open>orchestrator/runtime.py\<close>,
  and \<open>EvidenceRecoveryPlanner\<close> of \<open>orchestrator/controller.py\<close>, which turns recorded failures
  into a patch that replaces the failed part of a plan by diagnose, repair and verify work.
\<close>

section \<open>Budgets of the generated items\<close>

definition py_round6 :: "rat \<Rightarrow> rat" where
  "py_round6 x = fl (of_int (round_half_even (x * 10 ^ 6)) / 10 ^ 6)"

definition share_tokens :: "int option \<Rightarrow> rat \<Rightarrow> int option" where
  "share_tokens limit share = (case limit of None \<Rightarrow> None | Some t \<Rightarrow> Some (max 1 (share_of t share)))"

definition share_cost :: "rat option \<Rightarrow> rat \<Rightarrow> rat option" where
  "share_cost limit share =
     (case limit of None \<Rightarrow> None
      | Some c \<Rightarrow> Some (max (fl (1 / 10 ^ 6)) (py_round6 (fl (c * share)))))"

definition work_budget_of :: "int \<Rightarrow> rat \<Rightarrow> int option \<Rightarrow> rat option \<Rightarrow> work_budget" where
  "work_budget_of seconds share tokens cost =
     \<lparr>max_seconds = seconds, max_tokens = share_tokens tokens share,
      max_cost_usd = share_cost cost share, max_attempts = 3\<rparr>"

definition recovery_budget :: "int \<Rightarrow> int option \<Rightarrow> rat option \<Rightarrow> rat \<Rightarrow> work_budget" where
  "recovery_budget seconds tokens cost share =
     \<lparr>max_seconds = max 1 (share_of seconds share), max_tokens = share_tokens tokens share,
      max_cost_usd = share_cost cost share, max_attempts = 3\<rparr>"

text \<open>The float literals \<open>0.1\<close>, \<open>0.2\<close>, \<open>0.6\<close> and \<open>0.7\<close>.\<close>

definition f01 :: rat where "f01 = fl (1 / 10)"
definition f02 :: rat where "f02 = fl (2 / 10)"
definition f06 :: rat where "f06 = fl (6 / 10)"
definition f07 :: rat where "f07 = fl (7 / 10)"

section \<open>The standard plan\<close>

text \<open>A work item with the fields the generators leave at their defaults.\<close>

definition plain_item ::
    "string \<Rightarrow> string \<Rightarrow> work_kind \<Rightarrow> string \<Rightarrow> string list \<Rightarrow> obj \<Rightarrow> string list \<Rightarrow> string list
     \<Rightarrow> string list \<Rightarrow> work_budget \<Rightarrow> work_item" where
  "plain_item i t k role deps ins outs checks caps b =
     \<lparr>item_id = i, title = t, kind = work_kind_value k, agent_role = role, dependencies = deps,
      inputs = ins, expected_outputs = outs, acceptance_checks = checks,
      required_capabilities = caps, risk = ''low'', budget = b\<rparr>"

definition standard_items ::
    "obj \<Rightarrow> bool \<Rightarrow> int \<Rightarrow> int option \<Rightarrow> rat option \<Rightarrow> string \<Rightarrow> work_item list" where
  "standard_items common git seconds tokens cost cap =
     (let plan_seconds = max 1 (share_of seconds f01);
          verify_seconds = max 1 (share_of seconds f02);
          integrate_seconds = (if git then max 1 (share_of seconds f01) else 0);
          build_seconds = max 1 (seconds - plan_seconds - verify_seconds - integrate_seconds);
          build_share = (if git then f06 else f07) in
      [plain_item ''plan'' ''Create an executable specification'' KPlan ''planner'' [] common
         [''spec.md''] [] [cap] (work_budget_of plan_seconds f01 tokens cost),
       plain_item ''build'' ''Execute the current plan'' KExecute ''executor'' [''plan''] common
         [''workspace changes''] [''profile acceptance commands''] [cap]
         (work_budget_of build_seconds build_share tokens cost),
       plain_item ''verify'' ''Independently verify the result'' KVerify ''verifier'' [''build''] common
         [''feedback.md''] [''current revision passes profile threshold''] [cap]
         (work_budget_of verify_seconds f02 tokens cost)] @
      (if git then
         [plain_item ''integrate'' ''Integrate the independently verified revision'' KIntegrate
            ''integrator'' [''verify''] (dset ''workspace_item_id'' (JStr ''build'') common)
            [''integrated target branch commit''] [] [cap]
            (work_budget_of integrate_seconds f01 tokens cost)]
       else []))"

definition standard_profile_plan ::
    "string \<Rightarrow> string \<Rightarrow> int \<Rightarrow> int \<Rightarrow> int option \<Rightarrow> rat option \<Rightarrow> string \<Rightarrow> string dict \<Rightarrow> plan_document" where
  "standard_profile_plan goal profile rv seconds tokens cost cap git =
     (let common = dupdate [(''goal'', JStr goal), (''profile'', JStr profile)]
                     (map (\<lambda>(k, v). (k, JStr v)) git);
          its = standard_items common (git \<noteq> []) seconds tokens cost cap in
      \<lparr>revision = rv, plan_goal = goal,
       success_criteria = [''all required work succeeds'', ''current revision is independently verified''],
       assumptions = [''Legacy Profile agents are used through AgentAdapter''],
       work_items = its,
       completion_policy = \<lparr>required_work_item_ids = map item_id its, require_verifier = True\<rparr>,
       schema_version = 1\<rparr>)"

definition git_settings_from_policy :: "obj \<Rightarrow> string dict result" where
  "git_settings_from_policy policy =
     (if \<not> truthy (jget policy ''repository'') then Inr []
      else rmap (\<lambda>k. rbind (py_str (jget policy k)) (\<lambda>s. Inr (k, s)))
             (filter (\<lambda>k. truthy (jget policy k))
                [''repository'', ''base_revision'', ''target_branch'', ''worktree_root'']))"

definition recovery_create_plan :: "string \<Rightarrow> aggregate \<Rightarrow> plan_document result" where
  "recovery_create_plan goal ag =
     (let policy = ag_policy ag in
      rbind (git_settings_from_policy policy) (\<lambda>git.
      rbind (py_str (dget policy ''profile'' (JStr ''app-builder''))) (\<lambda>profile.
      rbind (py_int (dget policy ''max_total_seconds'' (JInt 3600))) (\<lambda>seconds.
      rbind (optional_int (jget policy ''max_total_tokens'')) (\<lambda>tokens.
      rbind (optional_float (jget policy ''max_total_cost_usd'')) (\<lambda>cost.
      rbind (py_str (dget policy ''execution_capability'' (JStr ''local''))) (\<lambda>cap.
      Inr (standard_profile_plan goal profile 1 seconds tokens cost cap git))))))))"

section \<open>What a replan replaces\<close>

definition failed_or_blocked :: "work_status dict \<Rightarrow> string list" where
  "failed_or_blocked sts = map fst (filter (\<lambda>kv. snd kv \<in> {WFailed, WBlocked}) sts)"

text \<open>One pass over the items, with the flag that tells whether an item was added.\<close>

fun obsolete_pass :: "work_status dict \<Rightarrow> string list \<Rightarrow> work_item list \<Rightarrow> string list \<times> bool" where
  "obsolete_pass sts obs [] = (obs, False)"
| "obsolete_pass sts obs (it # its) =
     (if item_id it \<notin> set obs \<and> list_ex (\<lambda>d. d \<in> set obs) (dependencies it) \<and>
         map_of sts (item_id it) \<noteq> Some WSucceeded
      then (fst (obsolete_pass sts (item_id it # obs) its), True)
      else obsolete_pass sts obs its)"

lemma obsolete_pass_grows: "set obs \<subseteq> set (fst (obsolete_pass sts obs its))"
  by (induction sts obs its rule: obsolete_pass.induct) auto

lemma obsolete_pass_adds:
  "snd (obsolete_pass sts obs its) \<Longrightarrow>
     \<exists>it \<in> set its. item_id it \<notin> set obs \<and> item_id it \<in> set (fst (obsolete_pass sts obs its))"
proof (induction sts obs its rule: obsolete_pass.induct)
  case (2 sts obs it its)
  then show ?case
    using obsolete_pass_grows [of "item_id it # obs" sts its] by (auto split: if_splits)
qed simp

function obsolete_closure :: "work_status dict \<Rightarrow> work_item list \<Rightarrow> string list \<Rightarrow> string list" where
  "obsolete_closure sts its obs =
     (let (obs', changed) = obsolete_pass sts obs its in
      if changed then obsolete_closure sts its obs' else obs')"
  by pat_completeness auto
termination
proof (relation "measure (\<lambda>(sts, its, obs). card (item_id ` set its - set obs))", goal_cases)
  case (2 sts its obs x obs' changed)
  then have x: "obsolete_pass sts obs its = (obs', changed)" "changed" by simp_all
  then obtain it where it: "it \<in> set its" "item_id it \<notin> set obs" "item_id it \<in> set obs'"
    using obsolete_pass_adds [of sts obs its] by auto
  have "set obs \<subseteq> set obs'" using obsolete_pass_grows [of obs sts its] x by simp
  with it have "item_id ` set its - set obs' \<subset> item_id ` set its - set obs" by auto
  then show ?case by (auto intro: psubset_card_mono)
qed simp

declare obsolete_closure.simps [simp del]

definition obsolete_items :: "plan_document \<Rightarrow> work_status dict \<Rightarrow> string list" where
  "obsolete_items plan sts =
     (let obs = obsolete_closure sts (work_items plan) (failed_or_blocked sts) in
      filter (\<lambda>i. i \<in> set obs) (map item_id (work_items plan)))"

section \<open>The recovery patch\<close>

definition recovery_strategy :: "obj list \<Rightarrow> string" where
  "recovery_strategy ev =
     (let n = length (filter (\<lambda>e. py_eq (jget e ''kind'') (JStr ''execution_failure'')) ev) in
      if n \<le> 1 then ''targeted_fix'' else if n = 2 then ''reinspect_assumptions'' else ''escalate_analysis'')"

definition evidence_refs_of :: "obj list \<Rightarrow> json list" where
  "evidence_refs_of ev =
     filter truthy (map (\<lambda>e. jget e ''event_id'') (last_n 20 ev))"

definition recovery_inputs :: "aggregate \<Rightarrow> string list \<Rightarrow> obj list \<Rightarrow> string dict \<Rightarrow> obj" where
  "recovery_inputs ag obsolete ev git =
     dupdate
       [(''goal'', JStr (ag_goal ag)),
        (''profile'', dget (ag_policy ag) ''profile'' (JStr ''app-builder'')),
        (''failure_work_items'', jstrs obsolete),
        (''recovery_strategy'', JStr (recovery_strategy ev)),
        (''evidence_refs'', JList (evidence_refs_of ev))]
       (map (\<lambda>(k, v). (k, JStr v)) git)"

definition recovery_items ::
    "string \<Rightarrow> obj \<Rightarrow> bool \<Rightarrow> int \<Rightarrow> int option \<Rightarrow> rat option \<Rightarrow> string \<Rightarrow> work_item list" where
  "recovery_items rv ins git seconds tokens cost cap =
     (let diagnose = ''diagnose-r'' @ rv; repair = ''repair-r'' @ rv; verify = ''verify-r'' @ rv;
          b = recovery_budget seconds tokens cost in
      [plain_item diagnose ''Diagnose repeated failure evidence'' KDiagnose ''diagnostician'' [] ins
         [''root-cause diagnosis''] [] [] (b f01),
       plain_item repair ''Repair the diagnosed root cause'' KExecute ''executor'' [diagnose] ins
         [''corrected workspace revision''] [''failed checks now pass''] [cap]
         (b (if git then f06 else f07)),
       plain_item verify ''Verify the repaired revision independently'' KVerify ''verifier'' [repair] ins
         [''fresh verification evidence''] [''current revision passes acceptance''] [cap] (b f02)] @
      (if git then
         [plain_item (''integrate-r'' @ rv) ''Integrate the verified repair through the merge queue''
            KIntegrate ''integrator'' [verify] (dset ''workspace_item_id'' (JStr repair) ins)
            [''integrated target branch commit''] [] [cap] (b f01)]
       else []))"

definition recovery_replan :: "plan_document \<Rightarrow> aggregate \<Rightarrow> obj list \<Rightarrow> plan_patch result" where
  "recovery_replan plan ag ev =
     (let policy = ag_policy ag; obsolete = obsolete_items plan (ag_statuses ag);
          rv = show_int (revision plan + 1) in
      rbind (raise_unless (obsolete \<noteq> [])
               (DomainError ''replan requested without failed or blocked work'' [])) (\<lambda>_.
      rbind (py_int (dget policy ''max_total_seconds'' (JInt 3600))) (\<lambda>seconds.
      rbind (optional_int (jget policy ''max_total_tokens'')) (\<lambda>tokens.
      rbind (optional_float (jget policy ''max_total_cost_usd'')) (\<lambda>cost.
      rbind (py_str (dget policy ''execution_capability'' (JStr ''local''))) (\<lambda>cap.
      rbind (git_settings_from_policy policy) (\<lambda>git.
      rbind (rmap str_col (evidence_refs_of ev)) (\<lambda>refs.
      let ins = recovery_inputs ag obsolete ev git in
      Inr \<lparr>patch_base_revision = revision plan,
           patch_reason = recovery_strategy ev @ '': replace terminal work '' @ py_join '', '' obsolete,
           patch_evidence_refs = refs,
           patch_add = recovery_items rv ins (truthy (jget ins ''repository'')) seconds tokens cost cap,
           patch_update = [], patch_cancel = obsolete, patch_schema_version = 1\<rparr>))))))))"

definition recovery_planner :: planner where
  "recovery_planner = \<lparr>create_plan = recovery_create_plan, plan_recovery = recovery_replan\<rparr>"

end
