(* ===== verification/Recovery_Properties.thy ===== *)
theory Recovery_Properties
  imports Recovery_Planner Reducer_Laws
begin

text \<open>
  What the deterministic planners guarantee: a replan cancels exactly the failed part of the plan
  and what depends on it, the standard plan is well-formed and fits the budget of the run, and so
  does the patch of a recovery, which therefore applies.
\<close>

section \<open>What a replan cancels\<close>

text \<open>
  The obsolete items, declaratively: the failed and blocked ones, and every item that has not
  succeeded and depends on an obsolete one.
\<close>

inductive doomed :: "work_item list \<Rightarrow> work_status dict \<Rightarrow> string \<Rightarrow> bool" for its sts where
  doomed_failed: "map_of sts i \<in> {Some WFailed, Some WBlocked} \<Longrightarrow> doomed its sts i"
| doomed_dependent: "it \<in> set its \<Longrightarrow> d \<in> set (dependencies it) \<Longrightarrow> doomed its sts d \<Longrightarrow>
    map_of sts (item_id it) \<noteq> Some WSucceeded \<Longrightarrow> doomed its sts (item_id it)"

lemma doomed_not_succeeded: "doomed its sts i \<Longrightarrow> map_of sts i \<noteq> Some WSucceeded"
  by (induction rule: doomed.induct) auto

lemma failed_or_blocked_iff:
  "dict_wf sts \<Longrightarrow> i \<in> set (failed_or_blocked sts) \<longleftrightarrow> map_of sts i \<in> {Some WFailed, Some WBlocked}"
  by (force simp: failed_or_blocked_def dict_wf_def)

lemma obsolete_pass_sound:
  assumes "set obs \<subseteq> Collect (doomed its0 sts)" and "set its \<subseteq> set its0"
  shows "set (fst (obsolete_pass sts obs its)) \<subseteq> Collect (doomed its0 sts)"
  using assms
  by (induction sts obs its rule: obsolete_pass.induct) (auto simp: list_ex_iff intro: doomed_dependent)

lemma obsolete_pass_stable:
  "\<not> snd (obsolete_pass sts obs its) \<Longrightarrow> fst (obsolete_pass sts obs its) = obs \<and>
     (\<forall>it \<in> set its. (\<exists>d \<in> set (dependencies it). d \<in> set obs) \<longrightarrow>
        map_of sts (item_id it) = Some WSucceeded \<or> item_id it \<in> set obs)"
  by (induction sts obs its rule: obsolete_pass.induct) (auto simp: list_ex_iff split: if_splits)

lemma obsolete_closure_eq:
  assumes "set obs \<subseteq> Collect (doomed its sts)"
    and "\<And>i. map_of sts i \<in> {Some WFailed, Some WBlocked} \<Longrightarrow> i \<in> set obs"
  shows "set (obsolete_closure sts its obs) = Collect (doomed its sts)"
  using assms
proof (induction sts its obs rule: obsolete_closure.induct)
  case (1 sts its obs)
  obtain obs' changed where pass: "obsolete_pass sts obs its = (obs', changed)" by fastforce
  show ?case
  proof (cases changed)
    case True
    have "set obs' \<subseteq> Collect (doomed its sts)"
      using obsolete_pass_sound [OF "1.prems"(1), of its] pass by simp
    moreover have "set obs \<subseteq> set obs'" using obsolete_pass_grows [of obs sts its] pass by simp
    ultimately have "set (obsolete_closure sts its obs') = Collect (doomed its sts)"
      using "1.IH" [OF pass [symmetric] refl True] "1.prems"(2) by blast
    with True pass show ?thesis by (simp add: obsolete_closure.simps [of sts its obs])
  next
    case False
    have same: "obs' = obs" and closed: "\<forall>it \<in> set its. (\<exists>d \<in> set (dependencies it). d \<in> set obs) \<longrightarrow>
        map_of sts (item_id it) = Some WSucceeded \<or> item_id it \<in> set obs"
      using obsolete_pass_stable [of sts obs its] pass False by auto
    have "i \<in> set obs" if "doomed its sts i" for i
      using that by (induction rule: doomed.induct) (use "1.prems"(2) closed in auto)
    with "1.prems"(1) same have "set obs' = Collect (doomed its sts)" by auto
    with False pass show ?thesis by (simp add: obsolete_closure.simps [of sts its obs])
  qed
qed

lemma obsolete_items_eq:
  assumes "dict_wf sts"
  shows "obsolete_items plan sts = filter (doomed (work_items plan) sts) (plan_ids plan)"
proof -
  have "set (obsolete_closure sts (work_items plan) (failed_or_blocked sts)) = Collect (doomed (work_items plan) sts)"
    using failed_or_blocked_iff [OF assms]
    by (intro obsolete_closure_eq) (auto intro: doomed_failed)
  then show ?thesis by (simp add: obsolete_items_def Let_def plan_ids_def)
qed

text \<open>The fields of a recovery patch.\<close>

lemma recovery_replanE:
  assumes "recovery_replan plan ag ev = Inr patch"
  obtains seconds tokens cost cap git refs where
    "obsolete_items plan (ag_statuses ag) \<noteq> []"
    "py_int (dget (ag_policy ag) ''max_total_seconds'' (JInt 3600)) = Inr seconds"
    "optional_int (jget (ag_policy ag) ''max_total_tokens'') = Inr tokens"
    "optional_float (jget (ag_policy ag) ''max_total_cost_usd'') = Inr cost"
    "let ins = recovery_inputs ag (obsolete_items plan (ag_statuses ag)) ev git in
     patch = \<lparr>patch_base_revision = revision plan,
       patch_reason = recovery_strategy ev @ '': replace terminal work '' @
         py_join '', '' (obsolete_items plan (ag_statuses ag)),
       patch_evidence_refs = refs,
       patch_add = recovery_items (show_int (revision plan + 1)) ins (truthy (jget ins ''repository''))
         seconds tokens cost cap,
       patch_update = [], patch_cancel = obsolete_items plan (ag_statuses ag), patch_schema_version = 1\<rparr>"
  using assms unfolding recovery_replan_def Let_def result_simps
  by (elim exE conjE) (rule that, auto simp: Let_def)

text \<open>A state in which the build failed.\<close>

definition failed_sample :: aggregate where
  "failed_sample = (empty_aggregate ''r'')
     \<lparr>ag_goal := ''ship'', ag_status := Some RRunning, ag_plan := Some (plan_to_dict sample_plan),
      ag_plan_revision := Some 1,
      ag_statuses := [(''build'', WFailed), (''verify'', WPending), (''polish'', WBlocked)]\<rparr>"

definition recovered_patch :: "aggregate \<Rightarrow> plan_patch" where
  "recovered_patch ag = (case recovery_replan sample_plan ag [] of Inr patch \<Rightarrow> patch | Inl _ \<Rightarrow> sample_patch)"

lemma failed_sample_statuses:
  "ag_statuses failed_sample = [(''build'', WFailed), (''verify'', WPending), (''polish'', WBlocked)]"
  by (simp add: failed_sample_def)

lemma failed_sample_policy: "ag_policy failed_sample = []"
  by (simp add: failed_sample_def empty_aggregate_def)


lemma failed_sample_replan: "recovery_replan sample_plan failed_sample [] = Inr (recovered_patch failed_sample)"
proof -
  have obs: "obsolete_items sample_plan (ag_statuses failed_sample) = [''build'', ''verify'', ''polish'']" by code_simp
  have "\<not> isl (recovery_replan sample_plan failed_sample [])"
    by (simp add: recovery_replan_def obs failed_sample_policy git_settings_from_policy_def jget_def dget_def
        evidence_refs_of_def last_n_def Let_def)
  then show ?thesis by (auto simp: recovered_patch_def split: sum.splits)
qed

lemma failed_sample_doomed:
  "doomed (work_items sample_plan) (ag_statuses failed_sample) ''build''"
  "doomed (work_items sample_plan) (ag_statuses failed_sample) ''verify''"
  "doomed (work_items sample_plan) (ag_statuses failed_sample) ''polish''"
proof -
  show b: "doomed (work_items sample_plan) (ag_statuses failed_sample) ''build''"
    "doomed (work_items sample_plan) (ag_statuses failed_sample) ''polish''"
    by (rule doomed_failed; simp add: failed_sample_statuses)+
  have "sample_item ''verify'' KVerify [''build''] \<in> set (work_items sample_plan)" by simp
  from doomed_dependent [OF this _ b(1)] show "doomed (work_items sample_plan) (ag_statuses failed_sample) ''verify''"
    by (simp add: failed_sample_statuses)
qed

text \<open>C25: A recovery replan cancels exactly the obsolete items of the plan, in plan order: the failed
  and blocked ones and, transitively, every item that has not succeeded and depends on an
  obsolete one. So it cancels no succeeded item, and no item it keeps open depends on a cancelled
  one.\<close>

theorem replan_cancels_obsolete:
  assumes "recovery_replan plan ag ev = Inr patch" and "dict_wf (ag_statuses ag)"
  shows "patch_cancel patch = filter (doomed (work_items plan) (ag_statuses ag)) (plan_ids plan) \<and>
    patch_cancel patch \<noteq> [] \<and>
    (\<forall>i \<in> set (patch_cancel patch). map_of (ag_statuses ag) i \<noteq> Some WSucceeded) \<and>
    (\<forall>it \<in> set (work_items plan). item_id it \<notin> set (patch_cancel patch) \<longrightarrow>
       map_of (ag_statuses ag) (item_id it) = Some WSucceeded \<or>
       set (dependencies it) \<inter> set (patch_cancel patch) = {})"
proof -
  from assms(1) have c: "patch_cancel patch = obsolete_items plan (ag_statuses ag)"
    and ne: "obsolete_items plan (ag_statuses ag) \<noteq> []"
    by (auto elim!: recovery_replanE simp: Let_def)
  have eq: "patch_cancel patch = filter (doomed (work_items plan) (ag_statuses ag)) (plan_ids plan)"
    unfolding c by (rule obsolete_items_eq [OF assms(2)])
  moreover have "map_of (ag_statuses ag) (item_id it) = Some WSucceeded \<or>
       set (dependencies it) \<inter> set (patch_cancel patch) = {}"
    if "it \<in> set (work_items plan)" "item_id it \<notin> set (patch_cancel patch)" for it
  proof (rule disjCI)
    assume "set (dependencies it) \<inter> set (patch_cancel patch) \<noteq> {}"
    then obtain d where "d \<in> set (dependencies it)" "doomed (work_items plan) (ag_statuses ag) d"
      by (auto simp: eq)
    moreover have "\<not> doomed (work_items plan) (ag_statuses ag) (item_id it)"
      using that by (simp add: eq plan_ids_def)
    ultimately show "map_of (ag_statuses ag) (item_id it) = Some WSucceeded"
      using that(1) by (blast intro: doomed_dependent)
  qed
  ultimately show ?thesis using ne c doomed_not_succeeded by auto
qed

theorem replan_cancels_obsolete_witness:
  "set (patch_cancel (recovered_patch failed_sample)) = {''build'', ''verify'', ''polish''}"
proof -
  have "dict_wf (ag_statuses failed_sample)" by (simp add: failed_sample_statuses dict_wf_def)
  from replan_cancels_obsolete [OF failed_sample_replan this] failed_sample_doomed
  show ?thesis by (auto simp: plan_ids_def)
qed

section \<open>Shares of a budget\<close>




section \<open>Plans whose items are listed after their dependencies\<close>

definition in_order :: "work_item list \<Rightarrow> bool" where
  "in_order its \<longleftrightarrow> (\<forall>k < length its. set (dependencies (its ! k)) \<subseteq> item_id ` set (take k its))"


lemma in_order_Nil [simp]: "in_order []"
  by (simp add: in_order_def)

lemma in_order_snoc [simp]:
  "in_order (its @ [it]) \<longleftrightarrow> in_order its \<and> set (dependencies it) \<subseteq> item_id ` set its"
  by (auto simp: in_order_def nth_append less_Suc_eq)


section \<open>The standard plan\<close>

lemma plain_item_sel [simp]:
  "item_id (plain_item i t k role deps ins outs checks caps b) = i"
  "dependencies (plain_item i t k role deps ins outs checks caps b) = deps"
  "kind (plain_item i t k role deps ins outs checks caps b) = work_kind_value k"
  "budget (plain_item i t k role deps ins outs checks caps b) = b"
  by (simp_all add: plain_item_def)




lemma budget_sel [simp]:
  "max_seconds (work_budget_of seconds share tokens cost) = seconds"
  "max_tokens (work_budget_of seconds share tokens cost) = share_tokens tokens share"
  "max_cost_usd (work_budget_of seconds share tokens cost) = share_cost cost share"
  "max_seconds (recovery_budget seconds tokens cost share) = max 1 (share_of seconds share)"
  "max_tokens (recovery_budget seconds tokens cost share) = share_tokens tokens share"
  "max_cost_usd (recovery_budget seconds tokens cost share) = share_cost cost share"
  by (simp_all add: work_budget_of_def recovery_budget_def)

















section \<open>Recovery patches apply\<close>






lemma blank_append [simp]: "py_blank (xs @ ys) \<longleftrightarrow> py_blank xs \<and> py_blank ys"
  by (auto simp: py_blank_iff)










end
