(* ===== verification/Acceptance_Progress.thy ===== *)
theory Acceptance_Progress
  imports Canonical_Json
begin

text \<open>
  \<open>orchestrator/acceptance_progress.py\<close>: the JSON state machine that decides from acceptance
  evidence whether a long task is complete. The state is the dictionary the code keeps; the
  digest of an observation is the hash \<open>sha\<close> of its canonical JSON text (\<open>fr\<close> formats floats).
\<close>

section \<open>Observations and decisions\<close>

record observation =
  ob_key :: string
  ob_changed :: bool
  ob_status :: string
  ob_token :: "string option"
  ob_failure :: "string option"
  ob_remaining :: "rat option"
  ob_progress :: "bool option"

definition verification_statuses :: "string list" where
  "verification_statuses = [''missing'', ''running'', ''passed'', ''failed'']"

definition given :: "string option \<Rightarrow> bool" where
  "given s \<longleftrightarrow> (case s of None \<Rightarrow> False | Some t \<Rightarrow> t \<noteq> [])"

definition observation_validate :: "observation \<Rightarrow> unit result" where
  "observation_validate ob =
     rbind (raise_unless (ob_key ob \<noteq> [] \<and> \<not> py_blank (ob_key ob))
              (ValueError ''observation_id must be a non-empty stable identifier'' [])) (\<lambda>_.
     rbind (raise_unless (ob_status ob \<in> set verification_statuses)
              (ValueError ''unknown verification_status: {}'' [ob_status ob])) (\<lambda>_.
     rbind (raise_unless (\<not> (ob_status ob \<in> {''passed'', ''failed''} \<and> \<not> given (ob_token ob)))
              (ValueError ''passed/failed verification requires verification_token'' [])) (\<lambda>_.
     raise_unless (case ob_remaining ob of None \<Rightarrow> True | Some b \<Rightarrow> \<not> b < 0)
       (ValueError ''remaining_budget_seconds cannot be negative'' []))))"

definition observation_obj :: "observation \<Rightarrow> obj" where
  "observation_obj ob =
     [(''observation_id'', JStr (ob_key ob)), (''artifacts_changed'', JBool (ob_changed ob)),
      (''verification_status'', JStr (ob_status ob)), (''verification_token'', jopt JStr (ob_token ob)),
      (''recent_failure'', jopt JStr (ob_failure ob)),
      (''remaining_budget_seconds'', jopt JFloat (ob_remaining ob)),
      (''progress_made'', jopt JBool (ob_progress ob))]"

definition observation_digest :: "(string \<Rightarrow> string) \<Rightarrow> (rat \<Rightarrow> string) \<Rightarrow> observation \<Rightarrow> string" where
  "observation_digest sha fr ob = sha (canonical_json fr (JObj (observation_obj ob)))"

record acceptance_decision =
  de_action :: string
  de_reason :: string
  de_revision :: int
  de_verified :: json
  de_stalls :: int
  de_recover :: bool

definition decision_to_dict :: "acceptance_decision \<Rightarrow> obj" where
  "decision_to_dict d =
     [(''action'', JStr (de_action d)), (''reason'', JStr (de_reason d)),
      (''artifact_revision'', JInt (de_revision d)), (''verified_revision'', de_verified d),
      (''no_progress_count'', JInt (de_stalls d)), (''recovery_recommended'', JBool (de_recover d))]"

fun text_of :: "json \<Rightarrow> string result" where
  "text_of (JStr s) = Inr s"
| "text_of _ = Inl (Unsupported ''non-string action'')"

definition decision_from_dict :: "obj \<Rightarrow> acceptance_decision result" where
  "decision_from_dict value =
     rbind (rbind (jindex value ''action'') text_of) (\<lambda>a.
     rbind (py_str (py_or (jget value ''reason'') (JStr []))) (\<lambda>why.
     rbind (py_int (dget value ''artifact_revision'' (JInt 0))) (\<lambda>rv.
     rbind (case jget value ''verified_revision'' of
              JNull \<Rightarrow> Inr JNull
            | v \<Rightarrow> rbind (py_int v) (\<lambda>i. Inr (JInt i))) (\<lambda>ver.
     rbind (py_int (dget value ''no_progress_count'' (JInt 0))) (\<lambda>n.
     Inr \<lparr>de_action = a, de_reason = why, de_revision = rv, de_verified = ver, de_stalls = n,
          de_recover = truthy (dget value ''recovery_recommended'' (JBool False))\<rparr>)))))"

section \<open>The state\<close>

definition create_acceptance_state :: obj where
  "create_acceptance_state =
     [(''version'', JInt 1), (''artifact_revision'', JInt 0), (''verified_revision'', JNull),
      (''last_verification'', JNull), (''seen_verification_tokens'', JList []),
      (''no_progress_count'', JInt 0), (''failure_count'', JInt 0), (''observation_count'', JInt 0),
      (''last_observation_id'', JNull), (''last_observation_digest'', JNull),
      (''last_decision'', JNull), (''history'', JList [])]"

fun is_count :: "json \<Rightarrow> bool" where
  "is_count (JInt i) = (0 \<le> i)"
| "is_count (JBool _) = True"
| "is_count _ = False"

fun list_of :: "json \<Rightarrow> json list" where
  "list_of (JList xs) = xs"
| "list_of _ = []"

fun is_list :: "json \<Rightarrow> bool" where
  "is_list (JList _) = True"
| "is_list _ = False"

fun obj_of :: "json \<Rightarrow> obj option" where
  "obj_of (JObj kvs) = Some kvs"
| "obj_of _ = None"

text \<open>\<open>list(dict.fromkeys(tokens))\<close>: the first of equal tokens; a list or mapping has no hash.\<close>

fun unique_tokens :: "json list \<Rightarrow> json list \<Rightarrow> json list result" where
  "unique_tokens acc [] = Inr acc"
| "unique_tokens acc (t # ts) =
     (if is_list t \<or> obj_of t \<noteq> None then Inl (TypeError ''unhashable type'')
      else unique_tokens (if list_ex (py_eq t) acc then acc else acc @ [t]) ts)"

definition history_tokens :: "obj \<Rightarrow> json list" where
  "history_tokens st =
     concat (map (\<lambda>item. case obj_of item of
               None \<Rightarrow> []
             | Some h \<Rightarrow> filter truthy [jget h ''verification_token''])
            (list_of (jget st ''history''))) @
     (case obj_of (jget st ''last_verification'') of
        None \<Rightarrow> []
      | Some l \<Rightarrow> filter truthy [jget l ''token''])"

definition normalize_state :: "obj option \<Rightarrow> obj result" where
  "normalize_state state =
     (let st = dupdate create_acceptance_state (case state of None \<Rightarrow> [] | Some s \<Rightarrow> s) in
      rbind (raise_unless (py_eq (jget st ''version'') (JInt 1))
               (ValueError ''unsupported acceptance progress version'' [])) (\<lambda>_.
      rbind (riter (\<lambda>f. raise_unless (is_count (jget st f))
               (ValueError ''acceptance state field {} must be a non-negative integer'' [f]))
               [''artifact_revision'', ''no_progress_count'', ''failure_count'', ''observation_count'']) (\<lambda>_.
      rbind (raise_unless (jget st ''verified_revision'' = JNull \<or> is_count (jget st ''verified_revision''))
               (ValueError ''verified_revision must be a non-negative integer or null'' [])) (\<lambda>_.
      rbind (raise_unless (is_list (jget st ''history''))
               (ValueError ''acceptance state history must be a list'' [])) (\<lambda>_.
      rbind (raise_unless (is_list (jget st ''seen_verification_tokens''))
               (ValueError ''seen_verification_tokens must be a list'' [])) (\<lambda>_.
      if state \<noteq> None \<and> map_of (the state) ''seen_verification_tokens'' = None then
        rbind (unique_tokens [] (history_tokens st)) (\<lambda>ts.
        Inr (dset ''seen_verification_tokens'' (JList (last_n 500 ts)) st))
      else Inr st))))))"

section \<open>The controller\<close>

definition choose_action :: "int \<Rightarrow> obj \<Rightarrow> observation \<Rightarrow> acceptance_decision result" where
  "choose_action no_progress_limit st ob =
     rbind (py_int (jget st ''artifact_revision'')) (\<lambda>rv.
     let ver = jget st ''verified_revision'' in
     rbind (py_int (jget st ''no_progress_count'')) (\<lambda>n.
     let d = (\<lambda>act why. \<lparr>de_action = act, de_reason = why, de_revision = rv, de_verified = ver,
                         de_stalls = n, de_recover = False\<rparr>) in
     if py_eq ver (JInt rv) then
       Inr (d ''complete'' (''verification passed for current artifact revision '' @ show_int rv))
     else if (case ob_remaining ob of None \<Rightarrow> False | Some b \<Rightarrow> b \<le> 0) then
       Inr (d ''blocked'' ''task budget is exhausted before current artifacts were accepted'')
     else if no_progress_limit \<le> n then
       Inr ((d ''blocked'' (''no acceptance progress for '' @ show_int n @ '' consecutive observations''))
              \<lparr>de_recover := True\<rparr>)
     else
       rbind (case obj_of (jget st ''last_verification'') of
                None \<Rightarrow> Inr False
              | Some l \<Rightarrow>
                  rbind (py_int (dget l ''artifact_revision'' (JInt (-1)))) (\<lambda>lr.
                  Inr (lr = rv \<and> jget l ''status'' = JStr ''failed''))) (\<lambda>failed_now.
       if failed_now then Inr (d ''repair'' ''latest verification failed for current artifacts'')
       else if given (ob_failure ob) then
         Inr (d ''repair'' (''recent execution failure requires repair: '' @ the (ob_failure ob)))
       else if ob_status ob = ''running'' then Inr (d ''continue'' ''verification is still running'')
       else Inr (d ''verify'' (''artifact revision '' @ show_int rv @ '' has no current successful verification'')))))"

text \<open>The last verification is of this token, still running, and of the revision \<open>rv\<close>.\<close>

definition finishes_running :: "obj \<Rightarrow> observation \<Rightarrow> int \<Rightarrow> bool result" where
  "finishes_running st ob rv =
     (case obj_of (jget st ''last_verification'') of
        None \<Rightarrow> Inr False
      | Some l \<Rightarrow>
          if given (ob_token ob) \<and> py_eq (jget l ''token'') (JStr (the (ob_token ob))) \<and>
             jget l ''status'' = JStr ''running'' \<and> ob_status ob \<in> {''passed'', ''failed''}
          then rbind (py_int (dget l ''artifact_revision'' (JInt (-1)))) (\<lambda>lr. Inr (lr = rv))
          else Inr False)"

definition seen_token :: "obj \<Rightarrow> observation \<Rightarrow> bool" where
  "seen_token st ob \<longleftrightarrow>
     list_ex (py_eq (JStr (the (ob_token ob)))) (list_of (jget st ''seen_verification_tokens''))"

definition record_verification :: "obj \<Rightarrow> observation \<Rightarrow> int \<Rightarrow> obj result" where
  "record_verification st ob rv =
     (let t = the (ob_token ob);
          st1 = dset ''last_verification''
                  (JObj [(''token'', JStr t), (''status'', JStr (ob_status ob)), (''artifact_revision'', JInt rv)]) st;
          st2 = (if seen_token st ob then st1
                 else dset ''seen_verification_tokens''
                        (JList (last_n 500 (list_of (jget st ''seen_verification_tokens'') @ [JStr t]))) st1) in
      if ob_status ob = ''passed'' then Inr (dset ''verified_revision'' (JInt rv) st2)
      else if ob_status ob = ''failed'' then
        let st3 = (if py_eq (jget st2 ''verified_revision'') (JInt rv)
                   then dset ''verified_revision'' JNull st2 else st2) in
        rbind (py_int (jget st3 ''failure_count'')) (\<lambda>f. Inr (dset ''failure_count'' (JInt (f + 1)) st3))
      else Inr st2)"

definition objective_progress :: "observation \<Rightarrow> bool \<Rightarrow> bool" where
  "objective_progress ob fresh \<longleftrightarrow>
     (case ob_progress ob of
        Some p \<Rightarrow> p
      | None \<Rightarrow> ob_changed ob \<or> ob_status ob = ''running'' \<or> fresh \<and> ob_status ob = ''passed'')"

definition history_entry :: "observation \<Rightarrow> acceptance_decision \<Rightarrow> json" where
  "history_entry ob d =
     JObj [(''observation_id'', JStr (ob_key ob)), (''artifacts_changed'', JBool (ob_changed ob)),
           (''verification_status'', JStr (ob_status ob)), (''verification_token'', jopt JStr (ob_token ob)),
           (''recent_failure'', jopt JStr (ob_failure ob)),
           (''remaining_budget_seconds'', jopt JFloat (ob_remaining ob)),
           (''decision'', JObj (decision_to_dict d))]"

text \<open>Replaying the observation that was handled last.\<close>

definition replay_decision :: "obj \<Rightarrow> string \<Rightarrow> (obj \<times> acceptance_decision) result" where
  "replay_decision st digest =
     rbind (raise_unless (py_eq (JStr digest) (jget st ''last_observation_digest''))
              (ValueError ''observation_id was reused with different content'' [])) (\<lambda>_.
     case obj_of (jget st ''last_decision'') of
       None \<Rightarrow> Inl (ValueError ''persisted acceptance state has no replayable decision'' [])
     | Some l \<Rightarrow> rbind (decision_from_dict l) (\<lambda>d. Inr (st, d)))"

definition acceptance_decide ::
    "(observation \<Rightarrow> string) \<Rightarrow> int \<Rightarrow> nat \<Rightarrow> obj option \<Rightarrow> observation \<Rightarrow> (obj \<times> acceptance_decision) result" where
  "acceptance_decide digest no_progress_limit history_limit state ob =
     rbind (normalize_state state) (\<lambda>st.
     if py_eq (JStr (ob_key ob)) (jget st ''last_observation_id'') then replay_decision st (digest ob)
     else
       rbind (py_int (jget st ''artifact_revision'')) (\<lambda>rv0.
       let rv = (if ob_changed ob then rv0 + 1 else rv0);
           st1 = (if ob_changed ob then dset ''artifact_revision'' (JInt rv) st else st) in
       rbind (finishes_running st1 ob rv) (\<lambda>finishes.
       let fresh = (given (ob_token ob) \<and> (\<not> seen_token st1 ob \<or> finishes)) in
       rbind (if fresh then record_verification st1 ob rv else Inr st1) (\<lambda>st2.
       rbind (if objective_progress ob fresh then Inr (0 :: int)
              else rbind (py_int (jget st2 ''no_progress_count'')) (\<lambda>n. Inr (n + 1))) (\<lambda>stalls.
       let st3 = dset ''no_progress_count'' (JInt stalls) st2 in
       rbind (py_int (jget st3 ''observation_count'')) (\<lambda>c.
       let st4 = dset ''observation_count'' (JInt (c + 1)) st3 in
       rbind (choose_action no_progress_limit st4 ob) (\<lambda>d.
       let st5 = dset ''last_decision'' (JObj (decision_to_dict d))
                   (dset ''last_observation_digest'' (JStr (digest ob))
                     (dset ''last_observation_id'' (JStr (ob_key ob)) st4)) in
       Inr (dset ''history''
              (JList (last_n history_limit (list_of (jget st5 ''history'') @ [history_entry ob d]))) st5, d))))))))"

text \<open>\<open>build_acceptance_summary\<close> for a persisted state: what a run reports at its end.\<close>

definition attempt_tokens :: "json list \<Rightarrow> string list result" where
  "attempt_tokens vs =
     rmap (\<lambda>a. py_str (jget a ''token''))
       (filter (\<lambda>a. truthy (jget a ''token'')) (concat (map (\<lambda>v. case obj_of v of None \<Rightarrow> [] | Some a \<Rightarrow> [a]) vs)))"

definition acceptance_summary ::
    "obj option \<Rightarrow> obj \<Rightarrow> obj option \<Rightarrow> int \<Rightarrow> obj result" where
  "acceptance_summary progress analysis decision repair_rounds =
     rbind (normalize_state progress) (\<lambda>st.
     rbind (as_mapping (py_or (jget analysis ''verification'') (JObj []))) (\<lambda>verification.
     rbind (list_or_empty (jget verification ''attempts'')) (\<lambda>attempts.
     rbind (attempt_tokens attempts) (\<lambda>tokens.
     rbind (case jget verification ''attempt_count_total'' of
              JNull \<Rightarrow> Inr (int (length (if tokens \<noteq> [] then map JStr (remdups tokens) else attempts)))
            | v \<Rightarrow> py_int v) (\<lambda>attempt_count.
     rbind (case jget verification ''stale_count_total'' of
              JNull \<Rightarrow> Inr (int (length (filter (\<lambda>v. case obj_of v of None \<Rightarrow> False | Some a \<Rightarrow> truthy (jget a ''stale'')) attempts)))
            | v \<Rightarrow> py_int v) (\<lambda>stale.
     rbind (case decision of
              Some (kv # kvs) \<Rightarrow> Inr (kv # kvs)
            | _ \<Rightarrow> dict_or_empty (py_or (jget st ''last_decision'') (JObj []))) (\<lambda>dec.
     rbind (py_int (jget st ''artifact_revision'')) (\<lambda>rv.
     let ver = jget st ''verified_revision'' in
     rbind (py_str (py_or (jget dec ''reason'') (JStr ''acceptance decision unavailable''))) (\<lambda>why.
     Inr [(''artifact_revisions'', JInt rv), (''verification_attempts'', JInt attempt_count),
          (''stale_verifications'', JInt stale), (''repair_rounds'', JInt (max 0 repair_rounds)),
          (''final_accepted_revision'',
             if py_eq (jget dec ''action'') (JStr ''complete'') \<and> py_eq ver (JInt rv) then ver else JNull),
          (''completion_reason'', JStr why)])))))))))"

end
