(* ===== verification/Acceptance_Laws.thy ===== *)
theory Acceptance_Laws
  imports Acceptance_Progress
begin

text \<open>
  An abstract acceptance controller over typed fields, and the proof that the JSON state machine
  of \<open>Acceptance_Progress\<close> refines it: on every state it writes, the dictionary operations are
  the abstract ones under the dump of the fields.
\<close>

section \<open>The abstract controller\<close>

record acc =
  ac_revision :: int
  ac_verified :: "int option"
  ac_last :: "(string \<times> string \<times> int) option"
  ac_seen :: "string list"
  ac_stalls :: int
  ac_failures :: int
  ac_count :: int
  ac_handled :: "(string \<times> string \<times> acceptance_decision) option"
  ac_history :: "json list"

definition acc_init :: acc where
  "acc_init = \<lparr>ac_revision = 0, ac_verified = None, ac_last = None, ac_seen = [], ac_stalls = 0,
     ac_failures = 0, ac_count = 0, ac_handled = None, ac_history = []\<rparr>"

definition last_json :: "(string \<times> string \<times> int) option \<Rightarrow> json" where
  "last_json l = (case l of None \<Rightarrow> JNull
     | Some (t, s, r) \<Rightarrow> JObj [(''token'', JStr t), (''status'', JStr s), (''artifact_revision'', JInt r)])"

definition acc_dump :: "acc \<Rightarrow> obj" where
  "acc_dump a =
     [(''version'', JInt 1), (''artifact_revision'', JInt (ac_revision a)),
      (''verified_revision'', jopt JInt (ac_verified a)), (''last_verification'', last_json (ac_last a)),
      (''seen_verification_tokens'', jstrs (ac_seen a)), (''no_progress_count'', JInt (ac_stalls a)),
      (''failure_count'', JInt (ac_failures a)), (''observation_count'', JInt (ac_count a)),
      (''last_observation_id'', jopt (\<lambda>(k, _, _). JStr k) (ac_handled a)),
      (''last_observation_digest'', jopt (\<lambda>(_, g, _). JStr g) (ac_handled a)),
      (''last_decision'', jopt (\<lambda>(_, _, d). JObj (decision_to_dict d)) (ac_handled a)),
      (''history'', JList (ac_history a))]"

definition acc_ok :: "acc \<Rightarrow> bool" where
  "acc_ok a \<longleftrightarrow>
     0 \<le> ac_revision a \<and> 0 \<le> ac_stalls a \<and> 0 \<le> ac_failures a \<and> 0 \<le> ac_count a \<and>
     (\<forall>v. ac_verified a = Some v \<longrightarrow> 0 \<le> v) \<and>
     (\<forall>k g d. ac_handled a = Some (k, g, d) \<longrightarrow> (\<exists>v. de_verified d = jopt JInt v))"

definition acc_finishes :: "acc \<Rightarrow> observation \<Rightarrow> int \<Rightarrow> bool" where
  "acc_finishes a ob rv \<longleftrightarrow>
     ob_status ob \<in> {''passed'', ''failed''} \<and> ac_last a = Some (the (ob_token ob), ''running'', rv)"

definition acc_revise :: "acc \<Rightarrow> observation \<Rightarrow> int" where
  "acc_revise a ob = (if ob_changed ob then ac_revision a + 1 else ac_revision a)"

definition acc_fresh :: "acc \<Rightarrow> observation \<Rightarrow> bool" where
  "acc_fresh a ob \<longleftrightarrow>
     given (ob_token ob) \<and> (the (ob_token ob) \<notin> set (ac_seen a) \<or> acc_finishes a ob (acc_revise a ob))"

definition acc_verify :: "acc \<Rightarrow> observation \<Rightarrow> acc" where
  "acc_verify a ob =
     (let rv = acc_revise a ob; t = the (ob_token ob); a1 = a\<lparr>ac_revision := rv\<rparr> in
      if \<not> acc_fresh a ob then a1
      else a1\<lparr>ac_last := Some (t, ob_status ob, rv),
              ac_seen := (if t \<in> set (ac_seen a) then ac_seen a else last_n 500 (ac_seen a @ [t])),
              ac_verified := (if ob_status ob = ''passed'' then Some rv
                              else if ob_status ob = ''failed'' \<and> ac_verified a = Some rv then None
                              else ac_verified a),
              ac_failures := (if ob_status ob = ''failed'' then ac_failures a + 1 else ac_failures a)\<rparr>)"

definition acc_observe :: "acc \<Rightarrow> observation \<Rightarrow> acc" where
  "acc_observe a ob =
     (acc_verify a ob)\<lparr>ac_stalls := (if objective_progress ob (acc_fresh a ob) then 0 else ac_stalls a + 1),
                      ac_count := ac_count a + 1\<rparr>"

definition acc_choose :: "int \<Rightarrow> acc \<Rightarrow> observation \<Rightarrow> acceptance_decision" where
  "acc_choose limit a ob =
     (let d = (\<lambda>act why. \<lparr>de_action = act, de_reason = why, de_revision = ac_revision a,
                de_verified = jopt JInt (ac_verified a), de_stalls = ac_stalls a, de_recover = False\<rparr>) in
      if ac_verified a = Some (ac_revision a) then
        d ''complete'' (''verification passed for current artifact revision '' @ show_int (ac_revision a))
      else if (case ob_remaining ob of None \<Rightarrow> False | Some b \<Rightarrow> b \<le> 0) then
        d ''blocked'' ''task budget is exhausted before current artifacts were accepted''
      else if limit \<le> ac_stalls a then
        (d ''blocked'' (''no acceptance progress for '' @ show_int (ac_stalls a) @ '' consecutive observations''))
          \<lparr>de_recover := True\<rparr>
      else if (map_option snd (ac_last a) = Some (''failed'', ac_revision a)) then
        d ''repair'' ''latest verification failed for current artifacts''
      else if given (ob_failure ob) then
        d ''repair'' (''recent execution failure requires repair: '' @ the (ob_failure ob))
      else if ob_status ob = ''running'' then d ''continue'' ''verification is still running''
      else d ''verify'' (''artifact revision '' @ show_int (ac_revision a) @ '' has no current successful verification''))"

definition acc_step :: "(observation \<Rightarrow> string) \<Rightarrow> int \<Rightarrow> nat \<Rightarrow> acc \<Rightarrow> observation \<Rightarrow> acc" where
  "acc_step digest limit hl a ob =
     (let a' = acc_observe a ob; d = acc_choose limit a' ob in
      a'\<lparr>ac_handled := Some (ob_key ob, digest ob, d),
         ac_history := last_n hl (ac_history a @ [history_entry ob d])\<rparr>)"

section \<open>The dictionary operations under the dump\<close>

lemma acc_dump_get [simp]:
  "jget (acc_dump a) ''version'' = JInt 1"
  "jget (acc_dump a) ''artifact_revision'' = JInt (ac_revision a)"
  "jget (acc_dump a) ''verified_revision'' = jopt JInt (ac_verified a)"
  "jget (acc_dump a) ''last_verification'' = last_json (ac_last a)"
  "jget (acc_dump a) ''seen_verification_tokens'' = jstrs (ac_seen a)"
  "jget (acc_dump a) ''no_progress_count'' = JInt (ac_stalls a)"
  "jget (acc_dump a) ''failure_count'' = JInt (ac_failures a)"
  "jget (acc_dump a) ''observation_count'' = JInt (ac_count a)"
  "jget (acc_dump a) ''last_observation_id'' = jopt (\<lambda>(k, _, _). JStr k) (ac_handled a)"
  "jget (acc_dump a) ''last_observation_digest'' = jopt (\<lambda>(_, g, _). JStr g) (ac_handled a)"
  "jget (acc_dump a) ''last_decision'' = jopt (\<lambda>(_, _, d). JObj (decision_to_dict d)) (ac_handled a)"
  "jget (acc_dump a) ''history'' = JList (ac_history a)"
  by (simp_all add: acc_dump_def jget_def dget_def)

lemma acc_dump_set [simp]:
  "dset ''artifact_revision'' (JInt i) (acc_dump a) = acc_dump (a\<lparr>ac_revision := i\<rparr>)"
  "dset ''verified_revision'' (JInt i) (acc_dump a) = acc_dump (a\<lparr>ac_verified := Some i\<rparr>)"
  "dset ''verified_revision'' JNull (acc_dump a) = acc_dump (a\<lparr>ac_verified := None\<rparr>)"
  "dset ''last_verification'' (JObj [(''token'', JStr t), (''status'', JStr s), (''artifact_revision'', JInt i)]) (acc_dump a) =
     acc_dump (a\<lparr>ac_last := Some (t, s, i)\<rparr>)"
  "dset ''seen_verification_tokens'' (jstrs ts) (acc_dump a) = acc_dump (a\<lparr>ac_seen := ts\<rparr>)"
  "dset ''no_progress_count'' (JInt i) (acc_dump a) = acc_dump (a\<lparr>ac_stalls := i\<rparr>)"
  "dset ''failure_count'' (JInt i) (acc_dump a) = acc_dump (a\<lparr>ac_failures := i\<rparr>)"
  "dset ''observation_count'' (JInt i) (acc_dump a) = acc_dump (a\<lparr>ac_count := i\<rparr>)"
  "dset ''history'' (JList h) (acc_dump a) = acc_dump (a\<lparr>ac_history := h\<rparr>)"
  "dset ''last_decision'' (JObj (decision_to_dict d)) (dset ''last_observation_digest'' (JStr g)
     (dset ''last_observation_id'' (JStr k) (acc_dump a))) = acc_dump (a\<lparr>ac_handled := Some (k, g, d)\<rparr>)"
  by (simp_all add: acc_dump_def dset_def last_json_def)

lemma jstrs_simps [simp]: "list_of (jstrs ts) = map JStr ts" "is_list (jstrs ts)"
  "list_ex (py_eq (JStr t)) (map JStr ts) \<longleftrightarrow> t \<in> set ts" "last_n n (map JStr ts @ [JStr t]) = map JStr (last_n n (ts @ [t]))"
  using drop_map [of "length (ts @ [t]) - n" JStr "ts @ [t]"]
  by (auto simp: jstrs_def list_ex_iff last_n_def simp del: drop_append)

lemma acc_normalize:
  assumes "acc_ok a"
  shows "normalize_state (Some (acc_dump a)) = Inr (acc_dump a)"
proof -
  have "dupdate create_acceptance_state (acc_dump a) = acc_dump a"
    by (simp add: create_acceptance_state_def acc_dump_def dset_def)
  moreover have "map_of (acc_dump a) ''seen_verification_tokens'' = Some (jstrs (ac_seen a))"
    by (simp add: acc_dump_def)
  moreover have "jopt JInt (ac_verified a) = JNull \<or> is_count (jopt JInt (ac_verified a))"
    using assms by (cases "ac_verified a") (auto simp: acc_ok_def)
  ultimately show ?thesis
    using assms by (simp add: normalize_state_def Let_def acc_ok_def)
qed

lemma acc_init_dump: "normalize_state None = Inr (acc_dump acc_init)"
proof -
  have eq: "create_acceptance_state = acc_dump acc_init"
    by (simp add: create_acceptance_state_def acc_dump_def acc_init_def last_json_def jstrs_def)
  show ?thesis
    by (simp add: normalize_state_def Let_def eq) (simp add: acc_init_def)
qed

lemma acc_init_ok: "acc_ok acc_init"
  by (simp add: acc_ok_def acc_init_def)

lemma obj_of_last [simp]:
  "obj_of (last_json l) = map_option (\<lambda>(t, s, r).
     [(''token'', JStr t), (''status'', JStr s), (''artifact_revision'', JInt r)]) l"
  by (cases l) (auto simp: last_json_def)

lemma last_obj_get [simp]:
  "jget [(''token'', x), (''status'', y), (''artifact_revision'', z)] ''token'' = x"
  "jget [(''token'', x), (''status'', y), (''artifact_revision'', z)] ''status'' = y"
  "dget [(''token'', x), (''status'', y), (''artifact_revision'', z)] ''artifact_revision'' d = z"
  by (simp_all add: jget_def dget_def)

lemma finishes_dump:
  assumes "given (ob_token ob)"
  shows "finishes_running (acc_dump a) ob rv = Inr (acc_finishes a ob rv)"
  using assms
  by (cases "ac_last a") (auto simp: finishes_running_def acc_finishes_def split: prod.splits)

lemma finishes_not_given: "\<not> given (ob_token ob) \<Longrightarrow> finishes_running (acc_dump a) ob rv = Inr False"
  by (auto simp: finishes_running_def split: option.splits)

lemma seen_dump [simp]: "seen_token (acc_dump a) ob \<longleftrightarrow> the (ob_token ob) \<in> set (ac_seen a)"
  by (simp add: seen_token_def)

lemma py_eq_jopt [simp]: "py_eq (jopt JInt v) (JInt i) \<longleftrightarrow> v = Some i" "py_eq (JStr s) (jopt JStr x) \<longleftrightarrow> x = Some s"
  by (cases v; simp) (cases x; auto)

lemma choose_dump: "choose_action limit (acc_dump a) ob = Inr (acc_choose limit a ob)"
proof (cases "ac_last a")
  case None
  then show ?thesis
    by (cases "ac_verified a") (simp_all add: choose_action_def acc_choose_def Let_def)
next
  case (Some l)
  then show ?thesis
    by (cases l; cases "ac_verified a") (simp_all add: choose_action_def acc_choose_def Let_def)
qed

section \<open>Refinement\<close>

lemma record_dump:
  "record_verification (acc_dump (a\<lparr>ac_revision := rv\<rparr>)) ob rv =
     Inr (acc_dump (let t = the (ob_token ob) in
       a\<lparr>ac_revision := rv, ac_last := Some (t, ob_status ob, rv),
         ac_seen := (if t \<in> set (ac_seen a) then ac_seen a else last_n 500 (ac_seen a @ [t])),
         ac_verified := (if ob_status ob = ''passed'' then Some rv
                         else if ob_status ob = ''failed'' \<and> ac_verified a = Some rv then None
                         else ac_verified a),
         ac_failures := (if ob_status ob = ''failed'' then ac_failures a + 1 else ac_failures a)\<rparr>))"
proof -
  let ?t = "the (ob_token ob)"
  define b where "b = a\<lparr>ac_revision := rv, ac_last := Some (?t, ob_status ob, rv),
    ac_seen := (if ?t \<in> set (ac_seen a) then ac_seen a else last_n 500 (ac_seen a @ [?t]))\<rparr>"
  have set_seen: "dset ''seen_verification_tokens'' (JList (map JStr ts)) (acc_dump x) = acc_dump (x\<lparr>ac_seen := ts\<rparr>)" for ts x
    using acc_dump_set(5) by (simp add: jstrs_def)
  have "record_verification (acc_dump (a\<lparr>ac_revision := rv\<rparr>)) ob rv =
      (if ob_status ob = ''passed'' then Inr (acc_dump (b\<lparr>ac_verified := Some rv\<rparr>))
       else if ob_status ob = ''failed'' then
         Inr (acc_dump (b\<lparr>ac_verified := (if ac_verified a = Some rv then None else ac_verified a),
                          ac_failures := ac_failures a + 1\<rparr>))
       else Inr (acc_dump b))"
    by (cases a; cases "?t \<in> set (ac_seen a)"; cases "ac_verified a")
      (simp_all add: record_verification_def Let_def set_seen b_def)
  then show ?thesis
    by (cases "ob_status ob = ''passed''"; cases "ob_status ob = ''failed''") (simp_all add: b_def Let_def)
qed

lemma acc_finishes_revision: "acc_finishes (a\<lparr>ac_revision := rv\<rparr>) ob r = acc_finishes a ob r"
  by (simp add: acc_finishes_def)

lemma acc_decide_step:
  assumes "acc_ok a" and new: "\<forall>g d. ac_handled a \<noteq> Some (ob_key ob, g, d)"
  shows "acceptance_decide digest limit hl (Some (acc_dump a)) ob =
    Inr (acc_dump (acc_step digest limit hl a ob), acc_choose limit (acc_observe a ob) ob)"
proof -
  let ?rv = "acc_revise a ob" and ?f = "acc_fresh a ob"
  have other: "\<not> py_eq (JStr (ob_key ob)) (jopt (\<lambda>(k, _, _). JStr k) (ac_handled a))"
    using new by (cases "ac_handled a") auto
  have rv1: "(if ob_changed ob then dset ''artifact_revision'' (JInt ?rv) (acc_dump a) else acc_dump a) =
      acc_dump (a\<lparr>ac_revision := ?rv\<rparr>)" "(if ob_changed ob then ac_revision a + 1 else ac_revision a) = ?rv"
    by (simp_all add: acc_revise_def)
  have fin: "finishes_running (acc_dump (a\<lparr>ac_revision := ?rv\<rparr>)) ob ?rv = Inr (given (ob_token ob) \<and> acc_finishes a ob ?rv)"
    by (cases "given (ob_token ob)") (simp_all add: finishes_dump finishes_not_given acc_finishes_revision)
  have fresh: "(given (ob_token ob) \<and> (\<not> the (ob_token ob) \<in> set (ac_seen (a\<lparr>ac_revision := ?rv\<rparr>)) \<or> given (ob_token ob) \<and> acc_finishes a ob ?rv)) = ?f"
    by (auto simp: acc_fresh_def)
  have ver: "(if ?f then record_verification (acc_dump (a\<lparr>ac_revision := ?rv\<rparr>)) ob ?rv else Inr (acc_dump (a\<lparr>ac_revision := ?rv\<rparr>))) =
      Inr (acc_dump (acc_verify a ob))"
    by (simp add: record_dump acc_verify_def Let_def)
  have stalls: "(if objective_progress ob ?f then Inr 0
       else rbind (py_int (jget (acc_dump (acc_verify a ob)) ''no_progress_count'')) (\<lambda>n. Inr (n + 1))) =
      Inr (if objective_progress ob ?f then 0 else ac_stalls a + 1)"
    by (simp add: acc_verify_def Let_def)
  have cnt: "ac_count (acc_verify a ob) = ac_count a" "ac_history (acc_verify a ob) = ac_history a" by (simp_all add: acc_verify_def Let_def)
  have obs: "(acc_verify a ob)\<lparr>ac_stalls := if objective_progress ob ?f then 0 else ac_stalls a + 1, ac_count := ac_count a + 1\<rparr>
      = acc_observe a ob" by (simp add: acc_observe_def)
  show ?thesis
    unfolding acceptance_decide_def acc_normalize [OF assms(1)] rbind_Inr acc_dump_get
      py_int.simps Let_def 
    by (simp only: other if_False rv1 fin rbind_Inr seen_dump fresh ver stalls)
      (simp add: cnt obs choose_dump acc_step_def Let_def)
qed

lemma acc_choose_verified: "\<exists>v. de_verified (acc_choose limit a ob) = jopt JInt v"
  by (rule exI [of _ "ac_verified a"]) (simp add: acc_choose_def Let_def)

lemma acc_step_ok: "acc_ok a \<Longrightarrow> acc_ok (acc_step digest limit hl a ob)"
  using acc_choose_verified [of limit "acc_observe a ob" ob]
  by (auto simp: acc_ok_def acc_step_def acc_observe_def acc_verify_def acc_revise_def Let_def split: if_splits)

lemma decision_roundtrip:
  assumes "de_verified d = jopt JInt v"
  shows "decision_from_dict (decision_to_dict d) = Inr d"
  using assms by (cases d; cases v) (simp_all add: decision_from_dict_def decision_to_dict_def jindex_def jget_def dget_def py_or_def)

lemma acc_decide_replay:
  assumes "acc_ok a" and "ac_handled a = Some (ob_key ob, g, d)"
  shows "acceptance_decide digest limit hl (Some (acc_dump a)) ob =
    (if digest ob = g then Inr (acc_dump a, d)
     else Inl (ValueError ''observation_id was reused with different content'' []))"
proof -
  from assms obtain v where "de_verified d = jopt JInt v" by (auto simp: acc_ok_def)
  then have "decision_from_dict (decision_to_dict d) = Inr d" by (rule decision_roundtrip)
  with assms(2) show ?thesis
    unfolding acceptance_decide_def acc_normalize [OF assms(1)]
    by (simp add: replay_decision_def)
qed

end
