(* ===== verification/Acceptance_Runs.thy ===== *)
theory Acceptance_Runs
  imports Acceptance_Laws
begin

text \<open>
  Sequences of observations: the acceptance controller called once per observation, each call on
  the state the previous one returned, and the invariants its fields keep over the whole history.
\<close>

section \<open>Runs\<close>

fun accept_all ::
    "(observation \<Rightarrow> string) \<Rightarrow> int \<Rightarrow> nat \<Rightarrow> obj option \<Rightarrow> observation list \<Rightarrow>
     (obj option \<times> acceptance_decision list) result" where
  "accept_all digest limit hl st [] = Inr (st, [])"
| "accept_all digest limit hl st (ob # obs) =
     rbind (acceptance_decide digest limit hl st ob) (\<lambda>(st', d).
     rbind (accept_all digest limit hl (Some st') obs) (\<lambda>(st'', ds). Inr (st'', d # ds)))"

fun acc_decisions ::
    "(observation \<Rightarrow> string) \<Rightarrow> int \<Rightarrow> nat \<Rightarrow> acc \<Rightarrow> observation list \<Rightarrow> acceptance_decision list" where
  "acc_decisions digest limit hl a [] = []"
| "acc_decisions digest limit hl a (ob # obs) =
     acc_choose limit (acc_observe a ob) ob # acc_decisions digest limit hl (acc_step digest limit hl a ob) obs"

abbreviation acc_run :: "(observation \<Rightarrow> string) \<Rightarrow> int \<Rightarrow> nat \<Rightarrow> observation list \<Rightarrow> acc" where
  "acc_run digest limit hl \<equiv> foldl (acc_step digest limit hl) acc_init"

lemma acc_decisions_snoc:
  "acc_decisions digest limit hl a (obs @ [ob]) =
     acc_decisions digest limit hl a obs @
     [acc_choose limit (acc_observe (foldl (acc_step digest limit hl) a obs) ob) ob]"
  by (induction obs arbitrary: a) simp_all

lemma acc_step_handled:
  "ac_handled (acc_step digest limit hl a ob) = Some (ob_key ob, digest ob, acc_choose limit (acc_observe a ob) ob)"
  by (simp add: acc_step_def Let_def)

lemma accept_all_dump:
  assumes "acc_ok a" and "distinct_adj (map ob_key obs)"
    and "\<forall>g d. obs \<noteq> [] \<longrightarrow> ac_handled a \<noteq> Some (ob_key (hd obs), g, d)"
  shows "accept_all digest limit hl (Some (acc_dump a)) obs =
    Inr (Some (acc_dump (foldl (acc_step digest limit hl) a obs)), acc_decisions digest limit hl a obs)"
  using assms
proof (induction obs arbitrary: a)
  case (Cons ob obs)
  have "acceptance_decide digest limit hl (Some (acc_dump a)) ob =
      Inr (acc_dump (acc_step digest limit hl a ob), acc_choose limit (acc_observe a ob) ob)"
    using Cons.prems by (intro acc_decide_step) auto
  moreover have "accept_all digest limit hl (Some (acc_dump (acc_step digest limit hl a ob))) obs =
      Inr (Some (acc_dump (foldl (acc_step digest limit hl) (acc_step digest limit hl a ob) obs)),
           acc_decisions digest limit hl (acc_step digest limit hl a ob) obs)"
    using Cons.prems
    by (intro Cons.IH) (auto simp: acc_step_ok acc_step_handled distinct_adj_Cons hd_map neq_Nil_conv)
  ultimately show ?case by simp
qed simp

lemma acceptance_decide_None:
  "acceptance_decide digest limit hl None ob = acceptance_decide digest limit hl (Some (acc_dump acc_init)) ob"
  by (simp add: acceptance_decide_def acc_init_dump acc_normalize acc_init_ok)

lemma accept_all_fresh:
  assumes "distinct_adj (map ob_key obs)" and "obs \<noteq> []"
  shows "accept_all digest limit hl None obs =
    Inr (Some (acc_dump (acc_run digest limit hl obs)), acc_decisions digest limit hl acc_init obs)"
proof -
  have "accept_all digest limit hl None obs = accept_all digest limit hl (Some (acc_dump acc_init)) obs"
    using assms(2) by (cases obs) (simp_all add: acceptance_decide_None)
  also have "\<dots> = Inr (Some (acc_dump (acc_run digest limit hl obs)), acc_decisions digest limit hl acc_init obs)"
    using assms(1) by (intro accept_all_dump acc_init_ok) (simp_all add: acc_init_def)
  finally show ?thesis .
qed

section \<open>Construction and the functional wrapper\<close>

definition acceptance_controller :: "int \<Rightarrow> int \<Rightarrow> (int \<times> nat) result" where
  "acceptance_controller no_progress_limit history_limit =
     rbind (raise_unless (1 \<le> no_progress_limit) (ValueError ''no_progress_limit must be at least 1'' [])) (\<lambda>_.
     rbind (raise_unless (1 \<le> history_limit) (ValueError ''history_limit must be at least 1'' [])) (\<lambda>_.
     Inr (no_progress_limit, nat history_limit)))"

definition advance_acceptance_progress ::
    "(observation \<Rightarrow> string) \<Rightarrow> int \<Rightarrow> obj option \<Rightarrow> observation \<Rightarrow> (obj \<times> obj) result" where
  "advance_acceptance_progress digest no_progress_limit state ob =
     rbind (acceptance_controller no_progress_limit 50) (\<lambda>(limit, hl).
     rbind (acceptance_decide digest limit hl state ob) (\<lambda>(st, d). Inr (st, decision_to_dict d)))"

section \<open>What the fields count\<close>

definition changes :: "observation list \<Rightarrow> nat" where
  "changes obs = length (filter ob_changed obs)"

definition tokens_of :: "observation list \<Rightarrow> string set" where
  "tokens_of obs = {t. t \<noteq> [] \<and> (\<exists>ob\<in>set obs. ob_token ob = Some t)}"

lemma changes_simps [simp]:
  "changes [] = 0" "changes (xs @ ys) = changes xs + changes ys"
  "changes (ob # obs) = (if ob_changed ob then 1 else 0) + changes obs"
  by (simp_all add: changes_def)

lemma changes_0: "changes obs = 0 \<longleftrightarrow> (\<forall>ob\<in>set obs. \<not> ob_changed ob)"
  by (simp add: changes_def filter_empty_conv)

lemma tokens_of_simps [simp]:
  "tokens_of [] = {}" "tokens_of (xs @ ys) = tokens_of xs \<union> tokens_of ys"
  "tokens_of [ob] = (if given (ob_token ob) then {the (ob_token ob)} else {})"
  by (auto simp: tokens_of_def given_def split: option.splits)

lemma acc_step_fields:
  "ac_revision (acc_step digest limit hl a ob) = acc_revise a ob"
  "ac_last (acc_step digest limit hl a ob) =
     (if acc_fresh a ob then Some (the (ob_token ob), ob_status ob, acc_revise a ob) else ac_last a)"
  "ac_seen (acc_step digest limit hl a ob) =
     (if acc_fresh a ob \<and> the (ob_token ob) \<notin> set (ac_seen a) then last_n 500 (ac_seen a @ [the (ob_token ob)])
      else ac_seen a)"
  "ac_verified (acc_step digest limit hl a ob) =
     (if \<not> acc_fresh a ob then ac_verified a
      else if ob_status ob = ''passed'' then Some (acc_revise a ob)
      else if ob_status ob = ''failed'' \<and> ac_verified a = Some (acc_revise a ob) then None else ac_verified a)"
  "ac_stalls (acc_step digest limit hl a ob) = (if objective_progress ob (acc_fresh a ob) then 0 else ac_stalls a + 1)"
  "ac_history (acc_step digest limit hl a ob) =
     last_n hl (ac_history a @ [history_entry ob (acc_choose limit (acc_observe a ob) ob)])"
  by (simp_all add: acc_step_def acc_observe_def acc_verify_def Let_def)

lemma run_revision: "ac_revision (acc_run digest limit hl obs) = int (changes obs)"
  by (induction obs rule: rev_induct) (simp_all add: acc_init_def acc_step_fields acc_revise_def)

lemma run_seen:
  assumes "length obs \<le> 500"
  shows "set (ac_seen (acc_run digest limit hl obs)) = tokens_of obs \<and>
    length (ac_seen (acc_run digest limit hl obs)) \<le> length obs"
  using assms
proof (induction obs rule: rev_induct)
  case (snoc ob obs)
  let ?a = "acc_run digest limit hl obs"
  have IH: "set (ac_seen ?a) = tokens_of obs" "length (ac_seen ?a) \<le> length obs"
    using snoc by simp_all
  have "last_n 500 (ac_seen ?a @ [the (ob_token ob)]) = ac_seen ?a @ [the (ob_token ob)]"
    using snoc.prems IH(2) by (intro last_n_all) simp
  then show ?case
    using IH by (auto simp: acc_step_fields acc_fresh_def)
qed (simp add: acc_init_def)

section \<open>Where the running and the accepted verification come from\<close>

definition final_status :: "observation \<Rightarrow> bool" where
  "final_status ob \<longleftrightarrow> ob_status ob = ''passed'' \<or> ob_status ob = ''failed''"

definition run_started :: "observation list \<Rightarrow> string \<Rightarrow> int \<Rightarrow> bool" where
  "run_started obs t r \<longleftrightarrow>
     (\<exists>p1 p p2. obs = p1 @ p # p2 \<and> ob_token p = Some t \<and> t \<noteq> [] \<and> \<not> final_status p \<and> t \<notin> tokens_of p1 \<and>
        r = int (changes (p1 @ [p])) \<and>
        (\<forall>q1 q q2. p2 = q1 @ q # q2 \<and> ob_token q = Some t \<and> final_status q \<longrightarrow> 0 < changes (q1 @ [q])))"

lemma run_last:
  assumes "length obs \<le> 500" and "ac_last (acc_run digest limit hl obs) = Some (t, ''running'', r)"
  shows "run_started obs t r"
  using assms
proof (induction obs rule: rev_induct)
  case Nil
  then show ?case by (simp add: acc_init_def)
next
  case (snoc ob obs)
  let ?a = "acc_run digest limit hl obs"
  have seen: "set (ac_seen ?a) = tokens_of obs"
    using run_seen [of obs digest limit hl] snoc.prems(1) by simp
  have rev: "acc_revise ?a ob = int (changes (obs @ [ob]))"
    by (simp add: acc_revise_def run_revision)
  show ?case
  proof (cases "acc_fresh ?a ob")
    case True
    with snoc.prems(2) have new: "t = the (ob_token ob)" "ob_status ob = ''running''" "r = acc_revise ?a ob"
      by (simp_all add: acc_step_fields)
    with True have "given (ob_token ob)" "t \<notin> tokens_of obs"
      by (auto simp: acc_fresh_def acc_finishes_def seen)
    with new rev show ?thesis
      unfolding run_started_def
      by (intro exI [of _ obs] exI [of _ ob] exI [of _ "[]"])
        (auto simp: given_def final_status_def split: option.splits)
  next
    case False
    with snoc.prems have last: "ac_last ?a = Some (t, ''running'', r)" by (simp add: acc_step_fields)
    with snoc obtain p1 p p2 where split: "obs = p1 @ p # p2" "ob_token p = Some t" "t \<noteq> []"
        "\<not> final_status p" "t \<notin> tokens_of p1" "r = int (changes (p1 @ [p]))"
      and later: "\<And>q1 q q2. p2 = q1 @ q # q2 \<Longrightarrow> ob_token q = Some t \<Longrightarrow> final_status q \<Longrightarrow> 0 < changes (q1 @ [q])"
      unfolding run_started_def by (metis (no_types, lifting) Suc_leD length_append_singleton)
    have "0 < changes (q1 @ [q])"
      if q: "p2 @ [ob] = q1 @ q # q2" "ob_token q = Some t" "final_status q" for q1 q q2
    proof (cases q2 rule: rev_cases)
      case Nil
      with q have [simp]: "q1 = p2" "q = ob" by simp_all
      have "t \<in> set (ac_seen ?a)" using split seen by (auto simp: tokens_of_def)
      with False q last have "acc_revise ?a ob \<noteq> r"
        by (auto simp: acc_fresh_def acc_finishes_def given_def final_status_def split(3))
      then show ?thesis using rev split by (cases "changes (p2 @ [ob])") simp_all
    next
      case (snoc ys y)
      with q have "p2 = q1 @ q # ys" by simp
      then show ?thesis using later q by blast
    qed
    then show ?thesis
      unfolding run_started_def using split
      by (intro exI [of _ p1] exI [of _ p] exI [of _ "p2 @ [ob]"]) auto
  qed
qed

text \<open>\<open>accepted obs r\<close>: an observation passed with a token whose earlier reports are not final and saw the same artifacts.\<close>

definition fresh_success :: "observation list \<Rightarrow> observation \<Rightarrow> bool" where
  "fresh_success pre ob \<longleftrightarrow>
     ob_status ob = ''passed'' \<and>
     (\<exists>t. ob_token ob = Some t \<and> t \<noteq> [] \<and>
        (\<forall>p1 p p2. pre = p1 @ p # p2 \<and> ob_token p = Some t \<longrightarrow>
           \<not> final_status p \<and> (\<forall>q\<in>set p2 \<union> {ob}. \<not> ob_changed q)))"

lemma started_success:
  assumes "run_started obs t r" and "r = int (changes (obs @ [ob]))"
    and "ob_token ob = Some t" and "ob_status ob = ''passed''"
  shows "fresh_success obs ob"
proof -
  from assms(1) obtain p1 p p2 where split: "obs = p1 @ p # p2" "ob_token p = Some t" "t \<noteq> []"
      "\<not> final_status p" "t \<notin> tokens_of p1" "r = int (changes (p1 @ [p]))"
    and later: "\<And>q1 q q2. p2 = q1 @ q # q2 \<Longrightarrow> ob_token q = Some t \<Longrightarrow> final_status q \<Longrightarrow> 0 < changes (q1 @ [q])"
    unfolding run_started_def by metis
  have same: "changes (p2 @ [ob]) = 0" using assms(2) split(1,6) by simp
  have "\<not> final_status q \<and> (\<forall>x\<in>set q2 \<union> {ob}. \<not> ob_changed x)"
    if q: "obs = q1 @ q # q2" "ob_token q = Some t" for q1 q q2
  proof -
    have "q1 = p1 \<and> q = p \<and> q2 = p2 \<or> (\<exists>us. p2 = us @ q # q2)"
      using q split unfolding append_eq_append_conv2 append_eq_Cons_conv Cons_eq_append_conv
      by (auto simp: tokens_of_def append_eq_append_conv2 Cons_eq_append_conv append_eq_Cons_conv)
    then show ?thesis
    proof
      assume "\<exists>us. p2 = us @ q # q2"
      then obtain us where us: "p2 = us @ q # q2" ..
      have "changes (us @ [q]) = 0" using same us by simp
      with later [OF us q(2)] have "\<not> final_status q" by auto
      with same us show ?thesis by (auto simp: changes_0 split: if_splits)
    qed (use split(4) same in \<open>auto simp: changes_0 split: if_splits\<close>)
  qed
  then show ?thesis unfolding fresh_success_def using assms(3,4) split(3) by blast
qed

lemma run_verified:
  assumes "length obs \<le> 500" and "ac_verified (acc_run digest limit hl obs) = Some r"
  shows "\<exists>pre ob post. obs = pre @ ob # post \<and> fresh_success pre ob \<and> r = int (changes (pre @ [ob]))"
  using assms
proof (induction obs rule: rev_induct)
  case Nil
  then show ?case by (simp add: acc_init_def)
next
  case (snoc ob obs)
  let ?a = "acc_run digest limit hl obs"
  have seen: "set (ac_seen ?a) = tokens_of obs"
    using run_seen [of obs digest limit hl] snoc.prems(1) by simp
  have rev: "acc_revise ?a ob = int (changes (obs @ [ob]))"
    by (simp add: acc_revise_def run_revision)
  show ?case
  proof (cases "acc_fresh ?a ob \<and> ob_status ob = ''passed''")
    case True
    then obtain t where t: "ob_token ob = Some t" "t \<noteq> []"
      by (auto simp: acc_fresh_def given_def split: option.splits)
    have "fresh_success obs ob"
    proof (cases "t \<in> tokens_of obs")
      case True': True
      with True t seen have "ac_last ?a = Some (t, ''running'', acc_revise ?a ob)"
        by (auto simp: acc_fresh_def acc_finishes_def)
      then have "run_started obs t (acc_revise ?a ob)" using snoc.prems(1) by (intro run_last) simp_all
      then show ?thesis using rev t True by (intro started_success) simp_all
    next
      case False
      then show ?thesis using t True by (auto simp: fresh_success_def tokens_of_def)
    qed
    moreover have "r = int (changes (obs @ [ob]))"
      using snoc.prems(2) True rev by (simp add: acc_step_fields)
    ultimately show ?thesis by blast
  next
    case False
    with snoc.prems have "ac_verified ?a = Some r" by (auto simp: acc_step_fields split: if_splits)
    with snoc obtain pre o' post where
        "obs = pre @ o' # post" "fresh_success pre o'" "r = int (changes (pre @ [o']))" by auto
    then show ?thesis by (intro exI [of _ pre] exI [of _ o'] exI [of _ "post @ [ob]"]) simp
  qed
qed

lemma choose_complete:
  "de_action (acc_choose limit a ob) = ''complete'' \<longleftrightarrow> ac_verified a = Some (ac_revision a)"
  by (simp add: acc_choose_def Let_def)

lemma choose_stalled:
  assumes "limit \<le> ac_stalls a"
  shows "de_action (acc_choose limit a ob) \<in> {''complete'', ''blocked''}"
  using assms by (simp add: acc_choose_def Let_def)

lemma run_stalls:
  assumes "\<forall>ob\<in>set obs. ob_progress ob = Some False"
  shows "ac_stalls (foldl (acc_step digest limit hl) a obs) = ac_stalls a + int (length obs)"
  using assms by (induction obs arbitrary: a) (simp_all add: acc_step_fields objective_progress_def)

lemma observe_fields:
  "ac_verified (acc_observe a ob) = ac_verified (acc_step digest limit hl a ob)"
  "ac_revision (acc_observe a ob) = ac_revision (acc_step digest limit hl a ob)"
  "ac_stalls (acc_observe a ob) = ac_stalls (acc_step digest limit hl a ob)"
  by (simp_all add: acc_step_def Let_def)

lemma run_bounds:
  "length (ac_history (acc_run digest limit hl obs)) \<le> hl \<and> length (ac_seen (acc_run digest limit hl obs)) \<le> 500 \<and>
   0 \<le> ac_stalls (acc_run digest limit hl obs)"
  by (induction obs rule: rev_induct) (simp_all add: acc_init_def acc_step_fields)

end
