(* ===== verification/Steps.thy ===== *)
theory Steps
  imports Py_Value "HOL-Library.Sublist"
begin

text \<open>
  Computations that act on a state and may raise: the state reached so far survives the
  exception, as it does when Python unwinds past committed transactions or executed commands.
  Also the string operations the file and text handling components share.
\<close>

section \<open>Stateful computations\<close>

type_synonym ('s, 'a) step = "'s \<Rightarrow> 'a result \<times> 's"

definition sret :: "'a \<Rightarrow> ('s, 'a) step" where
  "sret x = (\<lambda>s. (Inr x, s))"

definition slift :: "'a result \<Rightarrow> ('s, 'a) step" where
  "slift r = (\<lambda>s. (r, s))"

definition sread :: "('s \<Rightarrow> 'a) \<Rightarrow> ('s, 'a) step" where
  "sread f = (\<lambda>s. (Inr (f s), s))"

definition smodify :: "('s \<Rightarrow> 's) \<Rightarrow> ('s, unit) step" where
  "smodify f = (\<lambda>s. (Inr (), f s))"

definition sbind :: "('s, 'a) step \<Rightarrow> ('a \<Rightarrow> ('s, 'b) step) \<Rightarrow> ('s, 'b) step" where
  "sbind m f = (\<lambda>s. case m s of (Inl e, s') \<Rightarrow> (Inl e, s') | (Inr x, s') \<Rightarrow> f x s')"

text \<open>\<open>try: m except: h\<close>, where the handler decides by the exception whether it takes it.\<close>

definition shandle :: "('s, 'a) step \<Rightarrow> (py_error \<Rightarrow> ('s, 'a) step) \<Rightarrow> ('s, 'a) step" where
  "shandle m h = (\<lambda>s. case m s of (Inl e, s') \<Rightarrow> h e s' | (Inr x, s') \<Rightarrow> (Inr x, s'))"

fun siter :: "('a \<Rightarrow> ('s, unit) step) \<Rightarrow> 'a list \<Rightarrow> ('s, unit) step" where
  "siter f [] = sret ()"
| "siter f (x # xs) = sbind (f x) (\<lambda>_. siter f xs)"

definition sguard :: "bool \<Rightarrow> py_error \<Rightarrow> ('s, unit) step" where
  "sguard c e = slift (raise_unless c e)"

lemma sret_apply [simp]: "sret y s = (Inr y, s)"
  and slift_apply [simp]: "slift r s = (r, s)"
  and sread_apply [simp]: "sread f s = (Inr (f s), s)"
  and smodify_apply [simp]: "smodify g s = (Inr (), g s)"
  by (simp_all add: sret_def slift_def sread_def smodify_def)

lemma sbind_apply: "sbind m f s = (case m s of (Inl e, s') \<Rightarrow> (Inl e, s') | (Inr x, s') \<Rightarrow> f x s')"
  by (simp add: sbind_def)

lemma sbind_eq_Inr [result_simps]:
  "sbind m f s = (Inr y, t) \<longleftrightarrow> (\<exists>x s'. m s = (Inr x, s') \<and> f x s' = (Inr y, t))"
  by (auto simp: sbind_def split: prod.splits sum.splits)

lemma sbind_Inr [simp]: "m s = (Inr x, s') \<Longrightarrow> sbind m f s = f x s'"
  and sbind_Inl [simp]: "m s = (Inl e, s') \<Longrightarrow> sbind m f s = (Inl e, s')"
  by (simp_all add: sbind_def)

text \<open>Invariants: \<open>preserves P m\<close> holds when \<open>m\<close> preserves \<open>P\<close>, whether it returns or raises.\<close>

definition preserves :: "('s \<Rightarrow> bool) \<Rightarrow> ('s, 'a) step \<Rightarrow> bool" where
  "preserves P m \<longleftrightarrow> (\<forall>s. P s \<longrightarrow> P (snd (m s)))"

lemma preservesD: "preserves P m \<Longrightarrow> P s \<Longrightarrow> m s = (r, t) \<Longrightarrow> P t"
  by (auto simp: preserves_def dest: spec [of _ s])

lemma preserves_ret [intro, simp]: "preserves P (sret x)" "preserves P (slift r)" "preserves P (sguard c e)"
    "preserves P (sread f)"
  by (simp_all add: preserves_def sguard_def)

lemma preserves_modify [intro]: "(\<And>s. P s \<Longrightarrow> P (f s)) \<Longrightarrow> preserves P (smodify f)"
  by (simp add: preserves_def)

lemma preserves_bind [intro]: "preserves P m \<Longrightarrow> (\<And>x. preserves P (f x)) \<Longrightarrow> preserves P (sbind m f)"
  by (auto simp: preserves_def sbind_def split: prod.splits sum.splits)

lemma preserves_handle [intro]: "preserves P m \<Longrightarrow> (\<And>e. preserves P (h e)) \<Longrightarrow> preserves P (shandle m h)"
  by (auto simp: preserves_def shandle_def split: prod.splits sum.splits)

lemma preserves_iter [intro]: "(\<And>x. preserves P (f x)) \<Longrightarrow> preserves P (siter f xs)"
  by (induction xs) auto

section \<open>Exceptions\<close>

text \<open>\<open>type(e).__name__\<close>, and \<open>str(e)\<close>.\<close>

fun exc_name :: "py_error \<Rightarrow> string" where
  "exc_name (DomainError _ _) = ''DomainError''"
| "exc_name (ConcurrencyError _ _) = ''ConcurrencyError''"
| "exc_name (StaleLeaseError _ _) = ''StaleLeaseError''"
| "exc_name (ValueError _ _) = ''ValueError''"
| "exc_name (KeyError _) = ''KeyError''"
| "exc_name (TypeError _) = ''TypeError''"
| "exc_name (AttributeError _) = ''AttributeError''"
| "exc_name (FileNotFoundError _) = ''FileNotFoundError''"
| "exc_name (PermissionError _ _) = ''PermissionError''"
| "exc_name (IntegrityError _ _) = ''IntegrityError''"
| "exc_name (NoResultFound _) = ''NoResultFound''"
| "exc_name (Unsupported _) = ''Exception''"
| "exc_name (Raised n _) = n"
| "exc_name KeyboardInterrupt = ''KeyboardInterrupt''"

text \<open>The message: the values take the places of the braces in the constant part.\<close>

fun fill :: "string \<Rightarrow> string list \<Rightarrow> string" where
  "fill (c # d # cs) (a # as) =
     (if c = CHR ''{'' \<and> d = CHR ''}'' then a @ fill cs as else c # fill (d # cs) (a # as))"
| "fill cs _ = cs"

fun exc_text :: "py_error \<Rightarrow> string" where
  "exc_text (DomainError m as) = fill m as"
| "exc_text (ConcurrencyError m as) = fill m as"
| "exc_text (StaleLeaseError m as) = fill m as"
| "exc_text (ValueError m as) = fill m as"
| "exc_text (PermissionError m as) = fill m as"
| "exc_text (IntegrityError m as) = fill m as"
| "exc_text (KeyError k) = [CHR 0x27] @ k @ [CHR 0x27]"
| "exc_text (TypeError m) = m"
| "exc_text (AttributeError m) = m"
| "exc_text (FileNotFoundError m) = m"
| "exc_text (NoResultFound m) = m"
| "exc_text (Unsupported m) = m"
| "exc_text (Raised _ m) = m"
| "exc_text KeyboardInterrupt = []"

text \<open>\<open>try: ... except Exception: pass\<close>, which lets a \<open>KeyboardInterrupt\<close> through.\<close>

definition attempt_quietly :: "('s, unit) step \<Rightarrow> ('s, unit) step" where
  "attempt_quietly m = shandle m (\<lambda>e. if e = KeyboardInterrupt then slift (Inl e) else sret ())"

text \<open>\<open>v in {...}\<close> for a set of strings.\<close>

definition in_strings :: "string list \<Rightarrow> json \<Rightarrow> bool result" where
  "in_strings xs v =
     (case v of
        JList _ \<Rightarrow> Inl (TypeError ''unhashable type'')
      | JObj _ \<Rightarrow> Inl (TypeError ''unhashable type'')
      | JStr s \<Rightarrow> Inr (s \<in> set xs)
      | _ \<Rightarrow> Inr False)"

section \<open>Text\<close>

definition line_break :: "char \<Rightarrow> bool" where
  "line_break c \<longleftrightarrow> (of_char c :: nat) \<in> {10, 11, 12, 13, 28, 29, 30, 133}"

text \<open>\<open>str.splitlines\<close>: a carriage return before a line feed is one break with it and a final break opens no line.\<close>

fun split_lines :: "string \<Rightarrow> string \<Rightarrow> string list" where
  "split_lines acc [] = (if acc = [] then [] else [rev acc])"
| "split_lines acc [c] = (if line_break c then [rev acc] else [rev (c # acc)])"
| "split_lines acc (c # d # cs) =
     (if c = CHR 0x0D \<and> d = CHR 0x0A then rev acc # split_lines [] cs
      else if line_break c then rev acc # split_lines [] (d # cs)
      else split_lines (c # acc) (d # cs))"

abbreviation splitlines :: "string \<Rightarrow> string list" where
  "splitlines s \<equiv> split_lines [] s"

definition to_slashes :: "string \<Rightarrow> string" where
  "to_slashes s = map (\<lambda>c. if c = CHR 0x5C then CHR ''/'' else c) s"

definition strip_chars :: "char set \<Rightarrow> string \<Rightarrow> string" where
  "strip_chars cs s = rev (dropWhile (\<lambda>c. c \<in> cs) (rev (dropWhile (\<lambda>c. c \<in> cs) s)))"

text \<open>\<open>path.is_relative_to(dir)\<close> on resolved POSIX paths.\<close>

definition path_inside :: "string \<Rightarrow> string \<Rightarrow> bool" where
  "path_inside dir p \<longleftrightarrow> p = dir \<or> prefix (if dir = ''/'' then dir else dir @ ''/'') p"

definition path_join :: "string \<Rightarrow> string \<Rightarrow> string" where
  "path_join a b = (if prefix ''/'' b then b else if a = [] then b
     else if suffix ''/'' a then a @ b else a @ ''/'' @ b)"

end
