(* ===== verification/Agent_Outcome.thy ===== *)
theory Agent_Outcome
  imports Steps Domain
begin

text \<open>
  The result of one agent activity in \<open>orchestrator/runtime.py\<close> (\<open>AgentExecutionOutcome\<close>), its
  dictionary form in the effect ledger and its form for the repository; the context of an
  activity and the type of the adapters that carry activities out.
\<close>

record outcome =
  oc_succeeded :: bool
  oc_output :: string
  oc_retryable :: bool
  oc_failure_kind :: json
  oc_checkpoint :: obj
  oc_evidence :: "obj list"
  oc_artifacts :: "obj list"

definition failed_outcome_of :: "string \<Rightarrow> bool \<Rightarrow> string \<Rightarrow> obj list \<Rightarrow> outcome" where
  "failed_outcome_of output retry failure evidence_items =
     \<lparr>oc_succeeded = False, oc_output = output, oc_retryable = retry, oc_failure_kind = JStr failure,
      oc_checkpoint = [], oc_evidence = evidence_items, oc_artifacts = []\<rparr>"

definition to_repository_outcome :: "outcome \<Rightarrow> obj" where
  "to_repository_outcome o' =
     [(''status'', JStr (if oc_succeeded o' then ''succeeded'' else ''failed'')),
      (''succeeded'', JBool (oc_succeeded o')), (''retryable'', JBool (oc_retryable o')),
      (''failure_kind'', oc_failure_kind o'), (''output'', JStr (last_n 20000 (oc_output o'))),
      (''artifacts'', JList (map JObj (oc_artifacts o')))]"

definition outcome_asdict :: "outcome \<Rightarrow> obj" where
  "outcome_asdict o' =
     [(''succeeded'', JBool (oc_succeeded o')), (''output'', JStr (oc_output o')),
      (''retryable'', JBool (oc_retryable o')), (''failure_kind'', oc_failure_kind o'),
      (''checkpoint'', JObj (oc_checkpoint o')), (''evidence'', JList (map JObj (oc_evidence o'))),
      (''artifacts'', JList (map JObj (oc_artifacts o')))]"

text \<open>\<open>dict(v)\<close>: a mapping is copied, an empty sequence gives the empty dictionary.\<close>

fun dict_of :: "json \<Rightarrow> obj result" where
  "dict_of (JObj kvs) = Inr kvs"
| "dict_of (JList []) = Inr []"
| "dict_of (JStr []) = Inr []"
| "dict_of (JList _) = Inl (Unsupported ''dict of a list'')"
| "dict_of (JStr _) = Inl (ValueError ''dictionary update sequence'' [])"
| "dict_of _ = Inl (TypeError ''object is not iterable'')"

definition dicts_of :: "obj \<Rightarrow> string \<Rightarrow> obj list result" where
  "dicts_of value k = rbind (list_or_empty (jget value k)) (rmap dict_of)"

definition outcome_from_dict :: "obj \<Rightarrow> outcome result" where
  "outcome_from_dict value =
     rbind (py_str (dget value ''output'' (JStr []))) (\<lambda>output.
     rbind (dict_or_empty (jget value ''checkpoint'')) (\<lambda>checkpoint.
     rbind (dicts_of value ''evidence'') (\<lambda>evidence_items.
     rbind (dicts_of value ''artifacts'') (\<lambda>arts.
     Inr \<lparr>oc_succeeded = truthy (jget value ''succeeded''), oc_output = output,
          oc_retryable = truthy (dget value ''retryable'' (JBool True)),
          oc_failure_kind = jget value ''failure_kind'', oc_checkpoint = checkpoint,
          oc_evidence = evidence_items, oc_artifacts = arts\<rparr>))))"

text \<open>The round trip through the effect ledger, and what the repository sees of an outcome.\<close>

lemma rmap_dict_of [simp]: "rmap dict_of (map JObj ds) = Inr ds"
  by (rule rmap_map_Inr) simp

lemma outcome_roundtrip_dict: "outcome_from_dict (outcome_asdict o') = Inr o'"
  by (cases o')
    (simp add: outcome_from_dict_def outcome_asdict_def dicts_of_def list_or_empty_def jget_def dget_def)

section \<open>Contexts and adapters\<close>

record run_context =
  rc_run :: string
  rc_workspace :: string
  rc_trace_dir :: string
  rc_allow_terminal :: bool
  rc_task :: "string option"
  rc_attempt :: "string option"

type_synonym 's agent = "obj \<Rightarrow> obj option \<Rightarrow> run_context \<Rightarrow> ('s, outcome) step"

definition trace_dir_of :: "string \<Rightarrow> string" where
  "trace_dir_of workspace = path_join (path_join workspace ''.harness'') ''traces''"

definition absolute_artifact_path :: "(string \<Rightarrow> string) \<Rightarrow> string \<Rightarrow> obj \<Rightarrow> obj result" where
  "absolute_artifact_path resolve workspace artifact =
     (if \<not> truthy (jget artifact ''path'') then Inr artifact
      else rbind (py_str (jget artifact ''path'')) (\<lambda>p.
        Inr (if prefix ''/'' p then artifact
             else dset ''path'' (JStr (resolve (path_join workspace p))) artifact)))"

end
