(* ===== verification/Durable_Worker.thy ===== *)
theory Durable_Worker
  imports Agent_Outcome Controller Workflow_Reach
begin

text \<open>
  \<open>DurableWorker\<close> of \<open>orchestrator/runtime.py\<close>: claim one work item, carry its activity out under
  the lease, record what it produced and settle the attempt. Every repository call reads the
  clock and may find the database changed by the other processes (the heartbeat thread of the
  lease among them), which is the parameter \<open>we_others\<close>; the agents act on the rest of the world.
\<close>

record worker_env =
  we_uuid :: "nat \<Rightarrow> string"
  we_base :: rat
  we_now :: "nat \<Rightarrow> time"
  we_others :: "nat \<Rightarrow> db \<Rightarrow> db"
  we_lost :: "nat \<Rightarrow> bool"
  we_planner :: "planner option"
  we_digest :: "int \<Rightarrow> obj \<Rightarrow> string"

record 'e worker_state =
  ws_db :: db
  ws_tick :: nat
  ws_seq :: int
  ws_ext :: 'e

type_synonym 'e activity =
  "(obj \<Rightarrow> ('e worker_state, unit) step) \<Rightarrow> ('e worker_state, bool) step \<Rightarrow> 'e worker_state agent"

record 'e worker =
  dw_id :: string
  dw_capabilities :: "string list"
  dw_target_run :: "string option"
  dw_adapter :: "'e activity"
  dw_put :: "(string \<Rightarrow> obj \<Rightarrow> ('e, obj) step) option"
  dw_is_file :: "string \<Rightarrow> 'e \<Rightarrow> bool"
  dw_resolve :: "string \<Rightarrow> string"
  dw_cwd :: string
  dw_media_type :: "string \<Rightarrow> string option"

section \<open>Repository calls\<close>

definition repo :: "worker_env \<Rightarrow> (time \<Rightarrow> db \<Rightarrow> ('a \<times> db) result) \<Rightarrow> ('e worker_state, 'a) step" where
  "repo env op = (\<lambda>s.
     let db0 = we_others env (ws_tick s) (ws_db s); s0 = s\<lparr>ws_tick := Suc (ws_tick s), ws_db := db0\<rparr> in
     case op (we_now env (ws_tick s)) db0 of
       Inl e \<Rightarrow> (Inl e, s0)
     | Inr (x, db1) \<Rightarrow> (Inr x, s0\<lparr>ws_db := db1\<rparr>))"

definition read_snapshot :: "worker_env \<Rightarrow> string \<Rightarrow> ('e worker_state, aggregate) step" where
  "read_snapshot env r = repo env (\<lambda>_ db. rbind (get_snapshot db r) (\<lambda>ag. Inr (ag, db)))"

definition on_ext :: "('e, 'a) step \<Rightarrow> ('e worker_state, 'a) step" where
  "on_ext m = (\<lambda>s. let (r, x) = m (ws_ext s) in (r, s\<lparr>ws_ext := x\<rparr>))"

text \<open>One beat of the lease heartbeat: \<open>True\<close> when the lease is lost, the error of any other failure.\<close>

definition heartbeat_beat :: "worker_env \<Rightarrow> leased_work_item \<Rightarrow> ('e worker_state, bool) step" where
  "heartbeat_beat env lease =
     shandle (sbind (repo env (\<lambda>now. renew_lease now (leased_attempt_id lease) (leased_fencing_token lease)))
                (\<lambda>_. sret False))
       (\<lambda>e. sret True)"

section \<open>What the activity may use of the worker\<close>

text \<open>\<open>commit_activity_checkpoint\<close>: the worker numbers the checkpoints of the activity.\<close>

definition activity_checkpoint :: "worker_env \<Rightarrow> leased_work_item \<Rightarrow> obj \<Rightarrow> ('e worker_state, unit) step" where
  "activity_checkpoint env lease body =
     sbind (smodify (\<lambda>s. s\<lparr>ws_seq := ws_seq s + 1\<rparr>)) (\<lambda>_.
     sbind (sread ws_seq) (\<lambda>n.
     sbind (repo env (\<lambda>now. commit_checkpoint (we_uuid env) now (leased_attempt_id lease) (leased_fencing_token lease)
                        (dset ''sequence'' (JInt n) body)))
       (\<lambda>_. sret ())))"

definition activity_cancelled :: "worker_env \<Rightarrow> leased_work_item \<Rightarrow> ('e worker_state, bool) step" where
  "activity_cancelled env lease =
     sbind (sread (\<lambda>s. we_lost env (ws_tick s))) (\<lambda>lost.
     if lost then sret True
     else sbind (read_snapshot env (leased_run_id lease)) (\<lambda>ag. sret (ag_status ag = Some RCancelled)))"

definition basename :: "string \<Rightarrow> string" where
  "basename p = rev (takeWhile (\<lambda>c. c \<noteq> CHR ''/'') (rev p))"

definition artifact_roots :: "'e worker \<Rightarrow> string \<Rightarrow> obj \<Rightarrow> string list result" where
  "artifact_roots w workspace policy =
     (if truthy (jget policy ''worktree_root'')
      then rbind (py_str (jget policy ''worktree_root'')) (\<lambda>r. Inr [dw_resolve w workspace, dw_resolve w r])
      else Inr [dw_resolve w workspace])"

definition materialize_artifact ::
    "'e worker \<Rightarrow> string \<Rightarrow> obj \<Rightarrow> obj \<Rightarrow> ('e worker_state, obj) step" where
  "materialize_artifact w workspace policy artifact =
     (if truthy (jget artifact ''id'') \<and> truthy (jget artifact ''uri'') \<and> truthy (jget artifact ''sha256'')
      then sret artifact
      else case dw_put w of
        None \<Rightarrow> slift (Inl (ValueError ''path artifacts require a configured ArtifactStore'' []))
      | Some put \<Rightarrow>
          sbind (sguard (truthy (jget artifact ''path''))
                   (ValueError ''path artifacts require a configured ArtifactStore'' [])) (\<lambda>_.
          sbind (slift (py_str (jget artifact ''path''))) (\<lambda>p.
          let source = dw_resolve w (path_join workspace p) in
          sbind (slift (artifact_roots w workspace policy)) (\<lambda>roots.
          sbind (sguard (list_ex (\<lambda>r. path_inside r source) roots)
                   (PermissionError ''artifact source is outside approved workspace roots'' [])) (\<lambda>_.
          sbind (sread (\<lambda>s. dw_is_file w source (ws_ext s))) (\<lambda>is_file.
          if \<not> is_file then slift (Inl (FileNotFoundError source))
          else on_ext (put source
                 [(''name'', py_or (jget artifact ''name'') (JStr (basename source))),
                  (''media_type'', py_or (jget artifact ''media_type'')
                     (JStr (case dw_media_type w (basename source) of
                              None \<Rightarrow> ''application/octet-stream'' | Some t \<Rightarrow> t))),
                  (''sensitivity'', dget artifact ''sensitivity'' (JStr ''internal''))])))))))"

section \<open>Carrying one lease out\<close>

fun rfilter :: "('a \<Rightarrow> bool result) \<Rightarrow> 'a list \<Rightarrow> 'a list result" where
  "rfilter p [] = Inr []"
| "rfilter p (x # xs) = rbind (p x) (\<lambda>b. rbind (rfilter p xs) (\<lambda>ys. Inr (if b then x # ys else ys)))"

text \<open>The work item with the last ten failures of the items it has to repair.\<close>

definition enriched_item :: "leased_work_item \<Rightarrow> aggregate \<Rightarrow> obj result" where
  "enriched_item lease ag =
     rbind (dict_or_empty (jget (leased_item lease) ''inputs'')) (\<lambda>ins.
     rbind (list_or_empty (jget ins ''failure_work_items'')) (\<lambda>failed.
     rbind (rmap py_str failed) (\<lambda>ids.
     rbind (rfilter (\<lambda>e. in_strings (leased_item_id lease # ids) (jget e ''work_item_id'')) (ag_evidence ag)) (\<lambda>found.
     Inr (dset ''inputs'' (JObj (dset ''failure_evidence'' (JList (map JObj (last_n 10 found))) ins))
            (leased_item lease))))))"

definition effect_key :: "leased_work_item \<Rightarrow> string" where
  "effect_key lease =
     leased_run_id lease @ ''/'' @ leased_item_id lease @ ''/'' @ leased_attempt_id lease @ ''/1''"

definition activity_workspace :: "'e worker \<Rightarrow> leased_work_item \<Rightarrow> obj \<Rightarrow> string result" where
  "activity_workspace w lease policy =
     (if truthy (jget policy ''workspace'')
      then (case jget policy ''workspace'' of
              JStr p \<Rightarrow> Inr (dw_resolve w p)
            | _ \<Rightarrow> Inl (TypeError ''expected str, bytes or os.PathLike object''))
      else Inr (dw_resolve w (path_join (path_join (dw_cwd w) ''workspace'') (leased_run_id lease))))"

definition activity_context :: "leased_work_item \<Rightarrow> string \<Rightarrow> obj \<Rightarrow> run_context" where
  "activity_context lease workspace policy =
     \<lparr>rc_run = leased_run_id lease, rc_workspace = workspace, rc_trace_dir = trace_dir_of workspace,
      rc_allow_terminal = truthy (dget policy ''allow_terminal'' (JBool False)),
      rc_task = Some (leased_item_id lease), rc_attempt = Some (leased_attempt_id lease)\<rparr>"

text \<open>The effect ledger makes the activity of an attempt run once: a completed effect is read back.\<close>

definition perform_effect ::
    "worker_env \<Rightarrow> 'e worker \<Rightarrow> leased_work_item \<Rightarrow> obj \<Rightarrow> run_context \<Rightarrow> ('e worker_state, outcome) step" where
  "perform_effect env w lease item ctx =
     sbind (repo env (\<lambda>now db. Inr (reserve_effect now (effect_key lease) (leased_run_id lease)
              (leased_item_id lease) (leased_attempt_id lease) 1 db))) (\<lambda>(status, stored).
     if status = ''completed'' then
       slift (outcome_from_dict (case stored of None \<Rightarrow> [] | Some d \<Rightarrow> d))
     else
       sbind (dw_adapter w (activity_checkpoint env lease) (activity_cancelled env lease) item
                (leased_checkpoint lease) ctx) (\<lambda>out.
       sbind (repo env (\<lambda>now db. rbind (complete_effect now (effect_key lease) (outcome_asdict out) db)
                (\<lambda>db'. Inr ((), db')))) (\<lambda>_.
       sret out)))"

definition record_outcome ::
    "worker_env \<Rightarrow> 'e worker \<Rightarrow> leased_work_item \<Rightarrow> string \<Rightarrow> obj \<Rightarrow> outcome \<Rightarrow> ('e worker_state, unit) step" where
  "record_outcome env w lease workspace policy out =
     sbind (if oc_checkpoint out \<noteq> [] then activity_checkpoint env lease (oc_checkpoint out) else sret ()) (\<lambda>_.
     sbind (siter (\<lambda>item.
              sbind (repo env (\<lambda>now. record_evidence (we_uuid env) now (leased_run_id lease)
                       (dset ''work_item_id'' (JStr (leased_item_id lease)) item) (''worker:'' @ dw_id w)))
                (\<lambda>_. sret ())) (oc_evidence out)) (\<lambda>_.
     siter (\<lambda>artifact.
              sbind (materialize_artifact w workspace policy artifact) (\<lambda>stored.
              sbind (repo env (\<lambda>now. register_artifact (we_uuid env) now (leased_run_id lease) stored
                       (Some (leased_item_id lease)) (''worker:'' @ dw_id w)))
                (\<lambda>_. sret ()))) (oc_artifacts out)))"

definition settle ::
    "worker_env \<Rightarrow> leased_work_item \<Rightarrow> obj \<Rightarrow> ('e worker_state, unit) step" where
  "settle env lease result =
     sbind (repo env (\<lambda>now. complete_attempt (we_uuid env) (we_base env) now (leased_attempt_id lease)
              (leased_fencing_token lease) result)) (\<lambda>_. sret ())"

definition carry_out :: "worker_env \<Rightarrow> 'e worker \<Rightarrow> leased_work_item \<Rightarrow> ('e worker_state, unit) step" where
  "carry_out env w lease =
     sbind (read_snapshot env (leased_run_id lease)) (\<lambda>ag.
     sbind (slift (activity_workspace w lease (ag_policy ag))) (\<lambda>workspace.
     sbind (smodify (\<lambda>s. s\<lparr>ws_seq := 0\<rparr>)) (\<lambda>_.
     sbind (slift (enriched_item lease ag)) (\<lambda>item.
     sbind (perform_effect env w lease item (activity_context lease workspace (ag_policy ag))) (\<lambda>out.
     sbind (record_outcome env w lease workspace (ag_policy ag) out) (\<lambda>_.
     settle env lease (to_repository_outcome out)))))))"

section \<open>Failures\<close>

definition failure_result :: "py_error \<Rightarrow> obj" where
  "failure_result e =
     [(''status'', JStr ''failed''), (''retryable'', JBool True), (''failure_kind'', JStr (exc_name e)),
      (''message'', JStr (exc_text e))]"

definition interrupt_result :: "bool \<Rightarrow> obj" where
  "interrupt_result cancelled =
     [(''status'', JStr (if cancelled then ''cancelled'' else ''failed'')), (''succeeded'', JBool False),
      (''retryable'', JBool (\<not> cancelled)),
      (''failure_kind'', JStr (if cancelled then ''cancelled'' else ''interrupted''))]"

text \<open>A lease that was lost meanwhile makes the late report void.\<close>

fun lease_lost_quietly :: "py_error \<Rightarrow> ('s, unit) step" where
  "lease_lost_quietly (StaleLeaseError m as) = sret ()"
| "lease_lost_quietly e = slift (Inl e)"

definition on_failure :: "worker_env \<Rightarrow> leased_work_item \<Rightarrow> py_error \<Rightarrow> ('e worker_state, unit) step" where
  "on_failure env lease e =
     (if e = KeyboardInterrupt then
        sbind (shandle
                 (sbind (read_snapshot env (leased_run_id lease)) (\<lambda>ag.
                  settle env lease (interrupt_result (ag_status ag = Some RCancelled))))
                 lease_lost_quietly) (\<lambda>_.
        slift (Inl KeyboardInterrupt))
      else shandle (settle env lease (failure_result e)) lease_lost_quietly)"

definition run_attempt :: "worker_env \<Rightarrow> 'e worker \<Rightarrow> leased_work_item \<Rightarrow> ('e worker_state, unit) step" where
  "run_attempt env w lease =
     sbind (repo env (\<lambda>now. start_attempt (we_uuid env) now (leased_attempt_id lease) (leased_fencing_token lease))) (\<lambda>_.
     shandle (carry_out env w lease) (on_failure env lease))"

definition execute_lease :: "worker_env \<Rightarrow> 'e worker \<Rightarrow> leased_work_item \<Rightarrow> ('e worker_state, unit) step" where
  "execute_lease env w lease =
     sbind (run_attempt env w lease) (\<lambda>_.
     sbind (repo env (\<lambda>now. advance 10 10 (we_others env) (we_uuid env) now (we_planner env) (we_digest env)
              (leased_run_id lease))) (\<lambda>_. sret ()))"

definition run_once :: "worker_env \<Rightarrow> 'e worker \<Rightarrow> ('e worker_state, bool) step" where
  "run_once env w =
     sbind (repo env (\<lambda>now. release_expired_leases (we_uuid env) (we_base env) now 100)) (\<lambda>_.
     sbind (repo env (\<lambda>now. claim_work (we_uuid env) now (dw_id w) (dw_capabilities w) 1 (dw_target_run w))) (\<lambda>leases.
     case leases of
       [] \<Rightarrow> sret False
     | lease # _ \<Rightarrow> sbind (execute_lease env w lease) (\<lambda>_. sret True)))"

end
