(* ===== verification/Worker_Laws.thy ===== *)
theory Worker_Laws
  imports Durable_Worker Controller_Laws
begin

text \<open>
  The laws of the worker: every step of it preserves the invariant of the tables, whatever the
  agents and the other processes do, and a report that the repository accepts closes the attempt.
\<close>

section \<open>The controller preserves the tables well-formed\<close>

lemma commit_plan_inv:
  "commit_plan uuid now r plan v reason act db = Inr (ag, db') \<Longrightarrow> db_inv db \<Longrightarrow> db_inv db'"
  by (auto simp: commit_plan_def result_simps Let_def intro: append_new_inv)

lemma apply_patch_inv:
  "apply_patch uuid now r patch act db = Inr (ag, db') \<Longrightarrow> db_inv db \<Longrightarrow> db_inv db'"
  by (auto simp: apply_patch_def result_simps split: option.splits if_splits intro: commit_plan_inv)

lemma ensure_plan_inv: "ensure_plan uuid now port r db = Inr (ag, db') \<Longrightarrow> db_inv db \<Longrightarrow> db_inv db'"
  by (auto simp: ensure_plan_def result_simps split: option.splits if_splits intro: commit_plan_inv)

lemma replan_inv: "replan_from_evidence uuid now port r db = Inr (ag, db') \<Longrightarrow> db_inv db \<Longrightarrow> db_inv db'"
  by (auto simp: replan_from_evidence_def result_simps split: option.splits intro: apply_patch_inv)

lemma reconcile_loop_inv:
  assumes "reconcile_loop k interfere uuid now pl digest r db = Inr (d, db')" and "db_inv db"
    and keep: "\<And>j db. db_inv db \<Longrightarrow> db_inv (interfere j db)"
  shows "db_inv db'"
  using assms(1,2)
proof (induction k arbitrary: db)
  case (Suc k)
  from Suc.prems(1) obtain ag d0 evs n where
    "get_snapshot db r = Inr ag" and "decide uuid (uuids db) now pl digest ag = Inr (d0, evs, n)"
    and rest: "(let db1 = db\<lparr>uuids := n\<rparr> in if evs = [] then Inr (d0, db1)
      else let db2 = interfere k db1 in
        (case append_events uuid r (ag_version ag) evs db2 of
          Inr (ag', db') \<Rightarrow> Inr (d0\<lparr>cd_version := ag_version ag'\<rparr>, db')
        | Inl (ConcurrencyError _ _) \<Rightarrow> reconcile_loop k interfere uuid now pl digest r db2
        | Inl e \<Rightarrow> Inl e)) = Inr (d, db')"
    by (auto simp: result_simps)
  have inv1: "db_inv (db\<lparr>uuids := n\<rparr>)" using Suc.prems(2) by simp
  then have inv2: "db_inv (interfere k (db\<lparr>uuids := n\<rparr>))" by (rule keep)
  show ?case
    using rest inv1 Suc.IH [OF _ inv2] append_events_inv [OF _ inv2]
    by (auto simp: Let_def split: if_splits sum.splits py_error.splits)
qed simp

lemma advance_inv:
  assumes "advance m k interfere uuid now port digest r db = Inr (d, db')" and "db_inv db"
    and keep: "\<And>j db. db_inv db \<Longrightarrow> db_inv (interfere j db)"
  shows "db_inv db'"
  using assms(1,2)
proof (induction k arbitrary: db)
  case (Suc k)
  from Suc.prems(1) obtain ag where "get_snapshot db r = Inr ag"
    and rest: "(if ag_plan ag = None then
       rbind (ensure_plan uuid now port r db) (\<lambda>(_, db1). advance m k interfere uuid now port digest r db1)
     else
       rbind (reconcile interfere uuid now (port \<noteq> None) digest r db) (\<lambda>(d, db1).
       if cd_action d \<noteq> decision_type_value DReplan \<or> port = None then Inr (d, db1)
       else rbind (replan_from_evidence uuid now port r db1) (\<lambda>(_, db2).
         advance m k interfere uuid now port digest r db2))) = Inr (d, db')"
    unfolding advance.simps rbind_eq_Inr by blast
  show ?case
  proof (cases "ag_plan ag = None")
    case True
    with rest obtain a db1 where "ensure_plan uuid now port r db = Inr (a, db1)"
      and "advance m k interfere uuid now port digest r db1 = Inr (d, db')"
      by (auto simp: rbind_eq_Inr)
    then show ?thesis using Suc.IH ensure_plan_inv Suc.prems(2) by blast
  next
    case False
    with rest obtain d1 db1 where rec: "reconcile interfere uuid now (port \<noteq> None) digest r db = Inr (d1, db1)"
      and more: "(if cd_action d1 \<noteq> decision_type_value DReplan \<or> port = None then Inr (d1, db1)
       else rbind (replan_from_evidence uuid now port r db1) (\<lambda>(_, db2).
         advance m k interfere uuid now port digest r db2)) = Inr (d, db')"
      by (simp add: rbind_eq_Inr) blast
    have inv1: "db_inv db1"
      using reconcile_loop_inv [OF rec [unfolded reconcile_def] Suc.prems(2) keep] .
    show ?thesis
    proof (cases "cd_action d1 \<noteq> decision_type_value DReplan \<or> port = None")
      case True
      with more inv1 show ?thesis by (simp split: if_splits)
    next
      case False
      with more obtain a db2 where "replan_from_evidence uuid now port r db1 = Inr (a, db2)"
        and "advance m k interfere uuid now port digest r db2 = Inr (d, db')"
        unfolding if_not_P [OF False] rbind_eq_Inr by auto
      then show ?thesis using Suc.IH replan_inv inv1 by blast
    qed
  qed
qed simp

section \<open>The worker keeps the tables well-formed\<close>

abbreviation ws_inv :: "'e worker_state \<Rightarrow> bool" where
  "ws_inv s \<equiv> db_inv (ws_db s)"

definition others_ok :: "worker_env \<Rightarrow> bool" where
  "others_ok env \<longleftrightarrow> (\<forall>n db. db_inv db \<longrightarrow> db_inv (we_others env n db))"

text \<open>An adapter touches the tables only through the calls it is given.\<close>

definition adapter_ok :: "'e worker \<Rightarrow> bool" where
  "adapter_ok w \<longleftrightarrow>
     (\<forall>cp cc item c ctx. (\<forall>body. preserves ws_inv (cp body)) \<longrightarrow> preserves ws_inv cc \<longrightarrow>
        preserves ws_inv (dw_adapter w cp cc item c ctx))"

lemma preserves_repo:
  assumes "others_ok env" and op: "\<And>now db x db'. op now db = Inr (x, db') \<Longrightarrow> db_inv db \<Longrightarrow> db_inv db'"
  shows "preserves ws_inv (repo env op)"
  unfolding preserves_def
proof (intro allI impI)
  fix s assume "ws_inv s"
  with assms(1) have "db_inv (we_others env (ws_tick s) (ws_db s))" by (simp add: others_ok_def)
  then show "ws_inv (snd (repo env op s))"
    using op by (auto simp: repo_def Let_def split: sum.splits)
qed

lemma preserves_read: "others_ok env \<Longrightarrow> preserves ws_inv (read_snapshot env r)"
  unfolding read_snapshot_def by (rule preserves_repo) (auto simp: result_simps)

lemma preserves_checkpoint: "others_ok env \<Longrightarrow> preserves ws_inv (activity_checkpoint env lease body)"
  unfolding activity_checkpoint_def
  by (intro preserves_bind preserves_modify preserves_ret preserves_repo) (auto dest: commit_checkpoint_inv)

lemma preserves_cancelled: "others_ok env \<Longrightarrow> preserves ws_inv (activity_cancelled env lease)"
  unfolding activity_cancelled_def by (auto intro!: preserves_bind preserves_read)

lemma preserves_heartbeat: "others_ok env \<Longrightarrow> preserves ws_inv (heartbeat_beat env lease)"
  unfolding heartbeat_beat_def
  by (intro preserves_handle preserves_bind preserves_ret preserves_repo) (auto dest: renew_lease_inv)

lemma preserves_ext: "preserves ws_inv (on_ext m)"
  by (simp add: preserves_def on_ext_def split: prod.splits)

lemma preserves_materialize: "preserves ws_inv (materialize_artifact w workspace policy artifact)"
  unfolding materialize_artifact_def Let_def
  by (auto split: option.splits intro!: preserves_bind preserves_ext)

lemma reserve_inv: "reserve_effect now e r i a n db = (x, db') \<Longrightarrow> db_inv db \<Longrightarrow> db_inv db'"
  using reserve_effect_inv by (metis snd_conv)

lemma preserves_effect:
  assumes "others_ok env" and "adapter_ok w"
  shows "preserves ws_inv (perform_effect env w lease item ctx)"
proof -
  have "preserves ws_inv (dw_adapter w (activity_checkpoint env lease) (activity_cancelled env lease) item (leased_checkpoint lease) ctx)"
    using assms(2) preserves_checkpoint [OF assms(1)] preserves_cancelled [OF assms(1)]
    unfolding adapter_ok_def by blast
  moreover have "preserves ws_inv (repo env (\<lambda>now db. Inr (reserve_effect now e r i a n db)))" for e r i a n
    using assms(1) by (intro preserves_repo) (auto dest: reserve_inv)
  moreover have "preserves ws_inv (repo env (\<lambda>now db. rbind (complete_effect now e out db) (\<lambda>db'. Inr ((), db'))))" for e out
    using assms(1) by (intro preserves_repo) (auto simp: result_simps intro: complete_effect_inv)
  ultimately show ?thesis
    unfolding perform_effect_def by (auto intro!: preserves_bind)
qed

lemma preserves_record: "others_ok env \<Longrightarrow> preserves ws_inv (record_outcome env w lease workspace policy out)"
  unfolding record_outcome_def
  by (auto intro!: preserves_bind preserves_iter preserves_checkpoint preserves_materialize preserves_repo
      dest: register_artifact_inv simp: record_evidence_def result_simps intro: append_new_inv)

lemma preserves_settle: "others_ok env \<Longrightarrow> preserves ws_inv (settle env lease res)"
  unfolding settle_def by (intro preserves_bind preserves_ret preserves_repo) (auto dest: complete_attempt_inv)

lemma preserves_quietly: "preserves ws_inv (lease_lost_quietly e)"
  by (cases e) auto

lemma preserves_failure: "others_ok env \<Longrightarrow> preserves ws_inv (on_failure env lease e)"
  unfolding on_failure_def
  by (auto intro!: preserves_bind preserves_handle preserves_settle preserves_quietly preserves_read)

lemma preserves_carry_out:
  assumes "others_ok env" and "adapter_ok w"
  shows "preserves ws_inv (carry_out env w lease)"
  unfolding carry_out_def using assms
  by (intro preserves_bind preserves_read preserves_ret preserves_modify preserves_effect preserves_record
      preserves_settle) simp_all

lemma preserves_attempt:
  assumes "others_ok env" and "adapter_ok w"
  shows "preserves ws_inv (run_attempt env w lease)"
  unfolding run_attempt_def using assms
  by (intro preserves_bind preserves_handle preserves_carry_out preserves_failure preserves_repo)
    (auto dest: start_attempt_inv)

lemma preserves_execute:
  assumes "others_ok env" and "adapter_ok w"
  shows "preserves ws_inv (execute_lease env w lease)"
  unfolding execute_lease_def using assms
  by (intro preserves_bind preserves_attempt preserves_ret preserves_repo)
    (simp_all, erule (1) advance_inv, simp add: others_ok_def)

lemma run_once_preserves:
  assumes "others_ok env" and "adapter_ok w"
  shows "preserves ws_inv (run_once env w)"
  unfolding run_once_def using assms
  by (auto intro!: preserves_bind preserves_execute preserves_repo dest: release_expired_leases_inv claim_work_inv
      split: list.split)

section \<open>An attempt that was carried out is settled\<close>

lemma complete_attempt_closes:
  assumes run: "complete_attempt uuid base now a fence res db = Inr (ag, db')" and inv: "db_inv db"
  shows "\<exists>att. find_attempt db' a = Some att \<and> \<not> live_attempt (at_status att)"
proof -
  from run obtain att item where lock: "lock_attempt db a fence = Inr (att, item)"
    unfolding complete_attempt_def rbind_eq_Inr by auto
  then have att: "find_attempt db a = Some att" "at_id att = a"
    by (auto simp: result_simps dest: find_attempt_mem)
  consider "it_status item = WCancelled" | "it_status item \<noteq> WCancelled" "at_status att \<in> {AStatus WSucceeded, AStatus WFailed}"
    | "it_status item \<noteq> WCancelled" "at_status att \<notin> {AStatus WSucceeded, AStatus WFailed}" by blast
  then show ?thesis
  proof cases
    case 1
    let ?close = "\<lambda>row. row\<lparr>at_status := AStatus WCancelled, at_completed := Some now,
      at_outcome := Some (dset ''cancelled'' (JBool True) res)\<rparr>"
    from run [unfolded complete_attempt_def lock rbind_Inr prod.case if_P [OF 1]]
    obtain db3 where "release_integration_lock att item now (update_items (at_run att) (at_item att)
        (\<lambda>row. row\<lparr>it_owner := None, it_lease := None, it_attempt := None, it_updated := now\<rparr>)
        (update_attempt a ?close db)) = Inr db3" and "db' = db3"
      by (auto simp: complete_cancelled_def rbind_eq_Inr Let_def att(2))
    then have "attempts db' = attempts (update_attempt a ?close db)"
      by (auto simp: update_items_def dest!: release_integration_lock_tables)
    then have "find_attempt db' a = Some (?close att)"
      using find_cong(2) [of db' "update_attempt a ?close db" a] att by (simp add: find_attempt_update)
    then show ?thesis by (simp add: live_attempt_def)
  next
    case 2
    from run [unfolded complete_attempt_def lock rbind_Inr prod.case if_not_P [OF 2(1)] Let_def]
    obtain ok where "(if at_status att \<in> {AStatus WSucceeded, AStatus WFailed} then
        if at_status att = AStatus (if ok then WSucceeded else WFailed) \<and>
           obj_eq (case at_outcome att of None \<Rightarrow> [] | Some d \<Rightarrow> d) res
        then rbind (snapshot_locked db (at_run att)) (\<lambda>ag. Inr (ag, db))
        else Inl (StaleLeaseError ''attempt {} already completed'' [a])
      else Inl (StaleLeaseError [] [])) = Inr (ag, db')"
      unfolding rbind_eq_Inr if_P [OF 2(2)] by blast
    then have "db' = db" by (auto simp: rbind_eq_Inr split: if_splits)
    with att 2 show ?thesis by (auto simp: live_attempt_def)
  next
    case 3
    obtain ok where "find_attempt db' a = Some (att\<lparr>at_status := AStatus (if ok then WSucceeded else WFailed),
        at_completed := Some now, at_outcome := Some res\<rparr>)"
      by (rule complete_liveE [OF inv run lock 3])
    then show ?thesis by (cases ok) (simp_all add: live_attempt_def)
  qed
qed

lemma settle_closes:
  assumes "settle env lease res s = (Inr (), t)" and "ws_inv s" and "others_ok env"
  shows "\<exists>att. find_attempt (ws_db t) (leased_attempt_id lease) = Some att \<and> \<not> live_attempt (at_status att)"
proof -
  have inv: "db_inv (we_others env (ws_tick s) (ws_db s))" using assms(2,3) by (simp add: others_ok_def)
  from assms(1) obtain ag db' where
    "complete_attempt (we_uuid env) (we_base env) (we_now env (ws_tick s)) (leased_attempt_id lease)
       (leased_fencing_token lease) res (we_others env (ws_tick s) (ws_db s)) = Inr (ag, db')" "ws_db t = db'"
    by (auto simp: settle_def repo_def result_simps Let_def split: sum.splits)
  with complete_attempt_closes [OF this(1) inv] show ?thesis by simp
qed

text \<open>The report of an attempt is void: the repository refuses it because the lease was lost.\<close>

definition report_refused :: "worker_env \<Rightarrow> leased_work_item \<Rightarrow> db \<Rightarrow> bool" where
  "report_refused env lease db \<longleftrightarrow>
     (\<exists>now res m as. complete_attempt (we_uuid env) (we_base env) now (leased_attempt_id lease)
        (leased_fencing_token lease) res db = Inl (StaleLeaseError m as))"

lemma settle_stale:
  assumes "settle env lease res s = (Inl (StaleLeaseError m as), t)"
  shows "report_refused env lease (ws_db t)"
  unfolding report_refused_def using assms
  by (auto simp: settle_def repo_def sbind_apply Let_def split: sum.splits) blast

definition attempt_settled :: "worker_env \<Rightarrow> leased_work_item \<Rightarrow> db \<Rightarrow> bool" where
  "attempt_settled env lease db \<longleftrightarrow>
     (\<exists>att. find_attempt db (leased_attempt_id lease) = Some att \<and> \<not> live_attempt (at_status att)) \<or>
     report_refused env lease db"

lemma carry_out_settles:
  assumes "others_ok env" and "adapter_ok w" and "ws_inv s" and "carry_out env w lease s = (Inr (), t)"
  shows "\<exists>res s'. settle env lease res s' = (Inr (), t) \<and> ws_inv s'"
proof -
  from assms(4) obtain ag s1 ws item out s2 s3 u where
    s1: "read_snapshot env (leased_run_id lease) s = (Inr ag, s1)"
    and s2: "perform_effect env w lease item (activity_context lease ws (ag_policy ag)) (s1\<lparr>ws_seq := 0\<rparr>) = (Inr out, s2)"
    and s3: "record_outcome env w lease ws (ag_policy ag) out s2 = (Inr u, s3)"
    and fin: "settle env lease (to_repository_outcome out) s3 = (Inr (), t)"
    by (auto simp: carry_out_def result_simps)
  have "ws_inv (s1\<lparr>ws_seq := 0\<rparr>)" using preservesD [OF preserves_read [OF assms(1)] assms(3) s1] by simp
  from preservesD [OF preserves_effect [OF assms(1,2)] this s2] have "ws_inv s2" .
  from preservesD [OF preserves_record [OF assms(1)] this s3] have "ws_inv s3" .
  with fin show ?thesis by blast
qed

lemma shandle_eq_Inr:
  "shandle m h s = (Inr x, t) \<longleftrightarrow> m s = (Inr x, t) \<or> (\<exists>e s'. m s = (Inl e, s') \<and> h e s' = (Inr x, t))"
  by (auto simp: shandle_def split: prod.splits sum.splits)

lemma quietly_eq_Inr: "lease_lost_quietly e s = (Inr x, t) \<longleftrightarrow> s = t \<and> (\<exists>m as. e = StaleLeaseError m as)"
  by (cases e) auto

end
