(* ===== verification/Git_Workspace.thy ===== *)
theory Git_Workspace
  imports Steps
begin

text \<open>
  \<open>orchestrator/git_workspace.py\<close>: one worktree and branch per work item, and serialized merges.
  The process runner, the existence test of the file system and the resolution of paths are
  parameters; the state \<open>'s\<close> is whatever they act on.
\<close>

text \<open>A command run in a directory gives its return code, output and error output.\<close>

type_synonym 's runner = "string list \<Rightarrow> string \<Rightarrow> 's \<Rightarrow> (int \<times> string \<times> string) \<times> 's"

record 's git_manager =
  gm_repository :: string
  gm_root :: string
  gm_runner :: "'s runner"
  gm_exists :: "string \<Rightarrow> 's \<Rightarrow> bool"
  gm_resolve_path :: "string \<Rightarrow> string"

record prepared_workspace =
  pw_path :: string
  pw_branch :: string
  pw_base :: string

record integration_result =
  ir_succeeded :: bool
  ir_commit :: "string option"
  ir_conflict :: string

section \<open>Names\<close>

definition ref_char :: "char \<Rightarrow> bool" where
  "ref_char c \<longleftrightarrow>
     (let n = of_char c :: nat in
      97 \<le> n \<and> n \<le> 122 \<or> 65 \<le> n \<and> n \<le> 90 \<or> 48 \<le> n \<and> n \<le> 57 \<or>
      c \<in> {CHR ''.'', CHR ''_'', CHR ''-''})"

text \<open>Each maximal run of other characters becomes one dash.\<close>

fun dash_runs :: "bool \<Rightarrow> string \<Rightarrow> string" where
  "dash_runs in_run [] = []"
| "dash_runs in_run (c # cs) =
     (if ref_char c then c # dash_runs False cs
      else if in_run then dash_runs True cs
      else CHR ''-'' # dash_runs True cs)"

definition safe_ref :: "string \<Rightarrow> string result" where
  "safe_ref value =
     (let normalized = strip_chars {CHR ''.'', CHR ''-''} (dash_runs False value) in
      rbind (raise_unless (normalized \<noteq> [] \<and> normalized \<noteq> ''HEAD'' \<and> normalized \<noteq> ''@'')
               (ValueError ''invalid git work identifier'' [])) (\<lambda>_.
      Inr (take 100 normalized)))"

section \<open>The manager\<close>

definition git_resolve :: "'s git_manager \<Rightarrow> string \<Rightarrow> string \<Rightarrow> string \<Rightarrow> prepared_workspace result" where
  "git_resolve gm run_id item_id base =
     rbind (safe_ref run_id) (\<lambda>r.
     rbind (safe_ref item_id) (\<lambda>i.
     let path = gm_resolve_path gm (path_join (path_join (gm_root gm) r) i) in
     rbind (raise_unless (path_inside (gm_root gm) path)
              (ValueError ''worktree path escaped configured root'' [])) (\<lambda>_.
     Inr \<lparr>pw_path = path, pw_branch = ''harness/'' @ r @ ''/'' @ i, pw_base = base\<rparr>)))"

definition git_call :: "'s git_manager \<Rightarrow> string list \<Rightarrow> string \<Rightarrow> ('s, int \<times> string \<times> string) step" where
  "git_call gm command cwd = (\<lambda>s. let (r, s') = gm_runner gm command cwd s in (Inr r, s'))"

definition run_git :: "'s git_manager \<Rightarrow> string list \<Rightarrow> string \<Rightarrow> ('s, string) step" where
  "run_git gm command cwd =
     sbind (git_call gm command cwd) (\<lambda>(code, out, err).
     if code \<noteq> 0
     then slift (Inl (Raised ''RuntimeError''
            (''git command failed ('' @ show_int code @ ''): '' @ last_n 4000 (if err = [] then out else err))))
     else sret out)"

definition git_prepare :: "'s git_manager \<Rightarrow> string \<Rightarrow> string \<Rightarrow> string \<Rightarrow> ('s, prepared_workspace) step" where
  "git_prepare gm run_id item_id base =
     sbind (slift (git_resolve gm run_id item_id base)) (\<lambda>ws.
     sbind (sread (gm_exists gm (pw_path ws))) (\<lambda>present.
     if present
     then sbind (run_git gm [''git'', ''rev-parse'', ''--is-inside-work-tree''] (pw_path ws)) (\<lambda>_. sret ws)
     else
       sbind (git_call gm [''git'', ''show-ref'', ''--verify'', ''--quiet'', ''refs/heads/'' @ pw_branch ws]
                (gm_repository gm)) (\<lambda>(code, _, _).
       sbind (run_git gm
                ([''git'', ''worktree'', ''add''] @ (if code = 0 then [] else [''-b'', pw_branch ws]) @
                 [pw_path ws, if code = 0 then pw_branch ws else base]) (gm_repository gm)) (\<lambda>_.
       sret ws))))"

definition git_head :: "'s git_manager \<Rightarrow> string \<Rightarrow> ('s, string) step" where
  "git_head gm cwd =
     sbind (run_git gm [''git'', ''rev-parse'', ''HEAD''] cwd) (\<lambda>out. sret (py_strip out))"

definition git_commit :: "'s git_manager \<Rightarrow> prepared_workspace \<Rightarrow> string \<Rightarrow> ('s, string) step" where
  "git_commit gm ws message =
     sbind (run_git gm [''git'', ''add'', ''-A''] (pw_path ws)) (\<lambda>_.
     sbind (run_git gm [''git'', ''commit'', ''-m'', message, ''--allow-empty''] (pw_path ws)) (\<lambda>_.
     git_head gm (pw_path ws)))"

definition porcelain_paths :: "string \<Rightarrow> string list" where
  "porcelain_paths out =
     map (\<lambda>line. to_slashes (py_strip (drop 3 line))) (filter (\<lambda>line. 4 \<le> length line) (splitlines out))"

definition git_changed_files :: "'s git_manager \<Rightarrow> prepared_workspace \<Rightarrow> ('s, string list) step" where
  "git_changed_files gm ws =
     sbind (run_git gm [''git'', ''status'', ''--porcelain'', ''--untracked-files=all''] (pw_path ws))
       (\<lambda>out. sret (porcelain_paths out))"

definition git_integrate :: "'s git_manager \<Rightarrow> prepared_workspace \<Rightarrow> string \<Rightarrow> ('s, integration_result) step" where
  "git_integrate gm ws target =
     sbind (run_git gm [''git'', ''switch'', target] (gm_repository gm)) (\<lambda>_.
     sbind (git_call gm [''git'', ''merge'', ''--no-ff'', pw_branch ws, ''-m'', ''Integrate '' @ pw_branch ws]
              (gm_repository gm)) (\<lambda>(code, out, err).
     if code \<noteq> 0
     then sbind (git_call gm [''git'', ''merge'', ''--abort''] (gm_repository gm)) (\<lambda>_.
          sret \<lparr>ir_succeeded = False, ir_commit = None,
                ir_conflict = last_n 20000 (out @ [CHR 0x0A] @ err)\<rparr>)
     else sbind (git_head gm (gm_repository gm)) (\<lambda>commit.
          sret \<lparr>ir_succeeded = True, ir_commit = Some commit, ir_conflict = []\<rparr>)))"

definition git_remove :: "'s git_manager \<Rightarrow> prepared_workspace \<Rightarrow> ('s, unit) step" where
  "git_remove gm ws =
     sbind (sguard (path_inside (gm_root gm) (pw_path ws))
              (ValueError ''refusing to remove worktree outside configured root'' [])) (\<lambda>_.
     sbind (run_git gm [''git'', ''worktree'', ''remove'', ''--force'', pw_path ws] (gm_repository gm))
       (\<lambda>_. sret ()))"

section \<open>Safe references\<close>

lemma dash_runs_ref: "c \<in> set (dash_runs b s) \<Longrightarrow> ref_char c"
  by (induction b s rule: dash_runs.induct) (auto simp: ref_char_def split: if_splits)

lemma dropWhile_not_hd: "dropWhile p xs \<noteq> [] \<Longrightarrow> \<not> p (hd (dropWhile p xs))"
  by (rule hd_dropWhile) simp

lemma strip_chars_set: "set (strip_chars cs s) \<subseteq> set s"
  by (auto simp: strip_chars_def dest!: set_dropWhileD)

lemma hd_strip_chars: "strip_chars cs s \<noteq> [] \<Longrightarrow> hd (strip_chars cs s) \<notin> cs"
proof -
  let ?l = "dropWhile (\<lambda>c. c \<in> cs) s"
  assume ne: "strip_chars cs s \<noteq> []"
  then have l: "?l \<noteq> []" by (auto simp: strip_chars_def dest: set_dropWhileD)
  obtain ys where "?l = strip_chars cs s @ ys"
    unfolding strip_chars_def by (metis rev_append rev_rev_ident takeWhile_dropWhile_id)
  with ne have "hd (strip_chars cs s) = hd ?l" by simp
  with hd_dropWhile [OF l] show ?thesis by simp
qed

text \<open>A safe reference is a non-empty name without separators that is neither \<open>.\<close> nor \<open>..\<close>.\<close>

lemma safe_ref_name:
  assumes "safe_ref v = Inr r"
  shows "r \<noteq> []" "\<forall>c\<in>set r. ref_char c" "hd r \<noteq> CHR ''.''" "length r \<le> 100"
proof -
  let ?n = "strip_chars {CHR ''.'', CHR ''-''} (dash_runs False v)"
  from assms have r: "r = take 100 ?n" "?n \<noteq> []" by (auto simp: safe_ref_def Let_def result_simps)
  show "r \<noteq> []" "length r \<le> 100" using r by simp_all
  show "\<forall>c\<in>set r. ref_char c"
    using r(1) strip_chars_set dash_runs_ref by (metis in_set_takeD subsetD)
  show "hd r \<noteq> CHR ''.''" using hd_strip_chars [OF r(2)] r by (simp add: hd_take)
qed

end
