(* ===== verification/Git_Adapter.thy ===== *)
theory Git_Adapter
  imports Git_Workspace Agent_Outcome "HOL-Library.Char_ord" "HOL-Library.List_Lexorder"
begin

text \<open>
  \<open>GitWorktreeAgentAdapter\<close> of \<open>orchestrator/runtime.py\<close>: writing work runs in a worktree of its
  own and is committed, verification may not change the commit it looks at, and integration merges
  the verified branch. The inner adapter is a parameter.
\<close>

definition verifier_writable :: "string list" where
  "verifier_writable = [''feedback.md'', ''progress.md'']"

text \<open>The item whose worktree is used: a named one, the last dependency, or the item itself.\<close>

definition owner_item :: "obj \<Rightarrow> obj \<Rightarrow> string result" where
  "owner_item item ins =
     (if truthy (jget ins ''workspace_item_id'') then py_str (jget ins ''workspace_item_id'')
      else case py_or (jget item ''dependencies'') (JList [jget item ''id'']) of
             JList xs \<Rightarrow> py_str (last xs)
           | JStr s \<Rightarrow> Inr [last s]
           | JObj _ \<Rightarrow> Inl (KeyError ''-1'')
           | _ \<Rightarrow> Inl (TypeError ''object is not subscriptable''))"

definition isolated :: "prepared_workspace \<Rightarrow> run_context \<Rightarrow> run_context" where
  "isolated ws ctx = ctx\<lparr>rc_workspace := pw_path ws, rc_trace_dir := trace_dir_of (pw_path ws)\<rparr>"

definition commit_text :: "string option \<Rightarrow> string" where
  "commit_text c = (case c of None \<Rightarrow> ''None'' | Some t \<Rightarrow> t)"

definition integrate_item :: "'s git_manager \<Rightarrow> string \<Rightarrow> string \<Rightarrow> string \<Rightarrow> string \<Rightarrow> ('s, outcome) step" where
  "integrate_item gm run_id owner base target =
     sbind (slift (git_resolve gm run_id owner base)) (\<lambda>ws.
     sbind (sread (gm_exists gm (pw_path ws))) (\<lambda>present.
     if \<not> present then
       sret (failed_outcome_of ''integration workspace is missing'' False ''integration_workspace_missing'' [])
     else
       sbind (git_integrate gm ws target) (\<lambda>r.
       if \<not> ir_succeeded r then
         sret (failed_outcome_of (ir_conflict r) False ''merge_conflict''
           [[(''kind'', JStr ''integration_conflict''), (''branch'', JStr (pw_branch ws)),
             (''details'', JStr (ir_conflict r))]])
       else
         sbind (git_remove gm ws) (\<lambda>_.
         sret \<lparr>oc_succeeded = True,
               oc_output = ''integrated '' @ pw_branch ws @ '' at '' @ commit_text (ir_commit r),
               oc_retryable = True, oc_failure_kind = JNull,
               oc_checkpoint = [(''commit'', jopt JStr (ir_commit r)), (''branch'', JStr target)],
               oc_evidence = [[(''kind'', JStr ''integration_result''), (''branch'', JStr (pw_branch ws)),
                               (''commit'', jopt JStr (ir_commit r))]],
               oc_artifacts = []\<rparr>))))"

definition execute_item ::
    "'s git_manager \<Rightarrow> 's agent \<Rightarrow> obj \<Rightarrow> obj option \<Rightarrow> run_context \<Rightarrow> string \<Rightarrow> ('s, outcome) step" where
  "execute_item gm inner item checkpoint ctx base =
     sbind (slift (jindex item ''id'')) (\<lambda>key.
     sbind (slift (py_str key)) (\<lambda>item_id.
     sbind (git_prepare gm (rc_run ctx) item_id base) (\<lambda>ws.
     sbind (inner item checkpoint (isolated ws ctx)) (\<lambda>out.
     if \<not> oc_succeeded out then sret out
     else
       sbind (git_commit gm ws (''Harness '' @ rc_run ctx @ ''/'' @ item_id)) (\<lambda>commit.
       sbind (slift (rmap (absolute_artifact_path (gm_resolve_path gm) (pw_path ws)) (oc_artifacts out))) (\<lambda>arts.
       sret (out\<lparr>oc_checkpoint := dset ''branch'' (JStr (pw_branch ws)) (dset ''commit'' (JStr commit) (oc_checkpoint out)),
                 oc_artifacts := arts,
                 oc_evidence := oc_evidence out @
                   [[(''kind'', JStr ''workspace_revision''), (''work_item_id'', key),
                     (''commit'', JStr commit), (''branch'', JStr (pw_branch ws))]]\<rparr>)))))))"

definition foreign_changes :: "string list \<Rightarrow> string list \<Rightarrow> string list" where
  "foreign_changes before after =
     sort (remdups (filter (\<lambda>p. p \<notin> set before \<and> p \<notin> set verifier_writable \<and> \<not> prefix ''.harness/'' p) after))"

definition verify_item ::
    "'s git_manager \<Rightarrow> 's agent \<Rightarrow> obj \<Rightarrow> obj option \<Rightarrow> run_context \<Rightarrow> string \<Rightarrow> string \<Rightarrow> ('s, outcome) step" where
  "verify_item gm inner item checkpoint ctx owner base =
     sbind (slift (git_resolve gm (rc_run ctx) owner base)) (\<lambda>ws.
     sbind (sread (gm_exists gm (pw_path ws))) (\<lambda>present.
     if \<not> present then
       sret (failed_outcome_of ''verification workspace is missing'' False ''verification_workspace_missing'' [])
     else
       sbind (git_head gm (pw_path ws)) (\<lambda>commit_before.
       sbind (git_changed_files gm ws) (\<lambda>before.
       sbind (inner item checkpoint (isolated ws ctx)) (\<lambda>out.
       sbind (git_head gm (pw_path ws)) (\<lambda>commit_after.
       sbind (git_changed_files gm ws) (\<lambda>after.
       if commit_before \<noteq> commit_after \<or> foreign_changes before after \<noteq> [] then
         sret (failed_outcome_of ''verifier modified the immutable source snapshot'' False
           ''verifier_mutated_workspace''
           [[(''kind'', JStr ''verification_isolation_violation''), (''commit_before'', JStr commit_before),
             (''commit_after'', JStr commit_after), (''changed_files'', jstrs (foreign_changes before after))]])
       else
         sbind (slift (rmap (absolute_artifact_path (gm_resolve_path gm) (pw_path ws)) (oc_artifacts out))) (\<lambda>arts.
         sret (out\<lparr>oc_artifacts := arts,
                   oc_evidence := oc_evidence out @
                     [[(''kind'', JStr ''verification_revision''), (''commit'', JStr commit_before)]]\<rparr>)))))))))"

definition git_agent :: "'s git_manager \<Rightarrow> 's agent \<Rightarrow> 's agent" where
  "git_agent gm inner item checkpoint ctx =
     sbind (slift (py_str (dget item ''kind'' (JStr ''execute'')))) (\<lambda>k.
     sbind (slift (dict_or_empty (jget item ''inputs''))) (\<lambda>ins.
     sbind (slift (py_str (dget ins ''base_revision'' (JStr ''HEAD'')))) (\<lambda>base.
     sbind (slift (py_str (dget ins ''target_branch'' (JStr ''main'')))) (\<lambda>target.
     sbind (slift (owner_item item ins)) (\<lambda>owner.
     if k = ''integrate'' then integrate_item gm (rc_run ctx) owner base target
     else if k = ''execute'' then execute_item gm inner item checkpoint ctx base
     else if k = ''verify'' then verify_item gm inner item checkpoint ctx owner base
     else inner item checkpoint ctx)))))"

section \<open>Isolation of the verifier\<close>

lemma foreign_changes_Nil:
  "foreign_changes before after = [] \<longleftrightarrow>
     (\<forall>p\<in>set after. p \<in> set before \<or> p \<in> set verifier_writable \<or> prefix ''.harness/'' p)"
proof -
  have "foreign_changes before after = [] \<longleftrightarrow> set (foreign_changes before after) = {}" by simp
  then show ?thesis by (auto simp: foreign_changes_def)
qed

lemma verify_item_succeeds:
  assumes "verify_item gm inner item cp ctx owner base s = (Inr out, t)" and "oc_succeeded out"
  obtains ws c before s1 s2 after s3 out0 where
    "git_resolve gm (rc_run ctx) owner base = Inr ws"
    "git_head gm (pw_path ws) s = (Inr c, s1)" "git_changed_files gm ws s1 = (Inr before, s2)"
    "inner item cp (isolated ws ctx) s2 = (Inr out0, s3)" "oc_succeeded out0"
    "\<exists>s4. git_head gm (pw_path ws) s3 = (Inr c, s4) \<and> git_changed_files gm ws s4 = (Inr after, t)"
    "foreign_changes before after = []"
    "[(''kind'', JStr ''verification_revision''), (''commit'', JStr c)] \<in> set (oc_evidence out)"
  using assms
  by (auto simp: verify_item_def result_simps failed_outcome_of_def split: if_splits)

end
