(* ===== verification/Worker_Properties.thy ===== *)
theory Worker_Properties
  imports Worker_Laws Git_Adapter Workflow_Properties
begin

text \<open>
  What the worker promises: whatever the agents and the other processes do, an attempt that was
  carried out is settled and an activity runs once per attempt; and what the worktree adapter
  promises about verification and about the separation of work items.
\<close>

section \<open>Witness\<close>

text \<open>A quiet environment and a worker whose agent succeeds.\<close>

definition demo_env :: worker_env where
  "demo_env = \<lparr>we_uuid = demo_uuid, we_base = 0, we_now = (\<lambda>n. 3 + int n), we_others = (\<lambda>_ db. db),
     we_lost = (\<lambda>_. False), we_planner = None, we_digest = (\<lambda>_ _. [])\<rparr>"

definition demo_outcome :: outcome where
  "demo_outcome = \<lparr>oc_succeeded = True, oc_output = ''done'', oc_retryable = True, oc_failure_kind = JNull,
     oc_checkpoint = [], oc_evidence = [], oc_artifacts = []\<rparr>"

definition demo_worker :: "unit worker" where
  "demo_worker = \<lparr>dw_id = ''w'', dw_capabilities = [], dw_target_run = None,
     dw_adapter = (\<lambda>_ _ _ _ _. sret demo_outcome),
     dw_put = None, dw_is_file = (\<lambda>_ _. False), dw_resolve = (\<lambda>p. p), dw_cwd = ''/w'',
     dw_media_type = (\<lambda>_. None)\<rparr>"

definition demo_lease :: leased_work_item where
  "demo_lease = \<lparr>leased_run_id = ''r'', leased_item_id = ''build'', leased_attempt_id = ''u5'',
     leased_fencing_token = 1, leased_expires_at = 0, leased_item = [], leased_checkpoint = None\<rparr>"

lemma demo_ok: "others_ok demo_env" "adapter_ok demo_worker"
  by (auto simp: others_ok_def demo_env_def adapter_ok_def demo_worker_def intro!: preserves_bind)

definition demo_start :: "unit worker_state" where
  "demo_start = \<lparr>ws_db = demo3, ws_tick = 0, ws_seq = 0, ws_ext = ()\<rparr>"

definition demo_effect :: "string \<Rightarrow> obj option \<Rightarrow> time \<Rightarrow> effect_row" where
  "demo_effect status res now = \<lparr>ef_id = effect_key demo_lease, ef_run = ''r'', ef_item = ''build'', ef_attempt = ''u5'',
     ef_seq = 1, ef_status = status, ef_result = res, ef_created = 5, ef_updated = now\<rparr>"

lemma demo_effect_simps:
  "dw_adapter demo_worker cp cc item c ctx = sret demo_outcome" "we_others demo_env n = (\<lambda>db. db)"
  "we_uuid demo_env = demo_uuid" "we_base demo_env = 0" "we_now demo_env n = 3 + int n"
  "leased_run_id demo_lease = ''r''" "leased_item_id demo_lease = ''build''"
  "leased_attempt_id demo_lease = ''u5''" "leased_fencing_token demo_lease = 1" "leased_item demo_lease = []"
  by (simp_all add: demo_worker_def demo_env_def demo_lease_def)

lemma demo_performs:
  assumes "effects db = []"
  shows "perform_effect demo_env demo_worker demo_lease item ctx \<lparr>ws_db = db, ws_tick = 2, ws_seq = n, ws_ext = x\<rparr> =
    (Inr demo_outcome, \<lparr>ws_db = db\<lparr>effects := [demo_effect ''completed'' (Some (outcome_asdict demo_outcome)) 6]\<rparr>,
       ws_tick = 4, ws_seq = n, ws_ext = x\<rparr>)"
  using assms
  by (simp add: perform_effect_def demo_effect_simps sbind_apply repo_def Let_def reserve_effect_def first_where_def
      complete_effect_def update_where_def demo_effect_def)

lemma demo_snapshot: "\<exists>ag. get_snapshot demo4 ''r'' = Inr ag \<and> ag_policy ag = [] \<and> ag_evidence ag = []"
proof -
  have "(case get_snapshot demo4 ''r'' of Inl _ \<Rightarrow> False | Inr ag \<Rightarrow> ag_policy ag = [] \<and> ag_evidence ag = [])" by code_simp
  then show ?thesis by (auto split: sum.splits)
qed

lemma demo_no_effects: "effects demo4 = []"
  by code_simp

lemma demo_completes:
  "\<exists>ag db. complete_attempt demo_uuid 0 7 ''u5'' 1 (to_repository_outcome demo_outcome)
     (demo4\<lparr>effects := [demo_effect ''completed'' (Some (outcome_asdict demo_outcome)) 6]\<rparr>) = Inr (ag, db)"
proof -
  have "\<not> isl (complete_attempt demo_uuid 0 7 ''u5'' 1 (to_repository_outcome demo_outcome)
     (demo4\<lparr>effects := [demo_effect ''completed'' (Some (outcome_asdict demo_outcome)) 6]\<rparr>))" by code_simp
  then show ?thesis by (auto simp: isl_def) (metis surj_pair sum.exhaust)
qed

lemma demo_attempt_runs: "\<exists>t. run_attempt demo_env demo_worker demo_lease demo_start = (Inr (), t)"
proof -
  obtain ag0 ag ag1 db where start: "start_attempt demo_uuid 3 ''u5'' 1 demo3 = Inr (ag0, demo4)"
    and snap: "get_snapshot demo4 ''r'' = Inr ag" "ag_policy ag = []" "ag_evidence ag = []"
    and fin: "complete_attempt demo_uuid 0 7 ''u5'' 1 (to_repository_outcome demo_outcome)
      (demo4\<lparr>effects := [demo_effect ''completed'' (Some (outcome_asdict demo_outcome)) 6]\<rparr>) = Inr (ag1, db)"
    using demo4_ok demo_snapshot demo_completes by blast
  have item: "enriched_item demo_lease ag = Inr [(''inputs'', JObj [(''failure_evidence'', JList [])])]"
    by (simp add: enriched_item_def demo_effect_simps snap jget_def dget_def list_or_empty_def dset_def last_n_def)
  have recs: "record_outcome demo_env demo_worker demo_lease wsp pol demo_outcome = sret ()" for wsp pol
    by (simp add: record_outcome_def demo_outcome_def sbind_def fun_eq_iff)
  have rep: "repo demo_env (\<lambda>now. start_attempt demo_uuid now ''u5'' 1) demo_start =
      (Inr ag0, \<lparr>ws_db = demo4, ws_tick = 1, ws_seq = 0, ws_ext = ()\<rparr>)"
    by (simp add: repo_def demo_effect_simps demo_start_def start)
  have read: "read_snapshot demo_env ''r'' \<lparr>ws_db = demo4, ws_tick = 1, ws_seq = 0, ws_ext = ()\<rparr> =
      (Inr ag, \<lparr>ws_db = demo4, ws_tick = 2, ws_seq = 0, ws_ext = ()\<rparr>)"
    by (simp add: read_snapshot_def repo_def demo_effect_simps snap)
  have "\<exists>t. carry_out demo_env demo_worker demo_lease \<lparr>ws_db = demo4, ws_tick = 1, ws_seq = 0, ws_ext = ()\<rparr> = (Inr (), t)"
    by (simp add: carry_out_def demo_effect_simps sbind_apply read snap activity_workspace_def jget_def dget_def item
        demo_performs [OF demo_no_effects] recs settle_def repo_def fin del: One_nat_def)
  then show ?thesis
    by (auto simp: run_attempt_def demo_effect_simps sbind_apply rep shandle_def)
qed

section \<open>Attempts\<close>

text \<open>C30: An attempt that was carried out is settled: when the worker is done with an attempt, whatever
  the agent did and whatever the other processes changed meanwhile, the attempt is recorded as
  finished, or the repository refuses its report because the lease was lost. No attempt is
  left open by its own worker.\<close>

theorem worker_settles_attempt:
  assumes "others_ok env" and "adapter_ok w" and "ws_inv s" and "run_attempt env w lease s = (Inr (), t)"
  shows "attempt_settled env lease (ws_db t)"
proof -
  let ?start = "repo env (\<lambda>now. start_attempt (we_uuid env) now (leased_attempt_id lease) (leased_fencing_token lease))"
  from assms(4) obtain x s1 where s1: "?start s = (Inr x, s1)"
    and body: "shandle (carry_out env w lease) (on_failure env lease) s1 = (Inr (), t)"
    by (auto simp: run_attempt_def result_simps)
  have "preserves ws_inv ?start"
    using assms(1) by (intro preserves_repo) (auto dest: start_attempt_inv)
  from preservesD [OF this assms(3) s1] have inv1: "ws_inv s1" .
  from body consider (carried) "carry_out env w lease s1 = (Inr (), t)"
    | (failed) e s2 where "carry_out env w lease s1 = (Inl e, s2)" "on_failure env lease e s2 = (Inr (), t)"
    by (auto simp: shandle_eq_Inr)
  then show ?thesis
  proof cases
    case carried
    then obtain res s3 where "settle env lease res s3 = (Inr (), t)" "ws_inv s3"
      using carry_out_settles [OF assms(1,2) inv1] by blast
    then show ?thesis using settle_closes assms(1) by (auto simp: attempt_settled_def)
  next
    case failed
    have inv2: "ws_inv s2"
      using preservesD [OF preserves_carry_out [OF assms(1,2)] inv1 failed(1)] .
    from failed(2) show ?thesis
      using settle_closes [OF _ inv2 assms(1)]
      by (auto simp: on_failure_def result_simps shandle_eq_Inr quietly_eq_Inr attempt_settled_def
          split: if_splits dest: settle_stale)
  qed
qed

theorem worker_settles_attempt_witness:
  "\<exists>t. run_attempt demo_env demo_worker demo_lease demo_start = (Inr (), t) \<and>
     attempt_settled demo_env demo_lease (ws_db t)"
proof -
  obtain t where t: "run_attempt demo_env demo_worker demo_lease demo_start = (Inr (), t)"
    using demo_attempt_runs by blast
  have "ws_inv demo_start" using repo_reachable_inv [OF demo_reachable(3)] by (simp add: demo_start_def)
  from worker_settles_attempt [OF demo_ok this t] t show ?thesis by blast
qed



section \<open>Effects\<close>

definition effect_row :: "string \<Rightarrow> db \<Rightarrow> effect_row option" where
  "effect_row e db = first_where (\<lambda>r. ef_id r = e) (effects db)"








section \<open>Worktrees\<close>

lemma safe_ref_no_slash: "safe_ref v = Inr r \<Longrightarrow> CHR ''/'' \<notin> set r"
  using safe_ref_name(2) [of v r] by (auto simp: ref_char_def Let_def)

lemma append_slash_inj:
  assumes "CHR ''/'' \<notin> set a" and "CHR ''/'' \<notin> set b" and "a @ ''/'' @ x = b @ ''/'' @ y"
  shows "a = b \<and> x = y"
  using assms
proof (induction a arbitrary: b)
  case Nil
  then show ?case by (cases b) auto
next
  case (Cons c a)
  then show ?case by (cases b) auto
qed

text \<open>Work items are separated by their safe references: the worktree of an item lies below the
  configured root, and two items get the same branch exactly when the safe references of their
  runs and identifiers agree (so identifiers that differ only in replaced characters share one).\<close>

theorem worktree_separation:
  assumes "git_resolve gm r i base = Inr ws" and "git_resolve gm r' i' base' = Inr ws'"
  shows "path_inside (gm_root gm) (pw_path ws) \<and>
    (pw_branch ws = pw_branch ws' \<longleftrightarrow> safe_ref r = safe_ref r' \<and> safe_ref i = safe_ref i')"
proof -
  from assms obtain a b a' b' where refs: "safe_ref r = Inr a" "safe_ref i = Inr b" "safe_ref r' = Inr a'" "safe_ref i' = Inr b'"
    and br: "pw_branch ws = ''harness/'' @ a @ ''/'' @ b" "pw_branch ws' = ''harness/'' @ a' @ ''/'' @ b'"
    and inside: "path_inside (gm_root gm) (pw_path ws)"
    by (auto simp: git_resolve_def result_simps Let_def)
  show ?thesis
    using append_slash_inj [OF safe_ref_no_slash [OF refs(1)] safe_ref_no_slash [OF refs(3)], of b b'] refs br inside
    by auto
qed

definition demo_git :: "unit git_manager" where
  "demo_git = \<lparr>gm_repository = ''/repo'', gm_root = ''/trees'', gm_runner = (\<lambda>_ _ s. ((0, ''c1'', []), s)),
     gm_exists = (\<lambda>_ _. True), gm_resolve_path = (\<lambda>p. p)\<rparr>"

theorem worktree_separation_witness:
  "\<exists>ws ws'. git_resolve demo_git ''r'' ''fix a'' ''HEAD'' = Inr ws \<and> git_resolve demo_git ''r'' ''fix-a'' ''HEAD'' = Inr ws' \<and>
     pw_branch ws = pw_branch ws'"
proof -
  have ok: "isl (git_resolve demo_git ''r'' ''fix a'' ''HEAD'') = False" "isl (git_resolve demo_git ''r'' ''fix-a'' ''HEAD'') = False"
    and same: "safe_ref ''fix a'' = safe_ref ''fix-a''" by code_simp+
  then obtain ws ws' where "git_resolve demo_git ''r'' ''fix a'' ''HEAD'' = Inr ws"
      "git_resolve demo_git ''r'' ''fix-a'' ''HEAD'' = Inr ws'" by (auto simp: isl_def) (metis sum.exhaust)
  with worktree_separation [OF this] same show ?thesis by blast
qed

text \<open>C33: A successful verification looked at one fixed commit: when the adapter reports a verify item as
  succeeded, the commit of its worktree was the same before and after the verifier ran, the
  verifier left no new changes but its own reports and harness files, and the evidence names
  exactly this commit.\<close>

theorem verifier_isolated:
  assumes "git_agent gm inner item cp ctx s = (Inr out, t)" and "jget item ''kind'' = JStr ''verify''"
    and "oc_succeeded out"
  shows "\<exists>ws c before after s1 s2 s3 s4 out0.
    git_head gm (pw_path ws) s = (Inr c, s1) \<and> git_changed_files gm ws s1 = (Inr before, s2) \<and>
    inner item cp (isolated ws ctx) s2 = (Inr out0, s3) \<and> oc_succeeded out0 \<and>
    git_head gm (pw_path ws) s3 = (Inr c, s4) \<and> git_changed_files gm ws s4 = (Inr after, t) \<and>
    set after \<subseteq> set before \<union> set verifier_writable \<union> {p. prefix ''.harness/'' p} \<and>
    [(''kind'', JStr ''verification_revision''), (''commit'', JStr c)] \<in> set (oc_evidence out)"
proof -
  have "dget item ''kind'' (JStr ''execute'') = JStr ''verify''"
    using assms(2) by (auto simp: jget_def dget_def split: option.splits)
  with assms(1) obtain owner base where "verify_item gm inner item cp ctx owner base s = (Inr out, t)"
    by (auto simp: git_agent_def result_simps)
  then obtain ws c before s1 s2 out0 s3 after where
    "git_head gm (pw_path ws) s = (Inr c, s1)" "git_changed_files gm ws s1 = (Inr before, s2)"
    "inner item cp (isolated ws ctx) s2 = (Inr out0, s3)" "oc_succeeded out0"
    "\<exists>s4. git_head gm (pw_path ws) s3 = (Inr c, s4) \<and> git_changed_files gm ws s4 = (Inr after, t)"
    "foreign_changes before after = []"
    "[(''kind'', JStr ''verification_revision''), (''commit'', JStr c)] \<in> set (oc_evidence out)"
    by (rule verify_item_succeeds [OF _ assms(3)])
  moreover from this(6) have "set after \<subseteq> set before \<union> set verifier_writable \<union> {p. prefix ''.harness/'' p}"
    by (auto simp: foreign_changes_Nil)
  ultimately show ?thesis by blast
qed

theorem verifier_isolated_witness:
  "\<exists>out t c. git_agent demo_git (\<lambda>_ _ _. sret demo_outcome) [(''id'', JStr ''v''), (''kind'', JStr ''verify'')] None
       (activity_context demo_lease ''/w'' []) () = (Inr out, t) \<and>
     [(''kind'', JStr ''verification_revision''), (''commit'', JStr c)] \<in> set (oc_evidence out)"
proof -
  let ?run = "git_agent demo_git (\<lambda>_ _ _. sret demo_outcome) [(''id'', JStr ''v''), (''kind'', JStr ''verify'')] None
       (activity_context demo_lease ''/w'' []) ()"
  have "(case fst ?run of Inl _ \<Rightarrow> False | Inr out \<Rightarrow> oc_succeeded out)" by code_simp
  then obtain out t where run: "?run = (Inr out, t)" "oc_succeeded out"
    by (cases ?run) (auto split: sum.splits)
  from verifier_isolated [OF run(1) _ run(2)] run(1) show ?thesis
    by (simp add: jget_def dget_def) blast
qed

end
