(* ===== verification/Run_State.thy ===== *)
theory Run_State
  imports Steps
begin

text \<open>
  \<open>orchestrator/state.py\<close> and \<open>orchestrator/store.py\<close>: the state file of a legacy run, its
  validation, its bounded event log, and the tables that mirror it. The world of the scheduler
  holds the dictionary it is working on, the file, the tables, the canonical trace, the number of
  clock readings so far, and whatever the agents and the workspace act on (\<open>'e\<close>).
\<close>

section \<open>The world\<close>

text \<open>
  \<open>sw_cur\<close> is the dictionary the code mutates in place. \<open>sw_kept\<close> is the dictionary the executor
  of a step still refers to after a phase has switched to a freshly loaded one.
\<close>

record 'e sched_world =
  sw_cur :: obj
  sw_kept :: "obj option"
  sw_file :: "obj option"
  sw_rows :: "(string \<times> json \<times> obj) list"
  sw_events :: "(nat \<times> string \<times> json \<times> obj) list"
  sw_trace :: "(string \<times> obj \<times> json) list"
  sw_tick :: nat
  sw_ext :: 'e

text \<open>The clock gives the text of a time; the disk may refuse a write.\<close>

record clock =
  ck_now :: "nat \<Rightarrow> string"
  ck_since :: "nat \<Rightarrow> string \<Rightarrow> rat option"
  ck_disk :: "nat \<Rightarrow> py_error option"

type_synonym ('e, 'a) sstep = "('e sched_world, 'a) step"

definition now_iso :: "clock \<Rightarrow> ('e, string) sstep" where
  "now_iso ck = (\<lambda>w. (Inr (ck_now ck (sw_tick w)), w\<lparr>sw_tick := Suc (sw_tick w)\<rparr>))"

text \<open>\<open>_elapsed_seconds\<close>: no value, or one that is not the text of a time, gives \<open>None\<close>.\<close>

definition elapsed_seconds :: "clock \<Rightarrow> json \<Rightarrow> ('e, rat option) sstep" where
  "elapsed_seconds ck v = (\<lambda>w.
     (Inr (case v of JStr t \<Rightarrow> if t = [] then None else ck_since ck (sw_tick w) t | _ \<Rightarrow> None),
      w\<lparr>sw_tick := Suc (sw_tick w)\<rparr>))"

definition state_error :: "string \<Rightarrow> py_error" where
  "state_error m = Raised ''StateError'' m"

section \<open>Validation\<close>

text \<open>In the order in which missing fields are reported.\<close>

definition required_fields :: "string list" where
  "required_fields =
     [''active'', ''created_at'', ''next_action'', ''phase'', ''profile'', ''prompt'', ''round_num'',
      ''run_id'', ''score_history'', ''status'', ''updated_at'', ''version'', ''workspace'']"

definition missing_fields :: "obj \<Rightarrow> string list" where
  "missing_fields st = filter (\<lambda>k. map_of st k = None) required_fields"

fun is_text :: "json \<Rightarrow> bool" where
  "is_text (JStr _) = True"
| "is_text _ = False"

fun is_sequence :: "json \<Rightarrow> bool" where
  "is_sequence (JList _) = True"
| "is_sequence _ = False"

definition validate_state :: "obj \<Rightarrow> unit result" where
  "validate_state st =
     rbind (raise_unless (missing_fields st = [])
              (state_error (''State missing required fields: '' @ py_join '', '' (missing_fields st)))) (\<lambda>_.
     rbind (if py_eq (jget st ''version'') (JInt 1) then Inr ()
            else rbind (py_str (jget st ''version'')) (\<lambda>v.
              Inl (state_error (''Unsupported state version: '' @ v)))) (\<lambda>_.
     rbind (raise_unless (is_sequence (jget st ''score_history''))
              (state_error ''State field score_history must be a list'')) (\<lambda>_.
     raise_unless (jget st ''next_action'' = JNull \<or> is_text (jget st ''next_action''))
       (state_error ''State field next_action must be a string or null''))))"

section \<open>Creating and logging\<close>

text \<open>\<open>fresh\<close> is the generated identifier, \<open>env_task\<close> the task of the environment.\<close>

definition create_run_state ::
    "(string \<Rightarrow> string) \<Rightarrow> string option \<Rightarrow> string \<Rightarrow> string \<Rightarrow> string \<Rightarrow> string \<Rightarrow> string \<Rightarrow>
     string option \<Rightarrow> int option \<Rightarrow> string option \<Rightarrow> obj" where
  "create_run_state resolve env_task now fresh prompt workspace profile run_id rounds task_id =
     [(''version'', JInt 1),
      (''run_id'', JStr (case run_id of Some r \<Rightarrow> if r = [] then fresh else r | None \<Rightarrow> fresh)),
      (''prompt'', JStr prompt),
      (''task_id'', jopt JStr (if task_id = None then env_task else task_id)),
      (''workspace'', JStr (resolve workspace)), (''profile'', JStr profile),
      (''route_decision'', JNull), (''requires_confirmation'', JBool False), (''active'', JBool True),
      (''status'', JStr ''running''),
      (''phase'', JStr (if profile = ''auto'' then ''route'' else ''plan'')),
      (''next_action'', JStr (if profile = ''auto'' then ''route'' else ''plan'')),
      (''round_num'', JInt 1), (''max_rounds'', jopt JInt rounds), (''score_history'', JList []),
      (''agents'', JObj []), (''artifacts'', JObj []), (''acceptance_progress'', JNull),
      (''acceptance_decision'', JNull), (''acceptance_fingerprint'', JNull),
      (''acceptance_observation_seq'', JInt 0), (''memory_refs'', JList []), (''events'', JList []),
      (''last_event_at'', JStr now), (''last_error'', JNull), (''created_at'', JStr now),
      (''updated_at'', JStr now)]"

text \<open>\<open>append_event\<close>, at the time \<open>t\<close>: the log keeps its last 500 entries.\<close>

definition append_event_at :: "string \<Rightarrow> string \<Rightarrow> json \<Rightarrow> obj \<Rightarrow> obj result" where
  "append_event_at t type body st =
     (case dget st ''events'' (JList []) of
        JList evs \<Rightarrow>
          Inr (dset ''last_event_at'' (JStr t)
                (dset ''events''
                  (JList (last_n 500 (evs @ [JObj [(''t'', JStr t), (''type'', JStr type), (''data'', py_or body (JObj []))]])))
                  st))
      | _ \<Rightarrow> Inl (AttributeError ''append''))"

section \<open>The tables\<close>

fun path_text :: "json \<Rightarrow> string result" where
  "path_text (JStr s) = Inr s"
| "path_text _ = Inl (TypeError ''expected str, bytes or os.PathLike object'')"

definition store_save :: "string \<Rightarrow> json \<Rightarrow> obj \<Rightarrow> 'e sched_world \<Rightarrow> 'e sched_world" where
  "store_save ws run_id st w =
     w\<lparr>sw_rows := filter (\<lambda>(x, r, _). \<not> (x = ws \<and> r = run_id)) (sw_rows w) @ [(ws, run_id, st)]\<rparr>"

definition store_load :: "string \<Rightarrow> json \<Rightarrow> 'e sched_world \<Rightarrow> obj result" where
  "store_load ws run_id w =
     (case first_where (\<lambda>(x, r, _). x = ws \<and> r = run_id) (sw_rows w) of
        None \<Rightarrow> rbind (py_str run_id) (\<lambda>t. Inl (FileNotFoundError t))
      | Some (_, _, st) \<Rightarrow> Inr st)"

definition store_append :: "string \<Rightarrow> json \<Rightarrow> obj \<Rightarrow> 'e sched_world \<Rightarrow> 'e sched_world" where
  "store_append ws run_id ev w =
     w\<lparr>sw_events := sw_events w @ [(Suc (length (sw_events w)), ws, run_id, ev)]\<rparr>"

definition store_list :: "string \<Rightarrow> json \<Rightarrow> nat \<Rightarrow> nat \<Rightarrow> 'e sched_world \<Rightarrow> obj list" where
  "store_list ws run_id after limit w =
     map (\<lambda>(n, _, _, ev). dset ''_event_id'' (JInt (int n)) ev)
       (take limit (filter (\<lambda>(n, x, r, _). x = ws \<and> r = run_id \<and> after < n) (sw_events w)))"

section \<open>The state file\<close>

definition load_state :: "('e, obj) sstep" where
  "load_state = (\<lambda>w.
     case sw_file w of
       None \<Rightarrow> (Inl (state_error ''Cannot read state file''), w)
     | Some st \<Rightarrow> (rbind (validate_state st) (\<lambda>_. Inr st), w))"

text \<open>The file is replaced atomically, then the row of the tables; a refused write changes neither.\<close>

definition save_state :: "clock \<Rightarrow> obj \<Rightarrow> ('e, unit) sstep" where
  "save_state ck st =
     sbind (now_iso ck) (\<lambda>t.
     let copy = dset ''updated_at'' (JStr t) st in
     sbind (slift (validate_state copy)) (\<lambda>_.
     sbind (sread (\<lambda>w. ck_disk ck (sw_tick w))) (\<lambda>refused.
     case refused of
       Some e \<Rightarrow> slift (Inl e)
     | None \<Rightarrow>
         sbind (smodify (\<lambda>w. w\<lparr>sw_file := Some copy\<rparr>)) (\<lambda>_.
         sbind (slift (path_text (jget copy ''workspace''))) (\<lambda>ws.
         smodify (store_save ws (jget copy ''run_id'') copy))))))"

definition update_state :: "clock \<Rightarrow> (obj \<Rightarrow> obj result) \<Rightarrow> ('e, obj) sstep" where
  "update_state ck mutator =
     sbind load_state (\<lambda>st.
     sbind (slift (mutator st)) (\<lambda>st'.
     sbind (save_state ck st') (\<lambda>_.
     load_state)))"

section \<open>Working on the current dictionary\<close>

definition cur :: "('e, obj) sstep" where
  "cur = sread sw_cur"

definition set_cur :: "obj \<Rightarrow> ('e, unit) sstep" where
  "set_cur st = smodify (\<lambda>w. w\<lparr>sw_cur := st\<rparr>)"

definition on_cur :: "(obj \<Rightarrow> obj result) \<Rightarrow> ('e, unit) sstep" where
  "on_cur f = sbind cur (\<lambda>st. sbind (slift (f st)) set_cur)"

definition put :: "string \<Rightarrow> json \<Rightarrow> ('e, unit) sstep" where
  "put k v = on_cur (\<lambda>st. Inr (dset k v st))"

definition fetch :: "string \<Rightarrow> ('e, json) sstep" where
  "fetch k = sread (\<lambda>w. jget (sw_cur w) k)"

definition append_event :: "clock \<Rightarrow> string \<Rightarrow> json \<Rightarrow> ('e, unit) sstep" where
  "append_event ck type body = sbind (now_iso ck) (\<lambda>t. on_cur (append_event_at t type body))"

definition save_cur :: "clock \<Rightarrow> ('e, unit) sstep" where
  "save_cur ck = sbind cur (save_state ck)"

definition save_and_load :: "clock \<Rightarrow> ('e, obj) sstep" where
  "save_and_load ck = sbind (save_cur ck) (\<lambda>_. load_state)"

definition on_world :: "('e, 'a) step \<Rightarrow> ('e, 'a) sstep" where
  "on_world m = (\<lambda>w. let (r, x) = m (sw_ext w) in (r, w\<lparr>sw_ext := x\<rparr>))"

text \<open>\<open>_trace\<close>: instrumentation that never fails, but needs the workspace and the run.\<close>

definition emit_trace :: "string \<Rightarrow> obj \<Rightarrow> json \<Rightarrow> ('e, unit) sstep" where
  "emit_trace type body phase =
     sbind cur (\<lambda>st.
     sbind (slift (jindex st ''workspace'')) (\<lambda>_.
     sbind (slift (jindex st ''run_id'')) (\<lambda>_.
     smodify (\<lambda>w. w\<lparr>sw_trace := sw_trace w @ [(type, body, py_or phase (jget st ''phase''))]\<rparr>))))"

section \<open>Laws\<close>

lemma validate_state_iff:
  "validate_state st = Inr () \<longleftrightarrow>
     (\<forall>k\<in>set required_fields. map_of st k \<noteq> None) \<and> py_eq (jget st ''version'') (JInt 1) \<and>
     is_sequence (jget st ''score_history'') \<and> (jget st ''next_action'' = JNull \<or> is_text (jget st ''next_action''))"
  by (auto simp: validate_state_def missing_fields_def filter_empty_conv result_simps)

lemma create_run_state_valid:
  "validate_state (create_run_state resolve env_task now fresh prompt workspace profile run_id rounds task_id) = Inr ()"
  by (simp add: validate_state_def missing_fields_def required_fields_def create_run_state_def jget_def dget_def)

end
