(* ===== verification/Hooks.thy ===== *)
theory Hooks
  imports Run_State "HOL-Library.Char_ord" "HOL-Library.List_Lexorder"
begin

text \<open>
  \<open>orchestrator/hooks.py\<close>: the decisions hooks return, and the default hook manager with its
  policies: phase timeouts, heartbeats, bounded recovery, budgets, approvals, validation. What a
  hook looks at outside the run state (formatting of numbers, the traces in the workspace) is a
  field of \<open>probe\<close>.
\<close>

record 'e probe =
  pr_clock :: clock
  pr_format :: "string \<Rightarrow> rat \<Rightarrow> string"
  pr_tool_calls :: "string \<Rightarrow> 'e \<Rightarrow> int"
  pr_agents_text :: "json \<Rightarrow> string"

text \<open>\<open>str(v)\<close>, with floats formatted by the probe.\<close>

definition shown :: "'e probe \<Rightarrow> json \<Rightarrow> string result" where
  "shown pr v = (case v of JFloat r \<Rightarrow> Inr (pr_format pr [] r) | _ \<Rightarrow> py_str v)"

section \<open>Decisions\<close>

datatype hook_action = HContinue | HPause | HRetry | HFail | HConfirm

fun hook_action_text :: "hook_action \<Rightarrow> string" where
  "hook_action_text HContinue = ''continue''"
| "hook_action_text HPause = ''pause''"
| "hook_action_text HRetry = ''retry''"
| "hook_action_text HFail = ''fail''"
| "hook_action_text HConfirm = ''require_confirmation''"

record hook_result =
  hr_action :: hook_action
  hr_reason :: json
  hr_patch :: obj

definition hook :: "hook_action \<Rightarrow> string \<Rightarrow> obj \<Rightarrow> hook_result" where
  "hook act why patch = \<lparr>hr_action = act, hr_reason = JStr why, hr_patch = patch\<rparr>"

abbreviation proceed :: hook_result where
  "proceed \<equiv> hook HContinue [] []"

section \<open>Recording\<close>

text \<open>\<open>_record\<close> works on the file, not on the dictionary of the caller, and never fails.\<close>

definition record_hook :: "clock \<Rightarrow> string \<Rightarrow> obj \<Rightarrow> ('e, unit) sstep" where
  "record_hook ck type body =
     attempt_quietly (
       sbind load_state (\<lambda>st.
       sbind (slift (path_text (jget st ''workspace''))) (\<lambda>ws.
       sbind (now_iso ck) (\<lambda>t.
       sbind (smodify (store_append ws (jget st ''run_id'')
                [(''t'', JStr t), (''type'', JStr type), (''data'', JObj body)])) (\<lambda>_.
       sbind (now_iso ck) (\<lambda>t'.
       sbind (slift (append_event_at t' type (JObj body) st)) (\<lambda>st'.
       save_state ck st')))))))"

definition policy_of :: "obj \<Rightarrow> obj result" where
  "policy_of st = as_mapping (py_or (jget st ''hook_policy'') (JObj []))"

definition policy_int :: "obj \<Rightarrow> string \<Rightarrow> int \<Rightarrow> int result" where
  "policy_int st k i = rbind (policy_of st) (\<lambda>p. py_int (dget p k (JInt i)))"

definition error_entry :: "string \<Rightarrow> string \<Rightarrow> json" where
  "error_entry kind message = JObj [(''type'', JStr kind), (''message'', JStr message)]"

section \<open>Timeouts, heartbeats, budgets\<close>

definition on_phase_timeout :: "'e probe \<Rightarrow> ('e, hook_result) sstep" where
  "on_phase_timeout pr =
     sbind cur (\<lambda>st.
     sbind (slift (policy_int st ''phase_timeout_seconds'' 3600)) (\<lambda>timeout.
     if \<not> truthy (jget st ''phase_started_at'') then sret proceed
     else
       sbind (elapsed_seconds (pr_clock pr) (jget st ''phase_started_at'')) (\<lambda>since.
       case since of
         None \<Rightarrow> sret proceed
       | Some s \<Rightarrow>
           if s \<le> of_int timeout then sret proceed
           else
             sbind (slift (shown pr (jget st ''phase''))) (\<lambda>phase.
             let why = ''phase '' @ phase @ '' exceeded timeout ('' @ pr_format pr ''.0f'' s @ ''s > '' @
                   show_int timeout @ ''s)'' in
             sbind (record_hook (pr_clock pr) ''phase_timeout''
                      [(''reason'', JStr why), (''elapsed_seconds'', JFloat s)]) (\<lambda>_.
             sret (hook HRetry why
               [(''last_error'', error_entry ''PhaseTimeout'' why),
                (''recovery'', JObj [(''reason'', JStr why)])]))))))"

definition on_heartbeat_missing :: "'e probe \<Rightarrow> ('e, hook_result) sstep" where
  "on_heartbeat_missing pr =
     sbind cur (\<lambda>st.
     sbind (slift (policy_int st ''heartbeat_seconds'' 900)) (\<lambda>heartbeat.
     sbind (elapsed_seconds (pr_clock pr) (py_or (jget st ''last_event_at'') (jget st ''updated_at''))) (\<lambda>since.
     case since of
       None \<Rightarrow> sret proceed
     | Some s \<Rightarrow>
         if s \<le> of_int heartbeat then sret proceed
         else
           let why = ''no scheduler heartbeat for '' @ pr_format pr ''.0f'' s @ ''s'' in
           sbind (record_hook (pr_clock pr) ''heartbeat_missing''
                    [(''reason'', JStr why), (''elapsed_seconds'', JFloat s)]) (\<lambda>_.
           sret (hook HPause why [(''last_error'', error_entry ''HeartbeatMissing'' why)])))))"

definition budget_pause :: "'e probe \<Rightarrow> string \<Rightarrow> string \<times> json \<Rightarrow> ('e, hook_result) sstep" where
  "budget_pause pr why measured =
     sbind (record_hook (pr_clock pr) ''budget_exceeded'' [(''reason'', JStr why), measured]) (\<lambda>_.
     sret (hook HPause why [(''last_error'', error_entry ''BudgetExceeded'' why)]))"

definition on_budget_check :: "'e probe \<Rightarrow> ('e, hook_result) sstep" where
  "on_budget_check pr =
     sbind cur (\<lambda>st.
     sbind (slift (policy_of st)) (\<lambda>policy.
     sbind (elapsed_seconds (pr_clock pr) (jget st ''created_at'')) (\<lambda>since.
     let s = (case since of None \<Rightarrow> 0 | Some x \<Rightarrow> x) in
     sbind (slift (py_int (dget policy ''max_run_seconds'' (JInt 21600)))) (\<lambda>seconds.
     if of_int seconds < s then
       budget_pause pr (''run budget exceeded ('' @ pr_format pr ''.0f'' s @ ''s > '' @ show_int seconds @ ''s)'')
         (''elapsed_seconds'', JFloat s)
     else
       sbind (slift (py_int (dget policy ''max_tool_calls'' (JInt 2000)))) (\<lambda>calls.
       sbind (slift (path_text (dget st ''workspace'' (JStr [])))) (\<lambda>ws.
       sbind (sread (\<lambda>w. pr_tool_calls pr ws (sw_ext w))) (\<lambda>n.
       if calls < n then
         budget_pause pr (''tool-call budget exceeded ('' @ show_int n @ '' > '' @ show_int calls @ '')'')
           (''tool_calls'', JInt n)
       else sret proceed)))))))"

definition before_step :: "'e probe \<Rightarrow> ('e, hook_result) sstep" where
  "before_step pr =
     sbind cur (\<lambda>st.
     sbind (if jget st ''status'' = JStr ''running''
            then slift (in_strings [''plan'', ''contract'', ''build'', ''evaluate''] (jget st ''phase''))
            else sret False) (\<lambda>in_phase.
     if \<not> in_phase then on_budget_check pr
     else
       sbind (on_phase_timeout pr) (\<lambda>r.
       if hr_action r \<noteq> HContinue then sret r
       else
         sbind (on_heartbeat_missing pr) (\<lambda>r'.
         if hr_action r' \<noteq> HContinue then sret r' else on_budget_check pr))))"

definition before_new_round :: "'e probe \<Rightarrow> ('e, hook_result) sstep" where
  "before_new_round pr =
     sbind cur (\<lambda>st.
     sbind (slift (py_int (dget st ''round_num'' (JInt 1)))) (\<lambda>n.
     sbind (record_hook (pr_clock pr) ''before_new_round''
              [(''next_round'', JInt (n + 1)), (''score_history'', dget st ''score_history'' (JList []))]) (\<lambda>_.
     on_budget_check pr)))"

section \<open>Recovery\<close>

text \<open>Recovery attempts so far, as the hook reads them.\<close>

definition recovery_attempts :: "obj \<Rightarrow> int result" where
  "recovery_attempts rc = py_int (py_or (dget rc ''attempts'' (JInt 0)) (JInt 0))"

definition on_recovery :: "'e probe \<Rightarrow> py_error option \<Rightarrow> string option \<Rightarrow> ('e, hook_result) sstep" where
  "on_recovery pr err why =
     sbind cur (\<lambda>st.
     sbind (slift (policy_int st ''max_recovery_attempts'' 1)) (\<lambda>limit.
     sbind (slift (dict_or_empty (jget st ''recovery''))) (\<lambda>rc.
     sbind (slift (recovery_attempts rc)) (\<lambda>n.
     let message = (case why of
           Some r \<Rightarrow> if r = [] then (case err of Some e \<Rightarrow> exc_text e | None \<Rightarrow> ''phase failed'') else r
         | None \<Rightarrow> (case err of Some e \<Rightarrow> exc_text e | None \<Rightarrow> ''phase failed'')) in
     if n < limit then
       sbind (record_hook (pr_clock pr) ''recovery_retry'' [(''attempts'', JInt (n + 1)), (''reason'', JStr message)]) (\<lambda>_.
       sbind (now_iso (pr_clock pr)) (\<lambda>t.
       sret (hook HRetry message
         [(''recovery'', JObj (dset ''last_retry_at'' (JStr t) (dset ''last_reason'' (JStr message)
            (dset ''attempts'' (JInt (n + 1)) rc)))),
          (''last_error'', error_entry (case err of Some e \<Rightarrow> exc_name e | None \<Rightarrow> ''Recovery'') message)])))
     else
       sbind (record_hook (pr_clock pr) ''recovery_exhausted'' [(''attempts'', JInt n), (''reason'', JStr message)]) (\<lambda>_.
       sret (hook HFail (''recovery attempts exhausted: '' @ message)
         [(''recovery'', JObj (dset ''last_reason'' (JStr message) (dset ''exhausted'' (JBool True)
            (dset ''attempts'' (JInt n) rc)))),
          (''last_error'', error_entry (case err of Some e \<Rightarrow> exc_name e | None \<Rightarrow> ''RecoveryExhausted'') message)]))))))"

definition on_error :: "'e probe \<Rightarrow> py_error \<Rightarrow> ('e, hook_result) sstep" where
  "on_error pr e =
     sbind (record_hook (pr_clock pr) ''error''
              [(''type'', JStr (exc_name e)), (''message'', JStr (take 1000 (exc_text e)))]) (\<lambda>_.
     on_recovery pr (Some e) None)"

section \<open>Artifacts\<close>

text \<open>Artifacts have textual names; of two with one name the later counts.\<close>

definition artifact_name :: "json \<Rightarrow> (string \<times> obj) result" where
  "artifact_name item =
     rbind (as_mapping item) (\<lambda>d. case jget d ''name'' of
       JStr n \<Rightarrow> Inr (n, d) | _ \<Rightarrow> Inl (Unsupported ''artifact name''))"

definition artifact_map :: "json list \<Rightarrow> obj dict result" where
  "artifact_map xs =
     rfold (\<lambda>m item. rbind (artifact_name item) (\<lambda>(n, d). Inr (dset n d m))) [] xs"

definition artifact_diff :: "obj dict \<Rightarrow> obj dict \<Rightarrow> string list \<times> string list" where
  "artifact_diff before after =
     (sort (filter (\<lambda>n. map_of before n = None) (dict_keys after)),
      sort (map fst (filter (\<lambda>(n, d). case map_of before n of
              None \<Rightarrow> False
            | Some b \<Rightarrow> \<not> py_eq (jget d ''size'') (jget b ''size'')) after)))"

definition on_artifact_changed :: "'e probe \<Rightarrow> json list \<Rightarrow> json list \<Rightarrow> ('e, hook_result) sstep" where
  "on_artifact_changed pr before after =
     sbind cur (\<lambda>st.
     sbind (slift (artifact_map before)) (\<lambda>b.
     sbind (slift (artifact_map after)) (\<lambda>a.
     let (created, changed) = artifact_diff b a in
     if created \<noteq> [] \<or> changed \<noteq> [] then
       let body = [(''created'', jstrs created), (''changed'', jstrs changed), (''phase'', jget st ''phase'')] in
       sbind (record_hook (pr_clock pr) ''artifact_changed'' body) (\<lambda>_.
       sret (hook HContinue ''artifacts changed'' [(''artifact_changes'', JObj body)]))
     else sret proceed)))"

section \<open>Routing, validation, memory\<close>

definition before_route :: "'e probe \<Rightarrow> ('e, hook_result) sstep" where
  "before_route pr =
     sbind cur (\<lambda>st.
     sbind (slift (shown pr (dget st ''prompt'' (JStr [])))) (\<lambda>p.
     sbind (record_hook (pr_clock pr) ''before_route'' [(''prompt_preview'', JStr (take 200 p))]) (\<lambda>_.
     sret proceed)))"

definition on_low_confidence_route :: "'e probe \<Rightarrow> ('e, hook_result) sstep" where
  "on_low_confidence_route pr =
     sbind cur (\<lambda>st.
     sbind (slift (as_mapping (py_or (jget st ''route_decision'') (JObj [])))) (\<lambda>d.
     sbind (slift (shown pr (jget d ''confidence''))) (\<lambda>c.
     let why = ''route confidence too low: '' @ c in
     sbind (record_hook (pr_clock pr) ''low_confidence_route'' [(''reason'', JStr why), (''decision'', JObj d)]) (\<lambda>_.
     sret (hook HConfirm why [])))))"

definition after_route :: "'e probe \<Rightarrow> ('e, hook_result) sstep" where
  "after_route pr =
     sbind cur (\<lambda>st.
     sbind (slift (as_mapping (py_or (jget st ''route_decision'') (JObj [])))) (\<lambda>d.
     sbind (record_hook (pr_clock pr) ''after_route'' d) (\<lambda>_.
     if truthy (jget d ''requires_confirmation'') then on_low_confidence_route pr else sret proceed)))"

definition on_profile_confirmed :: "'e probe \<Rightarrow> string \<Rightarrow> ('e, hook_result) sstep" where
  "on_profile_confirmed pr profile =
     sbind (record_hook (pr_clock pr) ''profile_confirmed'' [(''profile'', JStr profile)]) (\<lambda>_. sret proceed)"

text \<open>\<open>_validation_summary\<close>: scores are evidence enough, then the latest verification attempt.\<close>

definition validation_status :: "json \<Rightarrow> json \<Rightarrow> bool \<Rightarrow> json \<Rightarrow> string" where
  "validation_status scores latest passed profile =
     (if truthy scores then ''verified''
      else if truthy latest \<and> passed then ''verified''
      else if truthy latest then ''failed''
      else if profile = JStr ''reasoning'' then ''not_required''
      else ''missing'')"

definition validation_summary :: "'e probe \<Rightarrow> obj \<Rightarrow> obj \<Rightarrow> obj result" where
  "validation_summary pr st analysis =
     (let scores = py_or (jget analysis ''scores'') (py_or (jget st ''score_history'') (JList [])) in
      rbind (as_mapping (py_or (jget analysis ''verification'') (JObj []))) (\<lambda>verification.
      let latest = jget verification ''latest'' in
      rbind (if truthy latest then as_mapping latest else Inr []) (\<lambda>l.
      rbind (shown pr (dget l ''tool'' (JStr ''tool''))) (\<lambda>tool.
      let passed = truthy (jget l ''success'') in
      rbind (as_mapping (py_or (jget analysis ''agents'') (JObj []))) (\<lambda>agents.
      Inr [(''status'', JStr (validation_status scores latest passed (jget st ''profile''))),
           (''evidence'', jstrs ((if truthy scores then [''score''] else []) @
              (if truthy latest then [tool @ '':'' @ (if passed then ''passed'' else ''failed'')] else []))),
           (''scores'', scores), (''latest_attempt'', latest),
           (''trace_agents'', jstrs (sort (dict_keys agents))),
           (''trace_summary'', JStr (take 300 (pr_agents_text pr (dget analysis ''agents'' (JObj [])))))])))))"

definition after_validation :: "'e probe \<Rightarrow> obj \<Rightarrow> ('e, hook_result) sstep" where
  "after_validation pr analysis =
     sbind cur (\<lambda>st.
     sbind (slift (validation_summary pr st analysis)) (\<lambda>v.
     sbind (record_hook (pr_clock pr) ''validation_checked'' v) (\<lambda>_.
     sbind (if jget v ''status'' = JStr ''missing'' then record_hook (pr_clock pr) ''validation_missing'' v
            else if jget v ''status'' = JStr ''failed'' then record_hook (pr_clock pr) ''validation_failed'' v
            else sret ()) (\<lambda>_.
     sret (hook HContinue ''validation checked'' [(''validation'', JObj v)])))))"

definition before_memory_update :: "'e probe \<Rightarrow> ('e, hook_result) sstep" where
  "before_memory_update pr =
     sbind cur (\<lambda>st.
     sbind (record_hook (pr_clock pr) ''before_memory_update''
              [(''profile'', jget st ''profile''), (''status'', jget st ''status''),
               (''score_history'', dget st ''score_history'' (JList []))]) (\<lambda>_.
     sret (if truthy (jget st ''skip_memory_update'')
           then hook HContinue ''memory update skipped by state flag'' [(''memory_update_skipped'', JBool True)]
           else proceed)))"

definition tool_total :: "obj \<Rightarrow> json result" where
  "tool_total analysis =
     rbind (as_mapping (py_or (jget analysis ''tool_calls'') (JObj []))) (\<lambda>d. Inr (dget d ''total'' (JInt 0)))"

definition after_memory_update :: "'e probe \<Rightarrow> obj \<Rightarrow> ('e, hook_result) sstep" where
  "after_memory_update pr analysis =
     sbind cur (\<lambda>st.
     sbind (slift (tool_total analysis)) (\<lambda>n.
     sbind (record_hook (pr_clock pr) ''after_memory_update'' [(''profile'', jget st ''profile''), (''tool_calls'', n)]) (\<lambda>_.
     sret proceed)))"

section \<open>Approvals and transitions\<close>

definition on_human_approval_required :: "'e probe \<Rightarrow> ('e, hook_result) sstep" where
  "on_human_approval_required pr =
     sbind cur (\<lambda>st.
     sbind (slift (as_mapping (py_or (jget st ''human_approval'') (JObj [])))) (\<lambda>approval.
     sbind (record_hook (pr_clock pr) ''human_approval_required'' approval) (\<lambda>_.
     sret \<lparr>hr_action = HConfirm,
           hr_reason = py_or (jget approval ''reason'') (JStr ''human approval required''),
           hr_patch = [(''requires_human_approval'', JBool True), (''status'', JStr ''waiting_approval'')]\<rparr>)))"

definition transition_hook :: "'e probe \<Rightarrow> string \<Rightarrow> json \<Rightarrow> string \<Rightarrow> ('e, hook_result) sstep" where
  "transition_hook pr type source target =
     sbind (record_hook (pr_clock pr) type [(''from'', source), (''to'', JStr target)]) (\<lambda>_. sret proceed)"

definition before_transition :: "'e probe \<Rightarrow> json \<Rightarrow> string \<Rightarrow> ('e, hook_result) sstep" where
  "before_transition pr = transition_hook pr ''before_transition''"

definition after_transition :: "'e probe \<Rightarrow> json \<Rightarrow> string \<Rightarrow> ('e, hook_result) sstep" where
  "after_transition pr = transition_hook pr ''after_transition''"

definition agent_hook :: "'e probe \<Rightarrow> string \<Rightarrow> string \<Rightarrow> ('e, hook_result) sstep" where
  "agent_hook pr type agent =
     sbind cur (\<lambda>st.
     sbind (record_hook (pr_clock pr) type [(''agent'', JStr agent), (''phase'', jget st ''phase'')]) (\<lambda>_.
     sret proceed))"

definition before_agent_run :: "'e probe \<Rightarrow> string \<Rightarrow> ('e, hook_result) sstep" where
  "before_agent_run pr = agent_hook pr ''before_agent_run''"

definition after_agent_run :: "'e probe \<Rightarrow> string \<Rightarrow> ('e, hook_result) sstep" where
  "after_agent_run pr = agent_hook pr ''after_agent_run''"

definition on_stall :: "'e probe \<Rightarrow> string \<Rightarrow> ('e, hook_result) sstep" where
  "on_stall pr why =
     sbind cur (\<lambda>st.
     sbind (record_hook (pr_clock pr) ''stall'' [(''reason'', JStr why), (''phase'', jget st ''phase'')]) (\<lambda>_.
     sret proceed))"

section \<open>Applying a decision\<close>

text \<open>\<open>_merge_patch\<close>: mappings are merged one level deep, everything else replaces.\<close>

definition merge_entry :: "obj \<Rightarrow> string \<times> json \<Rightarrow> obj" where
  "merge_entry st kv =
     (case (snd kv, jget st (fst kv)) of
        (JObj p, JObj d) \<Rightarrow> dset (fst kv) (JObj (dupdate d p)) st
      | _ \<Rightarrow> dset (fst kv) (snd kv) st)"

definition merge_patch :: "obj \<Rightarrow> obj \<Rightarrow> obj" where
  "merge_patch st patch = foldl merge_entry st patch"

definition hook_event :: "hook_result \<Rightarrow> obj" where
  "hook_event r = [(''action'', JStr (hook_action_text (hr_action r))), (''reason'', hr_reason r)]"

definition apply_hook_result :: "'e probe \<Rightarrow> json \<Rightarrow> hook_result \<Rightarrow> ('e, unit) sstep" where
  "apply_hook_result pr failed r =
     sbind (on_cur (\<lambda>st. Inr (merge_patch st (hr_patch r)))) (\<lambda>_.
     if hr_action r = HContinue then sret ()
     else
       sbind (append_event (pr_clock pr) ''hook_action'' (JObj (hook_event r))) (\<lambda>_.
       case hr_action r of
         HContinue \<Rightarrow> sret ()
       | HPause \<Rightarrow> sbind (put ''active'' (JBool False)) (\<lambda>_. put ''status'' (JStr ''paused''))
       | HRetry \<Rightarrow>
           sbind (put ''active'' (JBool True)) (\<lambda>_.
           sbind (put ''status'' (JStr ''running'')) (\<lambda>_.
           sbind (on_cur (\<lambda>st. Inr (dset ''next_action''
                    (py_or failed (py_or (jget st ''next_action'') (jget st ''phase''))) st))) (\<lambda>_.
           sbind (now_iso (pr_clock pr)) (\<lambda>t. put ''phase_started_at'' (JStr t)))))
       | HFail \<Rightarrow>
           sbind (put ''active'' (JBool False)) (\<lambda>_.
           sbind (put ''status'' (JStr ''error'')) (\<lambda>_. put ''next_action'' JNull))
       | HConfirm \<Rightarrow>
           sbind (put ''active'' (JBool False)) (\<lambda>_.
           sbind (fetch ''requires_human_approval'') (\<lambda>approval.
           sbind (if truthy approval then put ''status'' (JStr ''waiting_approval'')
                  else sbind (put ''requires_confirmation'' (JBool True)) (\<lambda>_.
                       put ''status'' (JStr ''waiting_confirmation''))) (\<lambda>_.
           put ''next_action'' JNull)))))"

text \<open>A hook and the application of its result.\<close>

definition hooked :: "'e probe \<Rightarrow> ('e, hook_result) sstep \<Rightarrow> ('e, unit) sstep" where
  "hooked pr m = sbind m (apply_hook_result pr JNull)"

end
