(* ===== verification/Failure_Evidence.thy ===== *)
theory Failure_Evidence
  imports Steps Domain
begin

text \<open>
  \<open>orchestrator/failure_evidence.py\<close>: the evidence a failed phase leaves for the next attempt,
  its classification, the recovery strategy that escalates with repetition, and the counters kept
  in the run state. What is read from the workspace (failing lines of the traces, files changed
  in git, checks and files named in the text) and the hash of a signature are parameters.
\<close>

section \<open>Text\<close>

definition lower_char :: "char \<Rightarrow> char" where
  "lower_char c =
     (let n = of_char c :: nat in
      if 65 \<le> n \<and> n \<le> 90 \<or> 192 \<le> n \<and> n \<le> 222 \<and> n \<noteq> 215 then char_of (n + 32) else c)"

definition lower :: "string \<Rightarrow> string" where
  "lower s = map lower_char s"

fun contains :: "string \<Rightarrow> string \<Rightarrow> bool" where
  "contains sub [] = (sub = [])"
| "contains sub (c # cs) = (prefix sub (c # cs) \<or> contains sub cs)"

text \<open>The characters \<open>\w\<close> matches.\<close>

definition word_char :: "char \<Rightarrow> bool" where
  "word_char c \<longleftrightarrow>
     (let n = of_char c :: nat in
      48 \<le> n \<and> n \<le> 57 \<or> 65 \<le> n \<and> n \<le> 90 \<or> 97 \<le> n \<and> n \<le> 122 \<or> n = 95 \<or>
      n \<in> {170, 178, 179, 181, 185, 186, 188, 189, 190} \<or> 192 \<le> n \<and> n \<noteq> 215 \<and> n \<noteq> 247)"

text \<open>\<open>\b(w1|w2|...)\b\<close> for alternatives that begin and end with such characters.\<close>

fun word_match :: "string list \<Rightarrow> bool \<Rightarrow> string \<Rightarrow> bool" where
  "word_match ws after_word [] = False"
| "word_match ws after_word (c # cs) =
     (\<not> after_word \<and> list_ex (\<lambda>w. prefix w (c # cs) \<and>
          (case drop (length w) (c # cs) of [] \<Rightarrow> True | d # _ \<Rightarrow> \<not> word_char d)) ws \<or>
      word_match ws (word_char c) cs)"

fun collapse_spaces :: "bool \<Rightarrow> string \<Rightarrow> string" where
  "collapse_spaces in_run [] = []"
| "collapse_spaces in_run (c # cs) =
     (if \<not> py_is_space c then c # collapse_spaces False cs
      else if in_run then collapse_spaces True cs
      else CHR '' '' # collapse_spaces True cs)"

definition clean_line :: "string \<Rightarrow> string" where
  "clean_line s = collapse_spaces False (py_strip s)"

fun dedupe :: "string list \<Rightarrow> string list \<Rightarrow> string list" where
  "dedupe seen [] = []"
| "dedupe seen (x # xs) = (if x \<in> set seen then dedupe seen xs else x # dedupe (x # seen) xs)"

definition trim_text :: "string \<Rightarrow> nat \<Rightarrow> string" where
  "trim_text s limit =
     (if length s \<le> limit then s
      else take (limit div 2) s @ [CHR 0x0A] @ ''...[truncated]...'' @ [CHR 0x0A] @ last_n ((limit + 1) div 2) s)"

section \<open>Classification\<close>

definition failure_markers :: "string list" where
  "failure_markers =
     [''[exit code:'', ''[error]'', ''traceback'', ''assert'', ''failed'', ''failure'', ''exception'',
      ''error:'', ''syntaxerror'', ''modulenotfounderror'', ''timeout'', ''timed out'', ''time_budget'',
      ''time budget'']"

definition failure_marked :: "string \<Rightarrow> bool" where
  "failure_marked s \<longleftrightarrow> list_ex (\<lambda>m. contains m (lower s)) failure_markers"

definition interesting_lines :: "string \<Rightarrow> string list" where
  "interesting_lines s =
     (let marked = filter failure_marked (splitlines s) in
      if marked \<noteq> [] then take 20 marked else take 8 (filter (\<lambda>l. \<not> py_blank l) (splitlines s)))"

definition join_lines :: "string list \<Rightarrow> string" where
  "join_lines ls = py_join [CHR 0x0A] ls"

definition any_in :: "string list \<Rightarrow> string \<Rightarrow> bool" where
  "any_in subs s \<longleftrightarrow> list_ex (\<lambda>m. contains m s) subs"

definition test_words :: "string list" where
  "test_words =
     [''pytest'', ''unittest'', ''assertionerror'', ''assert'', ''test failed'', ''tests failed'',
      ''failed test'', ''failed tests'']"

definition classify_failure :: "string \<Rightarrow> string list \<Rightarrow> string option \<Rightarrow> string" where
  "classify_failure primary snippets phase =
     (let s = lower (join_lines (primary # snippets)) in
      if any_in [''timed out'', ''timeout'', ''time_budget'', ''time budget''] s then ''timeout''
      else if any_in [''syntaxerror'', ''parse error'', ''unexpected token''] s then ''syntax_error''
      else if any_in [''modulenotfounderror'', ''no module named'', ''cannot find module'', ''importerror''] s
        then ''dependency_error''
      else if any_in [''playwright'', ''browser'', ''page.goto''] s then ''browser_failure''
      else if word_match test_words False s then ''test_failure''
      else if any_in [''make:'', ''build failed'', ''compilation terminated''] s \<or>
              contains ''error:'' s \<and> phase = Some ''build'' then ''build_failure''
      else if any_in [''traceback'', ''exception'', ''runtimeerror''] s then ''runtime_error''
      else ''unknown'')"

section \<open>Evidence\<close>

record 'e survey =
  sv_trace_lines :: "string \<Rightarrow> 'e \<Rightarrow> string list"
  sv_changed_files :: "string \<Rightarrow> 'e \<Rightarrow> string list"
  sv_checks :: "string \<Rightarrow> string list"
  sv_file_refs :: "string \<Rightarrow> string \<Rightarrow> string list"
  sv_relevant :: "string \<Rightarrow> string list \<Rightarrow> bool"
  sv_normalize :: "string \<Rightarrow> string"
  sv_digest :: "string \<Rightarrow> string"

definition error_line :: "py_error \<Rightarrow> string" where
  "error_line e = exc_name e @ '': '' @ exc_text e"

definition collect_snippets :: "'e survey \<Rightarrow> string \<Rightarrow> 'e \<Rightarrow> string \<Rightarrow> py_error option \<Rightarrow> string list" where
  "collect_snippets sv ws x feedback err =
     dedupe [] ((case err of None \<Rightarrow> [] | Some e \<Rightarrow> [error_line e]) @
       (if feedback = [] then [] else interesting_lines feedback) @ sv_trace_lines sv ws x)"

definition primary_error :: "string list \<Rightarrow> py_error option \<Rightarrow> string" where
  "primary_error snippets err =
     (case err of
        Some e \<Rightarrow> clean_line (error_line e)
      | None \<Rightarrow>
          (case find failure_marked snippets of
             Some s \<Rightarrow> clean_line s
           | None \<Rightarrow> (case snippets of [] \<Rightarrow> ''unknown failure'' | s # _ \<Rightarrow> clean_line s)))"

definition failure_history :: "obj \<Rightarrow> obj list result" where
  "failure_history st = rbind (list_or_empty (jget st ''failure_evidence_history'')) (rmap as_mapping)"

definition same_failure_count :: "obj \<Rightarrow> string \<Rightarrow> int result" where
  "same_failure_count st signature =
     rbind (failure_history st) (\<lambda>hs.
     Inr (1 + int (length (filter (\<lambda>h. jget h ''failure_signature'' = JStr signature) hs))))"

definition strategy_for_count :: "int \<Rightarrow> string" where
  "strategy_for_count n =
     (if n \<le> 1 then ''targeted_fix'' else if n = 2 then ''reinspect_assumptions'' else ''escalate_analysis'')"

definition default_retry_goal :: "string \<Rightarrow> string list \<Rightarrow> string \<Rightarrow> string" where
  "default_retry_goal ftype checks primary =
     (if ftype = ''test_failure'' then
        ''Fix the failing test/check'' @ (case checks of [] \<Rightarrow> [] | c # _ \<Rightarrow> '' `'' @ c @ ''`'') @
        '' and rerun the focused verification.''
      else if ftype = ''syntax_error'' then
        ''Fix the syntax error, then rerun the build or test command that exposed it.''
      else if ftype = ''dependency_error'' then
        ''Resolve the missing dependency/import issue without masking the underlying failure.''
      else if ftype = ''timeout'' then
        ''Identify why the previous command timed out and choose a bounded verification path.''
      else ''Fix the primary failure and verify it: '' @ trim_text primary 180)"

definition suspected_files :: "'e survey \<Rightarrow> string \<Rightarrow> string list \<Rightarrow> string list \<Rightarrow> string list" where
  "suspected_files sv ws snippets recent =
     foldl (\<lambda>acc f. if f \<notin> set acc \<and> sv_relevant sv f snippets then acc @ [f] else acc)
       (sv_file_refs sv (join_lines snippets) ws) recent"

definition failure_signature :: "'e survey \<Rightarrow> string \<Rightarrow> string list \<Rightarrow> string \<Rightarrow> string" where
  "failure_signature sv ftype checks primary =
     ftype @ '':'' @ take 12 (sv_digest sv
       (ftype @ ''|'' @ (case checks of [] \<Rightarrow> [] | c # _ \<Rightarrow> c) @ ''|'' @ sv_normalize sv primary))"

definition build_failure_evidence ::
    "'e survey \<Rightarrow> string \<Rightarrow> 'e \<Rightarrow> obj \<Rightarrow> string option \<Rightarrow> string \<Rightarrow> py_error option \<Rightarrow> string \<Rightarrow> obj result" where
  "build_failure_evidence sv ws x st phase feedback err goal =
     (let snippets = collect_snippets sv ws x feedback err;
          primary = primary_error snippets err;
          ftype = classify_failure primary snippets phase;
          checks = sv_checks sv (join_lines snippets);
          recent = sv_changed_files sv ws x;
          signature = failure_signature sv ftype checks primary in
      rbind (same_failure_count st signature) (\<lambda>n.
      Inr [(''failure_type'', JStr ftype), (''failure_signature'', JStr signature),
           (''failed_checks'', jstrs (take 8 checks)),
           (''evidence'', jstrs (take 8 (dedupe [] (filter (\<lambda>s. s \<noteq> []) (map clean_line snippets))))),
           (''suspected_files'', jstrs (take 12 (suspected_files sv ws snippets recent))),
           (''recent_changed_files'', jstrs (take 20 recent)),
           (''retry_goal'', JStr (if goal = [] then default_retry_goal ftype checks primary else goal)),
           (''same_failure_count'', JInt n), (''recovery_strategy'', JStr (strategy_for_count n))]))"

section \<open>Counters\<close>

text \<open>\<open>int(d.get(k) or 0)\<close>.\<close>

definition count_of :: "obj \<Rightarrow> string \<Rightarrow> int result" where
  "count_of d k = py_int (py_or (jget d k) (JInt 0))"

text \<open>\<open>state.setdefault("recovery", {})\<close>, which has to be a mapping.\<close>

definition recovery_of :: "obj \<Rightarrow> obj result" where
  "recovery_of st = as_mapping (dget st ''recovery'' (JObj []))"

definition append_failure_evidence :: "obj \<Rightarrow> obj \<Rightarrow> obj result" where
  "append_failure_evidence st ev =
     (case dget st ''failure_evidence_history'' (JList []) of
        JList hs \<Rightarrow>
          let hs' = last_n 20 (hs @ [JObj ev]);
              st1 = dset ''current_failure_evidence'' (JObj ev) (dset ''failure_evidence_history'' (JList hs') st) in
          rbind (recovery_of st1) (\<lambda>rc.
          rbind (count_of rc ''failed_attempt_count'') (\<lambda>failed.
          rbind (rmap as_mapping hs') (\<lambda>ms.
          rbind (rmap (\<lambda>m. count_of m ''same_failure_count'') ms) (\<lambda>counts.
          rbind (count_of ev ''same_failure_count'') (\<lambda>n.
          let rc1 = dset ''repeated_failure_count'' (JInt (int (length (filter (\<lambda>c. 1 < c) counts))))
                      (dset ''failed_attempt_count'' (JInt (failed + 1)) rc) in
          rbind (if 3 \<le> n
                 then rbind (count_of rc1 ''same_failure_escalation_count'') (\<lambda>esc.
                   Inr (dset ''same_failure_escalation_count'' (JInt (esc + 1)) rc1))
                 else Inr rc1) (\<lambda>rc2.
          Inr (dset ''recovery'' (JObj rc2) st1)))))))
      | _ \<Rightarrow> Inl (AttributeError ''append''))"

definition mark_recovery_attempt :: "obj \<Rightarrow> obj result" where
  "mark_recovery_attempt st =
     rbind (recovery_of st) (\<lambda>rc.
     rbind (count_of rc ''recovery_attempt_count'') (\<lambda>n.
     Inr (dset ''recovery'' (JObj (dset ''recovery_attempt_count'' (JInt (n + 1)) rc)) st)))"

end
