(* ===== verification/Router.thy ===== *)
theory Router
  imports Failure_Evidence
begin

text \<open>
  \<open>orchestrator/router.py\<close>: the profile of a task is chosen by keyword rules, a language model when
  the rules are unsure, and the adjustments of the memory; below a confidence threshold the user
  has to confirm. The model and the memory are parameters.
\<close>

record route_decision =
  rd_profile :: json
  rd_confidence :: rat
  rd_source :: string
  rd_reasoning :: json
  rd_alternatives :: "obj list"
  rd_task_type :: string
  rd_task_confidence :: rat
  rd_task_source :: string
  rd_confirm :: bool
  rd_memory_refs :: json
  rd_short_refs :: json
  rd_long_refs :: json
  rd_adjustments :: json
  rd_hints :: json

definition py_round3 :: "rat \<Rightarrow> rat" where
  "py_round3 x = fl (of_int (round_half_even (x * 1000)) / 1000)"

definition or_empty :: "json \<Rightarrow> json" where
  "or_empty v = py_or v (JList [])"

definition route_to_dict :: "route_decision \<Rightarrow> obj" where
  "route_to_dict d =
     [(''profile'', rd_profile d), (''confidence'', JFloat (py_round3 (rd_confidence d))),
      (''source'', JStr (rd_source d)), (''reasoning'', rd_reasoning d),
      (''alternatives'', JList (map JObj (rd_alternatives d))), (''task_type'', JStr (rd_task_type d)),
      (''task_type_confidence'', JFloat (py_round3 (rd_task_confidence d))),
      (''task_type_source'', JStr (rd_task_source d)), (''requires_confirmation'', JBool (rd_confirm d)),
      (''memory_refs'', or_empty (rd_memory_refs d)), (''short_term_refs'', or_empty (rd_short_refs d)),
      (''long_term_refs'', or_empty (rd_long_refs d)),
      (''memory_adjustments'', or_empty (rd_adjustments d)), (''strategy_hints'', or_empty (rd_hints d))]"

section \<open>Keyword scores\<close>

definition web_terms :: "string list" where
  "web_terms =
     [''build'', ''app'', ''web'', ''website'', ''browser'', ''ui'', ''page'', ''component'', ''react'',
      ''frontend'', ''dashboard'', ''html'', ''css'', ''javascript'', ''button'', ''form'']"

definition web_type_terms :: "string list" where
  "web_type_terms =
     [''web'', ''website'', ''browser'', ''ui'', ''page'', ''component'', ''react'', ''frontend'',
      ''dashboard'', ''html'', ''css'', ''javascript'', ''button'', ''form'', ''app'']"

definition terminal_terms :: "string list" where
  "terminal_terms =
     [''terminal'', ''shell'', ''cli'', ''command'', ''linux'', ''file'', ''directory'', ''symlink'',
      ''permission'', ''install'', ''server'', ''bash'', ''script'', ''docker'', ''process'']"

definition repair_terms :: "string list" where
  "repair_terms =
     [''bug'', ''fix'', ''issue'', ''failing test'', ''regression'', ''traceback'', ''patch'',
      ''repository'', ''function'', ''class'', ''pytest'', ''unit test'', ''typeerror'', ''exception'']"

definition reasoning_terms :: "string list" where
  "reasoning_terms =
     [''explain'', ''why'', ''calculate'', ''prove'', ''derive'', ''answer'', ''math'', ''reason'',
      ''logic'', ''compare'', ''analyze'', ''question'']"

text \<open>\<open>score += 1.0 + min(len(term), 12) / 20.0\<close>.\<close>

definition score_terms :: "string \<Rightarrow> string list \<Rightarrow> rat" where
  "score_terms s terms =
     foldl (\<lambda>score t. if contains t s
            then fl (score + fl (1 + fl (of_nat (min (length t) 12) / 20))) else score) 0 terms"

definition asks_for_app :: "string \<Rightarrow> bool" where
  "asks_for_app s \<longleftrightarrow>
     word_match [''build'', ''create'', ''make''] False s \<and>
     word_match [''app'', ''web'', ''ui'', ''page'', ''site'', ''browser''] False s"

definition by_confidence :: "obj list \<Rightarrow> obj list result" where
  "by_confidence cs =
     rbind (rmap (\<lambda>c. rbind (rbind (jindex c ''confidence'') py_float) (\<lambda>x. Inr (x, c))) cs) (\<lambda>xs.
     Inr (map snd (sort_key (\<lambda>x. - fst x) xs)))"

definition candidate :: "string \<Rightarrow> rat \<Rightarrow> rat \<Rightarrow> obj" where
  "candidate profile score whole =
     [(''profile'', JStr profile),
      (''confidence'', JFloat (py_round3 (fl (fl (25 / 100) + fl (min (fl (score / whole)) 1 * fl (65 / 100)))))),
      (''reason'', JStr (''Rule keywords matched for '' @ profile @ ''.''))]"

definition rule_candidates :: "string \<Rightarrow> obj list result" where
  "rule_candidates prompt =
     (let s = lower prompt;
          app = score_terms s web_terms;
          scores = [(''app-builder'', if asks_for_app s then fl (app + fl (25 / 100)) else app),
                    (''terminal'', score_terms s terminal_terms), (''swe-bench'', score_terms s repair_terms),
                    (''reasoning'', score_terms s reasoning_terms)];
          whole = py_fsum (map snd scores) in
      by_confidence (map (\<lambda>(p, x). candidate p x (if whole = 0 then 1 else whole)) scores))"

text \<open>The first of the buckets with the greatest score.\<close>

definition best_bucket :: "(string \<times> rat) list \<Rightarrow> string \<times> rat" where
  "best_bucket bs = foldl (\<lambda>b c. if snd b < snd c then c else b) (hd bs) (tl bs)"

definition classify_task_type :: "string \<Rightarrow> string \<times> rat \<times> string" where
  "classify_task_type prompt =
     (let s = lower prompt;
          web = score_terms s web_type_terms;
          buckets = [(''web_app'', if asks_for_app s then fl (web + fl (1 / 2)) else web),
                     (''terminal_ops'', score_terms s terminal_terms), (''code_repair'', score_terms s repair_terms),
                     (''reasoning'', score_terms s (reasoning_terms @ [''equation'']))];
          (best, x) = best_bucket buckets; whole = py_fsum (map snd buckets) in
      if x \<le> 0 \<or> whole \<le> 0 then (''unclear'', fl (25 / 100), ''rule'')
      else (best, py_round3 (fl (fl (35 / 100) + fl (min (fl (x / whole)) 1 * fl (60 / 100)))), ''rule''))"

section \<open>Routing\<close>

definition valid_profiles :: "string list" where
  "valid_profiles = [''app-builder'', ''terminal'', ''swe-bench'', ''reasoning'']"

definition merge_candidate :: "json \<Rightarrow> rat \<Rightarrow> string \<Rightarrow> obj \<Rightarrow> obj result" where
  "merge_candidate profile conf why c =
     rbind (jindex c ''profile'') (\<lambda>p.
     rbind (rbind (jindex c ''confidence'') py_float) (\<lambda>x.
     Inr (if py_eq p profile
          then dset ''reason'' (JStr why) (dset ''confidence'' (JFloat (py_round3 (max x conf))) c)
          else dset ''confidence'' (JFloat (py_round3 (fl (x * fl (92 / 100))))) c)))"

definition merge_llm_decision :: "obj list \<Rightarrow> obj \<Rightarrow> obj list result" where
  "merge_llm_decision cs d =
     rbind (jindex d ''profile'') (\<lambda>profile.
     rbind (py_float (dget d ''confidence'' (JFloat (fl (6 / 10))))) (\<lambda>x.
     rbind (py_str (dget d ''reasoning'' (JStr ''LLM router selected this profile.''))) (\<lambda>why.
     rbind (rmap (merge_candidate profile (max 0 (min 1 x)) why) cs) by_confidence)))"

record 'e router =
  ro_threshold :: rat
  ro_llm :: "string \<Rightarrow> obj list \<Rightarrow> ('e, obj) step"
  ro_adjust :: "obj list \<Rightarrow> string \<Rightarrow> string \<Rightarrow> ('e, obj list \<times> obj) step"

definition manual_route :: "string \<Rightarrow> string \<Rightarrow> route_decision" where
  "manual_route profile prompt =
     (let (ty, tc, ts) = classify_task_type prompt in
      \<lparr>rd_profile = JStr profile, rd_confidence = 1, rd_source = ''manual'',
       rd_reasoning = JStr ''User explicitly selected a profile.'', rd_alternatives = [],
       rd_task_type = ty, rd_task_confidence = tc, rd_task_source = ts, rd_confirm = False,
       rd_memory_refs = JList [], rd_short_refs = JList [], rd_long_refs = JList [],
       rd_adjustments = JList [], rd_hints = JList []\<rparr>)"

definition unsure :: "obj list \<Rightarrow> bool result" where
  "unsure cs =
     rbind (rmap (\<lambda>c. rbind (jindex c ''confidence'') py_float) cs) (\<lambda>xs.
     Inr (hd xs < fl (72 / 100) \<or> 1 < length xs \<and> fl (hd xs - xs ! 1) < fl (12 / 100)))"

text \<open>The decision for the best of the adjusted candidates.\<close>

definition best_route :: "rat \<Rightarrow> string \<Rightarrow> string \<times> rat \<times> string \<Rightarrow> obj list \<times> obj \<Rightarrow> route_decision result" where
  "best_route threshold source task adjustment =
     (case fst adjustment of
        [] \<Rightarrow> Inl (Raised ''IndexError'' ''list index out of range'')
      | best # _ \<Rightarrow>
          rbind (py_float (dget best ''confidence'' (JFloat 0))) (\<lambda>x.
          rbind (if x < threshold then Inr JNull else jindex best ''profile'') (\<lambda>profile.
          let found = (\<lambda>k. dget (snd adjustment) k (JList [])) in
          Inr \<lparr>rd_profile = profile, rd_confidence = x, rd_source = source,
               rd_reasoning = dget best ''reason'' (JStr []), rd_alternatives = take 4 (fst adjustment),
               rd_task_type = fst task, rd_task_confidence = fst (snd task), rd_task_source = snd (snd task),
               rd_confirm = (x < threshold), rd_memory_refs = found ''memory_refs'',
               rd_short_refs = found ''short_term_refs'', rd_long_refs = found ''long_term_refs'',
               rd_adjustments = found ''memory_adjustments'', rd_hints = found ''strategy_hints''\<rparr>)))"

definition auto_route :: "'e router \<Rightarrow> string \<Rightarrow> ('e, route_decision) step" where
  "auto_route ro prompt =
     sbind (slift (rule_candidates prompt)) (\<lambda>cs.
     sbind (slift (unsure cs)) (\<lambda>ask.
     sbind (if ask then ro_llm ro prompt cs else sret []) (\<lambda>d.
     sbind (if d \<noteq> [] then slift (merge_llm_decision cs d) else sret cs) (\<lambda>cs'.
     sbind (ro_adjust ro cs' prompt (fst (classify_task_type prompt))) (\<lambda>adjustment.
     slift (best_route (ro_threshold ro) (if d \<noteq> [] then ''llm'' else ''rule'')
              (classify_task_type prompt) adjustment))))))"

definition route :: "'e router \<Rightarrow> json \<Rightarrow> json \<Rightarrow> ('e, route_decision) step" where
  "route ro prompt override =
     (case prompt of
        JStr p \<Rightarrow>
          if truthy override \<and> override \<noteq> JStr ''auto'' then
            sbind (slift (in_strings valid_profiles override)) (\<lambda>known.
            if \<not> known then
              sbind (slift (py_str override)) (\<lambda>t. slift (Inl (ValueError ''Unknown profile override: {}'' [t])))
            else sbind (slift (py_str override)) (\<lambda>t. sret (manual_route t p)))
          else auto_route ro p
      | _ \<Rightarrow> slift (Inl (AttributeError ''lower'')))"

lemma best_route_confirms:
  "best_route threshold source task adjustment = Inr d \<Longrightarrow>
     (rd_confirm d \<longleftrightarrow> rd_confidence d < threshold) \<and> (rd_confirm d \<longrightarrow> rd_profile d = JNull)"
  by (auto simp: best_route_def result_simps Let_def split: list.splits if_splits)

lemma auto_route_confirms:
  "auto_route ro prompt s = (Inr d, t) \<Longrightarrow>
     (rd_confirm d \<longleftrightarrow> rd_confidence d < ro_threshold ro) \<and> (rd_confirm d \<longrightarrow> rd_profile d = JNull)"
  unfolding auto_route_def sbind_eq_Inr by (auto dest: best_route_confirms)

end
