(* ===== verification/Scheduler.thy ===== *)
theory Scheduler
  imports Hooks Router Acceptance_Runs
begin

text \<open>
  \<open>orchestrator/scheduler_reducer.py\<close> and \<open>orchestrator/scheduler.py\<close>: the control flow of one step
  of a legacy run, its actions (route, plan, contract, build, evaluate, analyze), the acceptance
  bookkeeping around them and the recovery of failed actions. The hooks are the default manager
  of theory Hooks. The phases, the analysis of the workspace and the memory are fields of \<open>sched\<close>.
\<close>

section \<open>The reducer\<close>

datatype step_effect = StartTrace | SaveCheckpoint | SyncAcceptance | HandleApproval | Stall | BeforeStep
  | ExecuteAction | HandleFailure | SaveAndReturn

datatype step_event = Start | TraceStarted | CheckpointSaved | AcceptanceSynced | BeforeStepApplied
  | ActionSucceeded | ActionFailed

record reduction =
  rn_state :: obj
  rn_effect :: step_effect
  rn_action :: json
  rn_reason :: "string option"
  rn_error :: "py_error option"

definition reduction_of :: "obj \<Rightarrow> step_effect \<Rightarrow> reduction" where
  "reduction_of st eff =
     \<lparr>rn_state = st, rn_effect = eff, rn_action = JNull, rn_reason = None, rn_error = None\<rparr>"

definition stalled :: "obj \<Rightarrow> string \<Rightarrow> reduction" where
  "stalled st why = (reduction_of st Stall)\<lparr>rn_reason := Some why\<rparr>"

definition reduce_ready_state :: "obj \<Rightarrow> reduction result" where
  "reduce_ready_state st =
     rbind (if truthy (jget st ''requires_human_approval'')
            then rbind (as_mapping (dget st ''human_approval'' (JObj []))) (\<lambda>a. Inr (\<not> truthy (jget a ''approved'')))
            else Inr False) (\<lambda>waiting.
     Inr (if waiting then reduction_of st HandleApproval
          else if \<not> truthy (jget st ''active'') then stalled st ''active flag is false''
          else if truthy (jget st ''requires_confirmation'') then stalled st ''profile confirmation required''
          else if \<not> truthy (jget st ''next_action'') then stalled st ''no next action''
          else reduction_of st BeforeStep))"

definition halted_statuses :: "string list" where
  "halted_statuses = [''paused'', ''error'', ''waiting_confirmation'', ''waiting_approval'']"

definition reduce_step :: "obj \<Rightarrow> step_event \<Rightarrow> json \<Rightarrow> py_error option \<Rightarrow> reduction result" where
  "reduce_step st ev action err =
     (case ev of
        Start \<Rightarrow>
          Inr (reduction_of st (if truthy (jget st ''canonical_trace_started'') then SyncAcceptance else StartTrace))
      | TraceStarted \<Rightarrow> Inr (reduction_of (dset ''canonical_trace_started'' (JBool True) st) SaveCheckpoint)
      | CheckpointSaved \<Rightarrow> Inr (reduction_of st SyncAcceptance)
      | AcceptanceSynced \<Rightarrow> reduce_ready_state st
      | BeforeStepApplied \<Rightarrow>
          rbind (in_strings halted_statuses (jget st ''status'')) (\<lambda>halted.
          if halted then Inr (reduction_of st SaveAndReturn)
          else rbind (jindex st ''next_action'') (\<lambda>a. Inr ((reduction_of st ExecuteAction)\<lparr>rn_action := a\<rparr>)))
      | ActionSucceeded \<Rightarrow> Inr ((reduction_of st SaveAndReturn)\<lparr>rn_action := action\<rparr>)
      | ActionFailed \<Rightarrow> Inr ((reduction_of st HandleFailure)\<lparr>rn_action := action, rn_error := err\<rparr>))"

section \<open>What the scheduler relies on\<close>

text \<open>A phase returns its state dictionary; an agent result in its place is checked.\<close>

datatype phase_result = PhaseState obj | PhaseAgent bool string int

record 'e sched =
  sc_probe :: "'e probe"
  sc_survey :: "'e survey"
  sc_acceptance :: bool
  sc_recovery :: bool
  sc_model :: string
  sc_flags :: obj
  sc_digest :: "observation \<Rightarrow> string"
  sc_route :: "json \<Rightarrow> json \<Rightarrow> ('e, route_decision) step"
  sc_phase :: "string \<Rightarrow> obj \<Rightarrow> ('e, phase_result) step"
  sc_analyze :: "string \<Rightarrow> ('e, obj) step"
  sc_artifacts :: "string \<Rightarrow> ('e, json list) step"
  sc_fingerprint :: "string \<Rightarrow> ('e, string) step"
  sc_persist :: "string \<Rightarrow> obj \<Rightarrow> ('e, unit) step"
  sc_memory :: "obj \<Rightarrow> obj \<Rightarrow> ('e, unit) step"
  sc_cleanup :: "string \<Rightarrow> ('e, unit) step"
  sc_spec_text :: "string \<Rightarrow> 'e \<Rightarrow> string option"
  sc_feedback_text :: "string \<Rightarrow> 'e \<Rightarrow> string"
  sc_remove_extras :: "string \<Rightarrow> ('e, string list) step"
  sc_profile_rounds :: "json \<Rightarrow> int"
  sc_profile_threshold :: "json \<Rightarrow> rat"
  sc_profile_evaluator :: "json \<Rightarrow> json \<Rightarrow> json \<Rightarrow> bool result"

abbreviation sc_clock :: "'e sched \<Rightarrow> clock" where
  "sc_clock sc \<equiv> pr_clock (sc_probe sc)"

definition workspace_of :: "('e, string) sstep" where
  "workspace_of = sbind cur (\<lambda>st. slift (rbind (jindex st ''workspace'') path_text))"

definition add_event :: "'e sched \<Rightarrow> string \<Rightarrow> obj \<Rightarrow> ('e, unit) sstep" where
  "add_event sc type body = append_event (sc_clock sc) type (JObj body)"

definition apply_hook :: "'e sched \<Rightarrow> ('e, hook_result) sstep \<Rightarrow> ('e, unit) sstep" where
  "apply_hook sc m = hooked (sc_probe sc) m"

text \<open>Setting phase and next action together, as every transition does.\<close>

definition goto :: "string \<Rightarrow> ('e, unit) sstep" where
  "goto phase = sbind (put ''phase'' (JStr phase)) (\<lambda>_. put ''next_action'' (JStr phase))"

definition contract_enabled :: "obj \<Rightarrow> bool" where
  "contract_enabled st \<longleftrightarrow> jget st ''profile'' = JStr ''app-builder''"

definition goto_contract_or_build :: "('e, unit) sstep" where
  "goto_contract_or_build = sbind cur (\<lambda>st. goto (if contract_enabled st then ''contract'' else ''build''))"

definition max_rounds_of :: "'e sched \<Rightarrow> obj \<Rightarrow> int result" where
  "max_rounds_of sc st =
     (if truthy (jget st ''max_rounds'') then py_int (jget st ''max_rounds'')
      else Inr (sc_profile_rounds sc (jget st ''profile'')))"

definition pass_threshold :: "'e sched \<Rightarrow> obj \<Rightarrow> rat" where
  "pass_threshold sc st = sc_profile_threshold sc (jget st ''profile'')"

definition round_of :: "obj \<Rightarrow> int result" where
  "round_of st = py_int (dget st ''round_num'' (JInt 1))"

text \<open>\<open>(state.get(k) or {}).get(f)\<close>.\<close>

definition sub_field :: "obj \<Rightarrow> string \<Rightarrow> string \<Rightarrow> json result" where
  "sub_field st k f = rbind (as_mapping (py_or (jget st k) (JObj []))) (\<lambda>d. Inr (jget d f))"

definition decision_action :: "obj \<Rightarrow> json result" where
  "decision_action st = sub_field st ''acceptance_decision'' ''action''"

definition scores_of :: "obj \<Rightarrow> json list result" where
  "scores_of st =
     (case py_or (jget st ''score_history'') (JList []) of
        JList xs \<Rightarrow> Inr xs | _ \<Rightarrow> Inl (TypeError ''object is not subscriptable''))"

text \<open>The last score, \<open>None\<close> without scores.\<close>

definition last_score :: "obj \<Rightarrow> rat option result" where
  "last_score st =
     rbind (scores_of st) (\<lambda>xs. if xs = [] then Inr None else rbind (py_float (last xs)) (\<lambda>x. Inr (Some x)))"

definition score_passes :: "'e sched \<Rightarrow> obj \<Rightarrow> bool result" where
  "score_passes sc st =
     rbind (last_score st) (\<lambda>s. Inr (case s of None \<Rightarrow> False | Some x \<Rightarrow> pass_threshold sc st \<le> x))"

section \<open>Acceptance\<close>

definition set_default :: "string \<Rightarrow> json \<Rightarrow> ('e, unit) sstep" where
  "set_default k v = on_cur (\<lambda>st. Inr (dsetdefault k v st))"

definition sync_acceptance_baseline :: "'e sched \<Rightarrow> ('e, unit) sstep" where
  "sync_acceptance_baseline sc =
     sbind cur (\<lambda>st.
     sbind (if jget st ''acceptance_progress'' = JNull
            then put ''acceptance_progress'' (JObj create_acceptance_state) else sret ()) (\<lambda>_.
     sbind (if jget st ''acceptance_fingerprint'' = JNull
            then sbind workspace_of (\<lambda>ws. sbind (on_world (sc_fingerprint sc ws)) (\<lambda>f.
                 put ''acceptance_fingerprint'' (JStr f)))
            else sret ()) (\<lambda>_.
     sbind (set_default ''acceptance_observation_seq'' (JInt 0)) (\<lambda>_.
     sbind (set_default ''acceptance_repair_rounds'' (JInt 0)) (\<lambda>_.
     sbind (set_default ''acceptance_repair_tokens'' (JList [])) (\<lambda>_.
     set_default ''acceptance_summary'' JNull))))))"

definition progress_of :: "json \<Rightarrow> obj option result" where
  "progress_of v =
     (case v of JNull \<Rightarrow> Inr None | JObj d \<Rightarrow> Inr (Some d) | _ \<Rightarrow> Inl (Unsupported ''acceptance state''))"

definition remaining_budget :: "obj \<Rightarrow> rat option result" where
  "remaining_budget st =
     (case jget st ''remaining_task_budget_seconds'' of
        JNull \<Rightarrow> Inr None
      | v \<Rightarrow> rbind (py_float v) (\<lambda>x. Inr (Some (max 0 x))))"

text \<open>One observation: validated, decided on by the controller, and stored with its number.\<close>

definition observe :: "'e sched \<Rightarrow> bool \<Rightarrow> string \<Rightarrow> string option \<Rightarrow> string option \<Rightarrow> ('e, acceptance_decision) sstep" where
  "observe sc changed status token failure =
     sbind cur (\<lambda>st.
     sbind (slift (remaining_budget st)) (\<lambda>left.
     sbind (slift (py_int (dget st ''acceptance_observation_seq'' (JInt 0)))) (\<lambda>n.
     sbind (slift (shown (sc_probe sc) (dget st ''run_id'' (JStr ''run'')))) (\<lambda>rid.
     let ob = \<lparr>ob_key = rid @ '':acceptance:'' @ show_int (n + 1), ob_changed = changed, ob_status = status,
               ob_token = token, ob_failure = failure, ob_remaining = left, ob_progress = None\<rparr> in
     sbind (slift (observation_validate ob)) (\<lambda>_.
     sbind (slift (policy_int st ''acceptance_no_progress_limit'' 3)) (\<lambda>limit.
     sbind (slift (progress_of (jget st ''acceptance_progress''))) (\<lambda>progress.
     sbind (slift (acceptance_decide (sc_digest sc) (max 1 limit) 50 progress ob)) (\<lambda>(progress', d).
     sbind (put ''acceptance_progress'' (JObj progress')) (\<lambda>_.
     sbind (put ''acceptance_decision'' (JObj (decision_to_dict d))) (\<lambda>_.
     sret d))))))))))"

definition store_sequence :: "('e, unit) sstep" where
  "store_sequence =
     on_cur (\<lambda>st. rbind (py_int (dget st ''acceptance_observation_seq'' (JInt 0))) (\<lambda>n.
       Inr (dset ''acceptance_observation_seq'' (JInt (n + 1)) st)))"

definition verification_of :: "'e sched \<Rightarrow> obj \<Rightarrow> (string \<times> string option) result" where
  "verification_of sc analysis =
     rbind (sub_field analysis ''verification'' ''latest'') (\<lambda>latest.
     if \<not> truthy latest then Inr (''missing'', None)
     else rbind (as_mapping latest) (\<lambda>l.
          rbind (shown (sc_probe sc) (py_or (jget l ''token'') (JStr []))) (\<lambda>t.
          Inr (if truthy (jget l ''success'') then ''passed'' else ''failed'', if t = [] then None else Some t))))"

definition logged_field :: "'e sched \<Rightarrow> string \<Rightarrow> string \<Rightarrow> ('e, unit) sstep" where
  "logged_field sc k type =
     sbind (fetch k) (\<lambda>v. if truthy v then append_event (sc_clock sc) type v else sret ())"

definition refresh_acceptance :: "'e sched \<Rightarrow> string \<Rightarrow> string option \<Rightarrow> ('e, unit) sstep" where
  "refresh_acceptance sc context failure =
     sbind (sync_acceptance_baseline sc) (\<lambda>_.
     sbind workspace_of (\<lambda>ws.
     sbind (on_world (sc_analyze sc ws)) (\<lambda>analysis.
     sbind (put ''analysis'' (JObj analysis)) (\<lambda>_.
     sbind (apply_hook sc (after_validation (sc_probe sc) analysis)) (\<lambda>_.
     sbind (logged_field sc ''validation'' ''validation_checked'') (\<lambda>_.
     sbind (fetch ''acceptance_fingerprint'') (\<lambda>previous.
     sbind (on_world (sc_fingerprint sc ws)) (\<lambda>current.
     let changed = (previous \<noteq> JNull \<and> previous \<noteq> JStr current) in
     sbind (if changed then add_event sc ''acceptance_artifacts_changed''
              [(''before'', previous), (''after'', JStr current), (''context'', JStr context)] else sret ()) (\<lambda>_.
     sbind (slift (verification_of sc analysis)) (\<lambda>(status, token).
     sbind (observe sc changed status token failure) (\<lambda>d.
     sbind (put ''acceptance_fingerprint'' (JStr current)) (\<lambda>_.
     sbind store_sequence (\<lambda>_.
     add_event sc ''acceptance_decision''
       (decision_to_dict d @ [(''context'', JStr context), (''verification_token'', jopt JStr token),
          (''artifacts_changed'', JBool changed)]))))))))))))))"

definition record_score_acceptance_failure :: "'e sched \<Rightarrow> rat \<Rightarrow> ('e, unit) sstep" where
  "record_score_acceptance_failure sc score =
     sbind cur (\<lambda>st.
     let threshold = pass_threshold sc st; fmt = pr_format (sc_probe sc) in
     sbind (slift (scores_of st)) (\<lambda>scores.
     sbind (slift (round_of st)) (\<lambda>n.
     let token = ''score:round-'' @ show_int n @ '':sample-'' @ show_nat (length scores) @ '':'' @
           fmt ''.6g'' score @ '':threshold-'' @ fmt ''.6g'' threshold;
         why = ''evaluator score '' @ fmt ''g'' score @ '' is below threshold '' @ fmt ''g'' threshold in
     sbind (observe sc False ''failed'' (Some token) (Some why)) (\<lambda>d.
     sbind store_sequence (\<lambda>_.
     add_event sc ''acceptance_score_failed''
       (decision_to_dict d @ [(''score'', JFloat score), (''threshold'', JFloat threshold),
          (''verification_token'', JStr token)]))))))"

text \<open>A scheduled repair is counted once per observation.\<close>

definition repair_token :: "'e sched \<Rightarrow> obj \<Rightarrow> string result" where
  "repair_token sc st =
     rbind (as_mapping (py_or (jget st ''acceptance_progress'') (JObj []))) (\<lambda>progress.
     if truthy (jget progress ''last_observation_id'') then shown (sc_probe sc) (jget progress ''last_observation_id'')
     else rbind (shown (sc_probe sc) (dget st ''round_num'' (JInt 1))) (\<lambda>n.
          rbind (as_mapping (py_or (jget st ''acceptance_decision'') (JObj []))) (\<lambda>d.
          rbind (shown (sc_probe sc) (dget d ''reason'' (JStr []))) (\<lambda>why.
          Inr (''round:'' @ n @ '':'' @ why)))))"

definition record_acceptance_repair_round :: "'e sched \<Rightarrow> ('e, unit) sstep" where
  "record_acceptance_repair_round sc =
     on_cur (\<lambda>st.
       rbind (repair_token sc st) (\<lambda>token.
       rbind (list_or_empty (jget st ''acceptance_repair_tokens'')) (\<lambda>tokens.
       if list_ex (py_eq (JStr token)) tokens then Inr st
       else rbind (py_int (dget st ''acceptance_repair_rounds'' (JInt 0))) (\<lambda>n.
            Inr (dset ''acceptance_repair_rounds'' (JInt (n + 1))
                  (dset ''acceptance_repair_tokens'' (JList (last_n 500 (tokens @ [JStr token]))) st))))))"

end
