(* ===== verification/Scheduler_Actions.thy ===== *)
theory Scheduler_Actions
  imports Scheduler
begin

text \<open>
  The actions of \<open>orchestrator/scheduler.py\<close>: routing, running a phase between its hooks, choosing
  the next action (with and without the acceptance controller), the final analysis, and the
  recovery of a failed action.
\<close>

section \<open>Rounds and retries\<close>

definition record_round_failure_evidence :: "'e sched \<Rightarrow> bool \<Rightarrow> string \<Rightarrow> ('e, unit) sstep" where
  "record_round_failure_evidence sc planned goal =
     sbind workspace_of (\<lambda>ws.
     sbind (sread (\<lambda>w. sc_feedback_text sc ws (sw_ext w))) (\<lambda>feedback.
     sbind cur (\<lambda>st.
     sbind (sread sw_ext) (\<lambda>x.
     sbind (slift (build_failure_evidence (sc_survey sc) ws x st (Some ''evaluate'') feedback None goal)) (\<lambda>ev.
     sbind (on_cur (\<lambda>st'. append_failure_evidence st' ev)) (\<lambda>_.
     add_event sc ''failure_evidence_recorded''
       (map (\<lambda>k. (k, jget ev k))
         [''failure_type'', ''failure_signature'', ''same_failure_count'', ''recovery_strategy''])))))))"

definition next_round :: "('e, unit) sstep" where
  "next_round = on_cur (\<lambda>st. rbind (round_of st) (\<lambda>n. Inr (dset ''round_num'' (JInt (n + 1)) st)))"

definition is_halted :: "('e, bool) sstep" where
  "is_halted = sbind (fetch ''status'') (\<lambda>s. slift (in_strings halted_statuses s))"

text \<open>The hook may stop the run before a new round; otherwise \<open>body\<close> schedules it.\<close>

definition unless_halted :: "'e sched \<Rightarrow> ('e, unit) sstep \<Rightarrow> ('e, unit) sstep" where
  "unless_halted sc body =
     sbind (apply_hook sc (before_new_round (sc_probe sc))) (\<lambda>_.
     sbind is_halted (\<lambda>halted. if halted then sret () else body))"

definition schedule_acceptance_retry :: "'e sched \<Rightarrow> json \<Rightarrow> ('e, unit) sstep" where
  "schedule_acceptance_retry sc action =
     sbind cur (\<lambda>st.
     sbind (slift (round_of st)) (\<lambda>n.
     sbind (slift (max_rounds_of sc st)) (\<lambda>limit.
     if limit \<le> n then goto ''analyze''
     else
       let repair = (action = JStr ''repair'') in
       sbind (if repair \<and> sc_recovery sc
              then record_round_failure_evidence sc True
                     ''Repair the failed acceptance check, then rerun focused verification.''
              else sret ()) (\<lambda>_.
       unless_halted sc (
         sbind (if repair \<and> sc_recovery sc then on_cur mark_recovery_attempt else sret ()) (\<lambda>_.
         sbind next_round (\<lambda>_.
         sbind (if repair then record_acceptance_repair_round sc else sret ()) (\<lambda>_.
         sbind goto_contract_or_build (\<lambda>_.
         sbind (fetch ''round_num'') (\<lambda>r.
         add_event sc ''acceptance_retry_scheduled'' [(''decision'', action), (''round'', r)]))))))))))"

definition set_next_without_evaluator :: "'e sched \<Rightarrow> ('e, unit) sstep" where
  "set_next_without_evaluator sc =
     sbind cur (\<lambda>st.
     sbind (slift (decision_action st)) (\<lambda>act.
     if act = JStr ''complete'' \<or> act = JStr ''blocked'' then goto ''analyze''
     else schedule_acceptance_retry sc (py_or act (JStr ''verify''))))"

definition exhausted_goal :: string where
  "exhausted_goal = ''Analyze final failure after exhausting available rounds.''"

definition set_next_after_acceptance_evaluate :: "'e sched \<Rightarrow> ('e, unit) sstep" where
  "set_next_after_acceptance_evaluate sc =
     sbind cur (\<lambda>st.
     sbind (slift (last_score st)) (\<lambda>s.
     sbind (slift (score_passes sc st)) (\<lambda>score_ok.
     sbind (if \<not> score_ok
            then record_score_acceptance_failure sc (case s of None \<Rightarrow> 0 | Some x \<Rightarrow> x) else sret ()) (\<lambda>_.
     sbind cur (\<lambda>st'.
     sbind (slift (decision_action st')) (\<lambda>act.
     if act = JStr ''complete'' \<and> score_ok then goto ''analyze''
     else
       sbind (if act = JStr ''blocked'' then sret True
              else sbind (slift (round_of st')) (\<lambda>n. sbind (slift (max_rounds_of sc st')) (\<lambda>limit.
                   sret (limit \<le> n)))) (\<lambda>last_round.
       if last_round then
         sbind (if \<not> score_ok \<and> sc_recovery sc then record_round_failure_evidence sc False exhausted_goal
                else sret ()) (\<lambda>_.
         goto ''analyze'')
       else
         schedule_acceptance_retry sc (if \<not> score_ok then JStr ''repair'' else py_or act (JStr ''repair'')))))))))"

text \<open>Without the acceptance controller the score alone decides on a new round.\<close>

definition set_next_after_score :: "'e sched \<Rightarrow> ('e, unit) sstep" where
  "set_next_after_score sc =
     sbind cur (\<lambda>st.
     sbind (slift (max_rounds_of sc st)) (\<lambda>limit.
     sbind (slift (last_score st)) (\<lambda>s.
     let score = (case s of None \<Rightarrow> 0 | Some x \<Rightarrow> x); passed = (pass_threshold sc st \<le> score) in
     sbind (if passed then sret True else sbind (slift (round_of st)) (\<lambda>n. sret (limit \<le> n))) (\<lambda>stop.
     if stop then
       sbind (if \<not> passed \<and> sc_recovery sc then record_round_failure_evidence sc False exhausted_goal
              else sret ()) (\<lambda>_.
       goto ''analyze'')
     else
       sbind (if sc_recovery sc
              then record_round_failure_evidence sc True
                     ''Repair the current failed checks, then rerun focused verification.''
              else sret ()) (\<lambda>_.
       unless_halted sc (
         sbind (if sc_recovery sc then on_cur mark_recovery_attempt else sret ()) (\<lambda>_.
         sbind next_round (\<lambda>_.
         goto_contract_or_build))))))))"

definition set_next_after_evaluate :: "'e sched \<Rightarrow> ('e, unit) sstep" where
  "set_next_after_evaluate sc =
     (if sc_acceptance sc then set_next_after_acceptance_evaluate sc
      else sbind (fetch ''evaluation_skipped'') (\<lambda>skipped.
           if truthy skipped then goto ''analyze'' else set_next_after_score sc))"

definition set_next_after_build :: "'e sched \<Rightarrow> ('e, unit) sstep" where
  "set_next_after_build sc =
     sbind cur (\<lambda>st.
     let skipped = truthy (jget st ''evaluation_skipped'') in
     if \<not> sc_acceptance sc then goto (if skipped then ''analyze'' else ''evaluate'')
     else if skipped then set_next_without_evaluator sc
     else
       sbind (slift (decision_action st)) (\<lambda>act.
       if act = JStr ''repair'' then schedule_acceptance_retry sc (JStr ''repair'')
       else goto (if act = JStr ''blocked'' then ''analyze'' else ''evaluate'')))"

section \<open>Routing\<close>

definition transition_event :: "'e sched \<Rightarrow> string \<Rightarrow> json \<Rightarrow> string \<Rightarrow> ('e, unit) sstep" where
  "transition_event sc type source target = add_event sc type [(''from'', source), (''to'', JStr target)]"

definition trace_state :: "json \<Rightarrow> string \<Rightarrow> ('e, unit) sstep" where
  "trace_state source target =
     sbind (fetch ''status'') (\<lambda>status.
     emit_trace ''state_changed'' [(''from'', source), (''to'', JStr target), (''status'', status)] (JStr target))"

definition announce_route :: "'e sched \<Rightarrow> json \<Rightarrow> ('e, unit) sstep" where
  "announce_route sc source =
     sbind cur (\<lambda>st.
     sbind (slift (shown (sc_probe sc) (dget st ''prompt'' (JStr [])))) (\<lambda>prompt.
     sbind (add_event sc ''before_route'' [(''prompt_preview'', JStr (take 200 prompt))]) (\<lambda>_.
     sbind (apply_hook sc (before_route (sc_probe sc))) (\<lambda>_.
     sbind (transition_event sc ''before_transition'' source ''route'') (\<lambda>_.
     sbind (before_transition (sc_probe sc) source ''route'') (\<lambda>_.
     trace_state source ''route''))))))"

definition record_route :: "'e sched \<Rightarrow> route_decision \<Rightarrow> ('e, unit) sstep" where
  "record_route sc d =
     sbind (put ''route_decision'' (JObj (route_to_dict d))) (\<lambda>_.
     sbind (put ''task_type'' (JStr (rd_task_type d))) (\<lambda>_.
     sbind (put ''memory_refs'' (or_empty (rd_memory_refs d))) (\<lambda>_.
     sbind (put ''strategy_hints'' (or_empty (rd_hints d))) (\<lambda>_.
     sbind (add_event sc ''route_decision'' (route_to_dict d)) (\<lambda>_.
     sbind (apply_hook sc (after_route (sc_probe sc))) (\<lambda>_.
     add_event sc ''after_route'' (route_to_dict d)))))))"

text \<open>The end of a transition is logged and given to the hook, whose result is not used.\<close>

definition close_transition :: "'e sched \<Rightarrow> json \<Rightarrow> string \<Rightarrow> ('e, unit) sstep" where
  "close_transition sc source target =
     sbind (transition_event sc ''after_transition'' source target) (\<lambda>_.
     sbind (after_transition (sc_probe sc) source target) (\<lambda>_. sret ()))"

definition ask_confirmation :: "'e sched \<Rightarrow> json \<Rightarrow> ('e, unit) sstep" where
  "ask_confirmation sc source =
     sbind (put ''requires_confirmation'' (JBool True)) (\<lambda>_.
     sbind (put ''active'' (JBool False)) (\<lambda>_.
     sbind (put ''status'' (JStr ''waiting_confirmation'')) (\<lambda>_.
     sbind (put ''next_action'' JNull) (\<lambda>_.
     close_transition sc source ''waiting_confirmation''))))"

definition accept_route :: "'e sched \<Rightarrow> json \<Rightarrow> json \<Rightarrow> ('e, unit) sstep" where
  "accept_route sc source profile =
     sbind (put ''profile'' profile) (\<lambda>_.
     sbind (put ''requires_confirmation'' (JBool False)) (\<lambda>_.
     sbind (goto ''plan'') (\<lambda>_.
     sbind (trace_state source ''plan'') (\<lambda>_.
     close_transition sc source ''plan''))))"

definition route_action :: "'e sched \<Rightarrow> ('e, unit) sstep" where
  "route_action sc =
     sbind (fetch ''phase'') (\<lambda>source.
     sbind (announce_route sc source) (\<lambda>_.
     sbind cur (\<lambda>st.
     sbind (slift (jindex st ''prompt'')) (\<lambda>p.
     sbind (on_world (sc_route sc p (jget st ''profile''))) (\<lambda>d.
     sbind (record_route sc d) (\<lambda>_.
     if rd_confirm d then ask_confirmation sc source else accept_route sc source (rd_profile d)))))))"

section \<open>Running a phase\<close>

text \<open>\<open>list((state.get("artifacts") or {}).get("files", []))\<close>.\<close>

definition artifact_files :: "obj \<Rightarrow> json list result" where
  "artifact_files st =
     rbind (as_mapping (py_or (jget st ''artifacts'') (JObj []))) (\<lambda>d. py_iter (dget d ''files'' (JList [])))"

fun skip_spaces :: "string \<Rightarrow> string" where
  "skip_spaces s = dropWhile py_is_space s"

text \<open>\<open>\b(?:single|one)\s+(?:html|\.html)\s+file\b\<close>, ignoring case.\<close>

definition html_file_here :: "string \<Rightarrow> bool" where
  "html_file_here s \<longleftrightarrow>
     list_ex (\<lambda>count. prefix count s \<and>
       (let s1 = drop (length count) s in
        (case s1 of [] \<Rightarrow> False | c # _ \<Rightarrow> py_is_space c) \<and>
        list_ex (\<lambda>html. prefix html (skip_spaces s1) \<and>
          (let s2 = drop (length html) (skip_spaces s1) in
           (case s2 of [] \<Rightarrow> False | c # _ \<Rightarrow> py_is_space c) \<and>
           prefix ''file'' (skip_spaces s2) \<and>
           (case drop 4 (skip_spaces s2) of [] \<Rightarrow> True | c # _ \<Rightarrow> \<not> word_char c))) [''html'', ''.html'']))
       [''single'', ''one'']"

fun single_html_phrase :: "bool \<Rightarrow> string \<Rightarrow> bool" where
  "single_html_phrase after_word [] = False"
| "single_html_phrase after_word (c # cs) =
     (\<not> after_word \<and> html_file_here (c # cs) \<or> single_html_phrase (word_char c) cs)"

definition requires_single_html_file :: "'e sched \<Rightarrow> obj \<Rightarrow> 'e \<Rightarrow> bool result" where
  "requires_single_html_file sc st x =
     rbind (shown (sc_probe sc) (py_or (jget st ''prompt'') (JStr []))) (\<lambda>prompt.
     rbind (shown (sc_probe sc) (py_or (jget st ''workspace'') (JStr []))) (\<lambda>ws.
     Inr (single_html_phrase False (lower (prompt @
       (case sc_spec_text sc ws x of None \<Rightarrow> [] | Some t \<Rightarrow> [CHR 0x0A] @ take 4000 t))))))"

definition enforce_artifact_scope :: "'e sched \<Rightarrow> string \<Rightarrow> ('e, unit) sstep" where
  "enforce_artifact_scope sc phase =
     (if phase \<noteq> ''build'' \<and> phase \<noteq> ''evaluate'' then sret ()
      else
        sbind cur (\<lambda>st.
        sbind (sread sw_ext) (\<lambda>x.
        sbind (slift (requires_single_html_file sc st x)) (\<lambda>single.
        if \<not> single then sret ()
        else
          sbind workspace_of (\<lambda>ws.
          sbind (on_world (sc_remove_extras sc ws)) (\<lambda>removed.
          if removed = [] then sret ()
          else
            sbind (on_world (sc_artifacts sc ws)) (\<lambda>files.
            sbind (put ''artifacts'' (JObj [(''files'', JList files)])) (\<lambda>_.
            add_event sc ''artifact_scope_enforced''
              [(''phase'', JStr phase), (''policy'', JStr ''single_html_file''), (''removed'', jstrs removed)]))))))))"

fun require_successful_agent_result :: "string \<Rightarrow> phase_result \<Rightarrow> obj result" where
  "require_successful_agent_result phase (PhaseState st) = Inr st"
| "require_successful_agent_result phase (PhaseAgent ok reason n) =
     (if ok then Inl (AttributeError ''get'')
      else Inl (Raised ''PhaseExecutionError''
             (phase @ '' agent exited with '' @ reason @ '' after '' @ show_int n @ '' iteration(s)'')))"

definition announce_phase :: "'e sched \<Rightarrow> string \<Rightarrow> json \<Rightarrow> ('e, unit) sstep" where
  "announce_phase sc phase source =
     sbind (trace_state source phase) (\<lambda>_.
     sbind (now_iso (sc_clock sc)) (\<lambda>t.
     sbind (put ''phase_started_at'' (JStr t)) (\<lambda>_.
     sbind (fetch ''round_num'') (\<lambda>n.
     sbind (add_event sc ''phase_started'' [(''phase'', JStr phase), (''round'', n)]) (\<lambda>_.
     sbind (emit_trace ''phase_started'' [(''status'', JStr ''running'')] (JStr phase)) (\<lambda>_.
     transition_event sc ''before_transition'' source phase))))))"

definition begin_phase :: "'e sched \<Rightarrow> string \<Rightarrow> string \<Rightarrow> json \<Rightarrow> ('e, unit) sstep" where
  "begin_phase sc phase agent source =
     sbind (put ''phase'' (JStr phase)) (\<lambda>_.
     sbind (put ''status'' (JStr ''running'')) (\<lambda>_.
     sbind (announce_phase sc phase source) (\<lambda>_.
     sbind (save_cur (sc_clock sc)) (\<lambda>_.
     sbind (apply_hook sc (before_transition (sc_probe sc) source phase)) (\<lambda>_.
     sbind (add_event sc ''before_agent_run'' [(''agent'', JStr agent), (''phase'', JStr phase)]) (\<lambda>_.
     sbind (save_cur (sc_clock sc)) (\<lambda>_.
     apply_hook sc (before_agent_run (sc_probe sc) agent))))))))"

text \<open>The phase works on a freshly loaded dictionary; the executor keeps the old one.\<close>

definition call_phase :: "'e sched \<Rightarrow> string \<Rightarrow> ('e, unit) sstep" where
  "call_phase sc phase =
     sbind load_state (\<lambda>st.
     sbind (on_world (sc_phase sc phase st)) (\<lambda>r.
     sbind (slift (require_successful_agent_result phase r)) (\<lambda>st'.
     smodify (\<lambda>w. w\<lparr>sw_kept := Some (sw_cur w), sw_cur := st'\<rparr>))))"

definition check_phase :: "'e sched \<Rightarrow> string \<Rightarrow> ('e, unit) sstep" where
  "check_phase sc phase =
     (if sc_acceptance sc \<and> (phase = ''build'' \<or> phase = ''evaluate'')
      then refresh_acceptance sc (phase @ ''_complete'') None
      else
        sbind (fetch ''evaluation_skipped'') (\<lambda>skipped.
        if phase = ''evaluate'' \<or> phase = ''build'' \<and> truthy skipped then
          sbind workspace_of (\<lambda>ws.
          sbind (on_world (sc_analyze sc ws)) (\<lambda>analysis.
          sbind (put ''analysis'' (JObj analysis)) (\<lambda>_.
          sbind (apply_hook sc (after_validation (sc_probe sc) analysis)) (\<lambda>_.
          logged_field sc ''validation'' ''validation_checked''))))
        else sret ()))"

definition end_phase :: "'e sched \<Rightarrow> string \<Rightarrow> string \<Rightarrow> json \<Rightarrow> json list \<Rightarrow> ('e, unit) sstep" where
  "end_phase sc phase agent source before =
     sbind (enforce_artifact_scope sc phase) (\<lambda>_.
     sbind (add_event sc ''after_agent_run'' [(''agent'', JStr agent), (''phase'', JStr phase)]) (\<lambda>_.
     sbind (apply_hook sc (after_agent_run (sc_probe sc) agent)) (\<lambda>_.
     sbind (fetch ''round_num'') (\<lambda>n.
     sbind (add_event sc ''phase_completed'' [(''phase'', JStr phase), (''round'', n)]) (\<lambda>_.
     sbind (emit_trace ''phase_completed'' [(''status'', JStr ''running'')] (JStr phase)) (\<lambda>_.
     sbind (transition_event sc ''after_transition'' source phase) (\<lambda>_.
     sbind cur (\<lambda>st.
     sbind (slift (artifact_files st)) (\<lambda>after.
     sbind (apply_hook sc (on_artifact_changed (sc_probe sc) before after)) (\<lambda>_.
     sbind (logged_field sc ''artifact_changes'' ''artifact_changed'') (\<lambda>_.
     sbind (check_phase sc phase) (\<lambda>_.
     sbind (apply_hook sc (after_transition (sc_probe sc) source phase)) (\<lambda>_.
     on_cur (\<lambda>st'. Inr (dpop ''phase_started_at'' st')))))))))))))))"

definition run_phase :: "'e sched \<Rightarrow> string \<Rightarrow> string \<Rightarrow> ('e, unit) sstep" where
  "run_phase sc phase agent =
     sbind (fetch ''phase'') (\<lambda>source.
     sbind (if sc_acceptance sc then sync_acceptance_baseline sc else sret ()) (\<lambda>_.
     sbind cur (\<lambda>st.
     sbind (slift (artifact_files st)) (\<lambda>before.
     sbind (begin_phase sc phase agent source) (\<lambda>_.
     sbind (call_phase sc phase) (\<lambda>_.
     end_phase sc phase agent source before))))))"

section \<open>Analysis\<close>

text \<open>What the profile says, or whether there are scores when the profile cannot tell.\<close>

definition profile_evaluates :: "'e sched \<Rightarrow> obj \<Rightarrow> bool" where
  "profile_evaluates sc st =
     (case rbind (jindex st ''profile'') (\<lambda>p. rbind (jindex st ''prompt'') (\<lambda>prompt.
             sc_profile_evaluator sc p prompt (jget st ''task_id''))) of
        Inr b \<Rightarrow> b | Inl _ \<Rightarrow> truthy (jget st ''score_history''))"

definition acceptance_evaluator_required :: "'e sched \<Rightarrow> obj \<Rightarrow> bool result" where
  "acceptance_evaluator_required sc st =
     (case jget st ''evaluation_skipped'' of
        JBool b \<Rightarrow> Inr (\<not> b)
      | _ \<Rightarrow>
          rbind (as_mapping (py_or (jget st ''time_allocation'') (JObj []))) (\<lambda>allocation.
          Inr (case map_of allocation ''evaluator_enabled'' of
                 Some v \<Rightarrow> truthy v
               | None \<Rightarrow> profile_evaluates sc st)))"

definition task_success :: "'e sched \<Rightarrow> obj \<Rightarrow> bool result" where
  "task_success sc st =
     (if sc_acceptance sc then
        rbind (decision_action st) (\<lambda>act.
        if act \<noteq> JStr ''complete'' then Inr False
        else
          rbind (acceptance_evaluator_required sc st) (\<lambda>needed.
          if needed then score_passes sc st else Inr True))
      else
        rbind (scores_of st) (\<lambda>scores.
        rbind (score_passes sc st) (\<lambda>score_ok.
        rbind (sub_field st ''validation'' ''status'') (\<lambda>v.
        Inr ((if scores \<noteq> [] then score_ok else True) \<and> v = JStr ''verified'')))))"

definition cleanup_run_processes :: "'e sched \<Rightarrow> ('e, unit) sstep" where
  "cleanup_run_processes sc =
     sbind (fetch ''run_id'') (\<lambda>r.
     if truthy r then sbind (slift (shown (sc_probe sc) r)) (\<lambda>t. on_world (sc_cleanup sc t)) else sret ())"

definition set_final_status :: "'e sched \<Rightarrow> bool \<Rightarrow> ('e, unit) sstep" where
  "set_final_status sc ok =
     sbind (put ''phase'' (JStr ''complete'')) (\<lambda>_.
     sbind (put ''next_action'' JNull) (\<lambda>_.
     sbind (put ''status'' (JStr (if ok then ''completed'' else ''error''))) (\<lambda>_.
     sbind (put ''validated'' (JBool ok)) (\<lambda>_.
     sbind (put ''active'' (JBool False)) (\<lambda>_.
     sbind (fetch ''last_error'') (\<lambda>e.
     if ok then put ''last_error'' JNull
     else if \<not> truthy e then
       put ''last_error'' (error_entry ''ValidationFailed'' ''Run did not meet score and validation requirements.'')
     else sret ()))))))"

text \<open>The summary joins the analysis, which is also the one in the state.\<close>

definition summarize_acceptance :: "'e sched \<Rightarrow> obj \<Rightarrow> ('e, obj) sstep" where
  "summarize_acceptance sc analysis =
     sbind cur (\<lambda>st.
     sbind (slift (py_int (dget st ''acceptance_repair_rounds'' (JInt 0)))) (\<lambda>n.
     sbind (slift (progress_of (jget st ''acceptance_progress''))) (\<lambda>progress.
     sbind (slift (progress_of (jget st ''acceptance_decision''))) (\<lambda>d.
     sbind (slift (acceptance_summary progress analysis d n)) (\<lambda>summary.
     let analysis' = dset ''acceptance'' (JObj summary) analysis in
     sbind (put ''acceptance_summary'' (JObj summary)) (\<lambda>_.
     sbind (put ''analysis'' (JObj analysis')) (\<lambda>_.
     sbind workspace_of (\<lambda>ws.
     sbind (on_world (sc_persist sc ws analysis')) (\<lambda>_.
     sret analysis')))))))))"

definition update_memory :: "'e sched \<Rightarrow> obj \<Rightarrow> ('e, unit) sstep" where
  "update_memory sc analysis =
     sbind cur (\<lambda>st.
     if truthy (jget st ''skip_memory_update'') \<or> truthy (jget st ''memory_update_skipped'') \<or>
        jget st ''status'' = JStr ''paused'' then sret ()
     else
       sbind (on_world (sc_memory sc st analysis)) (\<lambda>_.
       sbind (apply_hook sc (after_memory_update (sc_probe sc) analysis)) (\<lambda>_.
       sbind (slift (tool_total analysis)) (\<lambda>n.
       sbind (fetch ''profile'') (\<lambda>p.
       add_event sc ''after_memory_update'' [(''profile'', p), (''tool_calls'', n)])))))"

definition final_analysis :: "'e sched \<Rightarrow> ('e, obj) sstep" where
  "final_analysis sc =
     sbind (if sc_acceptance sc then refresh_acceptance sc ''analyze'' None
            else sbind workspace_of (\<lambda>ws. sbind (on_world (sc_analyze sc ws)) (\<lambda>a. put ''analysis'' (JObj a)))) (\<lambda>_.
     sbind cur (\<lambda>st. slift (rbind (jindex st ''analysis'') as_mapping)))"

text \<open>After the verdict: the summary, the final events, the memory.\<close>

definition close_run :: "'e sched \<Rightarrow> bool \<Rightarrow> obj \<Rightarrow> ('e, unit) sstep" where
  "close_run sc ok analysis =
     (let terminal = (if ok then ''run_completed'' else ''run_failed'');
          outcome = [(''status'', JStr (if ok then ''completed'' else ''error'')), (''task_success'', JBool ok)] in
     sbind (if sc_acceptance sc then summarize_acceptance sc analysis else sret analysis) (\<lambda>analysis'.
     sbind (add_event sc ''phase_completed'' [(''phase'', JStr ''analyze'')]) (\<lambda>_.
     sbind (add_event sc terminal outcome) (\<lambda>_.
     sbind cur (\<lambda>st1.
     sbind (add_event sc ''before_memory_update''
              [(''profile'', jget st1 ''profile''), (''status'', jget st1 ''status''),
               (''score_history'', dget st1 ''score_history'' (JList []))]) (\<lambda>_.
     sbind (apply_hook sc (before_memory_update (sc_probe sc))) (\<lambda>_.
     sbind (update_memory sc analysis') (\<lambda>_.
     sbind cur (\<lambda>st2.
     sbind (slift (sub_field st2 ''validation'' ''status'')) (\<lambda>_.
     emit_trace terminal outcome (JStr ''complete'')))))))))))"

definition analyze_action :: "'e sched \<Rightarrow> ('e, unit) sstep" where
  "analyze_action sc =
     sbind (cleanup_run_processes sc) (\<lambda>_.
     sbind (add_event sc ''phase_started'' [(''phase'', JStr ''analyze'')]) (\<lambda>_.
     sbind (final_analysis sc) (\<lambda>analysis.
     sbind workspace_of (\<lambda>ws.
     sbind (on_world (sc_artifacts sc ws)) (\<lambda>files.
     sbind (put ''artifacts'' (JObj [(''files'', JList files)])) (\<lambda>_.
     sbind cur (\<lambda>st.
     sbind (slift (task_success sc st)) (\<lambda>ok.
     sbind (set_final_status sc ok) (\<lambda>_.
     close_run sc ok analysis)))))))))"

section \<open>Actions\<close>

definition execute_step_action :: "'e sched \<Rightarrow> json \<Rightarrow> ('e, unit) sstep" where
  "execute_step_action sc action =
     (if action = JStr ''route'' then route_action sc
      else if action = JStr ''plan'' then sbind (run_phase sc ''plan'' ''planner'') (\<lambda>_. goto_contract_or_build)
      else if action = JStr ''contract'' then sbind (run_phase sc ''contract'' ''contract'') (\<lambda>_. goto ''build'')
      else if action = JStr ''build'' then sbind (run_phase sc ''build'' ''builder'') (\<lambda>_. set_next_after_build sc)
      else if action = JStr ''evaluate'' then
        sbind (run_phase sc ''evaluate'' ''evaluator'') (\<lambda>_. set_next_after_evaluate sc)
      else if action = JStr ''analyze'' then analyze_action sc
      else sbind (slift (py_str action)) (\<lambda>t. slift (Inl (ValueError ''Unknown scheduler action: {}'' [t]))))"

end
