(* ===== verification/Scheduler_Executor.thy ===== *)
theory Scheduler_Executor
  imports Scheduler_Actions
begin

text \<open>
  \<open>orchestrator/scheduler_executor.py\<close>, the recovery path and the run loop of
  \<open>orchestrator/scheduler.py\<close>, and the commands a user gives to a run (confirming a profile,
  approving, pausing and resuming).
\<close>

section \<open>Failed actions\<close>

text \<open>\<open>try: ... except Exception\<close> as a value.\<close>

definition attempt :: "('s, 'a) step \<Rightarrow> ('s, 'a result) step" where
  "attempt m = shandle (sbind m (\<lambda>x. sret (Inr x))) (\<lambda>e. if e = KeyboardInterrupt then slift (Inl e) else sret (Inl e))"

definition latest_verification_token :: "'e sched \<Rightarrow> obj \<Rightarrow> json result" where
  "latest_verification_token sc st =
     rbind (as_mapping (py_or (jget st ''analysis'') (JObj []))) (\<lambda>analysis.
     rbind (sub_field analysis ''verification'' ''latest'') (\<lambda>latest.
     case latest of
       JObj l \<Rightarrow>
         if truthy (jget l ''token'') then rbind (shown (sc_probe sc) (jget l ''token'')) (\<lambda>t. Inr (JStr t))
         else Inr JNull
     | _ \<Rightarrow> Inr JNull))"

text \<open>A failed action whose acceptance evidence is complete goes straight to the analysis.\<close>

definition salvage :: "'e sched \<Rightarrow> json \<Rightarrow> py_error \<Rightarrow> ('e, obj option) sstep" where
  "salvage sc action e =
     sbind (slift (shown (sc_probe sc) action)) (\<lambda>name.
     sbind (refresh_acceptance sc (name @ ''_error'') (Some (error_line e))) (\<lambda>_.
     sbind cur (\<lambda>st.
     sbind (slift (decision_action st)) (\<lambda>act.
     if act \<noteq> JStr ''complete'' then sret None
     else
       sbind (goto ''analyze'') (\<lambda>_.
       sbind (put ''status'' (JStr ''running'')) (\<lambda>_.
       sbind (put ''active'' (JBool True)) (\<lambda>_.
       sbind cur (\<lambda>st'.
       sbind (slift (latest_verification_token sc st')) (\<lambda>token.
       sbind (add_event sc ''acceptance_salvaged''
                [(''failed_action'', action), (''error_type'', JStr (exc_name e)), (''verification_token'', token)]) (\<lambda>_.
       sbind (save_and_load (sc_clock sc)) (\<lambda>loaded. sret (Some loaded))))))))))))"

definition try_salvage :: "'e sched \<Rightarrow> json \<Rightarrow> py_error \<Rightarrow> ('e, obj option) sstep" where
  "try_salvage sc action e =
     (if \<not> sc_acceptance sc then sret None
      else
        sbind (attempt (salvage sc action e)) (\<lambda>r.
        case r of
          Inr found \<Rightarrow> sret found
        | Inl err \<Rightarrow>
            sbind (add_event sc ''acceptance_refresh_failed''
                     [(''failed_action'', action), (''message'', JStr (exc_text err))]) (\<lambda>_. sret None)))"

definition record_action_failure :: "'e sched \<Rightarrow> json \<Rightarrow> py_error \<Rightarrow> ('e, unit) sstep" where
  "record_action_failure sc action e =
     (if \<not> sc_recovery sc then sret ()
      else
        sbind (slift (shown (sc_probe sc) action)) (\<lambda>name.
        sbind workspace_of (\<lambda>ws.
        sbind (sread sw_ext) (\<lambda>x.
        sbind cur (\<lambda>st.
        sbind (slift (build_failure_evidence (sc_survey sc) ws x st (Some name) [] (Some e)
                 (''Recover from '' @ name @ '' failure and continue the original task.''))) (\<lambda>ev.
        on_cur (\<lambda>st'. append_failure_evidence st' ev)))))))"

definition after_retry :: "'e sched \<Rightarrow> ('e, unit) sstep" where
  "after_retry sc =
     sbind cur (\<lambda>st.
     sbind (if sc_acceptance sc
            then sbind (slift (decision_action st)) (\<lambda>act.
                 if act = JStr ''repair'' then record_acceptance_repair_round sc else sret ())
            else sret ()) (\<lambda>_.
     if sc_recovery sc then on_cur mark_recovery_attempt else sret ()))"

text \<open>The hook decides on a retry; the failure is reported and the state saved.\<close>

definition report_failure :: "'e sched \<Rightarrow> hook_result \<Rightarrow> py_error \<Rightarrow> ('e, unit) sstep" where
  "report_failure sc r e =
     sbind (if hr_action r = HRetry then after_retry sc else sret ()) (\<lambda>_.
     sbind (if hr_action r = HContinue then
              sbind (put ''status'' (JStr ''error'')) (\<lambda>_.
              sbind (put ''active'' (JBool False)) (\<lambda>_.
              put ''last_error'' (error_entry (exc_name e) (exc_text e))))
            else sret ()) (\<lambda>_.
     sbind (fetch ''status'') (\<lambda>status.
     sbind (if status = JStr ''error'' then
              emit_trace ''run_failed''
                [(''status'', JStr ''error''), (''task_success'', JBool False), (''error'', JStr (exc_text e))] JNull
            else sret ()) (\<lambda>_.
     sbind cur (\<lambda>st.
     sbind (slift (jindex st ''last_error'')) (\<lambda>err.
     append_event (sc_clock sc) ''scheduler_error'' (py_or err (JObj [(''message'', JStr (exc_text e))]))))))))"

definition recover_action :: "'e sched \<Rightarrow> json \<Rightarrow> py_error \<Rightarrow> ('e, obj) sstep" where
  "recover_action sc action e =
     sbind (record_action_failure sc action e) (\<lambda>_.
     sbind (on_error (sc_probe sc) e) (\<lambda>r.
     sbind (apply_hook_result (sc_probe sc) action r) (\<lambda>_.
     sbind (report_failure sc r e) (\<lambda>_.
     save_and_load (sc_clock sc)))))"

definition handle_step_failure :: "'e sched \<Rightarrow> json \<Rightarrow> py_error \<Rightarrow> ('e, obj) sstep" where
  "handle_step_failure sc action e =
     sbind (cleanup_run_processes sc) (\<lambda>_.
     sbind (try_salvage sc action e) (\<lambda>salvaged.
     case salvaged of Some st \<Rightarrow> sret st | None \<Rightarrow> recover_action sc action e))"

section \<open>Effects\<close>

definition is_recoverable_transition :: "obj \<Rightarrow> obj \<Rightarrow> obj \<Rightarrow> bool" where
  "is_recoverable_transition st d progress \<longleftrightarrow>
     truthy (jget st ''active'') \<and> jget st ''next_action'' = JStr ''build'' \<and>
     truthy (jget st ''evaluation_skipped'') \<and> jget d ''action'' = JStr ''complete'' \<and>
     py_eq (jget progress ''verified_revision'') (jget progress ''artifact_revision'')"

definition reconcile_acceptance_transition :: "'e sched \<Rightarrow> ('e, unit) sstep" where
  "reconcile_acceptance_transition sc =
     sbind cur (\<lambda>st.
     sbind (slift (as_mapping (py_or (jget st ''acceptance_decision'') (JObj [])))) (\<lambda>d.
     sbind (slift (as_mapping (py_or (jget st ''acceptance_progress'') (JObj [])))) (\<lambda>progress.
     if \<not> is_recoverable_transition st d progress then sret ()
     else
       sbind workspace_of (\<lambda>ws.
       sbind (on_world (sc_fingerprint sc ws)) (\<lambda>f.
       if jget st ''acceptance_fingerprint'' \<noteq> JStr f then sret ()
       else
         sbind (goto ''analyze'') (\<lambda>_.
         sbind (slift (sub_field progress ''last_verification'' ''token'')) (\<lambda>token.
         add_event sc ''acceptance_transition_recovered''
           [(''artifact_revision'', jget progress ''artifact_revision''), (''verification_token'', token)])))))))"

text \<open>The dictionary an action that failed had mutated.\<close>

definition failed_state :: "('e, obj) sstep" where
  "failed_state = sread (\<lambda>w. case sw_kept w of Some st \<Rightarrow> st | None \<Rightarrow> sw_cur w)"

text \<open>One effect: the step is over (\<open>Inl\<close> the loaded state) or continues with the next reduction.\<close>

definition perform :: "'e sched \<Rightarrow> reduction \<Rightarrow> ('e, obj + reduction) sstep" where
  "perform sc red =
     sbind (set_cur (rn_state red)) (\<lambda>_.
     let continue_with = (\<lambda>ev. sbind cur (\<lambda>st. sbind (slift (reduce_step st ev JNull None)) (\<lambda>r. sret (Inr r))));
         finish = sbind (save_and_load (sc_clock sc)) (\<lambda>st. sret (Inl st)) in
     case rn_effect red of
       StartTrace \<Rightarrow>
         sbind cur (\<lambda>st.
         sbind (emit_trace ''run_started''
                  [(''task_id'', py_or (jget st ''task_id'') (jget st ''prompt'')), (''model'', JStr (sc_model sc)),
                   (''initial_workspace'', jget st ''workspace''), (''feature_flags'', JObj (sc_flags sc))] JNull) (\<lambda>_.
         continue_with TraceStarted))
     | SaveCheckpoint \<Rightarrow> sbind (save_cur (sc_clock sc)) (\<lambda>_. continue_with CheckpointSaved)
     | SyncAcceptance \<Rightarrow>
         sbind (if sc_acceptance sc
                then sbind (sync_acceptance_baseline sc) (\<lambda>_. reconcile_acceptance_transition sc) else sret ()) (\<lambda>_.
         continue_with AcceptanceSynced)
     | HandleApproval \<Rightarrow> sbind (apply_hook sc (on_human_approval_required (sc_probe sc))) (\<lambda>_. finish)
     | Stall \<Rightarrow>
         sbind (on_stall (sc_probe sc) (case rn_reason red of None \<Rightarrow> ''scheduler stalled'' | Some t \<Rightarrow> t)) (\<lambda>_.
         sbind cur (\<lambda>st. sret (Inl st)))
     | BeforeStep \<Rightarrow>
         sbind (apply_hook sc (before_step (sc_probe sc))) (\<lambda>_. continue_with BeforeStepApplied)
     | ExecuteAction \<Rightarrow>
         sbind (smodify (\<lambda>w. w\<lparr>sw_kept := None\<rparr>)) (\<lambda>_.
         sbind (attempt (execute_step_action sc (py_or (rn_action red) (JStr [])))) (\<lambda>r.
         case r of
           Inl e \<Rightarrow> sbind failed_state (\<lambda>st.
             sbind (slift (reduce_step st ActionFailed (rn_action red) (Some e))) (\<lambda>r'. sret (Inr r')))
         | Inr _ \<Rightarrow> sbind cur (\<lambda>st.
             sbind (slift (reduce_step st ActionSucceeded (rn_action red) None)) (\<lambda>r'. sret (Inr r')))))
     | HandleFailure \<Rightarrow>
         (case rn_error red of
            None \<Rightarrow> slift (Inl (Raised ''RuntimeError'' ''failure effect is missing its exception''))
          | Some e \<Rightarrow>
              sbind (handle_step_failure sc (py_or (rn_action red) (JStr [])) e) (\<lambda>st. sret (Inl st)))
     | SaveAndReturn \<Rightarrow> finish)"

text \<open>The loop over effects; seven iterations are more than any step needs.\<close>

fun drive :: "nat \<Rightarrow> 'e sched \<Rightarrow> reduction \<Rightarrow> ('e, obj option) sstep" where
  "drive 0 sc red = sret None"
| "drive (Suc n) sc red =
     sbind (perform sc red) (\<lambda>r. case r of Inl st \<Rightarrow> sret (Some st) | Inr red' \<Rightarrow> drive n sc red')"

definition execute :: "'e sched \<Rightarrow> obj \<Rightarrow> ('e, obj option) sstep" where
  "execute sc st = sbind (slift (reduce_step st Start JNull None)) (drive 7 sc)"

definition step_once :: "'e sched \<Rightarrow> ('e, obj option) sstep" where
  "step_once sc = sbind load_state (execute sc)"

section \<open>The run loop\<close>

definition run_is_idle :: "obj \<Rightarrow> bool" where
  "run_is_idle st \<longleftrightarrow>
     \<not> truthy (jget st ''active'') \<or> \<not> truthy (jget st ''next_action'') \<or> truthy (jget st ''requires_confirmation'')"

text \<open>\<open>None\<close> when the loop does not return.\<close>

partial_function (option) run_loop ::
    "'e sched \<Rightarrow> nat option \<Rightarrow> nat \<Rightarrow> 'e sched_world \<Rightarrow> (obj option result \<times> 'e sched_world) option" where
  "run_loop sc max_steps steps w =
     (case step_once sc w of
        (Inl e, w') \<Rightarrow> Some (Inl e, w')
      | (Inr r, w') \<Rightarrow>
          if (case max_steps of None \<Rightarrow> False | Some m \<Rightarrow> m \<le> Suc steps) \<or> (case r of None \<Rightarrow> True | Some st \<Rightarrow> run_is_idle st)
          then Some (Inr r, w')
          else run_loop sc max_steps (Suc steps) w')"

definition run_until_idle ::
    "'e sched \<Rightarrow> nat option \<Rightarrow> 'e sched_world \<Rightarrow> (obj option result \<times> 'e sched_world) option" where
  "run_until_idle sc max_steps w = run_loop sc max_steps 0 w"

section \<open>Commands of the user\<close>

definition confirm_profile :: "'e probe \<Rightarrow> string \<Rightarrow> ('e, obj) sstep" where
  "confirm_profile pr profile =
     sbind (sguard (profile \<in> set valid_profiles) (ValueError ''Unknown profile: {}'' [profile])) (\<lambda>_.
     sbind load_state (\<lambda>st.
     sbind (set_cur st) (\<lambda>_.
     sbind (put ''profile'' (JStr profile)) (\<lambda>_.
     sbind (put ''requires_confirmation'' (JBool False)) (\<lambda>_.
     sbind (put ''active'' (JBool True)) (\<lambda>_.
     sbind (put ''status'' (JStr ''running'')) (\<lambda>_.
     sbind (goto ''plan'') (\<lambda>_.
     sbind (on_profile_confirmed pr profile) (\<lambda>_.
     sbind (append_event (pr_clock pr) ''profile_confirmed'' (JObj [(''profile'', JStr profile)])) (\<lambda>_.
     save_and_load (pr_clock pr)))))))))))"

definition approve_human_action :: "'e probe \<Rightarrow> string \<Rightarrow> ('e, obj) sstep" where
  "approve_human_action pr approved_by =
     sbind load_state (\<lambda>st.
     sbind (set_cur st) (\<lambda>_.
     sbind (slift (dict_or_empty (jget st ''human_approval''))) (\<lambda>approval.
     sbind (now_iso (pr_clock pr)) (\<lambda>t.
     let approval' = dset ''approved_at'' (JStr t) (dset ''approved_by'' (JStr approved_by)
           (dset ''approved'' (JBool True) approval)) in
     sbind (put ''human_approval'' (JObj approval')) (\<lambda>_.
     sbind (put ''requires_human_approval'' (JBool False)) (\<lambda>_.
     sbind (if jget st ''status'' = JStr ''waiting_approval''
            then sbind (put ''status'' (JStr ''running'')) (\<lambda>_. put ''active'' (JBool True)) else sret ()) (\<lambda>_.
     sbind (append_event (pr_clock pr) ''human_approved'' (JObj approval')) (\<lambda>_.
     save_and_load (pr_clock pr)))))))))"

definition set_active :: "'e probe \<Rightarrow> bool \<Rightarrow> ('e, obj) sstep" where
  "set_active pr active =
     sbind load_state (\<lambda>st.
     sbind (set_cur st) (\<lambda>_.
     sbind (put ''active'' (JBool active)) (\<lambda>_.
     sbind (if active then slift (in_strings [''paused'', ''waiting_confirmation''] (jget st ''status'')) else sret False) (\<lambda>resumable.
     sbind (if active \<and> resumable \<and> \<not> truthy (jget st ''requires_confirmation'') then put ''status'' (JStr ''running'')
            else if \<not> active \<and> jget st ''status'' = JStr ''running'' then put ''status'' (JStr ''paused'')
            else sret ()) (\<lambda>_.
     sbind (append_event (pr_clock pr) ''active_changed'' (JObj [(''active'', JBool active)])) (\<lambda>_.
     save_and_load (pr_clock pr)))))))"

end
