(* ===== verification/Scheduler_Frames.thy ===== *)
theory Scheduler_Frames
  imports Scheduler_Executor
begin

text \<open>
  What the operations of the scheduler leave alone. A step \<open>keeps R\<close> when it relates its start and
  its end by the preorder \<open>R\<close>, whether it returns or raises; the frames below are such preorders on
  worlds, from the dictionary an action that failed leaves behind to all of the control fields.
\<close>

section \<open>Steps within a preorder\<close>

definition keeps :: "('s \<Rightarrow> 's \<Rightarrow> bool) \<Rightarrow> ('s, 'a) step \<Rightarrow> bool" where
  "keeps R m \<longleftrightarrow> (\<forall>s. R s (snd (m s)))"

definition yields :: "('a \<Rightarrow> bool) \<Rightarrow> ('s, 'a) step \<Rightarrow> bool" where
  "yields P m \<longleftrightarrow> (\<forall>s x t. m s = (Inr x, t) \<longrightarrow> P x)"

lemma keepsD: "keeps R m \<Longrightarrow> m s = (r, t) \<Longrightarrow> R s t"
  unfolding keeps_def by (metis snd_conv)

lemma yields_bind: "(\<And>x. yields P (f x)) \<Longrightarrow> yields P (sbind m f)"
  unfolding yields_def sbind_eq_Inr by blast

lemma yields_ret: "P x \<Longrightarrow> yields P (sret x)" "yields P (slift (Inl e))"
  by (simp_all add: yields_def)

lemma keeps_mono: "keeps R m \<Longrightarrow> (\<And>s t. R s t \<Longrightarrow> S s t) \<Longrightarrow> keeps S m"
  by (auto simp: keeps_def)

locale frame =
  fixes R :: "'s \<Rightarrow> 's \<Rightarrow> bool"
  assumes same: "R s s" and chain: "R s t \<Longrightarrow> R t u \<Longrightarrow> R s u"
begin

lemma keeps_ret: "keeps R (sret x)" "keeps R (slift r)" "keeps R (sread f)" "keeps R (sguard c e)"
  by (simp_all add: keeps_def same sguard_def)

lemma keeps_bind: "keeps R m \<Longrightarrow> (\<And>x. keeps R (f x)) \<Longrightarrow> keeps R (sbind m f)"
  unfolding keeps_def sbind_def by (auto split: prod.splits sum.splits) (metis chain snd_conv)+

lemma keeps_handle: "keeps R m \<Longrightarrow> (\<And>e. keeps R (h e)) \<Longrightarrow> keeps R (shandle m h)"
  unfolding keeps_def shandle_def by (auto split: prod.splits sum.splits) (metis chain snd_conv)+

lemma keeps_quietly: "keeps R m \<Longrightarrow> keeps R (attempt_quietly m)"
  unfolding attempt_quietly_def by (auto intro: keeps_handle simp: keeps_ret)

lemma keeps_attempt: "keeps R m \<Longrightarrow> keeps R (attempt m)"
  unfolding attempt_def by (auto intro!: keeps_handle keeps_bind simp: keeps_ret)

end

section \<open>Fields of the run state\<close>

definition budget_keys :: "string list" where
  "budget_keys = [''round_num'', ''max_rounds'', ''hook_policy'']"

definition driving_keys :: "string list" where
  "driving_keys = [''active'', ''next_action'', ''requires_confirmation''] @ budget_keys"

definition control_keys :: "string list" where
  "control_keys = ''status'' # driving_keys"

definition agrees :: "string list \<Rightarrow> obj \<Rightarrow> obj \<Rightarrow> bool" where
  "agrees ks st st' \<longleftrightarrow> (\<forall>k\<in>set ks. map_of st' k = map_of st k)"

text \<open>Recovery attempts used so far.\<close>

definition attempts_of :: "obj \<Rightarrow> int" where
  "attempts_of st =
     (case jget st ''recovery'' of
        JObj rc \<Rightarrow> (case recovery_attempts rc of Inr n \<Rightarrow> n | Inl _ \<Rightarrow> 0)
      | _ \<Rightarrow> 0)"

text \<open>The recovery record is a dictionary: no key twice.\<close>

definition recovery_wf :: "obj \<Rightarrow> bool" where
  "recovery_wf st \<longleftrightarrow> (case jget st ''recovery'' of JObj rc \<Rightarrow> dict_wf rc | _ \<Rightarrow> True)"

definition same_fields :: "string list \<Rightarrow> obj \<Rightarrow> obj \<Rightarrow> bool" where
  "same_fields ks st st' \<longleftrightarrow>
     agrees ks st st' \<and> attempts_of st' = attempts_of st \<and> recovery_wf st' = recovery_wf st"

abbreviation same_budget :: "obj \<Rightarrow> obj \<Rightarrow> bool" where
  "same_budget \<equiv> same_fields budget_keys"

abbreviation same_drive :: "obj \<Rightarrow> obj \<Rightarrow> bool" where
  "same_drive \<equiv> same_fields driving_keys"

abbreviation same_control :: "obj \<Rightarrow> obj \<Rightarrow> bool" where
  "same_control \<equiv> same_fields control_keys"

lemma same_fields_refl [simp]: "same_fields ks st st"
  by (simp add: same_fields_def agrees_def)

lemma same_fields_trans: "same_fields ks a b \<Longrightarrow> same_fields ks b c \<Longrightarrow> same_fields ks a c"
  by (simp add: same_fields_def agrees_def)

lemma same_fields_sym: "same_fields ks a b \<Longrightarrow> same_fields ks b a"
  by (simp add: same_fields_def agrees_def)

lemma same_fields_mono: "same_fields ks a b \<Longrightarrow> set ls \<subseteq> set ks \<Longrightarrow> same_fields ls a b"
  by (auto simp: same_fields_def agrees_def)

lemma same_control_budget: "same_control a b \<Longrightarrow> same_budget a b"
  by (erule same_fields_mono) (auto simp: control_keys_def driving_keys_def)

lemma same_fields_jget: "same_fields ks a b \<Longrightarrow> k \<in> set ks \<Longrightarrow> jget b k = jget a k"
  and same_fields_dget: "same_fields ks a b \<Longrightarrow> k \<in> set ks \<Longrightarrow> dget b k v = dget a k v"
  by (simp_all add: same_fields_def agrees_def jget_def dget_def)

lemma jget_dset: "jget (dset k v st) k' = (if k' = k then v else jget st k')"
  by (simp add: jget_def dget_def map_of_dset)

lemma attempts_of_dset [simp]: "k \<noteq> ''recovery'' \<Longrightarrow> attempts_of (dset k v st) = attempts_of st"
  and recovery_wf_dset [simp]: "k \<noteq> ''recovery'' \<Longrightarrow> recovery_wf (dset k v st) = recovery_wf st"
  by (simp_all add: attempts_of_def recovery_wf_def jget_dset)

lemma dict_wf_dset_iff [simp]: "dict_wf (dset k v d) = dict_wf d"
  by (cases "k \<in> set (dict_keys d)") (simp_all add: dict_wf_def dset_keys_same dset_fresh)

lemma same_fields_dset [intro, simp]:
  "k \<notin> set ks \<Longrightarrow> k \<noteq> ''recovery'' \<Longrightarrow> same_fields ks st (dset k v st)"
  by (auto simp: same_fields_def agrees_def map_of_dset)

lemma same_fields_dset_right:
  "same_fields ks st st' \<Longrightarrow> k \<notin> set ks \<Longrightarrow> k \<noteq> ''recovery'' \<Longrightarrow> same_fields ks st (dset k v st')"
  using same_fields_dset same_fields_trans by blast

lemma append_event_same:
  "append_event_at t type body st = Inr st' \<Longrightarrow> {''events'', ''last_event_at''} \<inter> set ks = {} \<Longrightarrow> same_fields ks st st'"
  by (auto simp: append_event_at_def intro!: same_fields_dset_right split: json.splits)

lemma recovery_kept:
  assumes "recovery_attempts rc' = recovery_attempts rc" and "dict_wf rc' = dict_wf rc"
    and "dget st ''recovery'' (JObj []) = JObj rc" and "''recovery'' \<notin> set ks"
  shows "same_fields ks st (dset ''recovery'' (JObj rc') st)"
proof -
  have "attempts_of st = (case recovery_attempts rc of Inr n \<Rightarrow> n | Inl _ \<Rightarrow> 0)" "recovery_wf st = dict_wf rc"
    using assms(3)
    by (auto simp: attempts_of_def recovery_wf_def jget_def dget_def recovery_attempts_def py_or_def
        split: option.splits json.splits)
  with assms show ?thesis
    by (auto simp: same_fields_def agrees_def attempts_of_def recovery_wf_def jget_dset map_of_dset)
qed

lemma as_mapping_Inr: "as_mapping v = Inr d \<Longrightarrow> v = JObj d"
  by (cases v) auto

lemma mark_recovery_same: "mark_recovery_attempt st = Inr st' \<Longrightarrow> ''recovery'' \<notin> set ks \<Longrightarrow> same_fields ks st st'"
proof -
  assume "mark_recovery_attempt st = Inr st'" and keys: "''recovery'' \<notin> set ks"
  then obtain rc n where "dget st ''recovery'' (JObj []) = JObj rc"
    "st' = dset ''recovery'' (JObj (dset ''recovery_attempt_count'' (JInt (n + 1)) rc)) st"
    by (auto simp: mark_recovery_attempt_def recovery_of_def result_simps dest!: as_mapping_Inr)
  moreover from this(1) keys have "same_fields ks st (dset ''recovery'' (JObj (dset ''recovery_attempt_count'' (JInt (n + 1)) rc)) st)"
    by (intro recovery_kept [of _ rc]) (simp_all add: recovery_attempts_def dget_def map_of_dset)
  ultimately show ?thesis by simp
qed

lemma append_evidence_same:
  assumes "append_failure_evidence st ev = Inr st'"
    and "{''recovery'', ''failure_evidence_history'', ''current_failure_evidence''} \<inter> set ks = {}"
  shows "same_fields ks st st'"
proof -
  from assms(1) obtain hs where
    "append_failure_evidence st ev = append_failure_evidence st ev" "dget st ''failure_evidence_history'' (JList []) = JList hs"
    by (auto simp: append_failure_evidence_def split: json.splits)
  note hist = this(2)
  let ?st1 = "dset ''current_failure_evidence'' (JObj ev)
      (dset ''failure_evidence_history'' (JList (last_n 20 (hs @ [JObj ev]))) st)"
  from assms(1) hist obtain rc rc2 where rc: "recovery_of ?st1 = Inr rc" and st': "st' = dset ''recovery'' (JObj rc2) ?st1"
    and "recovery_attempts rc2 = recovery_attempts rc" "dict_wf rc2 = dict_wf rc"
    by (auto simp: append_failure_evidence_def Let_def result_simps recovery_attempts_def dget_def map_of_dset split: if_splits)
  then have "same_fields ks ?st1 st'"
    using assms(2) by (auto simp: recovery_of_def dest!: as_mapping_Inr intro!: recovery_kept)
  moreover have "same_fields ks st ?st1"
    using assms(2) by (auto intro!: same_fields_dset_right)
  ultimately show ?thesis using same_fields_trans by blast
qed

section \<open>Worlds\<close>

text \<open>The current dictionary and the file agree on the control fields before and after.\<close>

definition confined :: "string list \<Rightarrow> 'e sched_world \<Rightarrow> 'e sched_world \<Rightarrow> bool" where
  "confined ks w w' \<longleftrightarrow>
     same_fields ks (sw_cur w) (sw_cur w') \<and> rel_option (same_fields ks) (sw_file w) (sw_file w') \<and>
     sw_kept w' = sw_kept w"

lemma confined_refl: "confined ks w w"
  by (cases "sw_file w") (simp_all add: confined_def)

lemma confined_trans: "confined ks a b \<Longrightarrow> confined ks b c \<Longrightarrow> confined ks a c"
  unfolding confined_def by (auto intro: same_fields_trans simp: option_rel_Some1 option_rel_Some2 elim!: option.rel_cases)

interpretation wf: frame "confined ks" for ks
  by unfold_locales (auto intro: confined_refl confined_trans)

abbreviation calm :: "('e, 'a) sstep \<Rightarrow> bool" where
  "calm \<equiv> keeps (confined control_keys)"

named_theorems calm_rules

lemmas [calm_rules] = wf.keeps_ret wf.keeps_bind wf.keeps_handle wf.keeps_quietly wf.keeps_attempt

lemma calm_if [calm_rules]: "(c \<Longrightarrow> calm m) \<Longrightarrow> (\<not> c \<Longrightarrow> calm n) \<Longrightarrow> calm (if c then m else n)"
  by simp

lemma confined_same_dicts:
  "sw_cur w' = sw_cur w \<Longrightarrow> sw_file w' = sw_file w \<Longrightarrow> sw_kept w' = sw_kept w \<Longrightarrow> confined ks w w'"
  using confined_refl [of ks w] by (simp add: confined_def)

lemma calm_now [calm_rules]: "calm (now_iso ck)"
  and calm_elapsed [calm_rules]: "calm (elapsed_seconds ck v)"
  and calm_load [calm_rules]: "calm load_state"
  and calm_cur [calm_rules]: "calm cur"
  and calm_fetch [calm_rules]: "calm (fetch k)"
  by (auto simp: keeps_def now_iso_def elapsed_seconds_def load_state_def cur_def fetch_def
      intro!: confined_same_dicts split: option.splits)

lemma calm_on_world [calm_rules]: "calm (on_world m)"
  by (auto simp: keeps_def on_world_def intro!: confined_same_dicts split: prod.splits)

lemma calm_on_cur [calm_rules]:
  assumes "\<And>st st'. f st = Inr st' \<Longrightarrow> same_control st st'"
  shows "calm (on_cur f :: ('e, unit) sstep)"
proof -
  have "confined control_keys w (snd (on_cur f w))" for w :: "'e sched_world"
    using assms [of "sw_cur w"] confined_refl [of control_keys w]
    by (cases "f (sw_cur w)") (auto simp: on_cur_def cur_def set_cur_def sbind_apply confined_def)
  then show ?thesis by (simp add: keeps_def)
qed

definition neutral :: "string \<Rightarrow> bool" where
  "neutral k \<longleftrightarrow> k \<notin> set control_keys \<and> k \<noteq> ''recovery''"

lemma same_control_dset: "neutral k \<Longrightarrow> same_control st (dset k v st)"
  by (simp add: neutral_def)

lemma calm_put [calm_rules]: "neutral k \<Longrightarrow> calm (put k v)"
  and calm_set_default [calm_rules]: "neutral k \<Longrightarrow> calm (set_default k v)"
  by (auto simp: put_def set_default_def dsetdefault_def intro!: calm_on_cur same_control_dset)

lemma control_log_free: "{''events'', ''last_event_at''} \<inter> set control_keys = {}"
  by (simp add: control_keys_def driving_keys_def budget_keys_def)

lemma calm_append_event [calm_rules]: "calm (append_event ck type body)"
  unfolding append_event_def
  by (intro calm_rules append_event_same [OF _ control_log_free])

lemma calm_add_event [calm_rules]: "calm (add_event sc type body)"
  unfolding add_event_def by (rule calm_append_event)

lemma calm_transition_event [calm_rules]: "calm (transition_event sc type source target)"
  unfolding transition_event_def by (rule calm_add_event)

lemma calm_emit [calm_rules]: "calm (emit_trace type body phase)"
  unfolding emit_trace_def
  by (intro calm_rules) (auto simp: keeps_def intro!: confined_same_dicts)

lemma calm_trace_state [calm_rules]: "calm (trace_state source target)"
  unfolding trace_state_def by (intro calm_rules)

lemma calm_workspace [calm_rules]: "calm workspace_of"
  unfolding workspace_of_def by (intro calm_rules)

lemma calm_logged [calm_rules]: "calm (logged_field sc k type)"
  unfolding logged_field_def by (intro calm_rules)

section \<open>Saving\<close>

lemma save_state_effect:
  assumes "save_state ck st w = (r, w')"
  shows "sw_cur w' = sw_cur w \<and> sw_kept w' = sw_kept w \<and>
    (sw_file w' = sw_file w \<or> (\<exists>t. sw_file w' = Some (dset ''updated_at'' (JStr t) st)))"
  using assms
  by (auto simp: save_state_def sbind_apply now_iso_def Let_def store_save_def split: sum.splits option.splits prod.splits)

lemma save_state_saves:
  assumes "save_state ck st w = (Inr u, w')"
  shows "\<exists>t. sw_file w' = Some (dset ''updated_at'' (JStr t) st) \<and> validate_state (dset ''updated_at'' (JStr t) st) = Inr ()"
  using assms
  by (auto simp: save_state_def sbind_apply now_iso_def Let_def store_save_def split: sum.splits option.splits prod.splits)

lemma neutral_updated: "neutral ''updated_at''"
  by (simp add: neutral_def control_keys_def driving_keys_def budget_keys_def)

lemma preserves_lift_bind: "(\<And>x. r = Inr x \<Longrightarrow> preserves P (f x)) \<Longrightarrow> preserves P (sbind (slift r) f)"
  by (cases r) (auto simp: preserves_def sbind_apply)

lemma snd_attempt_quietly: "snd (attempt_quietly m s) = snd (m s)"
  by (auto simp: attempt_quietly_def shandle_def split: prod.splits sum.splits)

lemma calm_record_hook [calm_rules]: "calm (record_hook ck type body :: ('e, unit) sstep)"
proof -
  have "confined control_keys w w'" if "record_hook ck type body w = (r, w')" for w w' :: "'e sched_world" and r
  proof (cases "sw_file w")
    case None
    with that show ?thesis
      by (auto simp: record_hook_def attempt_quietly_def shandle_def sbind_apply load_state_def split: if_splits
          intro: confined_refl)
  next
    case (Some st)
    define after where "after = (\<lambda>u :: 'e sched_world. sw_cur u = sw_cur w \<and> sw_kept u = sw_kept w \<and>
      (sw_file u = Some st \<or> (\<exists>st'. sw_file u = Some st' \<and> same_control st st')))"
    have save: "after w2" if "save_state ck st1 w1 = (x, w2)" "same_control st st1" "after w1" for st1 w1 w2 and x :: "unit result"
      using save_state_effect [OF that(1)] that(3) same_fields_trans [OF that(2) same_control_dset [OF neutral_updated]]
      by (auto simp: after_def)
    have logged: "preserves after (sbind (slift (append_event_at t type (JObj body) st)) (save_state ck))" for t
      by (rule preserves_lift_bind) (auto simp: preserves_def dest!: append_event_same [OF _ control_log_free]
          intro: save [OF prod.collapse [symmetric]])
    have "preserves after (sbind (slift (path_text (jget st ''workspace''))) (\<lambda>ws. sbind (now_iso ck) (\<lambda>t.
        sbind (smodify (store_append ws (jget st ''run_id'') [(''t'', JStr t), (''type'', JStr type), (''data'', JObj body)]))
          (\<lambda>_. sbind (now_iso ck) (\<lambda>t'. sbind (slift (append_event_at t' type (JObj body) st)) (save_state ck))))))"
      by (intro preserves_bind preserves_ret logged)
        (auto simp: preserves_def now_iso_def store_append_def after_def)
    moreover have "after w" using Some by (simp add: after_def)
    moreover have "w' = snd (record_hook ck type body w)" using that by simp
    ultimately have "after w'"
      using Some by (cases "validate_state st")
        (simp_all add: record_hook_def snd_attempt_quietly load_state_def preserves_def)
    then show ?thesis using Some by (auto simp: after_def confined_def)
  qed
  then show ?thesis by (simp add: keeps_def) (metis prod.collapse)
qed

end
