(* ===== verification/Hook_Frames.thy ===== *)
theory Hook_Frames
  imports Scheduler_Frames
begin

text \<open>
  The default hooks leave the run state to the scheduler: they are calm, and what most of them ask
  for is mild. Only a few may stop or retry the run.
\<close>

lemma calm_cases [calm_rules]:
  "(x = None \<Longrightarrow> calm m) \<Longrightarrow> (\<And>y. x = Some y \<Longrightarrow> calm (f y)) \<Longrightarrow> calm (case x of None \<Rightarrow> m | Some y \<Rightarrow> f y)"
  "(\<And>a b. p = (a, b) \<Longrightarrow> calm (g a b)) \<Longrightarrow> calm (case p of (a, b) \<Rightarrow> g a b)"
  by (cases x; simp) (cases p; simp)

section \<open>Hooks are calm\<close>

lemma calm_budget_check [calm_rules]: "calm (on_budget_check pr)"
  unfolding on_budget_check_def budget_pause_def Let_def by (intro calm_rules)

lemma calm_before_step [calm_rules]: "calm (before_step pr)"
  unfolding before_step_def on_phase_timeout_def on_heartbeat_missing_def Let_def by (intro calm_rules)

lemma calm_before_new_round [calm_rules]: "calm (before_new_round pr)"
  unfolding before_new_round_def by (intro calm_rules)

lemma calm_on_recovery [calm_rules]: "calm (on_recovery pr err why)"
  unfolding on_recovery_def Let_def by (intro calm_rules)

lemma calm_on_error [calm_rules]: "calm (on_error pr e)"
  unfolding on_error_def by (intro calm_rules)

lemma calm_artifact_changed [calm_rules]: "calm (on_artifact_changed pr before after)"
  unfolding on_artifact_changed_def Let_def by (intro calm_rules)

lemma calm_routes [calm_rules]: "calm (before_route pr)" "calm (after_route pr)"
  unfolding before_route_def after_route_def on_low_confidence_route_def Let_def by (intro calm_rules)+

lemma calm_after_validation [calm_rules]: "calm (after_validation pr analysis)"
  unfolding after_validation_def Let_def by (intro calm_rules)

lemma calm_memory [calm_rules]: "calm (before_memory_update pr)" "calm (after_memory_update pr analysis)"
  unfolding before_memory_update_def after_memory_update_def by (intro calm_rules)+

lemma calm_approval [calm_rules]: "calm (on_human_approval_required pr)"
  and calm_profile_confirmed [calm_rules]: "calm (on_profile_confirmed pr profile)"
  and calm_stall [calm_rules]: "calm (on_stall pr why)"
  unfolding on_human_approval_required_def on_profile_confirmed_def on_stall_def by (intro calm_rules)+

lemma calm_transitions [calm_rules]:
  "calm (before_transition pr source target)" "calm (after_transition pr source target)"
  "calm (before_agent_run pr agent)" "calm (after_agent_run pr agent)"
  unfolding before_transition_def after_transition_def transition_hook_def before_agent_run_def after_agent_run_def
    agent_hook_def
  by (intro calm_rules)+

section \<open>Mild results\<close>

definition mild :: "hook_result \<Rightarrow> bool" where
  "mild r \<longleftrightarrow> hr_action r = HContinue \<and> (\<forall>k\<in>fst ` set (hr_patch r). neutral k)"

lemma mild_proceed [simp]: "mild proceed"
  by (simp add: mild_def hook_def)

lemma merge_patch_same: "\<forall>k\<in>fst ` set patch. neutral k \<Longrightarrow> same_control st (merge_patch st patch)"
proof (induction patch arbitrary: st)
  case Nil
  then show ?case by (simp add: merge_patch_def)
next
  case (Cons kv patch)
  have "same_control st (merge_entry st kv)"
    using Cons.prems by (auto simp: merge_entry_def intro: same_control_dset split: json.splits)
  moreover have "same_control (merge_entry st kv) (merge_patch (merge_entry st kv) patch)"
    using Cons by simp
  ultimately show ?case using same_fields_trans by (simp add: merge_patch_def)
qed

lemma calm_apply_mild: "mild r \<Longrightarrow> calm (apply_hook_result pr failed r)"
  unfolding apply_hook_result_def mild_def
  by (intro calm_rules) (auto intro: merge_patch_same)

lemma keeps_bind_yields:
  assumes "calm m" and "yields P m" and "\<And>x. P x \<Longrightarrow> calm (f x)"
  shows "calm (sbind m f)"
  using assms unfolding keeps_def yields_def sbind_apply
  by (auto split: prod.splits sum.splits) (metis confined_trans snd_conv)+

lemma calm_apply_hook:
  assumes "calm m" and "yields mild m"
  shows "calm (apply_hook sc m)"
  unfolding apply_hook_def hooked_def
  by (rule keeps_bind_yields [OF assms]) (rule calm_apply_mild)

named_theorems yield_rules

lemma yields_rules [yield_rules]:
  "yields P (sret x) = P x" "yields P (slift (Inl e))"
  "(c \<Longrightarrow> yields P m) \<Longrightarrow> (\<not> c \<Longrightarrow> yields P n) \<Longrightarrow> yields P (if c then m else n)"
  by (simp_all add: yields_def)

lemma mild_hooks:
  "yields mild (before_route pr)" "yields mild (before_transition pr source target)"
  "yields mild (after_transition pr source target)" "yields mild (before_agent_run pr agent)"
  "yields mild (after_agent_run pr agent)" "yields mild (on_stall pr why)"
  "yields mild (on_profile_confirmed pr profile)" "yields mild (after_memory_update pr analysis)"
  unfolding before_transition_def after_transition_def transition_hook_def before_agent_run_def after_agent_run_def
    agent_hook_def before_route_def on_stall_def on_profile_confirmed_def after_memory_update_def
  by (intro yields_bind yields_ret mild_proceed)+

lemma neutral_patch_keys: "neutral ''validation''" "neutral ''memory_update_skipped''" "neutral ''artifact_changes''"
    "neutral ''last_error''"
  by (simp_all add: neutral_def control_keys_def driving_keys_def budget_keys_def)

lemma mild_patches:
  "yields mild (after_validation pr analysis)" "yields mild (before_memory_update pr)"
  "yields mild (on_artifact_changed pr before after)"
  unfolding after_validation_def before_memory_update_def on_artifact_changed_def Let_def
  by (auto intro!: yields_bind yields_ret simp: mild_def hook_def neutral_patch_keys yields_rules split: prod.splits)

lemmas [calm_rules] = calm_apply_hook [OF calm_routes(1) mild_hooks(1)] calm_apply_hook [OF calm_transitions(1) mild_hooks(2)]
  calm_apply_hook [OF calm_transitions(2) mild_hooks(3)] calm_apply_hook [OF calm_transitions(3) mild_hooks(4)]
  calm_apply_hook [OF calm_transitions(4) mild_hooks(5)] calm_apply_hook [OF calm_memory(2) mild_hooks(8)]
  calm_apply_hook [OF calm_after_validation mild_patches(1)] calm_apply_hook [OF calm_memory(1) mild_patches(2)]
  calm_apply_hook [OF calm_artifact_changed mild_patches(3)]

end
