(* ===== verification/Action_Frames.thy ===== *)
theory Action_Frames
  imports Hook_Frames
begin

text \<open>
  The parts of the actions that are calm, and what an action leaves of the recovery budget when it
  fails: the dictionary the executor falls back to has the rounds and the recovery attempts of the
  start, whatever the action did before it failed.
\<close>

section \<open>Calm parts\<close>

lemma neutral_keys [calm_rules]:
  "neutral ''acceptance_progress''" "neutral ''acceptance_fingerprint''" "neutral ''acceptance_observation_seq''"
  "neutral ''acceptance_repair_rounds''" "neutral ''acceptance_repair_tokens''" "neutral ''acceptance_summary''"
  "neutral ''acceptance_decision''" "neutral ''analysis''" "neutral ''artifacts''" "neutral ''phase''"
  "neutral ''phase_started_at''" "neutral ''route_decision''" "neutral ''task_type''" "neutral ''memory_refs''"
  "neutral ''strategy_hints''" "neutral ''profile''" "neutral ''validated''" "neutral ''last_error''"
  by (simp_all add: neutral_def control_keys_def driving_keys_def budget_keys_def)

lemma calm_sync [calm_rules]: "calm (sync_acceptance_baseline sc)"
  unfolding sync_acceptance_baseline_def by (intro calm_rules)

lemma calm_observe [calm_rules]: "calm (observe sc changed status token failure)"
  unfolding observe_def Let_def by (intro calm_rules)

lemma calm_store_sequence [calm_rules]: "calm store_sequence"
  unfolding store_sequence_def
  by (intro calm_rules) (auto simp: result_simps intro: same_control_dset neutral_keys)

lemma calm_refresh [calm_rules]: "calm (refresh_acceptance sc context failure)"
  unfolding refresh_acceptance_def Let_def by (intro calm_rules)

lemma calm_score_failure [calm_rules]: "calm (record_score_acceptance_failure sc score)"
  unfolding record_score_acceptance_failure_def Let_def by (intro calm_rules)

lemma same_control_dset_right: "same_control st st' \<Longrightarrow> neutral k \<Longrightarrow> same_control st (dset k v st')"
  using same_control_dset same_fields_trans by blast

lemma calm_repair_round [calm_rules]: "calm (record_acceptance_repair_round sc)"
  unfolding record_acceptance_repair_round_def
  by (intro calm_rules)
    (auto simp: result_simps split: if_splits intro!: same_control_dset_right neutral_keys)

lemma control_recovery_free: "''recovery'' \<notin> set control_keys"
    "{''recovery'', ''failure_evidence_history'', ''current_failure_evidence''} \<inter> set control_keys = {}"
  by (simp_all add: control_keys_def driving_keys_def budget_keys_def)

lemma calm_mark_recovery [calm_rules]: "calm (on_cur mark_recovery_attempt)"
  by (intro calm_rules mark_recovery_same [OF _ control_recovery_free(1)])

lemma calm_append_evidence [calm_rules]: "calm (on_cur (\<lambda>st. append_failure_evidence st ev))"
  by (intro calm_rules append_evidence_same [OF _ control_recovery_free(2)])

lemma calm_round_evidence [calm_rules]: "calm (record_round_failure_evidence sc planned goal)"
  and calm_action_evidence [calm_rules]: "calm (record_action_failure sc action e)"
  unfolding record_round_failure_evidence_def record_action_failure_def by (intro calm_rules)+

lemma calm_cleanup [calm_rules]: "calm (cleanup_run_processes sc)"
  unfolding cleanup_run_processes_def by (intro calm_rules)

lemma calm_after_retry [calm_rules]: "calm (after_retry sc)"
  unfolding after_retry_def by (intro calm_rules)

lemma calm_scope [calm_rules]: "calm (enforce_artifact_scope sc phase)"
  unfolding enforce_artifact_scope_def by (intro calm_rules)

lemma calm_check_phase [calm_rules]: "calm (check_phase sc phase)"
  unfolding check_phase_def by (intro calm_rules)

lemma same_control_dpop: "neutral k \<Longrightarrow> same_control st (dpop k st)"
  by (auto simp: neutral_def same_fields_def agrees_def map_of_dpop attempts_of_def recovery_wf_def jget_def dget_def)

lemma calm_end_phase [calm_rules]: "calm (end_phase sc phase agent source before)"
  unfolding end_phase_def by (intro calm_rules) (auto intro!: same_control_dpop neutral_keys)

lemma calm_summarize [calm_rules]: "calm (summarize_acceptance sc analysis)"
  unfolding summarize_acceptance_def Let_def by (intro calm_rules)

lemma calm_update_memory [calm_rules]: "calm (update_memory sc analysis)"
  unfolding update_memory_def by (intro calm_rules)

lemma calm_final_analysis [calm_rules]: "calm (final_analysis sc)"
  unfolding final_analysis_def by (intro calm_rules)

end
