(* ===== verification/Scheduler_Progress.thy ===== *)
theory Scheduler_Progress
  imports Action_Frames
begin

text \<open>
  Progress of the run loop. Every step that does not end the run takes work off a measure: the
  recovery attempts left, the rounds left and the rank of the next action. The phases are
  arbitrary as long as they leave the control fields of the run state alone.
\<close>

section \<open>Looser frames\<close>

text \<open>The budget of the current dictionary survives; saving is allowed.\<close>

definition loose :: "'e sched_world \<Rightarrow> 'e sched_world \<Rightarrow> bool" where
  "loose w w' \<longleftrightarrow> sw_kept w' = sw_kept w \<and> same_budget (sw_cur w) (sw_cur w')"

definition kept_same :: "'e sched_world \<Rightarrow> 'e sched_world \<Rightarrow> bool" where
  "kept_same w w' \<longleftrightarrow> sw_kept w' = sw_kept w"

interpretation lf: frame loose
  by unfold_locales (auto simp: loose_def intro: same_fields_trans)

interpretation kf: frame kept_same
  by unfold_locales (auto simp: kept_same_def)

named_theorems loose_rules
named_theorems kept_rules

lemmas [loose_rules] = lf.keeps_ret lf.keeps_bind lf.keeps_handle lf.keeps_quietly lf.keeps_attempt
lemmas [kept_rules] = kf.keeps_ret kf.keeps_bind kf.keeps_handle kf.keeps_quietly kf.keeps_attempt

lemma calm_loose: "calm m \<Longrightarrow> keeps loose m"
  and loose_kept: "keeps loose m \<Longrightarrow> keeps kept_same m"
  by (auto elim!: keeps_mono simp: confined_def loose_def kept_same_def dest: same_control_budget)

lemma calm_kept: "calm m \<Longrightarrow> keeps kept_same m"
  by (intro loose_kept calm_loose)

lemma frame_if [loose_rules, kept_rules]:
  "(c \<Longrightarrow> keeps R m) \<Longrightarrow> (\<not> c \<Longrightarrow> keeps R n) \<Longrightarrow> keeps R (if c then m else n)"
  by simp

lemma frame_cases [loose_rules, kept_rules]:
  "(x = None \<Longrightarrow> keeps R m) \<Longrightarrow> (\<And>y. x = Some y \<Longrightarrow> keeps R (f y)) \<Longrightarrow> keeps R (case x of None \<Rightarrow> m | Some y \<Rightarrow> f y)"
  by (cases x) simp_all

lemma loose_on_cur:
  assumes "\<And>st st'. f st = Inr st' \<Longrightarrow> same_budget st st'"
  shows "keeps loose (on_cur f :: ('e, unit) sstep)"
proof -
  have "loose w (snd (on_cur f w))" for w :: "'e sched_world"
    using assms [of "sw_cur w"]
    by (cases "f (sw_cur w)") (auto simp: on_cur_def cur_def set_cur_def sbind_apply loose_def)
  then show ?thesis by (simp add: keeps_def)
qed

lemma kept_on_cur [kept_rules]: "keeps kept_same (on_cur f)"
  by (auto simp: keeps_def on_cur_def cur_def set_cur_def sbind_apply kept_same_def split: sum.splits)

lemma loose_put [loose_rules]: "k \<notin> set budget_keys \<Longrightarrow> k \<noteq> ''recovery'' \<Longrightarrow> keeps loose (put k v)"
  unfolding put_def by (intro loose_on_cur) auto

lemma drive_keys_free:
  "''active'' \<notin> set budget_keys" "''status'' \<notin> set budget_keys" "''next_action'' \<notin> set budget_keys"
  "''requires_confirmation'' \<notin> set budget_keys" "''phase'' \<notin> set budget_keys"
  "''last_error'' \<notin> set budget_keys" "''phase_started_at'' \<notin> set budget_keys"
  by (simp_all add: budget_keys_def)

lemma loose_goto [loose_rules]: "keeps loose (goto phase)"
  unfolding goto_def by (intro loose_rules) (simp_all add: budget_keys_def)

lemma loose_save [loose_rules]: "keeps loose (save_cur ck :: ('e, unit) sstep)"
proof -
  have "loose w (snd (save_cur ck w))" for w :: "'e sched_world"
    using save_state_effect [OF prod.collapse [symmetric], of ck "sw_cur w" w]
    by (simp add: save_cur_def cur_def sbind_apply loose_def)
  then show ?thesis by (simp add: keeps_def)
qed

lemma loose_save_and_load [loose_rules]: "keeps loose (save_and_load ck)"
  unfolding save_and_load_def by (intro loose_rules calm_loose calm_rules)

lemma loose_apply: "hr_patch r = [] \<Longrightarrow> keeps loose (apply_hook_result pr failed r)"
  unfolding apply_hook_result_def
  by (cases "hr_action r") (auto simp: merge_patch_def drive_keys_free split del: if_split
      intro!: loose_rules loose_on_cur calm_loose [OF calm_append_event] calm_loose [OF calm_now] calm_loose [OF calm_fetch])

end
