(* ===== verification/Scheduler_Work.thy ===== *)
theory Scheduler_Work
  imports Scheduler_Progress
begin

text \<open>
  The work a run has left, and how much of it a successful action takes off: routing and the
  phases move on to a lower-ranked action or to the next round, the analysis ends the run.
\<close>

section \<open>The measure\<close>

definition limit_of :: "obj \<Rightarrow> int" where
  "limit_of st = (case policy_int st ''max_recovery_attempts'' 1 of Inr n \<Rightarrow> n | Inl _ \<Rightarrow> 0)"

definition rounds_of :: "obj \<Rightarrow> int" where
  "rounds_of st = (case round_of st of Inr n \<Rightarrow> n | Inl _ \<Rightarrow> 0)"

definition action_rank :: "json \<Rightarrow> nat" where
  "action_rank a =
     (if a = JStr ''analyze'' then 1 else if a = JStr ''evaluate'' then 2 else if a = JStr ''build'' then 3
      else if a = JStr ''contract'' then 4 else if a = JStr ''plan'' then 5 else 6)"

definition work_left :: "int \<Rightarrow> obj \<Rightarrow> nat" where
  "work_left R st =
     nat (limit_of st - attempts_of st) + 4 * nat (R - rounds_of st) + action_rank (jget st ''next_action'')"

text \<open>No state of the run allows more than \<open>R\<close> rounds.\<close>

definition rounds_within :: "int \<Rightarrow> 'e sched \<Rightarrow> obj \<Rightarrow> bool" where
  "rounds_within R sc st \<longleftrightarrow>
     (truthy (jget st ''max_rounds'') \<longrightarrow> (\<forall>n. py_int (jget st ''max_rounds'') = Inr n \<longrightarrow> n \<le> R)) \<and>
     (\<forall>p. sc_profile_rounds sc p \<le> R)"

lemma limit_of_same: "same_budget a b \<Longrightarrow> limit_of b = limit_of a"
  using same_fields_jget [of budget_keys a b "''hook_policy''"]
  by (simp add: limit_of_def policy_int_def policy_of_def budget_keys_def)

lemma rounds_of_same: "same_budget a b \<Longrightarrow> rounds_of b = rounds_of a"
  using same_fields_dget [of budget_keys a b "''round_num''"] by (simp add: rounds_of_def round_of_def budget_keys_def)

lemma attempts_of_same: "same_fields ks a b \<Longrightarrow> attempts_of b = attempts_of a"
  by (simp add: same_fields_def)

lemma rounds_within_same: "same_budget a b \<Longrightarrow> rounds_within R sc a \<Longrightarrow> rounds_within R sc b"
  using same_fields_jget [of budget_keys a b "''max_rounds''"] by (simp add: rounds_within_def budget_keys_def)

lemma max_rounds_bound: "max_rounds_of sc st = Inr n \<Longrightarrow> rounds_within R sc st \<Longrightarrow> n \<le> R"
  by (auto simp: max_rounds_of_def rounds_within_def split: if_splits)

lemma same_drive_budget: "same_drive a b \<Longrightarrow> same_budget a b"
  by (erule same_fields_mono) (auto simp: driving_keys_def)

lemma same_control_drive: "same_control a b \<Longrightarrow> same_drive a b"
  by (erule same_fields_mono) (auto simp: control_keys_def)

lemma same_drive_numbers:
  assumes "same_drive a b"
  shows "limit_of b = limit_of a" "rounds_of b = rounds_of a" "attempts_of b = attempts_of a"
    "jget b ''next_action'' = jget a ''next_action''"
  using limit_of_same [OF same_drive_budget [OF assms]] rounds_of_same [OF same_drive_budget [OF assms]]
    attempts_of_same [OF assms] same_fields_jget [OF assms, of "''next_action''"]
  by (simp_all add: driving_keys_def)

lemma work_left_same: "same_drive a b \<Longrightarrow> work_left R b = work_left R a"
  by (simp add: work_left_def same_drive_numbers)

lemma idle_same: "same_drive a b \<Longrightarrow> run_is_idle b = run_is_idle a"
  using same_fields_jget [of driving_keys a b] by (simp add: run_is_idle_def driving_keys_def)

text \<open>What an action achieves: the bound on the rounds stays, and the run is idle or has less work left.\<close>

definition advances :: "int \<Rightarrow> 'e sched \<Rightarrow> obj \<Rightarrow> obj \<Rightarrow> bool" where
  "advances R sc st st' \<longleftrightarrow>
     rounds_within R sc st' \<and> (run_is_idle st' \<or> work_left R st' < work_left R st)"

lemma advances_same: "advances R sc st st' \<Longrightarrow> same_drive st' st'' \<Longrightarrow> advances R sc st st''"
  using rounds_within_same [OF same_drive_budget] by (auto simp: advances_def work_left_same idle_same)

lemma advances_start: "advances R sc st st' \<Longrightarrow> same_drive st st0 \<Longrightarrow> advances R sc st0 st'"
  by (simp add: advances_def work_left_same)

section \<open>Calm steps inside an action\<close>

lemma calmD: "calm m \<Longrightarrow> m w = (r, w') \<Longrightarrow> same_control (sw_cur w) (sw_cur w')"
  by (auto dest!: keepsD simp: confined_def)

lemma put_Inr: "put k v w = (r, w') \<longleftrightarrow> r = Inr () \<and> w' = w\<lparr>sw_cur := dset k v (sw_cur w)\<rparr>"
  by (auto simp: put_def on_cur_def cur_def set_cur_def sbind_apply)

lemma goto_Inr:
  "goto phase w = (r, w') \<longleftrightarrow>
     r = Inr () \<and> w' = w\<lparr>sw_cur := dset ''next_action'' (JStr phase) (dset ''phase'' (JStr phase) (sw_cur w))\<rparr>"
  by (auto simp: goto_def sbind_apply put_def on_cur_def cur_def set_cur_def)

lemma cur_Inr: "cur w = (r, w') \<longleftrightarrow> r = Inr (sw_cur w) \<and> w' = w"
  and fetch_Inr: "fetch k w = (r', w') \<longleftrightarrow> r' = Inr (jget (sw_cur w) k) \<and> w' = w"
  by (auto simp: cur_def fetch_def)

lemma on_cur_Inr: "on_cur f w = (Inr u, w') \<longleftrightarrow> (\<exists>st. f (sw_cur w) = Inr st \<and> w' = w\<lparr>sw_cur := st\<rparr>)"
  by (auto simp: on_cur_def cur_def set_cur_def result_simps)

lemma sbind_first:
  "sbind cur f w = f (sw_cur w) w" "sbind (fetch k) g w = g (jget (sw_cur w) k) w"
  "sbind (slift r) h w = (Inr y, t) \<longleftrightarrow> (\<exists>x. r = Inr x \<and> h x w = (Inr y, t))" "sbind (sret z) h' w = h' z w"
  by (auto simp: sbind_apply cur_def fetch_def split: sum.splits)

lemma sbind_assoc: "sbind (sbind m f) g = sbind m (\<lambda>x. sbind (f x) g)"
  by (auto simp: sbind_def fun_eq_iff split: prod.splits sum.splits)

text \<open>A transition changes the next action only.\<close>

lemma goto_work:
  "work_left R (dset ''next_action'' a (dset ''phase'' p st)) =
     nat (limit_of st - attempts_of st) + 4 * nat (R - rounds_of st) + action_rank a"
proof -
  have "same_budget st (dset ''next_action'' a (dset ''phase'' p st))"
    by (intro same_fields_dset_right) (auto simp: budget_keys_def)
  then show ?thesis
    by (simp add: work_left_def limit_of_same rounds_of_same attempts_of_same jget_dset)
qed

lemma goto_advances:
  assumes "goto phase w = (r, w')" and "rounds_within R sc (sw_cur w)" and "same_drive st (sw_cur w)"
    and "action_rank (JStr phase) < action_rank (jget st ''next_action'')"
  shows "advances R sc st (sw_cur w')"
proof -
  from assms(3) have "work_left R st =
      nat (limit_of (sw_cur w) - attempts_of (sw_cur w)) + 4 * nat (R - rounds_of (sw_cur w)) + action_rank (jget st ''next_action'')"
    using same_drive_numbers [OF assms(3)] by (simp add: work_left_def)
  moreover have "same_budget (sw_cur w) (sw_cur w')"
    using assms(1) by (auto simp: goto_Inr budget_keys_def intro!: same_fields_dset_right)
  ultimately show ?thesis
    using assms rounds_within_same by (auto simp: goto_Inr advances_def goto_work)
qed

end
