(* ===== verification/Scheduler_Moves.thy ===== *)
theory Scheduler_Moves
  imports Scheduler_Work
begin

text \<open>
  The transitions after a phase: to a later action of the round, to the next round while rounds are
  left, or to the analysis.
\<close>

section \<open>A new round\<close>

definition may_pause :: "hook_result \<Rightarrow> bool" where
  "may_pause r \<longleftrightarrow> mild r \<or> hr_action r = HPause \<and> (\<forall>k\<in>fst ` set (hr_patch r). neutral k)"

lemma budget_check_pauses: "yields may_pause (on_budget_check pr)"
  unfolding on_budget_check_def budget_pause_def Let_def
  by (intro yields_bind yield_rules(3)) (auto simp: yields_def may_pause_def hook_def mild_def neutral_patch_keys dest!: sbind_eq_Inr [THEN iffD1])

lemma new_round_pauses: "yields may_pause (before_new_round pr)"
  unfolding before_new_round_def by (intro yields_bind budget_check_pauses)

lemma apply_pause:
  assumes "apply_hook_result pr failed r w = (Inr u, w')" and "hr_action r = HPause"
    and "\<forall>k\<in>fst ` set (hr_patch r). neutral k"
  shows "jget (sw_cur w') ''active'' = JBool False \<and> jget (sw_cur w') ''status'' = JStr ''paused'' \<and>
    same_budget (sw_cur w) (sw_cur w')"
proof -
  let ?st = "merge_patch (sw_cur w) (hr_patch r)"
  from assms(1,2) obtain w1 where ev: "append_event (pr_clock pr) ''hook_action'' (JObj (hook_event r)) (w\<lparr>sw_cur := ?st\<rparr>) = (Inr (), w1)"
    and w': "w' = w1\<lparr>sw_cur := dset ''status'' (JStr ''paused'') (dset ''active'' (JBool False) (sw_cur w1))\<rparr>"
    by (auto simp: apply_hook_result_def sbind_eq_Inr put_Inr on_cur_Inr)
  have "same_control (sw_cur w) (sw_cur w1)"
    using merge_patch_same [OF assms(3)] calmD [OF calm_append_event ev] by (auto intro: same_fields_trans)
  then have "same_budget (sw_cur w) (sw_cur w')"
    unfolding w' by (auto simp: budget_keys_def dest!: same_control_budget intro!: same_fields_dset_right)
  then show ?thesis by (simp add: w' jget_dset)
qed

lemma halted_Inr: "is_halted w = (Inr b, w') \<longleftrightarrow> in_strings halted_statuses (jget (sw_cur w) ''status'') = Inr b \<and> w' = w"
  by (auto simp: is_halted_def sbind_apply fetch_def)

lemma stopped_advances:
  "\<not> truthy (jget st' ''active'') \<Longrightarrow> rounds_within R sc st' \<Longrightarrow> advances R sc st st'"
  by (simp add: advances_def run_is_idle_def)

text \<open>After the round has been counted, contract or build starts with less work left.\<close>

lemma next_round_advances:
  assumes "next_round w = (Inr (), w1)" and "same_drive st (sw_cur w)" and "rounds_within R sc st"
    and "round_of (sw_cur w) = Inr n" and "n < R"
    and "same_drive (sw_cur w1) (sw_cur w2)" and "goto phase w2 = (r, w3)" and "action_rank (JStr phase) \<le> 4"
  shows "advances R sc st (sw_cur w3)"
proof -
  from assms(1,4) have w1: "sw_cur w1 = dset ''round_num'' (JInt (n + 1)) (sw_cur w)"
    by (auto simp: next_round_def on_cur_Inr rbind_eq_Inr)
  have numbers: "limit_of (sw_cur w1) = limit_of st" "attempts_of (sw_cur w1) = attempts_of st"
      "rounds_of (sw_cur w1) = n + 1" "rounds_of st = n"
    using same_drive_numbers [OF assms(2)] assms(4)
    by (simp_all add: w1 limit_of_def policy_int_def policy_of_def jget_dset rounds_of_def round_of_def dget_def map_of_dset)
  have "rounds_within R sc (sw_cur w)"
    by (rule rounds_within_same [OF same_drive_budget [OF assms(2)] assms(3)])
  then have within: "rounds_within R sc (sw_cur w1)" by (simp add: rounds_within_def w1 jget_dset)
  have w3: "sw_cur w3 = dset ''next_action'' (JStr phase) (dset ''phase'' (JStr phase) (sw_cur w2))"
    using assms(7) by (auto simp: goto_Inr)
  have "same_budget (sw_cur w2) (sw_cur w3)"
    unfolding w3 by (intro same_fields_dset_right) (auto simp: budget_keys_def)
  with within have "rounds_within R sc (sw_cur w3)"
    using rounds_within_same [OF same_drive_budget [OF assms(6)]] rounds_within_same by blast
  moreover have "work_left R (sw_cur w3) < work_left R st"
  proof -
    have "work_left R (sw_cur w3) = nat (limit_of st - attempts_of st) + 4 * nat (R - (n + 1)) + action_rank (JStr phase)"
      using same_drive_numbers [OF assms(6)] numbers by (simp add: w3 goto_work)
    also have "... < nat (limit_of st - attempts_of st) + 4 * nat (R - n) + action_rank (jget st ''next_action'')"
    proof -
      have "nat (R - n) = Suc (nat (R - (n + 1)))" using assms(5) by simp
      moreover have "0 < action_rank (jget st ''next_action'')" by (simp add: action_rank_def)
      ultimately show ?thesis using assms(8) by simp
    qed
    finally show ?thesis by (simp add: work_left_def numbers)
  qed
  ultimately show ?thesis by (simp add: advances_def)
qed

lemma goto_contract_or_build_Inr:
  assumes "goto_contract_or_build w = (r, w')"
  obtains phase where "goto phase w = (r, w')" and "action_rank (JStr phase) \<le> 4"
proof (rule that)
  show "goto (if contract_enabled (sw_cur w) then ''contract'' else ''build'') w = (r, w')"
    using assms by (simp add: goto_contract_or_build_def sbind_apply cur_def)
  show "action_rank (JStr (if contract_enabled (sw_cur w) then ''contract'' else ''build'')) \<le> 4"
    by (simp add: action_rank_def)
qed

section \<open>Transitions\<close>

text \<open>A state from which a phase other than the analysis is leaving.\<close>

definition leaving :: "int \<Rightarrow> 'e sched \<Rightarrow> obj \<Rightarrow> 'e sched_world \<Rightarrow> bool" where
  "leaving R sc st w \<longleftrightarrow>
     same_drive st (sw_cur w) \<and> rounds_within R sc st \<and> jget (sw_cur w) ''status'' = JStr ''running'' \<and>
     1 < action_rank (jget st ''next_action'')"

lemma leaving_same:
  assumes "leaving R sc st w" and "same_control (sw_cur w) (sw_cur w')"
  shows "leaving R sc st w'"
  using assms same_fields_jget [OF assms(2), of "''status''"] same_control_drive [OF assms(2)]
  by (auto simp: leaving_def control_keys_def intro: same_fields_trans)

lemma leaving_calm: "leaving R sc st w \<Longrightarrow> calm m \<Longrightarrow> m w = (r, w') \<Longrightarrow> leaving R sc st w'"
  using leaving_same calmD by blast

lemma leaving_within: "leaving R sc st w \<Longrightarrow> rounds_within R sc (sw_cur w)"
  by (rule rounds_within_same [OF same_drive_budget]) (auto simp: leaving_def)

lemma leaving_goto:
  "leaving R sc st w \<Longrightarrow> goto phase w = (r, w') \<Longrightarrow>
   action_rank (JStr phase) < action_rank (jget st ''next_action'') \<Longrightarrow> advances R sc st (sw_cur w')"
  by (rule goto_advances [OF _ leaving_within]) (auto simp: leaving_def)

lemma leaving_analyze: "leaving R sc st w \<Longrightarrow> goto ''analyze'' w = (r, w') \<Longrightarrow> advances R sc st (sw_cur w')"
  using leaving_goto [of R sc st w "''analyze''" r w'] by (simp add: leaving_def action_rank_def)

text \<open>The hook before a new round lets the run go on unchanged, or pauses it.\<close>

lemma unless_halted_advances:
  assumes "unless_halted sc body w = (Inr (), w')" and "leaving R sc st w"
    and "\<And>w1. leaving R sc st w1 \<Longrightarrow> same_control (sw_cur w) (sw_cur w1) \<Longrightarrow> body w1 = (Inr (), w') \<Longrightarrow>
      advances R sc st (sw_cur w')"
  shows "advances R sc st (sw_cur w')"
proof -
  from assms(1) obtain r w1 w2 b where
    hook: "before_new_round (sc_probe sc) w = (Inr r, w1)" "apply_hook_result (sc_probe sc) JNull r w1 = (Inr (), w2)"
    and halted: "in_strings halted_statuses (jget (sw_cur w2) ''status'') = Inr b"
    and rest: "(if b then sret () else body) w2 = (Inr (), w')"
    by (auto simp: unless_halted_def apply_hook_def hooked_def sbind_eq_Inr halted_Inr)
  have same1: "same_control (sw_cur w) (sw_cur w1)" by (rule calmD [OF calm_before_new_round hook(1)])
  have l1: "leaving R sc st w1" by (rule leaving_same [OF assms(2) same1])
  from new_round_pauses hook(1)
  consider "mild r" | "hr_action r = HPause" "\<forall>k\<in>fst ` set (hr_patch r). neutral k"
    by (auto simp: yields_def may_pause_def)
  then show ?thesis
  proof cases
    case 1
    have same2: "same_control (sw_cur w1) (sw_cur w2)" by (rule calmD [OF calm_apply_mild [OF 1] hook(2)])
    have l2: "leaving R sc st w2" by (rule leaving_same [OF l1 same2])
    with halted rest have "body w2 = (Inr (), w')" by (simp add: in_strings_def halted_statuses_def leaving_def)
    then show ?thesis using assms(3) [OF l2 same_fields_trans [OF same1 same2]] by simp
  next
    case 2
    from apply_pause [OF hook(2) 2] halted rest
    have "jget (sw_cur w') ''active'' = JBool False" "same_budget (sw_cur w1) (sw_cur w')"
      by (auto simp: in_strings_def halted_statuses_def)
    then show ?thesis
      by (intro stopped_advances rounds_within_same [OF _ leaving_within [OF l1]]) simp_all
  qed
qed

lemma new_round_move:
  assumes "next_round w = (Inr (), w1)" and "leaving R sc st w" and "round_of (sw_cur w) = Inr n" and "n < R"
    and "same_control (sw_cur w1) (sw_cur w2)" and "goto_contract_or_build w2 = (r, w3)"
    and "same_control (sw_cur w3) (sw_cur w4)"
  shows "advances R sc st (sw_cur w4)"
proof -
  from assms(6) obtain phase where phase: "goto phase w2 = (r, w3)" "action_rank (JStr phase) \<le> 4"
    by (rule goto_contract_or_build_Inr)
  have "advances R sc st (sw_cur w3)"
    by (rule next_round_advances [OF assms(1) _ _ assms(3,4) same_control_drive [OF assms(5)] phase])
      (use assms(2) in \<open>auto simp: leaving_def\<close>)
  then show ?thesis using advances_same same_control_drive [OF assms(7)] by blast
qed

end
