(* ===== verification/Scheduler_Turns.thy ===== *)
theory Scheduler_Turns
  imports Scheduler_Moves
begin

text \<open>
  Every transition after a phase advances the run, whatever the scores, the acceptance evidence
  and the recovery flags.
\<close>

lemma retry_body_advances:
  assumes "sbind pre (\<lambda>_. sbind next_round (\<lambda>_. sbind mid (\<lambda>_. sbind goto_contract_or_build (\<lambda>_. post)))) w = (Inr (), w')"
    and "calm pre" and "calm mid" and "calm post"
    and "leaving R sc st w" and "round_of (sw_cur w) = Inr n" and "n < R"
  shows "advances R sc st (sw_cur w')"
proof -
  from assms(1) obtain x w1 w2 y w3 z w4 where steps: "pre w = (Inr x, w1)" "next_round w1 = (Inr (), w2)"
    "mid w2 = (Inr y, w3)" "goto_contract_or_build w3 = (Inr z, w4)" "post w4 = (Inr (), w')"
    by (auto simp: sbind_eq_Inr)
  have same: "same_control (sw_cur w) (sw_cur w1)" by (rule calmD [OF assms(2) steps(1)])
  then have "round_of (sw_cur w1) = Inr n"
    using assms(6) same_fields_dget [OF same, of "''round_num''"]
    by (simp add: round_of_def control_keys_def driving_keys_def budget_keys_def)
  from new_round_move [OF steps(2) leaving_same [OF assms(5) same] this assms(7) calmD [OF assms(3) steps(3)] steps(4)
      calmD [OF assms(4) steps(5)]]
  show ?thesis .
qed

lemma retry_advances:
  assumes "schedule_acceptance_retry sc action w = (Inr (), w')" and "leaving R sc st w"
  shows "advances R sc st (sw_cur w')"
proof -
  define repair where "repair = (action = JStr ''repair'')"
  define ev where "ev = (if repair \<and> sc_recovery sc
    then record_round_failure_evidence sc True
           ''Repair the failed acceptance check, then rerun focused verification.''
    else sret ())"
  define body where "body = sbind (if repair \<and> sc_recovery sc then on_cur mark_recovery_attempt else sret ()) (\<lambda>_.
         sbind next_round (\<lambda>_.
         sbind (if repair then record_acceptance_repair_round sc else sret ()) (\<lambda>_.
         sbind goto_contract_or_build (\<lambda>_.
         sbind (fetch ''round_num'') (\<lambda>r.
         add_event sc ''acceptance_retry_scheduled'' [(''decision'', action), (''round'', r)])))))"
  from assms(1) obtain n limit where n: "round_of (sw_cur w) = Inr n" "max_rounds_of sc (sw_cur w) = Inr limit"
    and rest: "(if limit \<le> n then goto ''analyze'' else sbind ev (\<lambda>_. unless_halted sc body)) w = (Inr (), w')"
    unfolding schedule_acceptance_retry_def Let_def repair_def [symmetric] ev_def [symmetric] body_def [symmetric]
    by (auto simp: sbind_eq_Inr cur_Inr)
  show ?thesis
  proof (cases "limit \<le> n")
    case True
    with rest leaving_analyze [OF assms(2)] show ?thesis by simp
  next
    case False
    then obtain x w1 where w1: "ev w = (Inr x, w1)" "unless_halted sc body w1 = (Inr (), w')"
      using rest by (auto simp: sbind_eq_Inr)
    have calm: "calm ev" unfolding ev_def by (intro calm_rules)
    have bound: "n < R" using False max_rounds_bound [OF n(2) leaving_within [OF assms(2)]] by simp
    show ?thesis
    proof (rule unless_halted_advances [OF w1(2) leaving_calm [OF assms(2) calm w1(1)]])
      fix w2
      assume l2: "leaving R sc st w2" and same: "same_control (sw_cur w1) (sw_cur w2)" and go: "body w2 = (Inr (), w')"
      have "round_of (sw_cur w2) = Inr n"
        using n(1) same_fields_dget [OF same_fields_trans [OF calmD [OF calm w1(1)] same], of "''round_num''"]
        by (simp add: round_of_def control_keys_def driving_keys_def budget_keys_def)
      show "advances R sc st (sw_cur w')"
        by (rule retry_body_advances [OF go [unfolded body_def] _ _ _ l2 \<open>round_of (sw_cur w2) = Inr n\<close> bound])
          (intro calm_rules)+
    qed
  qed
qed

lemma without_evaluator_advances:
  assumes "set_next_without_evaluator sc w = (Inr (), w')" and "leaving R sc st w"
  shows "advances R sc st (sw_cur w')"
  using assms(1) leaving_analyze [OF assms(2)] retry_advances [OF _ assms(2)]
  by (auto simp: set_next_without_evaluator_def sbind_eq_Inr cur_Inr split: if_splits)

lemma exhausted_advances:
  assumes "sbind (if c then record_round_failure_evidence sc False exhausted_goal else sret ()) (\<lambda>_. goto ''analyze'') w
      = (Inr (), w')" and "leaving R sc st w"
  shows "advances R sc st (sw_cur w')"
proof -
  from assms(1) obtain x w1 where ev: "(if c then record_round_failure_evidence sc False exhausted_goal else sret ()) w = (Inr x, w1)"
    and go: "goto ''analyze'' w1 = (Inr (), w')" by (auto simp: sbind_eq_Inr)
  have "calm (if c then record_round_failure_evidence sc False exhausted_goal else sret ())" by (intro calm_rules)
  from leaving_analyze [OF leaving_calm [OF assms(2) this ev] go] show ?thesis .
qed

text \<open>The end of the transition after evaluate, once the acceptance evidence is up to date.\<close>

lemma decided_advances:
  assumes "(if a then goto ''analyze'' else sbind m (\<lambda>last_round. if last_round
        then sbind (if c then record_round_failure_evidence sc False exhausted_goal else sret ()) (\<lambda>_. goto ''analyze'')
        else schedule_acceptance_retry sc act)) w = (Inr (), w')"
    and "calm m" and "leaving R sc st w"
  shows "advances R sc st (sw_cur w')"
proof (cases a)
  case True
  with assms(1) leaving_analyze [OF assms(3)] show ?thesis by simp
next
  case False
  with assms(1) obtain last_round w1 where m: "m w = (Inr last_round, w1)" and rest:
    "(if last_round then sbind (if c then record_round_failure_evidence sc False exhausted_goal else sret ()) (\<lambda>_. goto ''analyze'')
      else schedule_acceptance_retry sc act) w1 = (Inr (), w')"
    by (auto simp: sbind_eq_Inr)
  have l1: "leaving R sc st w1" by (rule leaving_calm [OF assms(3,2) m])
  show ?thesis
    using rest exhausted_advances [OF _ l1] retry_advances [OF _ l1] by (cases last_round) auto
qed

lemma acceptance_evaluate_advances:
  assumes "set_next_after_acceptance_evaluate sc w = (Inr (), w')" and "leaving R sc st w"
  shows "advances R sc st (sw_cur w')"
proof -
  from assms(1) [unfolded set_next_after_acceptance_evaluate_def sbind_eq_Inr [of cur] cur_Inr sbind_eq_Inr [of "slift _"]]
  obtain s ok where
    fail: "sbind (if \<not> ok then record_score_acceptance_failure sc (case s of None \<Rightarrow> 0 | Some x \<Rightarrow> x) else sret ()) (\<lambda>_.
      sbind cur (\<lambda>st'. sbind (slift (decision_action st')) (\<lambda>act.
      if act = JStr ''complete'' \<and> ok then goto ''analyze''
      else
       sbind (if act = JStr ''blocked'' then sret True
              else sbind (slift (round_of st')) (\<lambda>n. sbind (slift (max_rounds_of sc st')) (\<lambda>limit.
                   sret (limit \<le> n)))) (\<lambda>last_round.
       if last_round then
         sbind (if \<not> ok \<and> sc_recovery sc then record_round_failure_evidence sc False exhausted_goal
                else sret ()) (\<lambda>_.
         goto ''analyze'')
       else
         schedule_acceptance_retry sc (if \<not> ok then JStr ''repair'' else py_or act (JStr ''repair'')))))) w = (Inr (), w')"
    by auto
  define m where "m = (if \<not> ok then record_score_acceptance_failure sc (case s of None \<Rightarrow> 0 | Some x \<Rightarrow> x) else sret ())"
  have calm: "calm m" unfolding m_def by (intro calm_rules)
  from fail [folded m_def] obtain x w1 act where w1: "m w = (Inr x, w1)" and
    rest: "(if act = JStr ''complete'' \<and> ok then goto ''analyze''
      else
       sbind (if act = JStr ''blocked'' then sret True
              else sbind (slift (round_of (sw_cur w1))) (\<lambda>n. sbind (slift (max_rounds_of sc (sw_cur w1))) (\<lambda>limit.
                   sret (limit \<le> n)))) (\<lambda>last_round.
       if last_round then
         sbind (if \<not> ok \<and> sc_recovery sc then record_round_failure_evidence sc False exhausted_goal
                else sret ()) (\<lambda>_.
         goto ''analyze'')
       else
         schedule_acceptance_retry sc (if \<not> ok then JStr ''repair'' else py_or act (JStr ''repair'')))) w1 = (Inr (), w')"
    unfolding sbind_eq_Inr [of m] sbind_eq_Inr [of cur] cur_Inr sbind_eq_Inr [of "slift (decision_action _)"] slift_apply
    by blast
  show ?thesis by (rule decided_advances [OF rest _ leaving_calm [OF assms(2) calm w1]]) (intro calm_rules)
qed

text \<open>The same without acceptance control.\<close>

lemma scored_advances:
  fixes sc :: "'e sched"
  assumes "sbind (if passed then sret True else sbind (slift (round_of (sw_cur w))) (\<lambda>n. sret (limit \<le> n))) (\<lambda>stop.
     if stop then sbind (if \<not> passed \<and> sc_recovery sc then record_round_failure_evidence sc False exhausted_goal
              else sret ()) (\<lambda>_. goto ''analyze'')
     else sbind ev (\<lambda>_. unless_halted sc (sbind pre (\<lambda>_. sbind next_round (\<lambda>_. goto_contract_or_build))))) w = (Inr (), w')"
    and "max_rounds_of sc (sw_cur w) = Inr limit" and "calm ev" and "calm pre" and "leaving R sc st w"
  shows "advances R sc st (sw_cur w')"
proof (cases passed)
  case True
  with assms(1) leaving_analyze [OF assms(5)] show ?thesis by (simp add: sbind_first)
next
  case not_passed: False
  have "\<exists>n. round_of (sw_cur w) = Inr n \<and>
      (if limit \<le> n then sbind (if \<not> passed \<and> sc_recovery sc then record_round_failure_evidence sc False exhausted_goal
              else sret ()) (\<lambda>_. goto ''analyze'')
     else sbind ev (\<lambda>_. unless_halted sc (sbind pre (\<lambda>_. sbind next_round (\<lambda>_. goto_contract_or_build))))) w = (Inr (), w')"
    using assms(1) unfolding if_not_P [OF not_passed] sbind_assoc sbind_first .
  then obtain n where n: "round_of (sw_cur w) = Inr n" and rest:
    "(if limit \<le> n then sbind (if \<not> passed \<and> sc_recovery sc then record_round_failure_evidence sc False exhausted_goal
              else sret ()) (\<lambda>_. goto ''analyze'')
     else sbind ev (\<lambda>_. unless_halted sc (sbind pre (\<lambda>_. sbind next_round (\<lambda>_. goto_contract_or_build))))) w = (Inr (), w')"
    by blast
  show ?thesis
  proof (cases "limit \<le> n")
    case True
    with rest show ?thesis using exhausted_advances [OF _ assms(5)] by simp
  next
    case False
    then have bound: "n < R" using max_rounds_bound [OF assms(2) leaving_within [OF assms(5)]] by simp
    from False rest obtain x w1 where w1: "ev w = (Inr x, w1)"
      "unless_halted sc (sbind pre (\<lambda>_. sbind next_round (\<lambda>_. goto_contract_or_build))) w1 = (Inr (), w')"
      by (auto simp: sbind_eq_Inr)
    show ?thesis
    proof (rule unless_halted_advances [OF w1(2) leaving_calm [OF assms(5,3) w1(1)]])
      fix w2
      assume l2: "leaving R sc st w2" and same: "same_control (sw_cur w1) (sw_cur w2)"
        and go: "sbind pre (\<lambda>_. sbind next_round (\<lambda>_. goto_contract_or_build)) w2 = (Inr (), w')"
      have round: "round_of (sw_cur w2) = Inr n"
        using n same_fields_dget [OF same_fields_trans [OF calmD [OF assms(3) w1(1)] same], of "''round_num''"]
        by (simp add: round_of_def control_keys_def driving_keys_def budget_keys_def)
      have "sbind pre (\<lambda>_. sbind next_round (\<lambda>_. sbind (sret ()) (\<lambda>_. sbind goto_contract_or_build (\<lambda>_. sret ())))) w2 = (Inr (), w')"
        using go by (auto simp: sbind_eq_Inr)
      then show "advances R sc st (sw_cur w')"
        by (rule retry_body_advances [OF _ assms(4) _ _ l2 round bound]) (intro calm_rules)+
    qed
  qed
qed

lemma score_advances:
  assumes "set_next_after_score sc w = (Inr (), w')" and "leaving R sc st w"
  shows "advances R sc st (sw_cur w')"
proof -
  from assms(1) [unfolded set_next_after_score_def Let_def sbind_first]
  obtain limit s where "max_rounds_of sc (sw_cur w) = Inr limit" and
    "sbind (if pass_threshold sc (sw_cur w) \<le> (case s of None \<Rightarrow> 0 | Some x \<Rightarrow> x) then sret True
        else sbind (slift (round_of (sw_cur w))) (\<lambda>n. sret (limit \<le> n))) (\<lambda>stop.
     if stop then sbind (if \<not> pass_threshold sc (sw_cur w) \<le> (case s of None \<Rightarrow> 0 | Some x \<Rightarrow> x) \<and> sc_recovery sc
              then record_round_failure_evidence sc False exhausted_goal else sret ()) (\<lambda>_. goto ''analyze'')
     else sbind (if sc_recovery sc
              then record_round_failure_evidence sc True
                     ''Repair the current failed checks, then rerun focused verification.''
              else sret ()) (\<lambda>_. unless_halted sc (sbind (if sc_recovery sc then on_cur mark_recovery_attempt else sret ())
                (\<lambda>_. sbind next_round (\<lambda>_. goto_contract_or_build))))) w = (Inr (), w')"
    by blast
  then show ?thesis
    by (intro scored_advances [OF _ _ _ _ assms(2)]) (assumption | intro calm_rules)+
qed

text \<open>After build and after evaluate.\<close>

lemma after_evaluate_advances:
  assumes "set_next_after_evaluate sc w = (Inr (), w')" and "leaving R sc st w"
  shows "advances R sc st (sw_cur w')"
  using assms(1) leaving_analyze [OF assms(2)] acceptance_evaluate_advances [OF _ assms(2)] score_advances [OF _ assms(2)]
  by (auto simp: set_next_after_evaluate_def sbind_eq_Inr fetch_Inr split: if_splits)

lemma after_build_advances:
  assumes "set_next_after_build sc w = (Inr (), w')" and "leaving R sc st w"
    and "jget st ''next_action'' = JStr ''build''"
  shows "advances R sc st (sw_cur w')"
proof -
  have rank: "action_rank (JStr ''evaluate'') < action_rank (jget st ''next_action'')"
    using assms(3) by (simp add: action_rank_def)
  show ?thesis
    using assms(1) leaving_analyze [OF assms(2)] leaving_goto [OF assms(2) _ rank] retry_advances [OF _ assms(2)]
      without_evaluator_advances [OF _ assms(2)]
    by (auto simp: set_next_after_build_def Let_def sbind_eq_Inr cur_Inr split: if_splits)
qed

end
