(* ===== verification/Scheduler_Outcomes.thy ===== *)
theory Scheduler_Outcomes
  imports Scheduler_Turns
begin

text \<open>
  What an action does to the run when it returns (it advances the run) and when it raises (the
  dictionary the executor falls back to has the budget of the start).
\<close>

text \<open>The phases of a run, as the scheduler relies on them: they work on the dictionary of the run
  but leave its control fields alone.\<close>

locale phase_runner =
  fixes run :: "string \<Rightarrow> obj \<Rightarrow> ('e, phase_result) step"
  assumes keeps_control: "run phase st x = (Inr (PhaseState st'), x') \<Longrightarrow> same_control st st'"
begin

lemma result_keeps_control:
  "run phase st x = (Inr r, x') \<Longrightarrow> require_successful_agent_result phase r = Inr st' \<Longrightarrow> same_control st st'"
  by (cases r) (auto dest: keeps_control split: if_splits)

end

section \<open>Phases\<close>

lemma save_cur_effect:
  assumes "save_cur ck w = (Inr u, w')"
  shows "sw_cur w' = sw_cur w \<and> sw_kept w' = sw_kept w \<and> (\<exists>f. sw_file w' = Some f \<and> same_control (sw_cur w) f)"
proof -
  from assms have save: "save_state ck (sw_cur w) w = (Inr u, w')" by (simp add: save_cur_def sbind_first)
  from save_state_effect [OF save] save_state_saves [OF save] show ?thesis
    using same_control_dset [OF neutral_updated] by blast
qed

text \<open>The file agrees with the current dictionary.\<close>

definition synced :: "'e sched_world \<Rightarrow> bool" where
  "synced w \<longleftrightarrow> (\<exists>f. sw_file w = Some f \<and> same_control (sw_cur w) f)"

lemma synced_calm: "synced w \<Longrightarrow> calm m \<Longrightarrow> m w = (r, w') \<Longrightarrow> synced w'"
  by (auto simp: synced_def confined_def option_rel_Some1 dest!: keepsD)
    (meson same_fields_sym same_fields_trans)

lemma calm_announce [calm_rules]: "calm (announce_phase sc phase source)"
  unfolding announce_phase_def by (intro calm_rules)

lemma begin_phase_effect:
  assumes "begin_phase sc phase agent source w = (Inr u, w')"
  shows "same_drive (sw_cur w) (sw_cur w') \<and> jget (sw_cur w') ''status'' = JStr ''running'' \<and>
    sw_kept w' = sw_kept w \<and> synced w'"
proof -
  let ?st = "dset ''status'' (JStr ''running'') (dset ''phase'' (JStr phase) (sw_cur w))"
  from assms obtain w1 w2 w3 w4 w5 where steps:
    "announce_phase sc phase source (w\<lparr>sw_cur := ?st\<rparr>) = (Inr (), w1)" "save_cur (sc_clock sc) w1 = (Inr (), w2)"
    "apply_hook sc (before_transition (sc_probe sc) source phase) w2 = (Inr (), w3)"
    "add_event sc ''before_agent_run'' [(''agent'', JStr agent), (''phase'', JStr phase)] w3 = (Inr (), w4)"
    "save_cur (sc_clock sc) w4 = (Inr (), w5)" "apply_hook sc (before_agent_run (sc_probe sc) agent) w5 = (Inr (), w')"
    by (auto simp: begin_phase_def sbind_eq_Inr put_Inr)
  have w1: "same_control ?st (sw_cur w1)" "sw_kept w1 = sw_kept w"
    using keepsD [OF calm_announce steps(1)] by (simp_all add: confined_def)
  have w2: "sw_cur w2 = sw_cur w1" "sw_kept w2 = sw_kept w1" using save_cur_effect [OF steps(2)] by simp_all
  have calm: "calm (apply_hook sc (before_transition (sc_probe sc) source phase))"
    "calm (apply_hook sc (before_agent_run (sc_probe sc) agent))" by (intro calm_rules)+
  have w3: "same_control (sw_cur w2) (sw_cur w3)" "sw_kept w3 = sw_kept w2"
    using keepsD [OF calm(1) steps(3)] by (simp_all add: confined_def)
  have w4: "same_control (sw_cur w3) (sw_cur w4)" "sw_kept w4 = sw_kept w3"
    using keepsD [OF calm_add_event steps(4)] by (simp_all add: confined_def)
  have w5: "sw_cur w5 = sw_cur w4" "sw_kept w5 = sw_kept w4" "synced w5"
    using save_cur_effect [OF steps(5)] by (auto simp: synced_def)
  have w6: "same_control (sw_cur w5) (sw_cur w')" "sw_kept w' = sw_kept w5"
    using keepsD [OF calm(2) steps(6)] by (simp_all add: confined_def)
  have same: "same_control ?st (sw_cur w')"
    using w1(1) w3(1) w4(1) w6(1) unfolding w2 w5 by (blast intro: same_fields_trans)
  have "same_drive (sw_cur w) ?st"
    by (intro same_fields_dset_right) (auto simp: driving_keys_def budget_keys_def)
  then have "same_drive (sw_cur w) (sw_cur w')"
    using same_control_drive [OF same] same_fields_trans by blast
  moreover have "jget (sw_cur w') ''status'' = JStr ''running''"
    using same_fields_jget [OF same, of "''status''"] by (simp add: control_keys_def jget_dset)
  ultimately show ?thesis
    using w1(2) w2(2) w3(2) w4(2) w5(2) w6(2) synced_calm [OF w5(3) calm(2) steps(6)] by simp
qed

lemma call_phase_effect:
  assumes "call_phase sc phase w = (Inr u, w')" and "phase_runner (sc_phase sc)" and "synced w"
  shows "same_control (sw_cur w) (sw_cur w') \<and> sw_kept w' = Some (sw_cur w)"
proof -
  from assms(3) obtain f where f: "sw_file w = Some f" "same_control (sw_cur w) f" by (auto simp: synced_def)
  from assms(1) f(1) obtain r x' st' where "sc_phase sc phase f (sw_ext w) = (Inr r, x')"
      "require_successful_agent_result phase r = Inr st'" "sw_cur w' = st'" "sw_kept w' = Some (sw_cur w)"
    by (auto simp: call_phase_def sbind_eq_Inr load_state_def rbind_eq_Inr on_world_def split: prod.splits)
  then show ?thesis
    using phase_runner.result_keeps_control [OF assms(2)] f(2) same_fields_trans by blast
qed

text \<open>When a phase has run, its state is leaving.\<close>

lemma run_phase_leaving:
  assumes "run_phase sc phase agent w = (Inr u, w')" and "phase_runner (sc_phase sc)"
    and "rounds_within R sc (sw_cur w)" and "1 < action_rank (jget (sw_cur w) ''next_action'')"
  shows "leaving R sc (sw_cur w) w'"
proof -
  from assms(1) obtain x w1 before w2 w3 where steps:
    "(if sc_acceptance sc then sync_acceptance_baseline sc else sret ()) w = (Inr x, w1)"
    "begin_phase sc phase agent (jget (sw_cur w) ''phase'') w1 = (Inr (), w2)" "call_phase sc phase w2 = (Inr (), w3)"
    "end_phase sc phase agent (jget (sw_cur w) ''phase'') before w3 = (Inr u, w')"
    unfolding run_phase_def sbind_first sbind_eq_Inr by auto
  have calm: "calm (if sc_acceptance sc then sync_acceptance_baseline sc else sret ())" by (intro calm_rules)
  note started = begin_phase_effect [OF steps(2)]
  have call: "same_control (sw_cur w2) (sw_cur w3)" using call_phase_effect [OF steps(3) assms(2)] started by simp
  have "leaving R sc (sw_cur w) w3"
    unfolding leaving_def
  proof (intro conjI)
    show "same_drive (sw_cur w) (sw_cur w3)"
      using calmD [OF calm steps(1)] started call by (blast intro: same_fields_trans same_control_drive)
    show "jget (sw_cur w3) ''status'' = JStr ''running''"
      using started same_fields_jget [OF call, of "''status''"] by (simp add: control_keys_def)
  qed (use assms(3,4) in auto)
  then show ?thesis by (rule leaving_calm [OF _ calm_end_phase steps(4)])
qed

section \<open>Routing and analysis\<close>

lemma drive_free [loose_rules]:
  "''active'' \<notin> set budget_keys" "''status'' \<notin> set budget_keys" "''next_action'' \<notin> set budget_keys"
  "''requires_confirmation'' \<notin> set budget_keys" "''validated'' \<notin> set budget_keys" "''phase'' \<notin> set budget_keys"
  "''last_error'' \<notin> set budget_keys" "''active'' \<noteq> ''recovery''" "''status'' \<noteq> ''recovery''"
  "''next_action'' \<noteq> ''recovery''" "''requires_confirmation'' \<noteq> ''recovery''" "''validated'' \<noteq> ''recovery''"
  "''phase'' \<noteq> ''recovery''" "''last_error'' \<noteq> ''recovery''"
  by (simp_all add: budget_keys_def)

lemma calm_route_parts [calm_rules]: "calm (announce_route sc source)" "calm (close_transition sc source target)"
  unfolding announce_route_def close_transition_def
  by (intro calm_rules | (rule wf.keeps_bind, rule calm_transitions))+

lemma yields_patchless_route: "yields (\<lambda>r. hr_patch r = []) (after_route pr)"
  unfolding after_route_def on_low_confidence_route_def Let_def
  by (intro yields_bind yield_rules(3)) (auto simp: yields_def hook_def dest!: sbind_eq_Inr [THEN iffD1])

lemma loose_after_route [loose_rules]: "keeps loose (apply_hook sc (after_route pr))"
proof -
  have "loose w w'" if "apply_hook sc (after_route pr) w = (r, w')" for w w' r
  proof (cases "after_route pr w")
    case (Pair x w1)
    have w1: "loose w w1" by (rule keepsD [OF calm_loose [OF calm_routes(2)] Pair])
    show ?thesis
    proof (cases x)
      case (Inl e)
      with that Pair w1 show ?thesis by (simp add: apply_hook_def hooked_def sbind_apply)
    next
      case (Inr h)
      have "hr_patch h = []" using yields_patchless_route Pair Inr unfolding yields_def by blast
      with that Pair Inr have "loose w1 w'"
        by (auto simp: apply_hook_def hooked_def sbind_apply dest: keepsD [OF loose_apply])
      with w1 show ?thesis by (rule lf.chain)
    qed
  qed
  then show ?thesis unfolding keeps_def by (metis prod.collapse)
qed

lemma loose_route_parts [loose_rules]:
  "keeps loose (record_route sc d)" "keeps loose (ask_confirmation sc source)" "keeps loose (accept_route sc source p)"
  unfolding record_route_def ask_confirmation_def accept_route_def
  by (intro loose_rules calm_loose [OF calm_put] calm_loose [OF calm_add_event] calm_loose [OF calm_route_parts(2)]
      calm_loose [OF calm_trace_state] neutral_keys)+

lemma loose_route [loose_rules]: "keeps loose (route_action sc)"
  unfolding route_action_def
  by (intro loose_rules calm_loose [OF calm_fetch] calm_loose [OF calm_cur] calm_loose [OF calm_on_world]
      calm_loose [OF calm_route_parts(1)])

lemma work_left_budget:
  "same_budget a b \<Longrightarrow> work_left R b =
     nat (limit_of a - attempts_of a) + 4 * nat (R - rounds_of a) + action_rank (jget b ''next_action'')"
  by (simp add: work_left_def limit_of_same rounds_of_same attempts_of_same)

lemma route_advances:
  assumes "route_action sc w = (Inr u, w')" and "rounds_within R sc (sw_cur w)"
    and "jget (sw_cur w) ''next_action'' = JStr ''route''"
  shows "advances R sc (sw_cur w) (sw_cur w')"
proof -
  have budget: "same_budget (sw_cur w) (sw_cur w')" using keepsD [OF loose_route assms(1)] by (simp add: loose_def)
  from assms(1) obtain d :: route_decision and w1 source where
    ends: "(if rd_confirm d then ask_confirmation sc source else accept_route sc source (rd_profile d)) w1 = (Inr u, w')"
    unfolding route_action_def sbind_eq_Inr by blast
  consider (asked) w2 where "jget (sw_cur w2) ''active'' = JBool False" "close_transition sc source ''waiting_confirmation'' w2 = (Inr (), w')"
    | (accepted) w2 w3 where "jget (sw_cur w2) ''next_action'' = JStr ''plan''"
        "trace_state source ''plan'' w2 = (Inr (), w3)" "close_transition sc source ''plan'' w3 = (Inr (), w')"
  proof (cases "rd_confirm d")
    case True
    let ?w2 = "w1\<lparr>sw_cur := dset ''next_action'' JNull (dset ''status'' (JStr ''waiting_confirmation'')
      (dset ''active'' (JBool False) (dset ''requires_confirmation'' (JBool True) (sw_cur w1))))\<rparr>"
    from ends True have "close_transition sc source ''waiting_confirmation'' ?w2 = (Inr (), w')"
      by (auto simp: ask_confirmation_def sbind_eq_Inr put_Inr)
    then show ?thesis by (intro that(1) [of ?w2]) (simp_all add: jget_dset)
  next
    case False
    let ?w2 = "w1\<lparr>sw_cur := dset ''next_action'' (JStr ''plan'') (dset ''phase'' (JStr ''plan'')
      (dset ''requires_confirmation'' (JBool False) (dset ''profile'' (rd_profile d) (sw_cur w1))))\<rparr>"
    from ends False obtain w3 where "trace_state source ''plan'' ?w2 = (Inr (), w3)"
        "close_transition sc source ''plan'' w3 = (Inr (), w')"
      by (auto simp: accept_route_def sbind_eq_Inr put_Inr goto_Inr)
    then show ?thesis by (intro that(2) [of ?w2 w3]) (simp_all add: jget_dset)
  qed
  then show ?thesis
  proof cases
    case asked
    have "jget (sw_cur w') ''active'' = JBool False"
      using same_fields_jget [OF calmD [OF calm_route_parts(2) asked(2)], of "''active''"] asked(1)
      by (simp add: control_keys_def driving_keys_def)
    then show ?thesis
      by (intro stopped_advances rounds_within_same [OF budget assms(2)]) simp
  next
    case accepted
    have "jget (sw_cur w') ''next_action'' = JStr ''plan''"
      using same_fields_jget [OF same_fields_trans [OF calmD [OF calm_trace_state accepted(2)]
          calmD [OF calm_route_parts(2) accepted(3)]], of "''next_action''"] accepted(1)
      by (simp add: control_keys_def driving_keys_def)
    then have "work_left R (sw_cur w') < work_left R (sw_cur w)"
      using work_left_budget [OF budget, of R] work_left_budget [OF same_fields_refl, of R "sw_cur w"] assms(3)
      by (simp add: action_rank_def)
    then show ?thesis using rounds_within_same [OF budget assms(2)] by (simp add: advances_def)
  qed
qed

lemma calm_close_run [calm_rules]: "calm (close_run sc ok analysis)"
  unfolding close_run_def Let_def by (intro calm_rules)

lemma loose_final_status [loose_rules]: "keeps loose (set_final_status sc ok)"
  unfolding set_final_status_def
  by (intro loose_rules calm_loose [OF calm_fetch])

lemma loose_analyze [loose_rules]: "keeps loose (analyze_action sc)"
  unfolding analyze_action_def
  by (intro loose_rules calm_loose [OF calm_cur] calm_loose [OF calm_on_world] calm_loose [OF calm_put]
      calm_loose [OF calm_add_event] calm_loose [OF calm_cleanup] calm_loose [OF calm_final_analysis]
      calm_loose [OF calm_workspace] calm_loose [OF calm_close_run] neutral_keys)

lemma final_status_effect:
  assumes "set_final_status sc ok w = (Inr u, w')"
  shows "jget (sw_cur w') ''next_action'' = JNull \<and> jget (sw_cur w') ''active'' = JBool False \<and>
    jget (sw_cur w') ''status'' = JStr (if ok then ''completed'' else ''error'')"
  using assms by (auto simp: set_final_status_def sbind_eq_Inr put_Inr fetch_Inr jget_dset split: if_splits)

lemma analyze_stops:
  assumes "analyze_action sc w = (Inr u, w')"
  shows "jget (sw_cur w') ''active'' = JBool False"
proof -
  from assms obtain ok analysis x w1 w2 where final: "set_final_status sc ok w1 = (Inr x, w2)"
    and rest: "close_run sc ok analysis w2 = (Inr u, w')"
    unfolding analyze_action_def sbind_eq_Inr by blast
  show ?thesis
    using final_status_effect [OF final] same_fields_jget [OF calmD [OF calm_close_run rest], of "''active''"]
    by (simp add: control_keys_def driving_keys_def)
qed

lemma analyze_advances:
  assumes "analyze_action sc w = (Inr u, w')" and "rounds_within R sc (sw_cur w)"
  shows "advances R sc (sw_cur w) (sw_cur w')"
proof -
  have budget: "same_budget (sw_cur w) (sw_cur w')" using keepsD [OF loose_analyze assms(1)] by (simp add: loose_def)
  show ?thesis
    by (intro stopped_advances rounds_within_same [OF budget assms(2)]) (simp add: analyze_stops [OF assms(1)])
qed

section \<open>Actions that return\<close>

theorem action_advances:
  assumes "execute_step_action sc a w = (Inr u, w')" and "phase_runner (sc_phase sc)"
    and "rounds_within R sc (sw_cur w)" and "jget (sw_cur w) ''next_action'' = a"
  shows "advances R sc (sw_cur w) (sw_cur w')"
proof -
  note leave = run_phase_leaving [OF _ assms(2,3)]
  consider "a = JStr ''route''" | "a = JStr ''plan''" | "a = JStr ''contract''" | "a = JStr ''build''"
    | "a = JStr ''evaluate''" | "a = JStr ''analyze''"
    using assms(1) by (auto simp: execute_step_action_def sbind_eq_Inr split: if_splits)
  then show ?thesis
  proof cases
    case 1
    then show ?thesis using assms route_advances by (auto simp: execute_step_action_def)
  next
    case 2
    with assms(1) obtain x w1 where run: "run_phase sc ''plan'' ''planner'' w = (Inr x, w1)"
      and go: "goto_contract_or_build w1 = (Inr u, w')"
      by (auto simp: execute_step_action_def sbind_eq_Inr)
    from go obtain phase where phase: "goto phase w1 = (Inr u, w')" "action_rank (JStr phase) \<le> 4"
      by (rule goto_contract_or_build_Inr)
    show ?thesis
      by (rule leaving_goto [OF leave [OF run] phase(1)]) (use 2 assms(4) phase(2) in \<open>simp_all add: action_rank_def\<close>)
  next
    case 3
    with assms(1) obtain x w1 where run: "run_phase sc ''contract'' ''contract'' w = (Inr x, w1)"
      and go: "goto ''build'' w1 = (Inr u, w')"
      by (auto simp: execute_step_action_def sbind_eq_Inr)
    show ?thesis
      by (rule leaving_goto [OF leave [OF run] go]) (use 3 assms(4) in \<open>simp_all add: action_rank_def\<close>)
  next
    case 4
    with assms(1) obtain x w1 where run: "run_phase sc ''build'' ''builder'' w = (Inr x, w1)"
      and go: "set_next_after_build sc w1 = (Inr (), w')"
      by (auto simp: execute_step_action_def sbind_eq_Inr)
    show ?thesis
      by (rule after_build_advances [OF go leave [OF run]]) (use 4 assms(4) in \<open>simp_all add: action_rank_def\<close>)
  next
    case 5
    with assms(1) obtain x w1 where run: "run_phase sc ''evaluate'' ''evaluator'' w = (Inr x, w1)"
      and go: "set_next_after_evaluate sc w1 = (Inr (), w')"
      by (auto simp: execute_step_action_def sbind_eq_Inr)
    show ?thesis
      by (rule after_evaluate_advances [OF go leave [OF run]]) (use 5 assms(4) in \<open>simp_all add: action_rank_def\<close>)
  next
    case 6
    then show ?thesis using assms analyze_advances by (auto simp: execute_step_action_def)
  qed
qed

section \<open>Actions that raise\<close>

definition fallback :: "'e sched_world \<Rightarrow> obj" where
  "fallback w = (case sw_kept w of Some st \<Rightarrow> st | None \<Rightarrow> sw_cur w)"

lemma kept_turns [kept_rules]:
  "keeps kept_same (goto phase)" "keeps kept_same goto_contract_or_build" "keeps kept_same next_round"
  unfolding goto_contract_or_build_def next_round_def
  by (intro kept_rules loose_kept [OF loose_goto] calm_kept [OF calm_cur])+

lemma kept_apply_hook [kept_rules]:
  assumes "keeps kept_same m"
  shows "keeps kept_same (apply_hook sc m)"
  unfolding apply_hook_def hooked_def apply_hook_result_def put_def
  by (auto intro!: kept_rules assms calm_kept [OF calm_append_event] calm_kept [OF calm_now] calm_kept [OF calm_fetch]
      split: hook_action.splits)

lemma kept_unless_halted [kept_rules]: "keeps kept_same body \<Longrightarrow> keeps kept_same (unless_halted sc body)"
  unfolding unless_halted_def is_halted_def
  by (intro kept_rules calm_kept [OF calm_before_new_round] calm_kept [OF calm_fetch])

lemma kept_retry [kept_rules]: "keeps kept_same (schedule_acceptance_retry sc action)"
  unfolding schedule_acceptance_retry_def Let_def
  by (intro kept_rules calm_kept [OF calm_cur] calm_kept [OF calm_round_evidence] calm_kept [OF calm_mark_recovery]
      calm_kept [OF calm_repair_round] calm_kept [OF calm_fetch] calm_kept [OF calm_add_event])

lemma kept_transitions [kept_rules]:
  "keeps kept_same (set_next_after_build sc)" "keeps kept_same (set_next_after_evaluate sc)"
  unfolding set_next_after_build_def set_next_after_evaluate_def set_next_without_evaluator_def
    set_next_after_acceptance_evaluate_def set_next_after_score_def Let_def
  by (intro kept_rules calm_kept [OF calm_cur] calm_kept [OF calm_round_evidence] calm_kept [OF calm_mark_recovery]
      calm_kept [OF calm_fetch] calm_kept [OF calm_score_failure])+

lemma loose_begin_phase: "keeps loose (begin_phase sc phase agent source)"
  unfolding begin_phase_def
  by (intro loose_rules calm_loose [OF calm_announce] calm_loose [OF calm_add_event] calm_loose calm_rules)

lemma call_phase_raises: "call_phase sc phase w = (Inl e, w') \<Longrightarrow> sw_cur w' = sw_cur w \<and> sw_kept w' = sw_kept w"
  by (auto simp: call_phase_def sbind_apply load_state_def on_world_def
      split: prod.splits sum.splits option.splits)

lemma call_phase_keeps: "call_phase sc phase w = (Inr u, w') \<Longrightarrow> sw_kept w' = Some (sw_cur w)"
  by (auto simp: call_phase_def sbind_apply load_state_def on_world_def split: prod.splits sum.splits option.splits)

text \<open>A phase that raises, or a transition after it, leaves the dictionary from before the phase.\<close>

lemma phase_action_raises:
  assumes "sbind (run_phase sc phase agent) (\<lambda>_. next) w = (Inl e, w')" and "sw_kept w = None"
    and "keeps kept_same next"
  shows "same_budget (sw_cur w) (fallback w')"
proof -
  define pre where "pre = (\<lambda>source. sbind (if sc_acceptance sc then sync_acceptance_baseline sc else sret ()) (\<lambda>_.
     sbind cur (\<lambda>st. sbind (slift (artifact_files st)) (\<lambda>before.
     sbind (begin_phase sc phase agent source) (\<lambda>_. sret before)))))"
  define post where "post = (\<lambda>source before. sbind (end_phase sc phase agent source before) (\<lambda>_. next))"
  have split: "sbind (run_phase sc phase agent) (\<lambda>_. next) =
    sbind (fetch ''phase'') (\<lambda>source. sbind (pre source) (\<lambda>before. sbind (call_phase sc phase) (\<lambda>_. post source before)))"
    by (simp add: run_phase_def pre_def post_def sbind_assoc sbind_first(4) fun_eq_iff sbind_def [of "sret _"])
  have loose_pre: "keeps loose (pre source)" for source
    unfolding pre_def by (intro loose_rules calm_loose [OF calm_sync] calm_loose [OF calm_cur] loose_begin_phase)
  have kept_post: "keeps kept_same (post source before)" for source before
    unfolding post_def by (intro kept_rules calm_kept [OF calm_end_phase] assms(3))
  let ?source = "jget (sw_cur w) ''phase''"
  from assms(1) have run: "sbind (pre ?source) (\<lambda>before. sbind (call_phase sc phase) (\<lambda>_. post ?source before)) w = (Inl e, w')"
    unfolding split sbind_first .
  obtain r w1 where w1: "pre ?source w = (r, w1)" by fastforce
  have l: "sw_kept w1 = None" "same_budget (sw_cur w) (sw_cur w1)"
    using keepsD [OF loose_pre w1] assms(2) by (simp_all add: loose_def)
  show ?thesis
  proof (cases r)
    case (Inl e')
    with run w1 l show ?thesis by (simp add: fallback_def)
  next
    case (Inr before)
    obtain r2 w2 where w2: "call_phase sc phase w1 = (r2, w2)" by fastforce
    show ?thesis
    proof (cases r2)
      case (Inl e')
      with w2 have "sw_cur w2 = sw_cur w1" "sw_kept w2 = sw_kept w1" using call_phase_raises by blast+
      with run w1 Inr w2 l Inl show ?thesis by (auto simp: fallback_def sbind_apply)
    next
      case (Inr u)
      with w2 call_phase_keeps have kept: "sw_kept w2 = Some (sw_cur w1)" by blast
      from run w1 w2 Inr \<open>r = Inr before\<close> have rest: "post ?source before w2 = (Inl e, w')" by (simp add: sbind_apply)
      with keepsD [OF kept_post rest] kept have "sw_kept w' = Some (sw_cur w1)" by (simp add: kept_same_def)
      with l show ?thesis by (simp add: fallback_def)
    qed
  qed
qed

theorem action_raises:
  assumes "execute_step_action sc a w = (Inl e, w')" and "sw_kept w = None"
  shows "same_budget (sw_cur w) (fallback w')"
proof -
  have loose: "same_budget (sw_cur w) (fallback w')" if "keeps loose m" "m w = (Inl e, w')" for m :: "('a, unit) sstep"
    using keepsD [OF that] assms(2) by (simp add: loose_def fallback_def)
  have raised: "keeps loose (sbind (slift (py_str a)) (\<lambda>t. slift (Inl (ValueError ''Unknown scheduler action: {}'' [t]))))"
    by (intro loose_rules)
  note phase = phase_action_raises [OF _ assms(2)]
  from assms(1) consider "route_action sc w = (Inl e, w')" | "analyze_action sc w = (Inl e, w')"
    | "sbind (run_phase sc ''plan'' ''planner'') (\<lambda>_. goto_contract_or_build) w = (Inl e, w')"
    | "sbind (run_phase sc ''contract'' ''contract'') (\<lambda>_. goto ''build'') w = (Inl e, w')"
    | "sbind (run_phase sc ''build'' ''builder'') (\<lambda>_. set_next_after_build sc) w = (Inl e, w')"
    | "sbind (run_phase sc ''evaluate'' ''evaluator'') (\<lambda>_. set_next_after_evaluate sc) w = (Inl e, w')"
    | "sbind (slift (py_str a)) (\<lambda>t. slift (Inl (ValueError ''Unknown scheduler action: {}'' [t]))) w = (Inl e :: unit result, w')"
    unfolding execute_step_action_def by (simp split: if_splits)
  then show ?thesis
    by cases (erule loose [OF loose_route] loose [OF loose_analyze] loose [OF raised] phase [OF _ kept_turns(2)]
      phase [OF _ kept_turns(1)] phase [OF _ kept_transitions(1)] phase [OF _ kept_transitions(2)])+
qed

end
