(* ===== verification/Scheduler_Settled.thy ===== *)
theory Scheduler_Settled
  imports Scheduler_Outcomes
begin

text \<open>
  A run that is active has no halted status. The actions keep this, so a run the loop
  goes on with never only saves and returns.
\<close>

section \<open>Settled states\<close>

definition settled :: "obj \<Rightarrow> bool" where
  "settled st \<longleftrightarrow> truthy (jget st ''active'') \<longrightarrow> in_strings halted_statuses (jget st ''status'') \<noteq> Inr True"

lemma settled_inactive: "jget st ''active'' = JBool False \<Longrightarrow> settled st"
  and settled_running: "jget st ''status'' = JStr ''running'' \<Longrightarrow> settled st"
  by (simp_all add: settled_def halted_statuses_def in_strings_def)

lemma settled_same: "jget b ''active'' = jget a ''active'' \<Longrightarrow> jget b ''status'' = jget a ''status'' \<Longrightarrow> settled b = settled a"
  by (simp add: settled_def)

lemma settled_dset [simp]: "k \<noteq> ''active'' \<Longrightarrow> k \<noteq> ''status'' \<Longrightarrow> settled (dset k v st) = settled st"
  by (rule settled_same) (simp_all add: jget_dset)

lemma settled_control: "same_control a b \<Longrightarrow> settled b = settled a"
  by (rule settled_same) (auto dest: same_fields_jget simp: control_keys_def driving_keys_def)

definition steady :: "'e sched_world \<Rightarrow> 'e sched_world \<Rightarrow> bool" where
  "steady w w' \<longleftrightarrow>
     (settled (sw_cur w) \<longrightarrow> settled (sw_cur w')) \<and> (recovery_wf (sw_cur w) \<longrightarrow> recovery_wf (sw_cur w'))"

interpretation sf: frame steady
  by unfold_locales (auto simp: steady_def)

named_theorems steady_rules

lemmas [steady_rules] = sf.keeps_ret sf.keeps_bind sf.keeps_handle sf.keeps_quietly sf.keeps_attempt frame_if frame_cases

lemma calm_steady: "calm m \<Longrightarrow> keeps steady m"
  proof (erule keeps_mono)
  fix w w' :: "'a sched_world"
  assume "confined control_keys w w'"
  then have same: "same_control (sw_cur w) (sw_cur w')" by (simp add: confined_def)
  then show "steady w w'" using settled_control [OF same] by (simp add: steady_def same_fields_def)
qed

lemma steadyD:
  "keeps steady m \<Longrightarrow> m w = (r, w') \<Longrightarrow> settled (sw_cur w) \<Longrightarrow> settled (sw_cur w')"
  "keeps steady m \<Longrightarrow> m w = (r, w') \<Longrightarrow> recovery_wf (sw_cur w) \<Longrightarrow> recovery_wf (sw_cur w')"
  by (auto dest: keepsD simp: steady_def)

lemma steady_put [steady_rules]:
  "k \<noteq> ''active'' \<Longrightarrow> k \<noteq> ''status'' \<Longrightarrow> k \<noteq> ''recovery'' \<Longrightarrow> keeps steady (put k v)"
  "keeps steady (put ''active'' (JBool False))" "keeps steady (put ''status'' (JStr ''running''))"
  by (auto simp: keeps_def steady_def put_def on_cur_def cur_def set_cur_def sbind_apply jget_dset
      intro: settled_inactive settled_running)

section \<open>Hooks\<close>

lemma dict_wf_dupdate [simp]: "dict_wf (dupdate d p) = dict_wf d"
  by (induction d p rule: dupdate.induct) simp_all

text \<open>A patch that neither activates a run nor gives it a status, nor breaks the recovery record.\<close>

definition free_entry :: "string \<times> json \<Rightarrow> bool" where
  "free_entry kv \<longleftrightarrow> fst kv \<noteq> ''active'' \<and> fst kv \<noteq> ''status'' \<and>
     (fst kv = ''recovery'' \<longrightarrow> (\<exists>p. snd kv = JObj p \<and> dict_wf p))"

lemma merge_entry_settled: "free_entry kv \<Longrightarrow> settled (merge_entry st kv) = settled st"
  by (simp add: merge_entry_def free_entry_def split: json.splits)

lemma merge_entry_wf: "free_entry kv \<Longrightarrow> recovery_wf st \<Longrightarrow> recovery_wf (merge_entry st kv)"
  by (cases "fst kv = ''recovery''")
    (auto simp: merge_entry_def free_entry_def recovery_wf_def jget_dset split: json.splits)

definition status_free :: "hook_result \<Rightarrow> bool" where
  "status_free r \<longleftrightarrow> (\<forall>kv\<in>set (hr_patch r). free_entry kv)"

lemma merge_patch_settled:
  "\<forall>kv\<in>set patch. free_entry kv \<Longrightarrow> settled (merge_patch st patch) = settled st"
  "\<forall>kv\<in>set patch. free_entry kv \<Longrightarrow> recovery_wf st \<Longrightarrow> recovery_wf (merge_patch st patch)"
proof (induction patch arbitrary: st)
  case (Cons kv patch)
  { case 1
    with Cons.IH(1) show ?case by (simp add: merge_patch_def merge_entry_settled) }
  { case 2
    with Cons.IH(2) show ?case by (simp add: merge_patch_def merge_entry_wf) }
qed (simp_all add: merge_patch_def)

text \<open>Whatever a hook asks for, applying it keeps the state settled.\<close>

lemma steady_endings:
  "keeps steady (sbind (put ''active'' (JBool False)) (\<lambda>_. put ''status'' v))"
  "keeps steady (sbind (put ''active'' (JBool False)) (\<lambda>_. sbind (put ''status'' v) (\<lambda>_. put ''next_action'' JNull)))"
  "keeps steady (sbind (put ''active'' (JBool True)) (\<lambda>_. sbind (put ''status'' (JStr ''running'')) (\<lambda>_.
     sbind (on_cur (\<lambda>st. Inr (dset ''next_action'' (a st) st))) (\<lambda>_.
     sbind (now_iso ck) (\<lambda>t. put ''phase_started_at'' (JStr t))))))"
  "keeps steady (sbind (put ''active'' (JBool False)) (\<lambda>_. sbind (fetch ''requires_human_approval'') (\<lambda>x.
     sbind (if truthy x then put ''status'' u else sbind (put ''requires_confirmation'' (JBool True)) (\<lambda>_. put ''status'' v))
       (\<lambda>_. put ''next_action'' JNull))))"
  by (auto simp: keeps_def steady_def put_def on_cur_def cur_def set_cur_def fetch_def now_iso_def sbind_apply
      settled_def jget_dset halted_statuses_def in_strings_def)

lemma steady_merge: "status_free r \<Longrightarrow> keeps steady (on_cur (\<lambda>st. Inr (merge_patch st (hr_patch r))))"
  by (simp add: keeps_def steady_def on_cur_def cur_def set_cur_def sbind_apply status_free_def merge_patch_settled)

lemma steady_apply: "status_free r \<Longrightarrow> keeps steady (apply_hook_result pr failed r)"
  unfolding apply_hook_result_def
  by (cases "hr_action r")
    (auto intro!: steady_rules steady_merge steady_endings calm_steady [OF calm_append_event])

text \<open>Hooks that neither activate a run nor give it a status.\<close>

lemma steady_hook: 
  assumes "calm m" and "yields status_free m"
  shows "keeps steady (apply_hook sc m)"
proof -
  have "steady w (snd (sbind m (apply_hook_result (sc_probe sc) JNull) w))" for w
  proof (cases "m w")
    case (Pair x w1)
    have first: "steady w w1" using keepsD [OF calm_steady [OF assms(1)] Pair] .
    show ?thesis
    proof (cases x)
      case (Inr r)
      with assms(2) Pair have "status_free r" by (auto simp: yields_def)
      then have "steady w1 (snd (apply_hook_result (sc_probe sc) JNull r w1))"
        using steady_apply by (auto simp: keeps_def)
      with first Pair Inr show ?thesis by (auto simp: sbind_apply intro: sf.chain)
    qed (use first Pair in \<open>simp add: sbind_apply\<close>)
  qed
  then have "keeps steady (sbind m (apply_hook_result (sc_probe sc) JNull))" by (simp add: keeps_def)
  then show ?thesis by (simp add: apply_hook_def hooked_def)
qed

lemma status_free_hook [simp]: "status_free (hook a why patch) \<longleftrightarrow> (\<forall>kv\<in>set patch. free_entry kv)" "status_free proceed"
  by (simp_all add: status_free_def hook_def)

lemma free_entries [simp]: "free_entry (''last_error'', v)" "free_entry (''recovery'', JObj [(k, v)])"
  by (simp_all add: free_entry_def dict_wf_def)

lemma budget_status_free: "yields status_free (on_budget_check pr)"
  unfolding on_budget_check_def budget_pause_def Let_def
  by (auto intro!: yields_bind yields_ret simp: yields_rules split: option.splits)

lemma timing_status_free: "yields status_free (on_phase_timeout pr)" "yields status_free (on_heartbeat_missing pr)"
  unfolding on_phase_timeout_def on_heartbeat_missing_def Let_def
  by (auto intro!: yields_bind yields_ret simp: yields_rules split: option.splits)

lemma yields_first:
  "yields P m \<Longrightarrow> yields P n \<Longrightarrow> yields P (sbind m (\<lambda>r. if hr_action r \<noteq> HContinue then sret r else n))"
  unfolding yields_def sbind_eq_Inr by (auto split: if_splits) blast

lemma before_step_yields:
  assumes "yields P (on_budget_check pr)" "yields P (on_phase_timeout pr)" "yields P (on_heartbeat_missing pr)"
  shows "yields P (before_step pr)"
  unfolding before_step_def
  by (rule yields_bind, rule yields_bind, rule yields_rules(3)) (intro yields_first assms)+

lemmas before_step_status_free =
  before_step_yields [OF budget_status_free timing_status_free]

section \<open>Actions\<close>

lemma new_round_status_free: "yields status_free (before_new_round pr)"
  unfolding before_new_round_def by (intro yields_bind budget_status_free)

lemma route_status_free: "yields status_free (after_route pr)"
  unfolding after_route_def on_low_confidence_route_def Let_def
  by (auto intro!: yields_bind yields_ret simp: yields_rules)

lemma steady_goto [steady_rules]: "keeps steady (goto phase)"
  unfolding goto_def by (intro steady_rules) simp_all

lemma steady_on_cur:
  "(\<And>st st'. f st = Inr st' \<Longrightarrow> settled st' = settled st \<and> recovery_wf st' = recovery_wf st) \<Longrightarrow> keeps steady (on_cur f)"
  by (auto simp: keeps_def steady_def on_cur_def cur_def set_cur_def sbind_apply split: sum.splits)

lemma steady_turns [steady_rules]: "keeps steady goto_contract_or_build" "keeps steady next_round"
  unfolding goto_contract_or_build_def next_round_def
  by (intro steady_rules calm_steady [OF calm_cur] steady_on_cur; auto simp: result_simps)+

lemma steady_halt [steady_rules]:
  "keeps steady m \<Longrightarrow> keeps steady (sbind (put ''active'' (JBool False)) (\<lambda>_. sbind (put ''status'' v) (\<lambda>_. m)))"
  unfolding sbind_assoc [symmetric] by (intro sf.keeps_bind steady_endings)

lemma steady_unless_halted [steady_rules]: "keeps steady body \<Longrightarrow> keeps steady (unless_halted sc body)"
  unfolding unless_halted_def is_halted_def
  by (intro steady_rules steady_hook calm_before_new_round new_round_status_free calm_steady [OF calm_fetch])

lemma steady_retry [steady_rules]: "keeps steady (schedule_acceptance_retry sc action)"
  unfolding schedule_acceptance_retry_def Let_def
  by (intro steady_rules calm_steady [OF calm_cur] calm_steady [OF calm_round_evidence] calm_steady [OF calm_mark_recovery]
      calm_steady [OF calm_repair_round] calm_steady [OF calm_fetch] calm_steady [OF calm_add_event])

lemma steady_transitions [steady_rules]:
  "keeps steady (set_next_after_build sc)" "keeps steady (set_next_after_evaluate sc)"
  unfolding set_next_after_build_def set_next_after_evaluate_def set_next_without_evaluator_def
    set_next_after_acceptance_evaluate_def set_next_after_score_def Let_def
  by (intro steady_rules calm_steady [OF calm_cur] calm_steady [OF calm_round_evidence] calm_steady [OF calm_mark_recovery]
      calm_steady [OF calm_fetch] calm_steady [OF calm_score_failure])+

lemma steady_after_route [steady_rules]: "keeps steady (apply_hook sc (after_route pr))"
  by (intro steady_hook calm_routes route_status_free)

lemma drive_not_status: "''next_action'' \<noteq> ''active''" "''next_action'' \<noteq> ''status''"
    "''requires_confirmation'' \<noteq> ''active''" "''requires_confirmation'' \<noteq> ''status''"
    "''next_action'' \<noteq> ''recovery''" "''requires_confirmation'' \<noteq> ''recovery''"
  by simp_all

lemma steady_route_parts [steady_rules]:
  "keeps steady (record_route sc d)" "keeps steady (ask_confirmation sc source)" "keeps steady (accept_route sc source p)"
  unfolding record_route_def ask_confirmation_def accept_route_def
  by (rule sf.keeps_bind steady_halt steady_put(1) drive_not_status steady_goto steady_after_route
      calm_steady [OF calm_put] calm_steady [OF calm_route_parts(2)] calm_steady [OF calm_add_event]
      calm_steady [OF calm_trace_state] neutral_keys)+

lemma steady_route [steady_rules]: "keeps steady (route_action sc)"
  unfolding route_action_def
  by (intro steady_rules calm_steady [OF calm_fetch] calm_steady [OF calm_cur] calm_steady [OF calm_on_world]
      calm_steady [OF calm_route_parts(1)])

text \<open>An action that returns leaves a settled state and a proper recovery record.\<close>

theorem action_settles:
  assumes "execute_step_action sc a w = (Inr u, w')" and "settled (sw_cur w)" and "recovery_wf (sw_cur w)"
    and "phase_runner (sc_phase sc)" and "rounds_within R sc (sw_cur w)" and "jget (sw_cur w) ''next_action'' = a"
  shows "settled (sw_cur w') \<and> recovery_wf (sw_cur w')"
proof (cases "a = JStr ''analyze''")
  case True
  with assms(1) have run: "analyze_action sc w = (Inr u, w')" by (simp add: execute_step_action_def)
  from keepsD [OF loose_analyze run] have "recovery_wf (sw_cur w')"
    using assms(3) by (simp add: loose_def same_fields_def)
  then show ?thesis using settled_inactive [OF analyze_stops [OF run]] by simp
next
  case False
  have turn: "settled (sw_cur w') \<and> recovery_wf (sw_cur w')"
    if "sbind (run_phase sc phase agent) (\<lambda>_. go) w = (Inr u, w')" "keeps steady go" "1 < action_rank a" for phase agent go
  proof -
    from that(1) obtain x w1 where run: "run_phase sc phase agent w = (Inr x, w1)" and rest: "go w1 = (Inr u, w')"
      by (auto simp: sbind_eq_Inr)
    from run_phase_leaving [OF run assms(4,5)] have "settled (sw_cur w1)" "recovery_wf (sw_cur w1)"
      using assms(3,6) that(3) by (auto simp: leaving_def same_fields_def intro: settled_running)
    with steadyD [OF that(2) rest] show ?thesis by blast
  qed
  from assms(1) False consider "route_action sc w = (Inr u, w')"
    | "sbind (run_phase sc ''plan'' ''planner'') (\<lambda>_. goto_contract_or_build) w = (Inr u, w')"
    | "sbind (run_phase sc ''contract'' ''contract'') (\<lambda>_. goto ''build'') w = (Inr u, w')"
    | "sbind (run_phase sc ''build'' ''builder'') (\<lambda>_. set_next_after_build sc) w = (Inr u, w')"
    | "sbind (run_phase sc ''evaluate'' ''evaluator'') (\<lambda>_. set_next_after_evaluate sc) w = (Inr u, w')"
    by (auto simp: execute_step_action_def sbind_eq_Inr split: if_splits)
  moreover have "1 < action_rank a" using False by (simp add: action_rank_def)
  ultimately show ?thesis
    by cases (use assms(2,3) steadyD [OF steady_route] turn steady_turns(1) steady_goto steady_transitions in blast)+
qed

end
