(* ===== verification/Scheduler_Failures.thy ===== *)
theory Scheduler_Failures
  imports Scheduler_Settled
begin

text \<open>
  What is left of the run after the hook before a step and after the handling of a failed action:
  a retry takes one recovery attempt off the budget, an exhausted budget ends the run, and a
  salvaged run goes on with the analysis.
\<close>

section \<open>Before a step\<close>

text \<open>A hook that asks for nothing but a retry or a pause, and leaves the attempts alone.\<close>

definition gentle :: "hook_result \<Rightarrow> bool" where
  "gentle r \<longleftrightarrow> hr_action r \<in> {HContinue, HRetry, HPause} \<and>
     (\<forall>kv\<in>set (hr_patch r). neutral (fst kv) \<or>
        fst kv = ''recovery'' \<and> (\<exists>p. snd kv = JObj p \<and> map_of p ''attempts'' = None \<and> dict_wf p))"

lemma recovery_attempts_same: "map_of rc' ''attempts'' = map_of rc ''attempts'' \<Longrightarrow> recovery_attempts rc' = recovery_attempts rc"
  by (simp add: recovery_attempts_def dget_def)

lemma recovery_free_drive: "''recovery'' \<notin> set control_keys"
  by (simp add: control_keys_def driving_keys_def budget_keys_def)

lemma attempts_of_recovery:
  "jget st ''recovery'' = JObj rc \<Longrightarrow> attempts_of st = (case recovery_attempts rc of Inr n \<Rightarrow> n | Inl _ \<Rightarrow> 0)"
  "\<nexists>rc. jget st ''recovery'' = JObj rc \<Longrightarrow> attempts_of st = 0"
  by (auto simp: attempts_of_def split: json.splits)

lemma map_of_dupdate: "map_of p k = None \<Longrightarrow> map_of (dupdate d p) k = map_of d k"
  by (induction p arbitrary: d) (auto simp: map_of_dset split: if_splits)

lemma map_of_dupdate_wf: "dict_wf p \<Longrightarrow> map_of p k = Some v \<Longrightarrow> map_of (dupdate d p) k = Some v"
proof (induction p arbitrary: d)
  case (Cons kv p)
  obtain k' v' where kv: "kv = (k', v')" by fastforce
  from Cons.prems have wf: "dict_wf p" "k' \<notin> set (dict_keys p)" by (auto simp: kv dict_wf_def)
  show ?case
  proof (cases "k' = k")
    case True
    with wf(2) have "map_of p k = None" by (simp add: map_of_eq_None_iff)
    then show ?thesis using Cons.prems True by (simp add: kv map_of_dupdate map_of_dset)
  next
    case False
    then show ?thesis using Cons wf by (simp add: kv)
  qed
qed simp

lemma merge_recovery_same:
  assumes "map_of p ''attempts'' = None" and "dict_wf p"
  shows "same_control st (merge_entry st (''recovery'', JObj p))"
proof (cases "\<exists>d. jget st ''recovery'' = JObj d")
  case True
  then obtain d where d: "jget st ''recovery'' = JObj d" by blast
  have "recovery_attempts (dupdate d p) = recovery_attempts d"
    using assms by (intro recovery_attempts_same) (simp add: map_of_dupdate)
  then show ?thesis
    using recovery_free_drive
    by (auto simp: same_fields_def agrees_def merge_entry_def d map_of_dset jget_dset recovery_wf_def
        attempts_of_recovery(1) [OF d] attempts_of_recovery(1) [of "dset ''recovery'' (JObj (dupdate d p)) st"])
next
  case False
  have "recovery_attempts p = Inr 0" using assms by (simp add: recovery_attempts_def dget_def py_or_def)
  moreover have "merge_entry st (''recovery'', JObj p) = dset ''recovery'' (JObj p) st"
    using False by (auto simp: merge_entry_def split: json.splits)
  ultimately show ?thesis
    using False recovery_free_drive assms(2)
    by (auto simp: same_fields_def agrees_def map_of_dset attempts_of_recovery jget_dset recovery_wf_def split: json.splits)
qed

lemma merge_gentle_same: "gentle r \<Longrightarrow> same_control st (merge_patch st (hr_patch r))"
proof -
  have "\<forall>kv\<in>set patch. neutral (fst kv) \<or> fst kv = ''recovery'' \<and> (\<exists>p. snd kv = JObj p \<and> map_of p ''attempts'' = None \<and> dict_wf p) \<Longrightarrow>
    same_control st (merge_patch st patch)" for patch
  proof (induction patch arbitrary: st)
    case (Cons kv patch)
    have "same_control st (merge_entry st kv)"
    proof (cases "fst kv = ''recovery''")
      case True
      then obtain p where "kv = (''recovery'', JObj p)" "map_of p ''attempts'' = None" "dict_wf p"
        using Cons.prems by (cases kv) (auto simp: neutral_def)
      then show ?thesis using merge_recovery_same by simp
    next
      case False
      with Cons.prems have "neutral (fst kv)" by auto
      then show ?thesis by (auto simp: merge_entry_def intro: same_control_dset split: json.splits)
    qed
    with Cons show ?case using same_fields_trans by (fastforce simp: merge_patch_def)
  qed (simp add: merge_patch_def)
  then show "gentle r \<Longrightarrow> same_control st (merge_patch st (hr_patch r))" by (simp add: gentle_def)
qed

lemma gentle_hook [simp]: "gentle proceed"
  "gentle (hook a why [(''last_error'', e)]) \<longleftrightarrow> a \<in> {HContinue, HRetry, HPause}"
  "gentle (hook a why [(''last_error'', e), (''recovery'', JObj p)]) \<longleftrightarrow>
     a \<in> {HContinue, HRetry, HPause} \<and> map_of p ''attempts'' = None \<and> dict_wf p"
  using neutral_patch_keys by (auto simp: gentle_def hook_def neutral_def)

lemma before_step_gentle: "yields gentle (before_step pr)"
proof (rule before_step_yields)
  show "yields gentle (on_budget_check pr)"
    unfolding on_budget_check_def budget_pause_def Let_def
    by (auto intro!: yields_bind yields_ret simp: yields_rules)
  show "yields gentle (on_phase_timeout pr)" "yields gentle (on_heartbeat_missing pr)"
    unfolding on_phase_timeout_def on_heartbeat_missing_def Let_def
    by (auto intro!: yields_bind yields_ret simp: yields_rules dict_wf_def split: option.splits)
qed

text \<open>What a retry does to the dictionary; with no failed action the next action stays.\<close>

lemma retry_effect:
  assumes "apply_hook_result pr failed r w = (Inr u, w')" and "hr_action r = HRetry"
  shows "\<exists>st t. same_control (merge_patch (sw_cur w) (hr_patch r)) st \<and> sw_kept w' = sw_kept w \<and>
    sw_cur w' = dset ''phase_started_at'' t (dset ''next_action'' (py_or failed (py_or (jget st ''next_action'') (jget st ''phase'')))
      (dset ''status'' (JStr ''running'') (dset ''active'' (JBool True) st)))"
proof -
  let ?w0 = "w\<lparr>sw_cur := merge_patch (sw_cur w) (hr_patch r)\<rparr>"
  from assms obtain w1 where log: "append_event (pr_clock pr) ''hook_action'' (JObj (hook_event r)) ?w0 = (Inr (), w1)"
    and cur: "\<exists>t. w' = w1\<lparr>sw_tick := Suc (sw_tick w1), sw_cur := dset ''phase_started_at'' t
      (dset ''next_action'' (py_or failed (py_or (jget (sw_cur w1) ''next_action'') (jget (sw_cur w1) ''phase'')))
        (dset ''status'' (JStr ''running'') (dset ''active'' (JBool True) (sw_cur w1))))\<rparr>"
    by (auto simp: apply_hook_result_def sbind_eq_Inr on_cur_Inr put_Inr now_iso_def jget_dset)
  then show ?thesis
    using keepsD [OF calm_append_event log] by (intro exI [of _ "sw_cur w1"]) (auto simp: confined_def)
qed

lemma fail_effect:
  assumes "apply_hook_result pr failed r w = (Inr u, w')" and "hr_action r = HFail"
  shows "\<exists>st. same_control (merge_patch (sw_cur w) (hr_patch r)) st \<and>
    sw_cur w' = dset ''next_action'' JNull (dset ''status'' (JStr ''error'') (dset ''active'' (JBool False) st))"
proof -
  let ?w0 = "w\<lparr>sw_cur := merge_patch (sw_cur w) (hr_patch r)\<rparr>"
  from assms obtain w1 where log: "append_event (pr_clock pr) ''hook_action'' (JObj (hook_event r)) ?w0 = (Inr (), w1)"
    and "sw_cur w' = dset ''next_action'' JNull (dset ''status'' (JStr ''error'') (dset ''active'' (JBool False) (sw_cur w1)))"
    by (auto simp: apply_hook_result_def sbind_eq_Inr on_cur_Inr put_Inr)
  then show ?thesis using calmD [OF calm_append_event log] by auto
qed

text \<open>A step that goes on has the budget and the next action of the start.\<close>

lemma apply_gentle:
  assumes "apply_hook_result pr JNull r w = (Inr u, w')" and "gentle r" and "truthy (jget (sw_cur w) ''next_action'')"
  shows "same_budget (sw_cur w) (sw_cur w') \<and> jget (sw_cur w') ''next_action'' = jget (sw_cur w) ''next_action''"
proof -
  let ?st = "merge_patch (sw_cur w) (hr_patch r)"
  note merged = merge_gentle_same [OF assms(2), of "sw_cur w"]
  have keeps: "same_budget (sw_cur w) st \<and> jget st ''next_action'' = jget (sw_cur w) ''next_action''" if "same_control ?st st" for st
    using same_fields_trans [OF merged that] same_control_budget same_fields_jget
    by (fastforce simp: control_keys_def driving_keys_def)
  from assms(2) consider "hr_action r = HContinue" | "hr_action r = HRetry" | "hr_action r = HPause" by (auto simp: gentle_def)
  then show ?thesis
  proof cases
    case 1
    with assms(1) have "sw_cur w' = ?st" by (auto simp: apply_hook_result_def sbind_eq_Inr on_cur_Inr)
    then show ?thesis using keeps [of ?st] by simp
  next
    case 2
    from retry_effect [OF assms(1) this] obtain st t where st: "same_control ?st st"
      "sw_cur w' = dset ''phase_started_at'' t (dset ''next_action'' (py_or JNull (py_or (jget st ''next_action'') (jget st ''phase'')))
        (dset ''status'' (JStr ''running'') (dset ''active'' (JBool True) st)))" by blast
    with keeps [OF st(1)] assms(3) show ?thesis
      by (auto simp: py_or_def jget_dset drive_keys_free intro!: same_fields_dset_right)
  next
    case 3
    let ?w0 = "w\<lparr>sw_cur := ?st\<rparr>"
    from assms(1) 3 obtain w1 where log: "append_event (pr_clock pr) ''hook_action'' (JObj (hook_event r)) ?w0 = (Inr (), w1)"
      and "sw_cur w' = dset ''status'' (JStr ''paused'') (dset ''active'' (JBool False) (sw_cur w1))"
      by (auto simp: apply_hook_result_def sbind_eq_Inr on_cur_Inr put_Inr)
    moreover have "same_control ?st (sw_cur w1)" using calmD [OF calm_append_event log] by simp
    ultimately show ?thesis using keeps by (auto simp: jget_dset drive_keys_free intro!: same_fields_dset_right)
  qed
qed

section \<open>After a failed action\<close>

text \<open>\<open>on_error\<close> retries while attempts are left and fails afterwards.\<close>

lemma on_recovery_Inr:
  assumes "on_recovery pr err why w = (Inr r, w')" and "recovery_wf (sw_cur w)"
  shows "attempts_of (sw_cur w) < limit_of (sw_cur w) \<and> hr_action r = HRetry \<and> (\<exists>rc e.
      hr_patch r = [(''recovery'', JObj rc), (''last_error'', e)] \<and> dict_wf rc \<and>
      map_of rc ''attempts'' = Some (JInt (attempts_of (sw_cur w) + 1))) \<or> hr_action r = HFail"
proof -
  from assms obtain limit rc n where st: "policy_int (sw_cur w) ''max_recovery_attempts'' 1 = Inr limit"
    "dict_or_empty (jget (sw_cur w) ''recovery'') = Inr rc" "recovery_attempts rc = Inr n"
    unfolding on_recovery_def sbind_first by blast
  have n: "attempts_of (sw_cur w) = n" and wf: "dict_wf rc"
    using st(2,3) assms(2) by (cases "jget (sw_cur w) ''recovery''";
      auto simp: attempts_of_def recovery_attempts_def recovery_wf_def dget_def py_or_def split: if_splits)+
  have limit: "limit_of (sw_cur w) = limit" using st(1) by (simp add: limit_of_def)
  show ?thesis
    using assms(1) wf unfolding on_recovery_def sbind_first Let_def n limit
    by (auto simp: st sbind_eq_Inr hook_def map_of_dset split: if_splits)
qed

lemma on_error_Inr:
  assumes "on_error pr e w = (Inr r, w')" and "recovery_wf (sw_cur w)"
  shows "attempts_of (sw_cur w) < limit_of (sw_cur w) \<and> hr_action r = HRetry \<and> (\<exists>rc e.
      hr_patch r = [(''recovery'', JObj rc), (''last_error'', e)] \<and> dict_wf rc \<and>
      map_of rc ''attempts'' = Some (JInt (attempts_of (sw_cur w) + 1))) \<or> hr_action r = HFail"
proof -
  from assms(1) obtain u w1 where log: "record_hook (pr_clock pr) ''error''
      [(''type'', JStr (exc_name e)), (''message'', JStr (take 1000 (exc_text e)))] w = (Inr u, w1)"
    and rest: "on_recovery pr (Some e) None w1 = (Inr r, w')"
    by (auto simp: on_error_def sbind_eq_Inr)
  have same: "same_budget (sw_cur w) (sw_cur w1)" using same_control_budget [OF calmD [OF calm_record_hook log]] .
  then have wf: "recovery_wf (sw_cur w1)" using assms(2) by (simp add: same_fields_def)
  from on_recovery_Inr [OF rest wf] show ?thesis
    using attempts_of_same [OF same] limit_of_same [OF same] by simp
qed

lemma agrees_numbers:
  assumes "agrees budget_keys a b"
  shows "limit_of b = limit_of a" "rounds_of b = rounds_of a" "rounds_within R sc b = rounds_within R sc a"
proof -
  from assms have "map_of b ''hook_policy'' = map_of a ''hook_policy''" "map_of b ''round_num'' = map_of a ''round_num''"
    "map_of b ''max_rounds'' = map_of a ''max_rounds''"
    by (simp_all add: agrees_def budget_keys_def)
  then show "limit_of b = limit_of a" "rounds_of b = rounds_of a" "rounds_within R sc b = rounds_within R sc a"
    by (simp_all add: limit_of_def policy_int_def policy_of_def rounds_of_def round_of_def rounds_within_def jget_def dget_def)
qed

lemma merge_count:
  assumes "dict_wf rc" and "map_of rc ''attempts'' = Some (JInt n)" and "recovery_wf st"
  shows "agrees budget_keys st (merge_entry st (''recovery'', JObj rc)) \<and>
    attempts_of (merge_entry st (''recovery'', JObj rc)) = n \<and> recovery_wf (merge_entry st (''recovery'', JObj rc))"
proof -
  have "recovery_attempts d = Inr n" if "map_of d ''attempts'' = Some (JInt n)" for d
    using that by (cases "n = 0") (simp_all add: recovery_attempts_def dget_def py_or_def)
  then show ?thesis
    using assms map_of_dupdate_wf [OF assms(1,2)]
    by (auto simp: merge_entry_def agrees_def map_of_dset budget_keys_def attempts_of_def recovery_wf_def jget_dset
        split: json.splits)
qed

text \<open>Applied, a retry counts one attempt more and goes on with the failed action.\<close>

lemma retry_counts:
  assumes "apply_hook_result pr failed r w = (Inr u, w')" and "hr_action r = HRetry" and "truthy failed"
    and "hr_patch r = [(''recovery'', JObj rc), (''last_error'', e)]" and "dict_wf rc"
    and "map_of rc ''attempts'' = Some (JInt n)" and "recovery_wf (sw_cur w)"
  shows "agrees budget_keys (sw_cur w) (sw_cur w') \<and> attempts_of (sw_cur w') = n \<and> recovery_wf (sw_cur w') \<and>
    jget (sw_cur w') ''next_action'' = failed \<and> jget (sw_cur w') ''status'' = JStr ''running''"
proof -
  let ?st1 = "merge_entry (sw_cur w) (''recovery'', JObj rc)"
  have merged: "merge_patch (sw_cur w) (hr_patch r) = merge_entry ?st1 (''last_error'', e)"
    by (simp add: merge_patch_def assms(4))
  have last: "same_control ?st1 (merge_entry ?st1 (''last_error'', e))"
    using neutral_patch_keys(4) by (auto simp: merge_entry_def intro: same_control_dset split: json.splits)
  from retry_effect [OF assms(1,2)] obtain st t where st: "same_control (merge_entry ?st1 (''last_error'', e)) st"
    and cur: "sw_cur w' = dset ''phase_started_at'' t (dset ''next_action'' (py_or failed (py_or (jget st ''next_action'')
        (jget st ''phase''))) (dset ''status'' (JStr ''running'') (dset ''active'' (JBool True) st)))"
    unfolding merged by blast
  have "same_budget ?st1 (sw_cur w')"
    using same_control_budget [OF same_fields_trans [OF last st]]
    by (auto simp: cur drive_keys_free intro!: same_fields_dset_right)
  then show ?thesis
    using merge_count [OF assms(5,6,7)] assms(3)
    by (auto simp: same_fields_def agrees_def cur jget_dset py_or_def)
qed

section \<open>The recovery path\<close>

lemma save_and_load_effect:
  assumes "save_and_load ck w = (Inr st, w')"
  shows "sw_file w' = Some st \<and> same_control (sw_cur w) st"
proof -
  from assms obtain u w1 where save: "save_cur ck w = (Inr u, w1)" and load: "load_state w1 = (Inr st, w')"
    by (auto simp: save_and_load_def sbind_eq_Inr)
  from save_cur_effect [OF save] obtain f where "sw_file w1 = Some f" "same_control (sw_cur w) f" by blast
  with load show ?thesis by (auto simp: load_state_def result_simps)
qed

lemma attempt_Inr:
  "attempt m w = (Inr (Inr x), w') \<longleftrightarrow> m w = (Inr x, w')"
  "attempt m w = (Inr (Inl e), w') \<longleftrightarrow> m w = (Inl e, w') \<and> e \<noteq> KeyboardInterrupt"
  by (auto simp: attempt_def shandle_def sbind_apply split: prod.splits sum.splits)

lemma salvage_effect:
  assumes "salvage sc a e w = (Inr (Some st), w')"
  shows "sw_file w' = Some st \<and> same_budget (sw_cur w) st \<and> jget st ''next_action'' = JStr ''analyze'' \<and>
    jget st ''status'' = JStr ''running''"
proof -
  from assms obtain name x w1 w2 w3 y where steps: "refresh_acceptance sc name (Some (error_line e)) w = (Inr x, w1)"
    "w2 = w1\<lparr>sw_cur := dset ''active'' (JBool True) (dset ''status'' (JStr ''running'')
      (dset ''next_action'' (JStr ''analyze'') (dset ''phase'' (JStr ''analyze'') (sw_cur w1))))\<rparr>"
    "add_event sc ''acceptance_salvaged'' y w2 = (Inr (), w3)" "save_and_load (sc_clock sc) w3 = (Inr st, w')"
    unfolding salvage_def by (auto simp: sbind_eq_Inr put_Inr goto_Inr cur_Inr split: if_splits)
  have start: "same_budget (sw_cur w) (sw_cur w2)"
    using same_control_budget [OF calmD [OF calm_refresh steps(1)]]
    by (auto simp: steps(2) drive_keys_free intro!: same_fields_dset_right)
  have rest: "same_control (sw_cur w2) st"
    using same_fields_trans [OF calmD [OF calm_add_event steps(3)]] save_and_load_effect [OF steps(4)] by blast
  have "jget st ''next_action'' = jget (sw_cur w2) ''next_action''" "jget st ''status'' = jget (sw_cur w2) ''status''"
    using same_fields_jget [OF rest] by (simp_all add: control_keys_def driving_keys_def)
  then show ?thesis
    using save_and_load_effect [OF steps(4)] same_fields_trans [OF start same_control_budget [OF rest]]
    by (simp add: steps(2) jget_dset)
qed

lemma frame_sum [loose_rules]:
  "(\<And>e. keeps R (f e)) \<Longrightarrow> (\<And>x. keeps R (g x)) \<Longrightarrow> keeps R (case r of Inl e \<Rightarrow> f e | Inr x \<Rightarrow> g x)"
  by (cases r) simp_all

lemma loose_try_salvage: "keeps loose (try_salvage sc a e)"
  unfolding try_salvage_def salvage_def
  by (intro loose_rules drive_keys_free calm_loose [OF calm_add_event] calm_loose [OF calm_refresh] calm_loose [OF calm_cur])

definition budget_left :: "int \<Rightarrow> obj \<Rightarrow> nat" where
  "budget_left R st = nat (limit_of st - attempts_of st) + 4 * nat (R - rounds_of st)"

lemma work_left_alt: "work_left R st = budget_left R st + action_rank (jget st ''next_action'')"
  by (simp add: work_left_def budget_left_def)

lemma budget_left_same: "same_budget a b \<Longrightarrow> budget_left R b = budget_left R a"
  by (simp add: budget_left_def limit_of_same rounds_of_same attempts_of_same)

text \<open>The handling of a failure without salvage: a retry with one attempt less, or the end of the run.\<close>

lemma recovery_tail:
  assumes "on_error pr e w = (Inr r, w1)" and "apply_hook_result pr a r w1 = (Inr u, w2)" and "truthy a"
    and "recovery_wf (sw_cur w)"
  shows "hr_action r = HRetry \<and> agrees budget_keys (sw_cur w) (sw_cur w2) \<and> recovery_wf (sw_cur w2) \<and>
      attempts_of (sw_cur w2) = attempts_of (sw_cur w) + 1 \<and> attempts_of (sw_cur w) < limit_of (sw_cur w) \<and>
      jget (sw_cur w2) ''next_action'' = a \<and> jget (sw_cur w2) ''status'' = JStr ''running'' \<or>
    hr_action r = HFail \<and> jget (sw_cur w2) ''active'' = JBool False"
proof -
  have same: "same_budget (sw_cur w) (sw_cur w1)" using same_control_budget [OF calmD [OF calm_on_error assms(1)]] .
  then have wf: "recovery_wf (sw_cur w1)" and n: "attempts_of (sw_cur w1) = attempts_of (sw_cur w)"
    using assms(4) by (simp_all add: same_fields_def)
  from on_error_Inr [OF assms(1,4)] consider
      rc e where "attempts_of (sw_cur w) < limit_of (sw_cur w)" "hr_action r = HRetry"
        "hr_patch r = [(''recovery'', JObj rc), (''last_error'', e)]" "dict_wf rc"
        "map_of rc ''attempts'' = Some (JInt (attempts_of (sw_cur w) + 1))" | "hr_action r = HFail" by blast
  then show ?thesis
  proof cases
    case 1
    from retry_counts [OF assms(2) 1(2) assms(3) 1(3,4,5) wf] show ?thesis
      using same 1(1,2) by (auto simp: same_fields_def agrees_def)
  next
    case 2
    from fail_effect [OF assms(2) 2] show ?thesis using 2 by (auto simp: jget_dset)
  qed
qed

definition resumes :: "'e sched \<Rightarrow> int \<Rightarrow> obj \<Rightarrow> json \<Rightarrow> obj \<Rightarrow> bool" where
  "resumes sc R st a st' \<longleftrightarrow> recovery_wf st' \<and> rounds_within R sc st' \<and>
     (budget_left R st' < budget_left R st \<and> jget st' ''next_action'' = a \<or>
      sc_acceptance sc \<and> budget_left R st' = budget_left R st \<and> jget st' ''next_action'' = JStr ''analyze'')"

lemma resumes_same:
  assumes "same_budget a b" and "resumes sc R b act st'"
  shows "resumes sc R a act st'"
  using assms by (simp add: resumes_def budget_left_same)

lemma budget_left_counted:
  assumes "agrees budget_keys a b" and "attempts_of b = attempts_of a + 1" and "attempts_of a < limit_of a"
  shows "budget_left R b < budget_left R a"
  using assms agrees_numbers [OF assms(1)] by (simp add: budget_left_def)

lemma calm_then_save:
  assumes "calm m" and "sbind m (\<lambda>_. save_and_load ck) w = (Inr st, w')"
  shows "sw_file w' = Some st \<and> same_control (sw_cur w) st"
proof -
  from assms(2) obtain x w1 where "m w = (Inr x, w1)" "save_and_load ck w1 = (Inr st, w')" by (auto simp: sbind_eq_Inr)
  then show ?thesis using save_and_load_effect same_fields_trans [OF calmD [OF assms(1)]] by blast
qed

lemma calm_report: "hr_action r \<noteq> HContinue \<Longrightarrow> calm (report_failure sc r e)"
  unfolding report_failure_def by (intro calm_rules) simp_all

lemma recover_effect:
  assumes "recover_action sc a e w = (Inr st', w')" and "truthy a" and "recovery_wf (sw_cur w)"
    and "rounds_within R sc (sw_cur w)"
  shows "sw_file w' = Some st' \<and> settled st' \<and> (run_is_idle st' \<or> resumes sc R (sw_cur w) a st')"
proof -
  from assms(1) obtain u1 w1 r w2 u2 w3 where steps: "record_action_failure sc a e w = (Inr u1, w1)"
    "on_error (sc_probe sc) e w1 = (Inr r, w2)" "apply_hook_result (sc_probe sc) a r w2 = (Inr u2, w3)"
    and close: "sbind (report_failure sc r e) (\<lambda>_. save_and_load (sc_clock sc)) w3 = (Inr st', w')"
    unfolding recover_action_def sbind_eq_Inr [of "record_action_failure sc a e"]
      sbind_eq_Inr [of "on_error (sc_probe sc) e"] sbind_eq_Inr [of "apply_hook_result (sc_probe sc) a x" for x] by blast
  have w1: "same_budget (sw_cur w) (sw_cur w1)" using same_control_budget [OF calmD [OF calm_action_evidence steps(1)]] .
  then have wf: "recovery_wf (sw_cur w1)" using assms(3) by (simp add: same_fields_def)
  note outcome = recovery_tail [OF steps(2,3) assms(2) wf]
  then have "calm (report_failure sc r e)" by (auto intro!: calm_report)
  from calm_then_save [OF this close] have saved: "sw_file w' = Some st'" "same_control (sw_cur w3) st'" by blast+
  then have st': "jget st' k = jget (sw_cur w3) k" if "k \<in> set control_keys" for k using same_fields_jget that by blast
  have b3: "same_budget (sw_cur w3) st'" using same_control_budget [OF saved(2)] .
  from outcome show ?thesis
  proof
    assume retry: "hr_action r = HRetry \<and> agrees budget_keys (sw_cur w1) (sw_cur w3) \<and> recovery_wf (sw_cur w3) \<and>
      attempts_of (sw_cur w3) = attempts_of (sw_cur w1) + 1 \<and> attempts_of (sw_cur w1) < limit_of (sw_cur w1) \<and>
      jget (sw_cur w3) ''next_action'' = a \<and> jget (sw_cur w3) ''status'' = JStr ''running''"
    have "budget_left R st' < budget_left R (sw_cur w)"
      using budget_left_counted [of "sw_cur w1" "sw_cur w3" R] retry budget_left_same [OF b3, of R] budget_left_same [OF w1, of R]
      by simp
    moreover have "rounds_within R sc st'"
      using assms(4) agrees_numbers(3) [of "sw_cur w1" "sw_cur w3"] retry rounds_within_same [OF w1] rounds_within_same [OF b3]
      by blast
    moreover have "recovery_wf st'" using retry b3 by (simp add: same_fields_def)
    moreover have "jget st' ''next_action'' = a" "jget st' ''status'' = JStr ''running''"
      using retry st' [of "''next_action''"] st' [of "''status''"] by (simp_all add: control_keys_def driving_keys_def)
    ultimately show ?thesis using saved(1) settled_running by (simp add: resumes_def)
  next
    assume "hr_action r = HFail \<and> jget (sw_cur w3) ''active'' = JBool False"
    then show ?thesis
      using saved(1) st' [of "''active''"] by (auto simp: control_keys_def driving_keys_def run_is_idle_def settled_inactive)
  qed
qed

theorem failure_effect:
  assumes "handle_step_failure sc a e w = (Inr st', w')" and "truthy a" and "recovery_wf (sw_cur w)"
    and "rounds_within R sc (sw_cur w)"
  shows "sw_file w' = Some st' \<and> settled st' \<and> (run_is_idle st' \<or> resumes sc R (sw_cur w) a st')"
proof -
  from assms(1) obtain x w1 salvaged w2 where steps: "cleanup_run_processes sc w = (Inr x, w1)"
      "try_salvage sc a e w1 = (Inr salvaged, w2)"
    and rest: "(case salvaged of Some st \<Rightarrow> sret st | None \<Rightarrow> recover_action sc a e) w2 = (Inr st', w')"
    unfolding handle_step_failure_def sbind_eq_Inr by blast
  have w1: "same_budget (sw_cur w) (sw_cur w1)" using same_control_budget [OF calmD [OF calm_cleanup steps(1)]] .
  show ?thesis
  proof (cases salvaged)
    case (Some st)
    with rest have st: "st' = st" "w' = w2" by simp_all
    from steps(2) Some have sal: "sc_acceptance sc" "salvage sc a e w1 = (Inr (Some st), w2)"
      by (auto simp: try_salvage_def sbind_eq_Inr attempt_Inr split: if_splits sum.splits) (metis sum.exhaust)
    from salvage_effect [OF sal(2)] have "same_budget (sw_cur w) st" using same_fields_trans [OF w1] by blast
    then show ?thesis
      using salvage_effect [OF sal(2)] sal(1) assms(3,4) rounds_within_same [of "sw_cur w" st]
      by (auto simp: st resumes_def budget_left_same settled_running same_fields_def)
  next
    case None
    with rest have rest: "recover_action sc a e w2 = (Inr st', w')" by simp
    have w2: "same_budget (sw_cur w) (sw_cur w2)"
      using same_fields_trans [OF w1] keepsD [OF loose_try_salvage steps(2)] by (simp add: loose_def)
    have "sw_file w' = Some st' \<and> settled st' \<and> (run_is_idle st' \<or> resumes sc R (sw_cur w2) a st')"
    proof (rule recover_effect [OF rest assms(2)])
      show "recovery_wf (sw_cur w2)" using assms(3) w2 by (simp add: same_fields_def)
    qed (rule rounds_within_same [OF w2 assms(4)])
    then show ?thesis using resumes_same [OF w2] by blast
  qed
qed

end
