(* ===== verification/Scheduler_Loop.thy ===== *)
theory Scheduler_Loop
  imports Scheduler_Failures
begin

text \<open>
  One step of the run and the loop over steps. A step needs at most six effects, and it ends the run,
  takes work off the measure of theory Scheduler\_Work, or salvages the analysis.
\<close>

section \<open>A step ends\<close>

text \<open>How many effects may follow.\<close>

fun stage :: "step_effect \<Rightarrow> nat" where
  "stage StartTrace = 6"
| "stage SaveCheckpoint = 5"
| "stage SyncAcceptance = 4"
| "stage BeforeStep = 3"
| "stage ExecuteAction = 2"
| "stage _ = 1"

lemma case_sum_run:
  "(case x of Inl a \<Rightarrow> f a | Inr b \<Rightarrow> g b) w = y \<longleftrightarrow> (\<exists>a. x = Inl a \<and> f a w = y) \<or> (\<exists>b. x = Inr b \<and> g b w = y)"
  by (cases x) simp_all

text \<open>An effect either ends the step or goes on with a reduction of the state it left.\<close>

lemma perform_effect:
  assumes "perform sc red w = (Inr (Inr red'), w')"
  shows "(rn_effect red = StartTrace \<and> rn_effect red' = SaveCheckpoint) \<or>
    (rn_effect red = SaveCheckpoint \<and> rn_effect red' = SyncAcceptance) \<or>
    (rn_effect red = SyncAcceptance \<and> rn_effect red' \<in> {HandleApproval, Stall, BeforeStep}) \<or>
    (rn_effect red = BeforeStep \<and> rn_effect red' \<in> {SaveAndReturn, ExecuteAction}) \<or>
    (rn_effect red = ExecuteAction \<and> rn_effect red' \<in> {SaveAndReturn, HandleFailure})"
  using assms
  by (cases "rn_effect red")
    (auto simp: perform_def Let_def sbind_eq_Inr reduce_step_def reduction_of_def reduce_ready_state_def stalled_def
      result_simps case_sum_run split: if_splits option.splits)

lemma perform_stage: "perform sc red w = (Inr (Inr red'), w') \<Longrightarrow> stage (rn_effect red') < stage (rn_effect red)"
  by (drule perform_effect) auto

lemma stage_pos: "0 < stage eff"
  by (cases eff) simp_all

lemma drive_returns: "stage (rn_effect red) \<le> n \<Longrightarrow> drive n sc red w \<noteq> (Inr None, w')"
proof (induction n arbitrary: red w)
  case 0
  then show ?case using stage_pos [of "rn_effect red"] by simp
next
  case (Suc n)
  show ?case
  proof
    assume "drive (Suc n) sc red w = (Inr None, w')"
    then obtain red' w1 where "perform sc red w = (Inr (Inr red'), w1)" "drive n sc red' w1 = (Inr None, w')"
      by (auto simp: sbind_eq_Inr case_sum_run)
    with Suc perform_stage [of sc red w red' w1] show False by fastforce
  qed
qed

lemma step_once_returns: "step_once sc w \<noteq> (Inr None, w')"
proof
  assume "step_once sc w = (Inr None, w')"
  then obtain st w1 red where "reduce_step st Start JNull None = Inr red" "drive 7 sc red w1 = (Inr None, w')"
    by (auto simp: step_once_def execute_def sbind_eq_Inr)
  then show False using drive_returns [of red 7 sc w1 w'] by (cases "rn_effect red") simp_all
qed

section \<open>A step makes progress\<close>

text \<open>A state with at most \<open>W\<close> work left.\<close>

definition light :: "'e sched \<Rightarrow> int \<Rightarrow> nat \<Rightarrow> obj \<Rightarrow> bool" where
  "light sc R W st \<longleftrightarrow> recovery_wf st \<and> rounds_within R sc st \<and> settled st \<and> work_left R st \<le> W"

text \<open>What holds of a reduction when the work left at the start of the step was \<open>W\<close>.\<close>

definition on_course :: "'e sched \<Rightarrow> int \<Rightarrow> nat \<Rightarrow> reduction \<Rightarrow> bool" where
  "on_course sc R W red \<longleftrightarrow>
     (case rn_effect red of
        ExecuteAction \<Rightarrow>
          light sc R W (rn_state red) \<and> truthy (rn_action red) \<and>
          rn_action red = jget (rn_state red) ''next_action''
      | HandleFailure \<Rightarrow>
          recovery_wf (rn_state red) \<and> rounds_within R sc (rn_state red) \<and> truthy (rn_action red) \<and>
          budget_left R (rn_state red) + action_rank (rn_action red) \<le> W
      | SaveAndReturn \<Rightarrow>
          recovery_wf (rn_state red) \<and> rounds_within R sc (rn_state red) \<and> settled (rn_state red) \<and>
          (run_is_idle (rn_state red) \<or> work_left R (rn_state red) < W)
      | Stall \<Rightarrow> light sc R W (rn_state red) \<and> run_is_idle (rn_state red)
      | BeforeStep \<Rightarrow> light sc R W (rn_state red) \<and> truthy (jget (rn_state red) ''next_action'')
      | _ \<Rightarrow> light sc R W (rn_state red))"

text \<open>How a step ends.\<close>

definition ended :: "'e sched \<Rightarrow> int \<Rightarrow> nat \<Rightarrow> obj \<Rightarrow> 'e sched_world \<Rightarrow> bool" where
  "ended sc R W st w \<longleftrightarrow>
     run_is_idle st \<or>
     sw_file w = Some st \<and> settled st \<and> recovery_wf st \<and> rounds_within R sc st \<and>
     (work_left R st < W \<or> sc_acceptance sc \<and> jget st ''next_action'' = JStr ''analyze'' \<and> work_left R st \<le> W)"

lemma light_same: "same_control a b \<Longrightarrow> light sc R W a \<Longrightarrow> light sc R W b"
  using settled_control [of a b] work_left_same [OF same_control_drive, of a b R]
    rounds_within_same [OF same_control_budget, of a b R sc]
  by (auto simp: light_def same_fields_def)

lemma light_calm: "light sc R W (sw_cur w) \<Longrightarrow> calm m \<Longrightarrow> m w = (r, w') \<Longrightarrow> light sc R W (sw_cur w')"
  using light_same [OF calmD] by blast

lemma set_cur_Inr: "set_cur st w = (r, w') \<longleftrightarrow> r = Inr () \<and> w' = w\<lparr>sw_cur := st\<rparr>"
  by (auto simp: set_cur_def)

lemma neutral_trace: "neutral ''canonical_trace_started''"
  by (simp add: neutral_def control_keys_def driving_keys_def budget_keys_def)

lemma on_world_cur: "on_world m w = (r, w') \<Longrightarrow> sw_cur w' = sw_cur w"
  by (auto simp: on_world_def split: prod.splits)

lemma reconcile_light:
  assumes "reconcile_acceptance_transition sc w = (Inr u, w')" and "light sc R W (sw_cur w)"
  shows "light sc R W (sw_cur w')"
proof -
  from assms(1) consider w1 where "w' = w1" "sw_cur w1 = sw_cur w"
    | w1 w2 x where "sw_cur w1 = sw_cur w" "jget (sw_cur w) ''next_action'' = JStr ''build''"
        "goto ''analyze'' w1 = (Inr (), w2)" "add_event sc ''acceptance_transition_recovered'' x w2 = (Inr u, w')"
    unfolding reconcile_acceptance_transition_def sbind_eq_Inr
    by (auto simp: cur_Inr workspace_of_def sbind_eq_Inr is_recoverable_transition_def dest: on_world_cur
        split: if_splits)
  then show ?thesis
  proof cases
    case 1
    then show ?thesis using assms(2) by simp
  next
    case 2
    have "recovery_wf (sw_cur w2)" "settled (sw_cur w2)"
      using 2(1,3) assms(2) by (auto simp: goto_Inr light_def)
    moreover have "advances R sc (sw_cur w1) (sw_cur w2)"
      using assms(2) 2(1,2) by (intro goto_advances [OF 2(3)]) (simp_all add: light_def action_rank_def)
    moreover have "work_left R (sw_cur w2) \<le> work_left R (sw_cur w1)"
      using 2(1,2,3) goto_work [of R "JStr ''analyze''" "JStr ''analyze''" "sw_cur w1"]
      by (auto simp: goto_Inr work_left_def action_rank_def)
    ultimately have "light sc R W (sw_cur w2)" using assms(2) 2(1) by (auto simp: light_def advances_def)
    then show ?thesis by (rule light_calm [OF _ calm_add_event 2(4)])
  qed
qed

lemma ready_on_course:
  assumes "reduce_ready_state st = Inr red" and "light sc R W st"
  shows "on_course sc R W red"
  using assms
  by (auto simp: reduce_ready_state_def reduction_of_def stalled_def on_course_def Let_def run_is_idle_def result_simps
      split: if_splits)

lemma before_step_on_course:
  assumes "apply_hook sc (before_step (sc_probe sc)) w = (Inr u, w')" and "light sc R W (sw_cur w)"
    and "truthy (jget (sw_cur w) ''next_action'')" and "reduce_step (sw_cur w') BeforeStepApplied JNull None = Inr red"
  shows "on_course sc R W red"
proof -
  from assms(1) obtain r w1 where hook: "before_step (sc_probe sc) w = (Inr r, w1)"
    and applied: "apply_hook_result (sc_probe sc) JNull r w1 = (Inr u, w')"
    by (auto simp: apply_hook_def hooked_def sbind_eq_Inr)
  have l1: "light sc R W (sw_cur w1)" by (rule light_calm [OF assms(2) calm_before_step hook])
  have next1: "jget (sw_cur w1) ''next_action'' = jget (sw_cur w) ''next_action''"
    using same_fields_jget [OF calmD [OF calm_before_step hook]] by (simp add: control_keys_def driving_keys_def)
  have "gentle r" using before_step_gentle hook by (auto simp: yields_def)
  from apply_gentle [OF applied this] assms(3) next1
  have same: "same_budget (sw_cur w1) (sw_cur w')" "jget (sw_cur w') ''next_action'' = jget (sw_cur w1) ''next_action''"
    by simp_all
  have "settled (sw_cur w')"
    using steadyD(1) [OF steady_hook [OF calm_before_step before_step_status_free] assms(1)] assms(2) by (simp add: light_def)
  then have l: "light sc R W (sw_cur w')"
    using l1 same(2) budget_left_same [OF same(1), of R] rounds_within_same [OF same(1)] same(1)
    by (auto simp: light_def work_left_alt same_fields_def)
  then show ?thesis
    using assms(4) same(2) next1 assms(3)
    by (auto simp: reduce_step_def reduction_of_def on_course_def light_def settled_def run_is_idle_def result_simps
        jindex_def jget_def dget_def split: if_splits option.splits)
qed

lemma failed_state_Inr: "failed_state w = (Inr st, w') \<longleftrightarrow> st = fallback w \<and> w' = w"
  by (auto simp: failed_state_def fallback_def)

lemma execute_on_course:
  assumes "light sc R W st" and "phase_runner (sc_phase sc)" and "jget st ''next_action'' = a" and "truthy a"
    and "attempt (execute_step_action sc a) (w\<lparr>sw_cur := st, sw_kept := None\<rparr>) = (Inr r, w1)"
  shows "case r of
      Inr _ \<Rightarrow> on_course sc R W ((reduction_of (sw_cur w1) SaveAndReturn)\<lparr>rn_action := a\<rparr>)
    | Inl e \<Rightarrow> on_course sc R W ((reduction_of (fallback w1) HandleFailure)\<lparr>rn_action := a, rn_error := Some e\<rparr>)"
proof (cases r)
  case (Inl e)
  with assms(5) have run: "execute_step_action sc a (w\<lparr>sw_cur := st, sw_kept := None\<rparr>) = (Inl e, w1)"
    by (simp add: attempt_Inr)
  have same: "same_budget st (fallback w1)" using action_raises [OF run] by simp
  show ?thesis
    using assms(1,3,4) budget_left_same [OF same, of R] rounds_within_same [OF same] same Inl
    by (auto simp: on_course_def reduction_of_def light_def work_left_alt same_fields_def)
next
  case (Inr u)
  with assms(5) have run: "execute_step_action sc a (w\<lparr>sw_cur := st, sw_kept := None\<rparr>) = (Inr u, w1)"
    by (simp add: attempt_Inr)
  have "advances R sc st (sw_cur w1)"
    using action_advances [OF run assms(2), of R] assms(1,3) by (simp add: light_def)
  moreover have "settled (sw_cur w1) \<and> recovery_wf (sw_cur w1)"
    using action_settles [OF run _ _ assms(2), of R] assms(1,3) by (simp add: light_def)
  ultimately show ?thesis
    using assms(1) Inr by (auto simp: on_course_def reduction_of_def advances_def light_def)
qed

text \<open>The reductions of one step stay on course.\<close>

theorem perform_on_course:
  assumes "perform sc red w = (Inr (Inr red'), w')" and "on_course sc R W red" and "phase_runner (sc_phase sc)"
  shows "on_course sc R W red'"
proof -
  let ?w = "w\<lparr>sw_cur := rn_state red\<rparr>"
  have start: "light sc R W (sw_cur ?w)" if "rn_effect red \<in> {StartTrace, SaveCheckpoint, SyncAcceptance, BeforeStep, ExecuteAction}"
    using assms(2) that by (auto simp: on_course_def)
  show ?thesis
  proof (cases "rn_effect red")
    case StartTrace
    with assms(1) obtain x w1 where emit: "emit_trace ''run_started'' x JNull ?w = (Inr (), w1)"
      and red': "red' = reduction_of (dset ''canonical_trace_started'' (JBool True) (sw_cur w1)) SaveCheckpoint"
      by (auto simp: perform_def Let_def sbind_eq_Inr set_cur_Inr cur_Inr reduce_step_def)
    have "light sc R W (sw_cur w1)" by (rule light_calm [OF start calm_emit emit]) (simp add: StartTrace)
    from light_same [OF same_control_dset [OF neutral_trace] this] show ?thesis
      by (simp add: red' on_course_def reduction_of_def)
  next
    case SaveCheckpoint
    with assms(1) obtain w1 where "save_cur (sc_clock sc) ?w = (Inr (), w1)" "red' = reduction_of (sw_cur w1) SyncAcceptance"
      by (auto simp: perform_def Let_def sbind_eq_Inr set_cur_Inr cur_Inr reduce_step_def)
    then show ?thesis using save_cur_effect start SaveCheckpoint by (fastforce simp: on_course_def reduction_of_def)
  next
    case SyncAcceptance
    with assms(1) obtain w1 where sync: "(if sc_acceptance sc
        then sbind (sync_acceptance_baseline sc) (\<lambda>_. reconcile_acceptance_transition sc) else sret ()) ?w = (Inr (), w1)"
      and red': "reduce_ready_state (sw_cur w1) = Inr red'"
      by (auto simp: perform_def Let_def sbind_eq_Inr set_cur_Inr cur_Inr reduce_step_def)
    have l: "light sc R W (sw_cur ?w)" by (rule start) (simp add: SyncAcceptance)
    have "light sc R W (sw_cur w1)"
    proof (cases "sc_acceptance sc")
      case True
      with sync obtain x w2 where steps: "sync_acceptance_baseline sc ?w = (Inr x, w2)"
          "reconcile_acceptance_transition sc w2 = (Inr (), w1)" by (auto simp: sbind_eq_Inr)
      show ?thesis by (rule reconcile_light [OF steps(2) light_calm [OF l calm_sync steps(1)]])
    qed (use sync l in simp)
    then show ?thesis by (rule ready_on_course [OF red'])
  next
    case BeforeStep
    with assms(1) obtain w1 where "apply_hook sc (before_step (sc_probe sc)) ?w = (Inr (), w1)"
      and "reduce_step (sw_cur w1) BeforeStepApplied JNull None = Inr red'"
      by (auto simp: perform_def Let_def sbind_eq_Inr set_cur_Inr cur_Inr)
    then show ?thesis
      using before_step_on_course [of sc ?w "()" w1 R W red'] start BeforeStep assms(2) by (auto simp: on_course_def)
  next
    case ExecuteAction
    let ?a = "rn_action red"
    from ExecuteAction assms(2) have a: "truthy ?a" "jget (rn_state red) ''next_action'' = ?a" "py_or ?a (JStr []) = ?a"
      by (auto simp: on_course_def py_or_def)
    from assms(1) ExecuteAction a(3) obtain r w1 where
        run: "attempt (execute_step_action sc ?a) (w\<lparr>sw_cur := rn_state red, sw_kept := None\<rparr>) = (Inr r, w1)"
      and red': "red' = (case r of Inr _ \<Rightarrow> (reduction_of (sw_cur w1) SaveAndReturn)\<lparr>rn_action := ?a\<rparr>
        | Inl e \<Rightarrow> (reduction_of (fallback w1) HandleFailure)\<lparr>rn_action := ?a, rn_error := Some e\<rparr>)"
      by (auto simp: perform_def Let_def sbind_eq_Inr set_cur_Inr cur_Inr reduce_step_def case_sum_run failed_state_Inr)
    have "light sc R W (rn_state red)" using start ExecuteAction by simp
    from execute_on_course [OF this assms(3) a(2,1) run] show ?thesis by (simp add: red' split: sum.splits)
  qed (use perform_effect [OF assms(1)] in auto)
qed

text \<open>How the last effect of a step leaves the run.\<close>

theorem perform_ends:
  assumes "perform sc red w = (Inr (Inl st), w')" and "on_course sc R W red" and "phase_runner (sc_phase sc)"
  shows "ended sc R W st w'"
proof -
  let ?w = "w\<lparr>sw_cur := rn_state red\<rparr>"
  show ?thesis
  proof (cases "rn_effect red")
    case HandleApproval
    with assms(1) obtain w1 where hook: "apply_hook sc (on_human_approval_required (sc_probe sc)) ?w = (Inr (), w1)"
      and save: "save_and_load (sc_clock sc) w1 = (Inr st, w')"
      by (auto simp: perform_def Let_def sbind_eq_Inr set_cur_Inr)
    from hook have "jget (sw_cur w1) ''active'' = JBool False"
      by (auto simp: apply_hook_def hooked_def sbind_eq_Inr on_human_approval_required_def apply_hook_result_def put_Inr
          fetch_Inr jget_dset split: if_splits)
    then have "jget st ''active'' = JBool False"
      using save_and_load_effect [OF save] same_fields_jget [of control_keys _ st "''active''"]
      by (auto simp: control_keys_def driving_keys_def)
    then show ?thesis by (simp add: ended_def run_is_idle_def)
  next
    case Stall
    with assms(1) obtain why x where "on_stall (sc_probe sc) why ?w = (Inr x, w')" "st = sw_cur w'"
      by (auto simp: perform_def Let_def sbind_eq_Inr set_cur_Inr cur_Inr)
    then have "same_drive (rn_state red) st" using same_control_drive [OF calmD [OF calm_stall]] by fastforce
    then show ?thesis using assms(2) Stall idle_same by (auto simp: ended_def on_course_def)
  next
    case HandleFailure
    with assms(1,2) obtain e where run: "handle_step_failure sc (rn_action red) e ?w = (Inr st, w')"
      by (auto simp: perform_def Let_def sbind_eq_Inr set_cur_Inr on_course_def py_or_def split: option.splits)
    have "sw_file w' = Some st \<and> settled st \<and> (run_is_idle st \<or> resumes sc R (rn_state red) (rn_action red) st)"
      using failure_effect [OF run, of R] assms(2) HandleFailure by (simp add: on_course_def)
    moreover have "budget_left R (rn_state red) + action_rank (rn_action red) \<le> W" "0 < action_rank (rn_action red)"
      using assms(2) HandleFailure by (auto simp: on_course_def action_rank_def)
    ultimately show ?thesis by (auto simp: ended_def resumes_def work_left_alt action_rank_def split: if_splits)
  next
    case SaveAndReturn
    with assms(1) have save: "save_and_load (sc_clock sc) ?w = (Inr st, w')"
      by (auto simp: perform_def Let_def sbind_eq_Inr set_cur_Inr)
    from save_and_load_effect [OF this] have st: "sw_file w' = Some st" "same_control (rn_state red) st" by auto
    then show ?thesis
      using assms(2) SaveAndReturn settled_control [OF st(2)] idle_same [OF same_control_drive [OF st(2)]]
        work_left_same [OF same_control_drive [OF st(2)], of R] rounds_within_same [OF same_control_budget [OF st(2)]]
      by (auto simp: ended_def on_course_def same_fields_def)
  qed (use assms(1) in \<open>auto simp: perform_def Let_def sbind_eq_Inr case_sum_run\<close>)
qed

section \<open>Steps and the run loop\<close>

lemma drive_ends:
  assumes "drive n sc red w = (Inr (Some st), w')" and "on_course sc R W red" and "phase_runner (sc_phase sc)"
  shows "ended sc R W st w'"
  using assms(1,2)
proof (induction n arbitrary: red w)
  case (Suc n)
  from Suc.prems(1) obtain r w1 where r: "perform sc red w = (Inr r, w1)"
    and rest: "(case r of Inl st \<Rightarrow> sret (Some st) | Inr red' \<Rightarrow> drive n sc red') w1 = (Inr (Some st), w')"
    by (auto simp: sbind_eq_Inr)
  show ?case
  proof (cases r)
    case (Inl st')
    with rest r perform_ends [OF _ Suc.prems(2) assms(3)] show ?thesis by auto
  next
    case (Inr red')
    with rest r perform_on_course [OF _ Suc.prems(2) assms(3)] show ?thesis by (auto intro: Suc.IH)
  qed
qed simp

text \<open>The stored state of a run the loop may be started on.\<close>

definition startable :: "int \<Rightarrow> 'e sched \<Rightarrow> obj \<Rightarrow> bool" where
  "startable R sc st \<longleftrightarrow> settled st \<and> recovery_wf st \<and> rounds_within R sc st"

theorem step_ends:
  assumes "step_once sc w = (Inr r, w')" and "sw_file w = Some st" and "startable R sc st" and "phase_runner (sc_phase sc)"
  shows "\<exists>st'. r = Some st' \<and> ended sc R (work_left R st) st' w'"
proof (cases r)
  case None
  with assms(1) step_once_returns show ?thesis by blast
next
  case (Some st')
  from assms(1,2) obtain red where red: "reduce_step st Start JNull None = Inr red" "drive 7 sc red w = (Inr r, w')"
    by (auto simp: step_once_def execute_def sbind_eq_Inr load_state_def result_simps)
  then have "on_course sc R (work_left R st) red"
    using assms(3) by (auto simp: reduce_step_def reduction_of_def on_course_def light_def startable_def)
  with red(2) Some drive_ends assms(4) show ?thesis by blast
qed

text \<open>Without acceptance control every step takes work off the run.\<close>

lemma step_decreases:
  assumes "step_once sc w = (Inr r, w')" and "sw_file w = Some st" and "startable R sc st" and "phase_runner (sc_phase sc)"
    and "\<not> sc_acceptance sc"
  obtains st' where "r = Some st'" "run_is_idle st'"
    | st' where "r = Some st'" "sw_file w' = Some st'" "startable R sc st'" "work_left R st' < work_left R st"
  using step_ends [OF assms(1-4)] assms(5) by (auto simp: ended_def startable_def)

lemma run_loop_ends:
  assumes "sw_file w = Some st" and "startable R sc st" and "phase_runner (sc_phase sc)" and "\<not> sc_acceptance sc"
  shows "\<exists>r w'. run_loop sc None n w = Some (r, w') \<and> (\<forall>x. r = Inr x \<longrightarrow> (\<exists>st'. x = Some st' \<and> run_is_idle st'))"
  using assms(1,2)
proof (induction "work_left R st" arbitrary: st w n rule: less_induct)
  case less
  show ?case
  proof (cases "step_once sc w")
    case (Pair x w')
    show ?thesis
    proof (cases x)
      case (Inl e)
      with Pair show ?thesis by (subst run_loop.simps) simp
    next
      case (Inr r)
      with Pair have "step_once sc w = (Inr r, w')" by simp
      from step_decreases [OF this less.prems assms(3,4)] show ?thesis
      proof cases
        case (1 st')
        with Pair Inr show ?thesis by (subst run_loop.simps) simp
      next
        case (2 st')
        show ?thesis
        proof (cases "run_is_idle st'")
          case True
          with Pair Inr 2 show ?thesis by (subst run_loop.simps) simp
        next
          case False
          with Pair Inr 2 have "run_loop sc None n w = run_loop sc None (Suc n) w'" by (subst run_loop.simps) simp
          with less.hyps [OF 2(4) 2(2,3)] show ?thesis by simp
        qed
      qed
    qed
  qed
qed

lemma run_loop_bounded:
  assumes "sw_file w = Some st" and "startable R sc st" and "phase_runner (sc_phase sc)" and "\<not> sc_acceptance sc"
    and "n + work_left R st < m"
  shows "run_loop sc None n w = run_loop sc (Some m) n w"
  using assms(1,2,5)
proof (induction "work_left R st" arbitrary: st w n rule: less_induct)
  case less
  show ?case
  proof (cases "step_once sc w")
    case (Pair x w')
    show ?thesis
    proof (cases x)
      case (Inl e)
      with Pair show ?thesis by (simp add: run_loop.simps [of sc _ n w])
    next
      case (Inr r)
      with Pair have "step_once sc w = (Inr r, w')" by simp
      from step_decreases [OF this less.prems(1,2) assms(3,4)] show ?thesis
      proof cases
        case (1 st')
        with Pair Inr show ?thesis by (simp add: run_loop.simps [of sc _ n w])
      next
        case (2 st')
        with less.prems(3) have m: "Suc n + work_left R st' < m" by simp
        with Pair Inr 2 less.hyps [OF 2(4) 2(2,3) m] show ?thesis by (simp add: run_loop.simps [of sc _ n w])
      qed
    qed
  qed
qed

end
