(* ===== verification/Scheduler_Files.thy ===== *)
theory Scheduler_Files
  imports Scheduler_Loop
begin

text \<open>
  The type of the state file: whatever a step of the run or a command of the user does, returns or
  raises, the file holds a state that validates. Only \<open>save_state\<close> writes it.
\<close>

definition file_valid :: "'e sched_world \<Rightarrow> bool" where
  "file_valid w \<longleftrightarrow> (case sw_file w of None \<Rightarrow> True | Some st \<Rightarrow> validate_state st = Inr ())"

abbreviation proper :: "('e, 'a) sstep \<Rightarrow> bool" where
  "proper \<equiv> preserves file_valid"

named_theorems proper_rules

lemmas [proper_rules] = preserves_ret preserves_bind preserves_handle

lemma proper_if [proper_rules]: "(c \<Longrightarrow> proper m) \<Longrightarrow> (\<not> c \<Longrightarrow> proper n) \<Longrightarrow> proper (if c then m else n)"
  by simp

lemma proper_cases [proper_rules]:
  "(x = None \<Longrightarrow> proper m) \<Longrightarrow> (\<And>y. x = Some y \<Longrightarrow> proper (f y)) \<Longrightarrow> proper (case x of None \<Rightarrow> m | Some y \<Rightarrow> f y)"
  "(\<And>a b. p = (a, b) \<Longrightarrow> proper (g a b)) \<Longrightarrow> proper (case p of (a, b) \<Rightarrow> g a b)"
  "(\<And>e. proper (h e)) \<Longrightarrow> (\<And>y. proper (k y)) \<Longrightarrow> proper (case r of Inl e \<Rightarrow> h e | Inr y \<Rightarrow> k y)"
  by (simp_all split: option.split prod.split sum.split)

lemma proper_attempt [proper_rules]: "proper m \<Longrightarrow> proper (attempt m)"
  unfolding attempt_def by (intro proper_rules)

lemma proper_quietly [proper_rules]: "proper m \<Longrightarrow> proper (attempt_quietly m)"
  unfolding attempt_quietly_def by (intro proper_rules)

lemma proper_modify [proper_rules]: "(\<And>w. sw_file (f w) = sw_file w) \<Longrightarrow> proper (smodify f)"
  by (auto simp: preserves_def file_valid_def)

lemma proper_basic [proper_rules]:
  "proper (now_iso ck)" "proper (elapsed_seconds ck v)" "proper load_state" "proper cur" "proper (fetch k)"
  "proper (set_cur st)" "proper (on_world n)" "proper failed_state"
  by (auto simp: preserves_def file_valid_def now_iso_def elapsed_seconds_def load_state_def cur_def fetch_def
      set_cur_def on_world_def failed_state_def split: option.splits prod.splits)

lemma proper_on_cur [proper_rules]: "proper (on_cur f)"
  unfolding on_cur_def by (intro proper_rules)

lemma proper_put [proper_rules]: "proper (put k v)" "proper (set_default k v)"
  unfolding put_def set_default_def by (intro proper_rules)+

text \<open>A save writes a validated copy or nothing.\<close>

lemma proper_save_state [proper_rules]: "proper (save_state ck st)"
proof (unfold preserves_def, intro allI impI)
  fix w :: "'a sched_world"
  assume "file_valid w"
  moreover obtain r w' where save: "save_state ck st w = (r, w')" by fastforce
  moreover have "validate_state (dset ''updated_at'' (JStr t) st) = Inr ()" if "sw_file w' = Some (dset ''updated_at'' (JStr t) st)"
      "sw_file w' \<noteq> sw_file w" for t
    using save that
    by (auto simp: save_state_def sbind_apply now_iso_def Let_def store_save_def split: sum.splits option.splits prod.splits)
  ultimately show "file_valid (snd (save_state ck st w))"
    using save_state_effect [OF save] by (cases "sw_file w' = sw_file w") (auto simp: file_valid_def)
qed

lemma proper_saves [proper_rules]: "proper (save_cur ck)" "proper (save_and_load ck)"
  unfolding save_and_load_def save_cur_def by (intro proper_rules)+

lemma proper_events [proper_rules]: "proper (append_event ck type body)" "proper (add_event sc type ev)"
    "proper (transition_event sc type source target)" "proper (record_hook ck type ev)"
  unfolding append_event_def add_event_def transition_event_def record_hook_def
  by (intro proper_rules; simp add: store_append_def)+

lemma proper_trace [proper_rules]: "proper (emit_trace type body phase)" "proper (trace_state source target)"
    "proper workspace_of" "proper (logged_field sc k type)"
  unfolding emit_trace_def trace_state_def workspace_of_def logged_field_def add_event_def
  by (intro proper_rules; simp)+

section \<open>Hooks\<close>

lemma proper_hooks [proper_rules]:
  "proper (on_budget_check pr)" "proper (before_step pr)" "proper (before_new_round pr)" "proper (on_error pr e)"
  "proper (before_route pr)" "proper (after_route pr)" "proper (on_human_approval_required pr)" "proper (on_stall pr why)"
  "proper (before_transition pr source target)" "proper (after_transition pr source target)"
  "proper (before_agent_run pr agent)" "proper (after_agent_run pr agent)" "proper (on_profile_confirmed pr p)"
  "proper (after_validation pr a)" "proper (before_memory_update pr)" "proper (after_memory_update pr a)"
  "proper (on_artifact_changed pr before after)"
  unfolding before_step_def before_new_round_def on_budget_check_def budget_pause_def on_phase_timeout_def
    on_heartbeat_missing_def on_error_def on_recovery_def before_route_def after_route_def on_low_confidence_route_def
    on_human_approval_required_def on_stall_def before_transition_def after_transition_def transition_hook_def
    before_agent_run_def after_agent_run_def agent_hook_def on_profile_confirmed_def after_validation_def
    before_memory_update_def after_memory_update_def on_artifact_changed_def Let_def
  by (intro proper_rules)+

lemma proper_apply [proper_rules]: "proper (apply_hook_result pr failed r)"
  unfolding apply_hook_result_def by (cases "hr_action r") (auto intro!: proper_rules)

lemma proper_hooked [proper_rules]: "proper m \<Longrightarrow> proper (apply_hook sc m)"
  unfolding apply_hook_def hooked_def by (intro proper_rules)

section \<open>Actions\<close>

lemma proper_acceptance [proper_rules]:
  "proper (sync_acceptance_baseline sc)" "proper (observe sc changed s t failure)" "proper store_sequence"
  "proper (refresh_acceptance sc context failure)" "proper (record_score_acceptance_failure sc score)"
  "proper (record_acceptance_repair_round sc)"
  unfolding sync_acceptance_baseline_def refresh_acceptance_def record_score_acceptance_failure_def observe_def
    store_sequence_def record_acceptance_repair_round_def Let_def
  by (intro proper_rules)+

lemma proper_turns [proper_rules]:
  "proper (goto phase)" "proper goto_contract_or_build" "proper next_round"
  "proper (record_round_failure_evidence sc planned goal)" "proper (schedule_acceptance_retry sc action)"
  "proper (set_next_after_build sc)" "proper (set_next_after_evaluate sc)"
  unfolding goto_def goto_contract_or_build_def next_round_def record_round_failure_evidence_def
    schedule_acceptance_retry_def set_next_after_build_def set_next_after_evaluate_def set_next_without_evaluator_def
    set_next_after_acceptance_evaluate_def set_next_after_score_def unless_halted_def is_halted_def
    goto_contract_or_build_def goto_def next_round_def Let_def
  by (intro proper_rules)+

lemma proper_route [proper_rules]: "proper (route_action sc)"
  unfolding route_action_def announce_route_def record_route_def ask_confirmation_def accept_route_def close_transition_def
  by (intro proper_rules)+

lemma proper_phase [proper_rules]: "proper (run_phase sc phase agent)"
  unfolding run_phase_def begin_phase_def announce_phase_def call_phase_def end_phase_def enforce_artifact_scope_def
    check_phase_def
  by (intro proper_rules; simp)

lemma proper_analyze [proper_rules]: "proper (analyze_action sc)"
  unfolding analyze_action_def cleanup_run_processes_def final_analysis_def set_final_status_def close_run_def
    summarize_acceptance_def update_memory_def Let_def
  by (intro proper_rules)

lemma proper_action [proper_rules]: "proper (execute_step_action sc a)"
  unfolding execute_step_action_def by (intro proper_rules)

section \<open>Steps and commands\<close>

lemma proper_failure [proper_rules]: "proper (handle_step_failure sc a e)"
  unfolding handle_step_failure_def cleanup_run_processes_def try_salvage_def salvage_def recover_action_def
    record_action_failure_def report_failure_def after_retry_def
  by (intro proper_rules)

lemma proper_perform [proper_rules]: "proper (perform sc red)"
  unfolding perform_def reconcile_acceptance_transition_def Let_def
  by (cases "rn_effect red") (auto intro!: proper_rules)

lemma proper_drive: "proper (drive n sc red)"
  by (induction n arbitrary: red) (auto intro!: proper_rules)

lemma proper_step: "proper (step_once sc)"
  unfolding step_once_def execute_def by (intro proper_rules proper_drive)

lemma proper_commands:
  "proper (confirm_profile pr profile)" "proper (approve_human_action pr who)" "proper (set_active pr active)"
  unfolding confirm_profile_def approve_human_action_def set_active_def Let_def by (intro proper_rules)+

end
