(* ===== verification/Scheduler_Approvals.thy ===== *)
theory Scheduler_Approvals
  imports Scheduler_Loop
begin

text \<open>
  Runs that wait for a human: a step leaves the agents and the workspace alone, and what the
  approval of the user brings back.
\<close>

section \<open>Silent steps\<close>

text \<open>A silent step does not act on the agents or the workspace.\<close>

definition untouched :: "'e sched_world \<Rightarrow> 'e sched_world \<Rightarrow> bool" where
  "untouched w w' \<longleftrightarrow> sw_ext w' = sw_ext w"

abbreviation silent :: "('e, 'a) sstep \<Rightarrow> bool" where
  "silent \<equiv> keeps untouched"

interpretation uf: frame untouched
  by unfold_locales (auto simp: untouched_def)

named_theorems silent_rules

lemmas [silent_rules] = uf.keeps_ret uf.keeps_bind uf.keeps_handle uf.keeps_quietly frame_if frame_cases

lemma silent_modify [silent_rules]: "(\<And>w. sw_ext (f w) = sw_ext w) \<Longrightarrow> silent (smodify f)"
  by (simp add: keeps_def untouched_def)

lemma silent_basic [silent_rules]:
  "silent (now_iso ck)" "silent load_state" "silent cur" "silent (fetch k)" "silent (set_cur st)"
  by (auto simp: keeps_def untouched_def now_iso_def load_state_def cur_def fetch_def set_cur_def split: option.splits)

lemma silent_save_state [silent_rules]: "silent (save_state ck st)"
  unfolding save_state_def Let_def by (intro silent_rules) (simp_all add: store_save_def)

lemma silent_files [silent_rules]: "silent (save_cur ck)" "silent (save_and_load ck)"
  "silent (append_event ck type body)" "silent (record_hook ck type ev)" "silent (put k v)"
  unfolding save_and_load_def save_cur_def append_event_def record_hook_def on_cur_def put_def
  by (intro silent_rules; simp add: store_append_def)+

lemma silent_emit [silent_rules]: "silent (emit_trace type body phase)"
  unfolding emit_trace_def workspace_of_def by (intro silent_rules) simp

lemma silent_apply [silent_rules]: "silent (apply_hook_result pr failed r)"
  unfolding apply_hook_result_def on_cur_def by (cases "hr_action r") (auto intro!: silent_rules)

lemma silent_approval [silent_rules]: "silent (apply_hook sc (on_human_approval_required pr))"
  unfolding apply_hook_def hooked_def on_human_approval_required_def by (intro silent_rules)

section \<open>Waiting for an approval\<close>

definition awaiting :: "obj \<Rightarrow> bool" where
  "awaiting st \<longleftrightarrow> truthy (jget st ''requires_human_approval'') \<and>
     (case dget st ''human_approval'' (JObj []) of JObj a \<Rightarrow> \<not> truthy (jget a ''approved'') | _ \<Rightarrow> False)"

definition waiting :: "obj \<Rightarrow> bool" where
  "waiting st \<longleftrightarrow> jget st ''status'' = JStr ''waiting_approval'' \<and> jget st ''next_action'' = JNull \<and>
     jget st ''active'' = JBool False"

lemma awaiting_dset [simp]:
  "k \<noteq> ''requires_human_approval'' \<Longrightarrow> k \<noteq> ''human_approval'' \<Longrightarrow> awaiting (dset k v st) = awaiting st"
  by (simp add: awaiting_def jget_dset dget_def map_of_dset)

lemma awaiting_handled: "awaiting st \<Longrightarrow> reduce_ready_state st = Inr (reduction_of st HandleApproval)"
  by (auto simp: awaiting_def reduce_ready_state_def split: json.splits)

lemma emit_cur: "emit_trace type body phase w = (r, w') \<Longrightarrow> sw_cur w' = sw_cur w"
  by (auto simp: emit_trace_def workspace_of_def sbind_apply cur_def split: prod.splits sum.splits)

definition approval_path :: "step_effect set" where
  "approval_path = {StartTrace, SaveCheckpoint, SyncAcceptance, HandleApproval}"

lemma approval_waits:
  assumes "apply_hook sc (on_human_approval_required (sc_probe sc)) w = (Inr u, w')"
  shows "waiting (sw_cur w')"
proof -
  from assms obtain r w1 where hook: "on_human_approval_required (sc_probe sc) w = (Inr r, w1)"
    and app: "apply_hook_result (sc_probe sc) JNull r w1 = (Inr u, w')"
    by (auto simp: apply_hook_def hooked_def sbind_eq_Inr)
  from hook have r: "hr_action r = HConfirm"
      "hr_patch r = [(''requires_human_approval'', JBool True), (''status'', JStr ''waiting_approval'')]"
    by (auto simp: on_human_approval_required_def sbind_eq_Inr)
  let ?st = "merge_patch (sw_cur w1) (hr_patch r)"
  from app r obtain x w2 where log: "append_event (pr_clock (sc_probe sc)) ''hook_action'' x (w1\<lparr>sw_cur := ?st\<rparr>) = (Inr (), w2)"
    and rest: "sbind (put ''active'' (JBool False)) (\<lambda>_. sbind (fetch ''requires_human_approval'') (\<lambda>approval.
       sbind (if truthy approval then put ''status'' (JStr ''waiting_approval'')
              else sbind (put ''requires_confirmation'' (JBool True)) (\<lambda>_. put ''status'' (JStr ''waiting_confirmation''))) (\<lambda>_.
       put ''next_action'' JNull))) w2 = (Inr u, w')"
    by (auto simp: apply_hook_result_def sbind_eq_Inr on_cur_Inr)
  have "jget ?st ''requires_human_approval'' = JBool True"
    by (simp add: r(2) merge_patch_def merge_entry_def jget_dset split: json.splits)
  moreover from log have "jget (sw_cur w2) ''requires_human_approval'' = jget ?st ''requires_human_approval''"
    by (auto simp: append_event_def sbind_eq_Inr now_iso_def on_cur_Inr append_event_at_def jget_dset split: json.splits)
  ultimately show ?thesis
    using rest by (auto simp: sbind_eq_Inr put_Inr fetch_Inr jget_dset waiting_def split: if_splits)
qed

lemma waiting_control: "same_control a b \<Longrightarrow> waiting a \<Longrightarrow> waiting b"
  using same_fields_jget [of control_keys a b] by (simp add: waiting_def control_keys_def driving_keys_def)

lemma perform_silent:
  assumes "rn_effect red \<in> approval_path" and "\<not> sc_acceptance sc"
  shows "silent (perform sc red)"
  using assms unfolding approval_path_def perform_def Let_def
  by (auto intro!: silent_rules)

lemma perform_awaiting:
  assumes "perform sc red w = (Inr x, w')" and "awaiting (rn_state red)" and "rn_effect red \<in> approval_path"
    and "\<not> sc_acceptance sc"
  shows "case x of Inr red' \<Rightarrow> awaiting (rn_state red') \<and> rn_effect red' \<in> approval_path
    | Inl st \<Rightarrow> waiting st \<and> sw_file w' = Some st"
proof -
  let ?w = "w\<lparr>sw_cur := rn_state red\<rparr>"
  from assms(3) consider "rn_effect red = StartTrace" | "rn_effect red = SaveCheckpoint" | "rn_effect red = SyncAcceptance"
    | "rn_effect red = HandleApproval" by (auto simp: approval_path_def)
  then show ?thesis
  proof cases
    case 1
    with assms(1) obtain y w1 where "emit_trace ''run_started'' y JNull ?w = (Inr (), w1)"
      and "x = Inr (reduction_of (dset ''canonical_trace_started'' (JBool True) (sw_cur w1)) SaveCheckpoint)"
      by (auto simp: perform_def Let_def sbind_eq_Inr set_cur_Inr cur_Inr reduce_step_def)
    then show ?thesis using emit_cur assms(2) by (fastforce simp: reduction_of_def approval_path_def)
  next
    case 2
    with assms(1) obtain w1 where "save_cur (sc_clock sc) ?w = (Inr (), w1)" "x = Inr (reduction_of (sw_cur w1) SyncAcceptance)"
      by (auto simp: perform_def Let_def sbind_eq_Inr set_cur_Inr cur_Inr reduce_step_def)
    then show ?thesis using save_cur_effect assms(2) by (fastforce simp: reduction_of_def approval_path_def)
  next
    case 3
    with assms(1,4) have "\<exists>red'. x = Inr red' \<and> reduce_ready_state (rn_state red) = Inr red'"
      by (auto simp: perform_def Let_def sbind_eq_Inr set_cur_Inr cur_Inr reduce_step_def)
    then show ?thesis using awaiting_handled assms(2) by (auto simp: reduction_of_def approval_path_def)
  next
    case 4
    with assms(1) obtain st w1 where hook: "apply_hook sc (on_human_approval_required (sc_probe sc)) ?w = (Inr (), w1)"
      and save: "save_and_load (sc_clock sc) w1 = (Inr st, w')" and "x = Inl st"
      by (auto simp: perform_def Let_def sbind_eq_Inr set_cur_Inr)
    then show ?thesis using waiting_control [OF _ approval_waits [OF hook]] save_and_load_effect [OF save] by auto
  qed
qed

lemma drive_awaiting:
  assumes "drive n sc red w = (r, w')" and "awaiting (rn_state red)" and "rn_effect red \<in> approval_path"
    and "\<not> sc_acceptance sc"
  shows "sw_ext w' = sw_ext w \<and> (\<forall>st. r = Inr (Some st) \<longrightarrow> waiting st \<and> sw_file w' = Some st)"
  using assms(1-3)
proof (induction n arbitrary: red w)
  case (Suc n)
  obtain x w1 where x: "perform sc red w = (x, w1)" by fastforce
  have ext: "sw_ext w1 = sw_ext w"
    using keepsD [OF perform_silent [OF Suc.prems(3) assms(4)] x] by (simp add: untouched_def)
  show ?case
  proof (cases x)
    case (Inl e)
    with Suc.prems(1) x ext show ?thesis by (auto simp: sbind_apply)
  next
    case (Inr y)
    note after = perform_awaiting [OF x [unfolded Inr] Suc.prems(2,3) assms(4)]
    show ?thesis
    proof (cases y)
      case (Inl st)
      with Suc.prems(1) x Inr ext after show ?thesis by (auto simp: sbind_apply)
    next
      case (Inr red')
      with Suc.prems(1) x \<open>x = Inr y\<close> have "drive n sc red' w1 = (r, w')" by (simp add: sbind_apply)
      with Suc.IH [OF this] after Inr ext show ?thesis by auto
    qed
  qed
qed auto

lemma step_awaiting:
  assumes "step_once sc w = (r, w')" and "sw_file w = Some st" and "awaiting st" and "\<not> sc_acceptance sc"
  shows "sw_ext w' = sw_ext w \<and> (\<forall>st'. r = Inr (Some st') \<longrightarrow> waiting st' \<and> sw_file w' = Some st')"
proof (cases "validate_state st")
  case (Inl e)
  with assms(1,2) show ?thesis by (auto simp: step_once_def load_state_def sbind_apply)
next
  case (Inr u)
  let ?red = "reduction_of st (if truthy (jget st ''canonical_trace_started'') then SyncAcceptance else StartTrace)"
  from Inr assms(1,2) have "drive 7 sc ?red w = (r, w')"
    by (simp add: step_once_def execute_def load_state_def sbind_apply reduce_step_def)
  from drive_awaiting [OF this] assms(3,4) show ?thesis by (simp add: reduction_of_def approval_path_def)
qed

text \<open>Approving a waiting run makes it active again, but the action it was about to take is gone.\<close>

lemma approve_effect:
  assumes "approve_human_action pr who w = (Inr st', w')" and "sw_file w = Some st" and "waiting st"
  shows "jget st' ''next_action'' = JNull \<and> jget st' ''status'' = JStr ''running'' \<and> jget st' ''active'' = JBool True"
proof -
  from assms(1,2) obtain a v w1 w2 where
      log: "append_event (pr_clock pr) ''human_approved'' a w1 = (Inr (), w2)" "save_and_load (pr_clock pr) w2 = (Inr st', w')"
    and w1: "sw_cur w1 = dset ''active'' (JBool True) (dset ''status'' (JStr ''running'')
      (dset ''requires_human_approval'' (JBool False) (dset ''human_approval'' v st)))"
    using assms(3)
    by (auto simp: approve_human_action_def sbind_eq_Inr load_state_def result_simps set_cur_Inr put_Inr Let_def
        now_iso_def waiting_def jget_dset split: if_splits)
  have same: "same_control (sw_cur w1) st'"
    using same_fields_trans [OF calmD [OF calm_append_event log(1)]] save_and_load_effect [OF log(2)] by blast
  show ?thesis
    using same_fields_jget [OF same, of "''next_action''"] same_fields_jget [OF same, of "''status''"]
      same_fields_jget [OF same, of "''active''"] assms(3)
    by (simp add: w1 jget_dset control_keys_def driving_keys_def waiting_def)
qed

end
