(* ===== verification/Scheduler_Verdict.thy ===== *)
theory Scheduler_Verdict
  imports Scheduler_Loop
begin

text \<open>
  The verdict of a run. Once the analysis has decided, nothing it still does (summary, events, hooks,
  memory) touches the verdict or the evidence it rests on.
\<close>

section \<open>The evidence\<close>

definition verdict_inputs :: "string list" where
  "verdict_inputs =
     [''acceptance_decision'', ''validation'', ''score_history'', ''profile'', ''prompt'', ''task_id'',
      ''evaluation_skipped'', ''time_allocation'']"

definition verdict_keys :: "string list" where
  "verdict_keys = ''status'' # ''validated'' # verdict_inputs"

lemma agrees_jget: "agrees ks a b \<Longrightarrow> k \<in> set ks \<Longrightarrow> jget b k = jget a k"
  and agrees_jindex: "agrees ks a b \<Longrightarrow> k \<in> set ks \<Longrightarrow> jindex b k = jindex a k"
  by (simp_all add: agrees_def jget_def dget_def jindex_def)

lemma agrees_dset: "k \<notin> set ks \<Longrightarrow> agrees ks st (dset k v st)"
  by (auto simp: agrees_def map_of_dset)

lemma agrees_refl [simp]: "agrees ks a a"
  and agrees_trans: "agrees ks a b \<Longrightarrow> agrees ks b c \<Longrightarrow> agrees ks a c"
  and agrees_sym: "agrees ks a b \<Longrightarrow> agrees ks b a"
  and agrees_mono: "agrees ks a b \<Longrightarrow> set ls \<subseteq> set ks \<Longrightarrow> agrees ls a b"
  by (auto simp: agrees_def)

text \<open>Whether the task was solved depends on the evidence alone.\<close>

lemma task_success_same:
  assumes "agrees verdict_inputs a b"
  shows "task_success sc b = task_success sc a"
proof -
  have same: "jget b k = jget a k" "jindex b k = jindex a k" if "k \<in> set verdict_inputs" for k
    using agrees_jget [OF assms that] agrees_jindex [OF assms that] by simp_all
  have "scores_of b = scores_of a" "score_passes sc b = score_passes sc a"
    by (simp_all add: same verdict_inputs_def score_passes_def last_score_def scores_of_def pass_threshold_def
        cong: option.case_cong)
  moreover have "acceptance_evaluator_required sc b = acceptance_evaluator_required sc a"
    by (simp add: same verdict_inputs_def acceptance_evaluator_required_def profile_evaluates_def
        cong: option.case_cong json.case_cong sum.case_cong)
  moreover have "decision_action b = decision_action a" "sub_field b ''validation'' f = sub_field a ''validation'' f" for f
    by (simp_all add: same verdict_inputs_def decision_action_def sub_field_def)
  ultimately show ?thesis by (simp add: task_success_def cong: if_cong)
qed

section \<open>Steps that leave it alone\<close>

definition held :: "'e sched_world \<Rightarrow> 'e sched_world \<Rightarrow> bool" where
  "held w w' \<longleftrightarrow> agrees verdict_keys (sw_cur w) (sw_cur w')"

interpretation hf: frame held
  by unfold_locales (auto simp: held_def intro: agrees_trans)

abbreviation leaves_verdict :: "('e, 'a) sstep \<Rightarrow> bool" where
  "leaves_verdict \<equiv> keeps held"

named_theorems held_rules

lemmas [held_rules] = hf.keeps_ret hf.keeps_bind hf.keeps_handle hf.keeps_quietly frame_if frame_cases

lemma held_basic [held_rules]:
  "leaves_verdict (now_iso ck)" "leaves_verdict load_state" "leaves_verdict cur" "leaves_verdict (fetch k)"
  "leaves_verdict (on_world m)"
  by (auto simp: keeps_def held_def now_iso_def load_state_def cur_def fetch_def on_world_def
      split: option.splits prod.splits)

lemma held_modify [held_rules]: "(\<And>w. sw_cur (f w) = sw_cur w) \<Longrightarrow> leaves_verdict (smodify f)"
  by (simp add: keeps_def held_def)

lemma held_on_cur [held_rules]:
  assumes "\<And>st st'. f st = Inr st' \<Longrightarrow> agrees verdict_keys st st'"
  shows "leaves_verdict (on_cur f :: ('e, unit) sstep)"
proof -
  have "held w (snd (on_cur f w))" for w :: "'e sched_world"
    using assms [of "sw_cur w"]
    by (cases "f (sw_cur w)") (auto simp: on_cur_def cur_def set_cur_def sbind_apply held_def)
  then show ?thesis by (simp add: keeps_def)
qed

lemma held_put [held_rules]: "k \<notin> set verdict_keys \<Longrightarrow> leaves_verdict (put k v)"
  unfolding put_def by (rule held_on_cur) (auto intro: agrees_dset)

lemma held_log [held_rules]:
  "leaves_verdict (append_event ck type body)" "leaves_verdict (add_event sc type bodies)"
  unfolding add_event_def append_event_def
  by (intro held_rules;
      auto simp: append_event_at_def verdict_keys_def verdict_inputs_def agrees_def map_of_dset split: json.splits)+

lemma held_save [held_rules]: "leaves_verdict (save_state ck st)"
  unfolding save_state_def Let_def by (intro held_rules) (simp_all add: store_save_def)

lemma held_record [held_rules]: "leaves_verdict (record_hook ck type body)"
  unfolding record_hook_def by (intro held_rules) (simp_all add: store_append_def)

lemma held_emit [held_rules]: "leaves_verdict (emit_trace type body phase)" "leaves_verdict workspace_of"
  unfolding emit_trace_def workspace_of_def by (intro held_rules; simp)+

section \<open>Hooks after the verdict\<close>

definition harmless :: "hook_result \<Rightarrow> bool" where
  "harmless r \<longleftrightarrow> hr_action r = HContinue \<and> (\<forall>k\<in>fst ` set (hr_patch r). k \<notin> set verdict_keys)"

lemma merge_patch_agrees: "\<forall>k\<in>fst ` set patch. k \<notin> set ks \<Longrightarrow> agrees ks st (merge_patch st patch)"
proof (induction patch arbitrary: st)
  case (Cons kv patch)
  have "agrees ks st (merge_entry st kv)"
    using Cons.prems by (auto simp: merge_entry_def intro: agrees_dset split: json.splits)
  then show ?case
    using Cons agrees_trans [of ks st "merge_entry st kv"] by (simp add: merge_patch_def)
qed (simp add: merge_patch_def)

lemma held_apply:
  assumes "leaves_verdict m" and "yields harmless m"
  shows "leaves_verdict (apply_hook sc m)"
proof -
  have "leaves_verdict (apply_hook_result (sc_probe sc) JNull r)" if "harmless r" for r
    using that unfolding apply_hook_result_def harmless_def
    by (intro held_rules) (auto intro: merge_patch_agrees)
  with assms show ?thesis
    unfolding apply_hook_def hooked_def keeps_def yields_def sbind_apply
    by (auto split: prod.splits sum.splits simp: held_def) (metis agrees_trans snd_conv)+
qed

lemma held_memory_hooks [held_rules]:
  "leaves_verdict (apply_hook sc (before_memory_update pr))"
  "leaves_verdict (apply_hook sc (after_memory_update pr analysis))"
  unfolding before_memory_update_def after_memory_update_def
  by (intro held_apply held_rules;
      auto intro!: yields_bind yields_ret simp: harmless_def hook_def verdict_keys_def verdict_inputs_def)+

lemma held_close_run: "leaves_verdict (close_run sc ok analysis)"
  unfolding close_run_def summarize_acceptance_def update_memory_def Let_def
  by (intro held_rules) (simp_all add: verdict_keys_def verdict_inputs_def)

section \<open>The verdict\<close>

lemma set_final_status_agrees:
  "set_final_status sc ok w = (Inr u, w') \<Longrightarrow> agrees verdict_inputs (sw_cur w) (sw_cur w')"
  by (auto simp: set_final_status_def sbind_eq_Inr put_Inr fetch_Inr verdict_inputs_def agrees_def map_of_dset split: if_splits)

text \<open>A run that was analysed is completed exactly when the evidence in its final state proves the task solved.\<close>

theorem analyze_verdict:
  assumes "analyze_action sc w = (Inr u, w')"
  shows "\<exists>ok. task_success sc (sw_cur w') = Inr ok \<and>
    jget (sw_cur w') ''status'' = JStr (if ok then ''completed'' else ''error'')"
proof -
  from assms obtain ok analysis x st w0 w1 w2 where cur: "cur w0 = (Inr st, w0)" "slift (task_success sc st) w0 = (Inr ok, w1)"
    and final: "set_final_status sc ok w1 = (Inr x, w2)" and rest: "close_run sc ok analysis w2 = (Inr u, w')"
    unfolding analyze_action_def sbind_eq_Inr by (auto simp: cur_Inr)
  have "held w2 w'" by (rule keepsD [OF held_close_run rest])
  then have inputs: "agrees verdict_inputs (sw_cur w2) (sw_cur w')" and status: "jget (sw_cur w') ''status'' = jget (sw_cur w2) ''status''"
    using agrees_mono [of verdict_keys _ _ verdict_inputs] agrees_jget [of verdict_keys _ _ "''status''"]
    by (auto simp: held_def verdict_keys_def)
  have "task_success sc (sw_cur w') = task_success sc st"
    using task_success_same [OF agrees_trans [OF set_final_status_agrees [OF final] inputs]] cur by (auto simp: cur_Inr)
  then show ?thesis
    using cur(2) final_status_effect [OF final] status by auto
qed

end
