(* ===== verification/Strategy.thy ===== *)
theory Strategy
  imports Scheduler
begin

text \<open>
  \<open>orchestrator/strategy.py\<close>: which historical hints reach a prompt, and how they are worded;
  and \<open>render_retry_context\<close> of \<open>orchestrator/failure_evidence.py\<close>.
\<close>

section \<open>Selection\<close>

definition allowed_reasons :: "string \<Rightarrow> string list" where
  "allowed_reasons phase =
     (if phase = ''builder'' then
        [''tool_missing'', ''timeout'', ''browser_unavailable'', ''agent_stalled'', ''tests_failed'', ''low_score'']
      else if phase = ''evaluator'' then [''browser_unavailable'', ''tests_failed'', ''low_score'']
      else [])"

text \<open>\<open>state.get(k) or (state.get("route_decision") or {}).get(k)\<close>, where the decision has to be a mapping.\<close>

definition routed :: "obj \<Rightarrow> string \<Rightarrow> json result" where
  "routed st k = (if truthy (jget st k) then Inr (jget st k) else sub_field st ''route_decision'' k)"

definition hint_confidence :: "obj \<Rightarrow> rat result" where
  "hint_confidence h = py_float (py_or (dget h ''confidence'' (JFloat 0)) (JFloat 0))"

definition differs :: "json \<Rightarrow> json \<Rightarrow> bool" where
  "differs v w \<longleftrightarrow> truthy v \<and> truthy w \<and> \<not> py_eq v w"

definition hint_selected :: "'e probe \<Rightarrow> string \<Rightarrow> json \<Rightarrow> json \<Rightarrow> obj \<Rightarrow> bool result" where
  "hint_selected pr phase task_type profile h =
     rbind (hint_confidence h) (\<lambda>c.
     if differs (jget h ''profile'') profile \<or> differs (jget h ''task_type'') task_type then Inr False
     else
       rbind (in_strings (allowed_reasons phase) (jget h ''failure_reason'')) (\<lambda>known.
       if \<not> known \<or> c < 3 / 4 then Inr False
       else rbind (shown pr (dget h ''hint'' (JStr []))) (\<lambda>t. Inr (\<not> py_blank t))))"

text \<open>Only mappings are hints; the order of the survivors is kept.\<close>

fun selected_hints :: "'e probe \<Rightarrow> string \<Rightarrow> json \<Rightarrow> json \<Rightarrow> json list \<Rightarrow> (rat \<times> obj) list result" where
  "selected_hints pr phase task_type profile [] = Inr []"
| "selected_hints pr phase task_type profile (JObj h # raw) =
     rbind (hint_selected pr phase task_type profile h) (\<lambda>keep.
     rbind (hint_confidence h) (\<lambda>c.
     rbind (selected_hints pr phase task_type profile raw) (\<lambda>rest.
     Inr (if keep then (c, h) # rest else rest))))"
| "selected_hints pr phase task_type profile (_ # raw) = selected_hints pr phase task_type profile raw"

definition select_strategy_hints_for_phase :: "'e probe \<Rightarrow> obj \<Rightarrow> string \<Rightarrow> obj list result" where
  "select_strategy_hints_for_phase pr st phase =
     (if allowed_reasons phase = [] then Inr []
      else
        rbind (as_mapping (py_or (jget st ''route_decision'') (JObj []))) (\<lambda>_.
        rbind (routed st ''task_type'') (\<lambda>task_type.
        rbind (routed st ''profile'') (\<lambda>profile.
        rbind (routed st ''strategy_hints'') (\<lambda>raw.
        rbind (list_or_empty raw) (\<lambda>hints.
        rbind (selected_hints pr phase task_type profile hints) (\<lambda>chosen.
        Inr (take 2 (map snd (sort_key (\<lambda>x. - fst x) chosen))))))))))"

section \<open>Wording\<close>

definition hint_line :: "'e probe \<Rightarrow> obj \<Rightarrow> string result" where
  "hint_line pr h =
     rbind (shown pr (dget h ''failure_reason'' (JStr ''pattern''))) (\<lambda>reason.
     rbind (hint_confidence h) (\<lambda>c.
     rbind (shown pr (dget h ''hint'' (JStr []))) (\<lambda>t.
     Inr (''- ['' @ reason @ '', confidence '' @ pr_format pr ''.2f'' c @ ''] '' @ py_strip t))))"

definition format_strategy_hints_for_prompt :: "'e probe \<Rightarrow> obj list \<Rightarrow> string result" where
  "format_strategy_hints_for_prompt pr hints =
     (if hints = [] then Inr []
      else rbind (rmap (hint_line pr) hints) (\<lambda>ls.
        Inr (join_lines
          ([''Historical strategy hints (advisory only):'',
            ''- Current task requirements, actual tool results, and existing project files take priority.'',
            ''- Use these hints to avoid repeated historical failure patterns; do not treat them as hard constraints.'']
           @ ls))))"

definition blank_line :: string where
  "blank_line = [CHR 0x0A, CHR 0x0A]"

definition append_strategy_hints_to_prompt :: "'e probe \<Rightarrow> string \<Rightarrow> obj \<Rightarrow> string \<Rightarrow> string result" where
  "append_strategy_hints_to_prompt pr prompt st phase =
     rbind (select_strategy_hints_for_phase pr st phase) (\<lambda>hints.
     rbind (format_strategy_hints_for_prompt pr hints) (\<lambda>block.
     Inr (if block = [] then prompt else py_rstrip prompt @ blank_line @ block)))"

section \<open>Retry context\<close>

definition retry_advice :: "json \<Rightarrow> string list" where
  "retry_advice strategy =
     (if strategy = JStr ''reinspect_assumptions'' then
        [''- Do not repeat the previous repair path unchanged.'',
         ''- Reinspect the relevant implementation, tests, and assumptions before editing.'']
      else if strategy = JStr ''escalate_analysis'' then
        [''- Stop repeating the same fix path.'',
         ''- Broaden inspection through the existing analyze/recovery path and verify the root cause before editing.'']
      else [])"

text \<open>\<open>dump\<close> is the indented JSON text of the evidence.\<close>

definition render_retry_context :: "'e probe \<Rightarrow> (obj \<Rightarrow> string) \<Rightarrow> obj \<Rightarrow> string \<Rightarrow> string result" where
  "render_retry_context pr dump st feedback =
     rbind (as_mapping (py_or (jget st ''current_failure_evidence'') (JObj []))) (\<lambda>ev.
     if ev = [] then Inr feedback
     else
       rbind (shown pr (dget ev ''recovery_strategy'' (JStr ''targeted_fix''))) (\<lambda>strategy.
       rbind (shown pr (dget ev ''retry_goal'' (JStr ''Fix the current failure and verify the task.''))) (\<lambda>goal.
       Inr (join_lines
         ([''# Evidence-Guided Recovery'', [],
           ''Use this targeted retry context instead of replaying old logs.'', [],
           ''## Current Failure Evidence'', ''```json'', dump ev, ''```'', [],
           ''## Repair Instructions'', ''- Recovery strategy: '' @ strategy, ''- Retry goal: '' @ goal,
           ''- Focus first on suspected_files and recent_changed_files.'',
           ''- Do not reintroduce already-resolved failures or copy large historical logs into your reasoning.'']
          @ retry_advice (jget ev ''recovery_strategy'')
          @ (if feedback = [] then []
             else [[], ''## Latest Feedback Excerpt'', trim_text feedback 1200])) @ [CHR 0x0A]))))"

section \<open>Laws\<close>

text \<open>A hint that is selected is confident, allowed for the phase, and meant for the task and profile.\<close>

lemma hint_selected_True:
  assumes "hint_selected pr phase task_type profile h = Inr True"
  shows "(\<exists>c. hint_confidence h = Inr c \<and> 3 / 4 \<le> c) \<and>
    (\<exists>r. jget h ''failure_reason'' = JStr r \<and> r \<in> set (allowed_reasons phase)) \<and>
    \<not> differs (jget h ''profile'') profile \<and> \<not> differs (jget h ''task_type'') task_type"
  using assms
  by (auto simp: hint_selected_def in_strings_def result_simps split: if_splits json.splits)

lemma selected_hints_selected:
  "selected_hints pr phase task_type profile raw = Inr chosen \<Longrightarrow> (c, h) \<in> set chosen \<Longrightarrow>
     hint_selected pr phase task_type profile h = Inr True"
  by (induction pr phase task_type profile raw arbitrary: chosen rule: selected_hints.induct)
    (auto simp: result_simps split: if_splits)

lemma selected_hints_confidence:
  "selected_hints pr phase task_type profile raw = Inr chosen \<Longrightarrow> (c, h) \<in> set chosen \<Longrightarrow> hint_confidence h = Inr c"
  by (induction pr phase task_type profile raw arbitrary: chosen rule: selected_hints.induct)
    (auto simp: result_simps split: if_splits)

end
