(* ===== verification/Phase_Runner.thy ===== *)
theory Phase_Runner
  imports Strategy Scheduler_Outcomes
begin

text \<open>
  \<open>HarnessPhaseRunner\<close> of \<open>orchestrator/scheduler.py\<close>: the plan, contract, build and evaluate phases
  as the scheduler calls them, and the division of the task's time between the agents. The agents,
  the profile's own rules and the workspace are fields of \<open>crew\<close>; the time budget middleware of the
  builder is part of the agents.
\<close>

section \<open>What the phases rely on\<close>

text \<open>An agent answers with anything (\<open>None\<close>) or with a native result: success, reason, iterations.\<close>

type_synonym reply = "(bool \<times> string \<times> int) option"

record 'e crew =
  cw_probe :: "'e probe"
  cw_acceptance :: bool
  cw_recovery :: bool
  cw_roles :: "string \<Rightarrow> string list"
  cw_allocation :: "string \<Rightarrow> json \<Rightarrow> json \<Rightarrow> obj result"
  cw_budget :: "string \<Rightarrow> json \<Rightarrow> json \<Rightarrow> json result"
  cw_elapsed :: "json \<Rightarrow> 'e \<Rightarrow> rat"
  cw_workspace :: "string \<Rightarrow> ('e, unit) step"
  cw_write_spec :: "string \<Rightarrow> string \<Rightarrow> ('e, unit) step"
  cw_feedback :: "string \<Rightarrow> 'e \<Rightarrow> string"
  cw_files :: "string \<Rightarrow> ('e, json list) step"
  cw_negotiate :: "string \<Rightarrow> obj \<Rightarrow> ('e, unit) step"
  cw_build_task :: "string \<Rightarrow> json \<Rightarrow> int \<Rightarrow> string \<Rightarrow> rat list \<Rightarrow> string"
  cw_extract_score :: "string \<Rightarrow> string \<Rightarrow> rat"
  cw_dump :: "obj \<Rightarrow> string"
  cw_stop_server :: "('e, unit) step"
  cw_run :: "string \<Rightarrow> string \<Rightarrow> rat option \<Rightarrow> string \<Rightarrow> string \<Rightarrow> obj \<Rightarrow> ('e, reply) step"

section \<open>Phase budgets\<close>

definition phase_agents :: "string list" where
  "phase_agents = [''planner'', ''builder'', ''evaluator'']"

text \<open>A fraction that is not a number counts as zero.\<close>

definition phase_fraction :: "obj \<Rightarrow> string \<Rightarrow> rat result" where
  "phase_fraction allocation phase =
     rbind (case py_float (dget allocation phase (JFloat 0)) of
              Inr x \<Rightarrow> Inr x
            | Inl e \<Rightarrow> if exc_name e \<in> {''TypeError'', ''ValueError''} then Inr 0 else Inl e) (\<lambda>x.
     Inr (if truthy (dget allocation (phase @ ''_enabled'') (JBool True)) then max 0 x else 0))"

definition agent_of_phase :: "string \<Rightarrow> string" where
  "agent_of_phase phase =
     (if phase = ''plan'' then ''planner'' else if phase = ''build'' then ''builder''
      else if phase = ''evaluate'' then ''evaluator'' else phase)"

text \<open>The current agent and those after it; all of them for another phase.\<close>

definition agents_from :: "string \<Rightarrow> string list" where
  "agents_from phase =
     (if agent_of_phase phase \<in> set phase_agents then dropWhile (\<lambda>p. p \<noteq> agent_of_phase phase) phase_agents
      else phase_agents)"

definition phase_budget :: "rat option \<Rightarrow> rat \<Rightarrow> string list \<Rightarrow> (string \<times> rat) list \<Rightarrow> string \<Rightarrow> rat" where
  "phase_budget remaining task_budget eligible fractions p =
     (let f = (case map_of fractions p of Some x \<Rightarrow> x | None \<Rightarrow> 0);
          portion = py_fsum (map snd (filter (\<lambda>x. fst x \<in> set eligible) fractions));
          whole = py_fsum (map snd fractions);
          scale = (if 1 < whole then fl (1 / whole) else 1) in
      case remaining of
        Some r \<Rightarrow> if p \<in> set eligible \<and> 0 < portion then fl (fl (max 0 r * f) / portion) else 0
      | None \<Rightarrow> if 0 < f then max 1 (fl (fl (task_budget * f) * scale)) else 0)"

definition apply_phase_budgets :: "string list \<Rightarrow> obj \<Rightarrow> rat \<Rightarrow> rat option \<Rightarrow> string \<Rightarrow> (string \<times> rat) list result" where
  "apply_phase_budgets roles allocation task_budget remaining phase =
     rbind (rmap (\<lambda>p. rbind (phase_fraction allocation p) (\<lambda>x. Inr (p, x))) phase_agents) (\<lambda>fractions.
     let eligible = filter (\<lambda>p. case map_of fractions p of Some x \<Rightarrow> 0 < x | None \<Rightarrow> False) (agents_from phase) in
     Inr (map (\<lambda>p. (p, phase_budget remaining task_budget eligible fractions p))
       (filter (\<lambda>p. p \<in> set roles) phase_agents)))"

section \<open>Preparation\<close>

text \<open>What \<open>_prepare\<close> hands to a phase: the profile, its agents, the allocation, the agents' budgets.\<close>

record harness =
  hn_profile :: string
  hn_roles :: "string list"
  hn_allocation :: obj
  hn_budgets :: "(string \<times> rat) list"

definition ensure_context :: "'e crew \<Rightarrow> obj \<Rightarrow> ('e, string) step" where
  "ensure_context cw st = slift (rbind (rbind (jindex st ''workspace'') path_text) (\<lambda>ws.
     rbind (jindex st ''run_id'') (\<lambda>_. Inr ws)))"

definition concrete_profile :: "'e crew \<Rightarrow> obj \<Rightarrow> string result" where
  "concrete_profile cw st =
     rbind (jindex st ''profile'') (\<lambda>p.
     rbind (in_strings valid_profiles p) (\<lambda>known.
     rbind (shown (cw_probe cw) p) (\<lambda>name.
     if known then Inr name
     else Inl (ValueError ''Cannot run phase without a concrete profile: {}'' [name]))))"

definition allocation_of :: "'e crew \<Rightarrow> string \<Rightarrow> obj \<Rightarrow> obj result" where
  "allocation_of cw profile st =
     (if truthy (jget st ''time_allocation'') then as_mapping (jget st ''time_allocation'')
      else rbind (jindex st ''prompt'') (\<lambda>p. cw_allocation cw profile p (jget st ''task_id'')))"

definition evaluator_on :: "string list \<Rightarrow> obj \<Rightarrow> bool" where
  "evaluator_on roles allocation \<longleftrightarrow>
     ''evaluator'' \<in> set roles \<and> truthy (dget allocation ''evaluator_enabled'' (JBool True))"

definition with_budget :: "'e crew \<Rightarrow> string list \<Rightarrow> obj \<Rightarrow> json \<Rightarrow> obj \<Rightarrow> ('e, obj \<times> (string \<times> rat) list) step" where
  "with_budget cw roles allocation task_budget st =
     (if task_budget = JNull then sret (st, [])
      else
        sbind (slift (py_float task_budget)) (\<lambda>b.
        if b \<le> 0 then
          sbind (slift (shown (cw_probe cw) (JFloat b))) (\<lambda>t. slift (Inl (ValueError ''Invalid task budget: {}'' [t])))
        else
          sbind (sread (cw_elapsed cw (jget st ''created_at''))) (\<lambda>spent.
          let left = max 0 (fl (b - max 0 spent)) in
          sbind (slift (shown (cw_probe cw) (py_or (jget st ''phase'') (py_or (jget st ''next_action'') (JStr []))))) (\<lambda>phase.
          sbind (slift (apply_phase_budgets roles allocation b (Some left) phase)) (\<lambda>budgets.
          sret (dset ''phase_budgets'' (JObj (map (\<lambda>x. (fst x, JFloat (snd x))) budgets))
                  (dset ''remaining_task_budget_seconds'' (JFloat left) (dset ''task_budget_seconds'' (JFloat b) st)),
                budgets))))))"

definition prepare :: "'e crew \<Rightarrow> obj \<Rightarrow> ('e, harness \<times> obj) step" where
  "prepare cw st =
     sbind (slift (concrete_profile cw st)) (\<lambda>profile.
     sbind (ensure_context cw st) (\<lambda>ws.
     sbind (cw_workspace cw ws) (\<lambda>_.
     sbind (slift (allocation_of cw profile st)) (\<lambda>allocation.
     sbind (slift (rbind (jindex st ''prompt'') (\<lambda>p. cw_budget cw profile p (jget st ''task_id'')))) (\<lambda>task_budget.
     let roles = cw_roles cw profile;
         st1 = dset ''time_allocation'' (JObj allocation) st;
         st2 = (if cw_acceptance cw
                then dset ''evaluation_skipped'' (JBool (\<not> evaluator_on roles allocation)) st1 else st1) in
     sbind (with_budget cw roles allocation task_budget st2) (\<lambda>(st3, budgets).
     sret (\<lparr>hn_profile = profile, hn_roles = roles, hn_allocation = allocation, hn_budgets = budgets\<rparr>, st3)))))))"

section \<open>Phases\<close>

definition run_agent :: "'e crew \<Rightarrow> harness \<Rightarrow> string \<Rightarrow> string \<Rightarrow> string \<Rightarrow> obj \<Rightarrow> ('e, unit) step" where
  "run_agent cw hn role phase task st =
     sbind (cw_run cw (hn_profile hn) role (map_of (hn_budgets hn) role) phase task st) (\<lambda>r.
     case r of
       None \<Rightarrow> sret ()
     | Some (ok, reason, n) \<Rightarrow>
         if ok then sret () else sbind (slift (require_successful_agent_result phase (PhaseAgent ok reason n))) (\<lambda>_. sret ()))"

definition list_files :: "'e crew \<Rightarrow> string \<Rightarrow> obj \<Rightarrow> ('e, obj) step" where
  "list_files cw ws st =
     sbind (cw_files cw ws) (\<lambda>files. sret (dset ''artifacts'' (JObj [(''files'', JList files)]) st))"

definition plan_task :: "string \<Rightarrow> string" where
  "plan_task prompt =
     ''Create a plan for the following task:'' @ blank_line @ prompt @ blank_line @ ''Save the plan to spec.md.''"

definition plan_phase :: "'e crew \<Rightarrow> obj \<Rightarrow> ('e, obj) step" where
  "plan_phase cw st =
     sbind (ensure_context cw st) (\<lambda>ws.
     sbind (prepare cw st) (\<lambda>(hn, st1).
     let st2 = dset ''time_allocation'' (JObj (hn_allocation hn)) st1 in
     sbind (slift (rbind (jindex st2 ''prompt'') (shown (cw_probe cw)))) (\<lambda>prompt.
     sbind (if ''planner'' \<in> set (hn_roles hn) \<and> truthy (dget (hn_allocation hn) ''planner_enabled'' (JBool True))
            then run_agent cw hn ''planner'' ''plan'' (plan_task prompt) st2
            else cw_write_spec cw ws (''# Task'' @ blank_line @ prompt @ [CHR 0x0A])) (\<lambda>_.
     list_files cw ws st2))))"

definition contract_phase :: "'e crew \<Rightarrow> obj \<Rightarrow> ('e, obj) step" where
  "contract_phase cw st =
     sbind (ensure_context cw st) (\<lambda>ws.
     sbind (prepare cw st) (\<lambda>(hn, st1).
     sbind (if {''contract_proposer'', ''contract_reviewer''} \<subseteq> set (hn_roles hn)
            then cw_negotiate cw (hn_profile hn) st1 else sret ()) (\<lambda>_.
     list_files cw ws st1)))"

definition acceptance_note :: "json \<Rightarrow> string" where
  "acceptance_note act =
     (if act = JStr ''verify'' then
        blank_line @ ''[ACCEPTANCE] The current artifacts have no fresh passing verification. '' @
        ''Run the focused project tests now. Avoid modifying accepted behavior unless a test fails.''
      else if act = JStr ''repair'' then
        blank_line @ ''[ACCEPTANCE] The latest verification failed. Repair that failure, then rerun '' @
        ''the focused verification before finishing.''
      else [])"

definition build_task :: "'e crew \<Rightarrow> harness \<Rightarrow> obj \<Rightarrow> string \<Rightarrow> string result" where
  "build_task cw hn st feedback =
     rbind (if cw_recovery cw then render_retry_context (cw_probe cw) (cw_dump cw) st feedback else Inr feedback) (\<lambda>prev.
     rbind (rbind (py_iter (dget st ''score_history'' (JList []))) (rmap py_float)) (\<lambda>scores.
     rbind (jindex st ''prompt'') (\<lambda>prompt.
     rbind (round_of st) (\<lambda>n.
     rbind (append_strategy_hints_to_prompt (cw_probe cw) (cw_build_task cw (hn_profile hn) prompt n prev scores)
              st ''builder'') (\<lambda>task.
     if cw_acceptance cw then rbind (decision_action st) (\<lambda>act. Inr (task @ acceptance_note act)) else Inr task)))))"

definition build_phase :: "'e crew \<Rightarrow> obj \<Rightarrow> ('e, obj) step" where
  "build_phase cw st =
     sbind (ensure_context cw st) (\<lambda>ws.
     sbind (prepare cw st) (\<lambda>(hn, st1).
     sbind (sread (cw_feedback cw ws)) (\<lambda>feedback.
     sbind (slift (build_task cw hn st1 feedback)) (\<lambda>task.
     sbind (run_agent cw hn ''builder'' ''build'' task st1) (\<lambda>_.
     list_files cw ws st1)))))"

definition evaluation_task :: "string \<Rightarrow> string" where
  "evaluation_task n =
     ''This is evaluation round '' @ n @ ''.'' @ [CHR 0x0A] @
     ''Read spec.md to understand the task.'' @ [CHR 0x0A] @
     ''Examine the work done and test it thoroughly.'' @ [CHR 0x0A] @
     ''Score each criterion honestly. Write your evaluation to feedback.md.''"

definition append_score :: "rat \<Rightarrow> obj \<Rightarrow> obj result" where
  "append_score x st =
     (case dget st ''score_history'' (JList []) of
        JList xs \<Rightarrow> Inr (dset ''score_history'' (JList (xs @ [JFloat x])) st)
      | _ \<Rightarrow> Inl (AttributeError ''append''))"

definition evaluate_phase :: "'e crew \<Rightarrow> obj \<Rightarrow> ('e, obj) step" where
  "evaluate_phase cw st =
     sbind (ensure_context cw st) (\<lambda>ws.
     sbind (prepare cw st) (\<lambda>(hn, st1).
     if \<not> evaluator_on (hn_roles hn) (hn_allocation hn) then sret (dset ''evaluation_skipped'' (JBool True) st1)
     else
       sbind (slift (shown (cw_probe cw) (dget st1 ''round_num'' (JInt 1)))) (\<lambda>n.
       sbind (slift (append_strategy_hints_to_prompt (cw_probe cw) (evaluation_task n) st1 ''evaluator'')) (\<lambda>task.
       sbind (run_agent cw hn ''evaluator'' ''evaluate'' task st1) (\<lambda>_.
       sbind (cw_stop_server cw) (\<lambda>_.
       sbind (sread (cw_feedback cw ws)) (\<lambda>feedback.
       sbind (slift (append_score (cw_extract_score cw (hn_profile hn) feedback) st1)) (\<lambda>st2.
       list_files cw ws st2))))))))"

text \<open>The callback the scheduler runs for a phase.\<close>

definition crew_phase :: "'e crew \<Rightarrow> string \<Rightarrow> obj \<Rightarrow> ('e, phase_result) step" where
  "crew_phase cw phase st =
     sbind (if phase = ''plan'' then plan_phase cw st
            else if phase = ''contract'' then contract_phase cw st
            else if phase = ''build'' then build_phase cw st
            else evaluate_phase cw st) (\<lambda>st'. sret (PhaseState st'))"

section \<open>The contract of the scheduler\<close>

lemma neutral_phase_keys:
  "neutral ''time_allocation''" "neutral ''evaluation_skipped''" "neutral ''phase_budgets''"
  "neutral ''remaining_task_budget_seconds''" "neutral ''task_budget_seconds''" "neutral ''score_history''"
  by (simp_all add: neutral_def control_keys_def driving_keys_def budget_keys_def)

lemma with_budget_control:
  "with_budget cw roles allocation b st x = (Inr (st', budgets), x') \<Longrightarrow> same_control st st'"
  by (auto simp: with_budget_def sbind_eq_Inr Let_def split: if_splits
      intro!: same_control_dset_right neutral_phase_keys)

lemma control_after_dset: "same_control (dset k v st) st' \<Longrightarrow> neutral k \<Longrightarrow> same_control st st'"
  using same_fields_trans [OF same_control_dset] by blast

lemma prepare_control: "prepare cw st x = (Inr (hn, st'), x') \<Longrightarrow> same_control st st'"
  by (auto simp: prepare_def sbind_eq_Inr Let_def split: if_splits prod.splits dest!: with_budget_control
      dest: control_after_dset [OF _ neutral_phase_keys(1)] control_after_dset [OF _ neutral_phase_keys(2)])

lemma list_files_control: "list_files cw ws st x = (Inr st', x') \<Longrightarrow> same_control st st'"
  by (auto simp: list_files_def sbind_eq_Inr intro: same_control_dset neutral_keys)

lemma phases_control:
  "plan_phase cw st x = (Inr st', x') \<Longrightarrow> same_control st st'"
  "contract_phase cw st x = (Inr st', x') \<Longrightarrow> same_control st st'"
  "build_phase cw st x = (Inr st', x') \<Longrightarrow> same_control st st'"
  by (auto simp: plan_phase_def contract_phase_def build_phase_def sbind_eq_Inr Let_def split: prod.splits
      dest!: prepare_control list_files_control dest: control_after_dset [OF _ neutral_phase_keys(1)] intro: same_fields_trans)

lemma append_score_control: "append_score x st = Inr st' \<Longrightarrow> same_control st st'"
  by (auto simp: append_score_def split: json.splits intro: same_control_dset neutral_phase_keys)

lemma evaluate_control: "evaluate_phase cw st x = (Inr st', x') \<Longrightarrow> same_control st st'"
  by (auto simp: evaluate_phase_def sbind_eq_Inr split: if_splits prod.splits
      dest!: prepare_control list_files_control append_score_control intro: same_fields_trans
      same_control_dset_right neutral_phase_keys)

interpretation crew: phase_runner "crew_phase cw" for cw :: "'e crew"
proof
  fix phase st x st' x'
  assume "crew_phase cw phase st x = (Inr (PhaseState st'), x')"
  then show "same_control st st'"
    using phases_control evaluate_control by (auto simp: crew_phase_def sbind_eq_Inr split: if_splits)
qed

end
