(* ===== verification/Scheduler_Properties.thy ===== *)
theory Scheduler_Properties
  imports Scheduler_Files Scheduler_Approvals Scheduler_Verdict Phase_Runner
begin

text \<open>
  The properties of legacy runs, stated over the scheduler with its hooks, executor and phases, and
  the example they are instantiated on: a run of the terminal profile whose agents only count their calls.
\<close>

section \<open>An example\<close>

definition demo_clock :: clock where
  "demo_clock = \<lparr>ck_now = (\<lambda>n. ''t''), ck_since = (\<lambda>n t. Some 0), ck_disk = (\<lambda>n. None)\<rparr>"

definition demo_probe :: "nat probe" where
  "demo_probe = \<lparr>pr_clock = demo_clock, pr_format = (\<lambda>f x. ''0''), pr_tool_calls = (\<lambda>ws x. 0), pr_agents_text = (\<lambda>v. [])\<rparr>"

definition demo_survey :: "nat survey" where
  "demo_survey = \<lparr>sv_trace_lines = (\<lambda>ws x. []), sv_changed_files = (\<lambda>ws x. []), sv_checks = (\<lambda>s. []),
     sv_file_refs = (\<lambda>ws s. []), sv_relevant = (\<lambda>f xs. False), sv_normalize = (\<lambda>s. s), sv_digest = (\<lambda>s. s)\<rparr>"

definition demo_crew :: "nat crew" where
  "demo_crew = \<lparr>cw_probe = demo_probe, cw_acceptance = False, cw_recovery = True, cw_roles = (\<lambda>p. [''builder'']),
     cw_allocation = (\<lambda>p prompt task. Inr []), cw_budget = (\<lambda>p prompt task. Inr JNull), cw_elapsed = (\<lambda>v x. 0),
     cw_workspace = (\<lambda>ws. sret ()), cw_write_spec = (\<lambda>ws t. sret ()), cw_feedback = (\<lambda>ws x. []),
     cw_files = (\<lambda>ws. sret []), cw_negotiate = (\<lambda>p st. sret ()), cw_build_task = (\<lambda>p prompt n prev scores. prev),
     cw_extract_score = (\<lambda>p t. 0), cw_dump = (\<lambda>d. []), cw_stop_server = sret (),
     cw_run = (\<lambda>p role budget phase task st. sbind (smodify Suc) (\<lambda>_. sret (Some (True, [], 1))))\<rparr>"

definition demo_sched :: "nat sched" where
  "demo_sched = \<lparr>sc_probe = demo_probe, sc_survey = demo_survey, sc_acceptance = False, sc_recovery = True,
     sc_model = [], sc_flags = [], sc_digest = (\<lambda>ob. []), sc_route = (\<lambda>p q. slift (Inl (Raised ''RuntimeError'' []))),
     sc_phase = crew_phase demo_crew, sc_analyze = (\<lambda>ws. sret []), sc_artifacts = (\<lambda>ws. sret []),
     sc_fingerprint = (\<lambda>ws. sret []), sc_persist = (\<lambda>ws a. sret ()), sc_memory = (\<lambda>st a. sret ()),
     sc_cleanup = (\<lambda>r. sret ()), sc_spec_text = (\<lambda>ws x. None), sc_feedback_text = (\<lambda>ws x. []),
     sc_remove_extras = (\<lambda>ws. sret []), sc_profile_rounds = (\<lambda>p. 2), sc_profile_threshold = (\<lambda>p. 8),
     sc_profile_evaluator = (\<lambda>p prompt task. Inr False)\<rparr>"

definition demo_state :: obj where
  "demo_state = create_run_state (\<lambda>p. p) None ''t'' ''run-1'' ''task'' ''ws'' ''terminal'' None None None"

definition demo_world :: "obj \<Rightarrow> nat sched_world" where
  "demo_world st = \<lparr>sw_cur = [], sw_kept = None, sw_file = Some st, sw_rows = [], sw_events = [], sw_trace = [],
     sw_tick = 0, sw_ext = 0\<rparr>"

lemma demo_world_file [simp]: "sw_file (demo_world st) = Some st" "sw_ext (demo_world st) = 0"
  by (simp_all add: demo_world_def)

lemma demo_sched_fields [simp]:
  "sc_acceptance demo_sched = False" "sc_phase demo_sched = crew_phase demo_crew" "sc_probe demo_sched = demo_probe"
  "sc_profile_rounds demo_sched = (\<lambda>p. 2)"
  by (simp_all add: demo_sched_def)


lemma demo_valid: "validate_state demo_state = Inr ()"
  by (simp add: demo_state_def create_run_state_valid)


section \<open>Steps and runs end\<close>

text \<open>Every step returns within its seven loop iterations: a state, or an exception of the code it calls.\<close>

lemma step_completes: "\<exists>r w'. step_once sc w = (r, w') \<and> r \<noteq> Inr None"
  using step_once_returns by (cases "step_once sc w") blast








section \<open>The state file\<close>

text \<open>C36: A step of the run keeps the state file valid, whether it returns or raises.\<close>

theorem state_file_valid:
  assumes "file_valid w"
  shows "file_valid (snd (step_once sc w))"
  using proper_step assms unfolding preserves_def by blast

theorem state_file_valid_witness: "file_valid (snd (step_once demo_sched (demo_world demo_state)))"
  by (rule state_file_valid) (simp add: file_valid_def demo_valid)

text \<open>A state that was saved is what the next load returns, but for the time of the save.\<close>

theorem saved_state_loads:
  assumes "save_state ck st w = (Inr u, w')"
  shows "\<exists>t. load_state w' = (Inr (dset ''updated_at'' (JStr t) st), w')"
  using save_state_saves [OF assms] by (auto simp: load_state_def)

theorem saved_state_loads_witness:
  "\<exists>t. load_state (snd (save_state demo_clock demo_state (demo_world []))) =
    (Inr (dset ''updated_at'' (JStr t) demo_state), snd (save_state demo_clock demo_state (demo_world [])))"
proof (rule saved_state_loads)
  show "save_state demo_clock demo_state (demo_world []) = (Inr (), snd (save_state demo_clock demo_state (demo_world [])))"
    by code_simp
qed

section \<open>Approvals\<close>


definition demo_sensitive :: obj where
  "demo_sensitive = dset ''requires_human_approval'' (JBool True) demo_state"


text \<open>C38: The approval of a waiting run makes it running and active, but without a next action: the run is idle, and the
  action it was about to take is lost.\<close>

theorem approval_loses_action:
  assumes "approve_human_action pr who w = (Inr st', w')" and "sw_file w = Some st" and "waiting st"
  shows "jget st' ''status'' = JStr ''running'' \<and> jget st' ''active'' = JBool True \<and> run_is_idle st'"
  using approve_effect [OF assms] by (simp add: run_is_idle_def)

definition demo_waiting :: obj where
  "demo_waiting = dset ''status'' (JStr ''waiting_approval'') (dset ''next_action'' JNull
     (dset ''active'' (JBool False) demo_sensitive))"

definition demo_approval :: "obj result \<times> nat sched_world" where
  "demo_approval = approve_human_action demo_probe ''me'' (demo_world demo_waiting)"

lemma demo_approved: "case fst demo_approval of Inr st \<Rightarrow> True | Inl e \<Rightarrow> False"
  by code_simp

theorem approval_loses_action_witness:
  "\<exists>st. fst demo_approval = Inr st \<and> jget st ''status'' = JStr ''running'' \<and> run_is_idle st"
proof -
  from demo_approved obtain st where st: "fst demo_approval = Inr st" by (auto split: sum.splits)
  then have "demo_approval = (Inr st, snd demo_approval)" by (metis prod.collapse)
  then have "approve_human_action demo_probe ''me'' (demo_world demo_waiting) = (Inr st, snd demo_approval)"
    by (simp add: demo_approval_def)
  from approval_loses_action [OF this, of demo_waiting] have "jget st ''status'' = JStr ''running'' \<and> run_is_idle st"
    by (simp add: waiting_def demo_waiting_def jget_dset)
  with st show ?thesis by blast
qed

section \<open>The verdict\<close>

text \<open>C35: A run whose analysis returns is completed exactly when the evidence in its final state, judged again, shows the
  task to be solved: nothing done after the verdict touches the verdict or its evidence.\<close>

theorem verdict_earned:
  "case execute_step_action sc (JStr ''analyze'') w of (Inl e, w') \<Rightarrow> True
    | (Inr u, w') \<Rightarrow> \<exists>ok. task_success sc (sw_cur w') = Inr ok \<and>
        jget (sw_cur w') ''status'' = JStr (if ok then ''completed'' else ''error'')"
proof (cases "execute_step_action sc (JStr ''analyze'') w")
  case (Pair r w')
  then have "analyze_action sc w = (r, w')" by (simp add: execute_step_action_def)
  then show ?thesis using analyze_verdict [of sc w "()" w'] Pair by (cases r) auto
qed

section \<open>Hints and budgets\<close>

lemma fractions_known:
  "rmap (\<lambda>p. rbind (f p) (\<lambda>x. Inr (p, x))) ps = Inr fs \<Longrightarrow> map_of fs p = Some x \<Longrightarrow> f p = Inr x"
  by (induction ps arbitrary: fs) (auto simp: result_simps split: if_splits)

text \<open>At most two historical hints reach a prompt, each with a confidence of at least 0.75 and a failure reason the
  phase may be advised on.\<close>

theorem hints_bounded:
  assumes "select_strategy_hints_for_phase pr st phase = Inr hints"
  shows "length hints \<le> 2 \<and> list_all (\<lambda>h.
    (case hint_confidence h of Inr c \<Rightarrow> 3 / 4 \<le> c | Inl e \<Rightarrow> False) \<and>
    (case jget h ''failure_reason'' of JStr r \<Rightarrow> r \<in> set (allowed_reasons phase) | _ \<Rightarrow> False)) hints"
proof (cases "allowed_reasons phase = []")
  case True
  with assms show ?thesis by (simp add: select_strategy_hints_for_phase_def)
next
  case False
  with assms obtain task_type profile raw chosen where
      chosen: "selected_hints pr phase task_type profile raw = Inr chosen"
    and hints: "hints = take 2 (map snd (sort_key (\<lambda>x. - fst x) chosen))"
    by (auto simp: select_strategy_hints_for_phase_def result_simps)
  have "(case hint_confidence h of Inr c \<Rightarrow> 3 / 4 \<le> c | Inl e \<Rightarrow> False) \<and>
      (case jget h ''failure_reason'' of JStr r \<Rightarrow> r \<in> set (allowed_reasons phase) | _ \<Rightarrow> False)"
    if "h \<in> set hints" for h
  proof -
    from that hints have "h \<in> snd ` set (sort_key (\<lambda>x. - fst x) chosen)" by (metis in_set_takeD set_map)
    then obtain c where "(c, h) \<in> set chosen" by auto
    from hint_selected_True [OF selected_hints_selected [OF chosen this]] show ?thesis by auto
  qed
  then show ?thesis using hints by (auto simp: list_all_iff)
qed

definition demo_hints :: obj where
  "demo_hints = [(''profile'', JStr ''terminal''), (''task_type'', JStr ''code''), (''strategy_hints'', JList
     [JObj [(''failure_reason'', JStr ''timeout''), (''confidence'', JFloat (8 / 10)), (''hint'', JStr ''a'')],
      JObj [(''failure_reason'', JStr ''timeout''), (''confidence'', JFloat (5 / 10)), (''hint'', JStr ''b'')]])]"

theorem hints_bounded_witness:
  "select_strategy_hints_for_phase demo_probe demo_hints ''builder'' =
     Inr [[(''failure_reason'', JStr ''timeout''), (''confidence'', JFloat (8 / 10)), (''hint'', JStr ''a'')]] \<and>
   length [[(''failure_reason'', JStr ''timeout''), (''confidence'', JFloat (8 / 10)), (''hint'', JStr ''a'')]] \<le> 2"
proof -
  have "select_strategy_hints_for_phase demo_probe demo_hints ''builder'' =
     Inr [[(''failure_reason'', JStr ''timeout''), (''confidence'', JFloat (8 / 10)), (''hint'', JStr ''a'')]]"
    by code_simp
  from hints_bounded [OF this] this show ?thesis by blast
qed

text \<open>Dividing the time that is left, an agent gets some only when it is still to run, has a role in the profile, and
  a positive share in the allocation.\<close>

theorem past_agents_get_nothing:
  assumes "apply_phase_budgets roles allocation task_budget (Some left) phase = Inr budgets"
  shows "list_all (\<lambda>(p, b). b = 0 \<or> p \<in> set roles \<inter> set (agents_from phase) \<and>
    (case phase_fraction allocation p of Inr x \<Rightarrow> 0 < x | Inl e \<Rightarrow> False)) budgets"
proof -
  let ?eligible = "\<lambda>fs. filter (\<lambda>p. case map_of fs p of Some x \<Rightarrow> 0 < x | None \<Rightarrow> False) (agents_from phase)"
  from assms obtain fs where
      fs: "rmap (\<lambda>p. rbind (phase_fraction allocation p) (\<lambda>x. Inr (p, x))) phase_agents = Inr fs"
    and b: "budgets = map (\<lambda>p. (p, phase_budget (Some left) task_budget (?eligible fs) fs p))
      (filter (\<lambda>p. p \<in> set roles) phase_agents)"
    by (auto simp: apply_phase_budgets_def result_simps Let_def)
  have "phase_budget (Some left) task_budget (?eligible fs) fs p = 0 \<or> p \<in> set (agents_from phase) \<and>
      (case phase_fraction allocation p of Inr x \<Rightarrow> 0 < x | Inl e \<Rightarrow> False)" for p
    using fractions_known [OF fs, of p] by (auto simp: phase_budget_def Let_def split: option.splits)
  then show ?thesis by (auto simp: b list_all_iff)
qed

definition demo_shares :: obj where
  "demo_shares = [(''planner'', JFloat (1 / 4)), (''builder'', JFloat (1 / 2)), (''evaluator'', JInt 0)]"

definition the_budgets :: "string \<Rightarrow> (string \<times> rat) list" where
  "the_budgets phase = (case apply_phase_budgets phase_agents demo_shares 100 (Some 60) phase of Inr bs \<Rightarrow> bs | Inl e \<Rightarrow> [])"

theorem past_agents_get_nothing_witness:
  "the_budgets ''build'' = [(''planner'', 0), (''builder'', 60), (''evaluator'', 0)] \<and>
   list_all (\<lambda>(p, b). b = 0 \<or> p \<in> set phase_agents \<inter> set (agents_from ''build'') \<and>
     (case phase_fraction demo_shares p of Inr x \<Rightarrow> 0 < x | Inl e \<Rightarrow> False)) (the_budgets ''build'')"
proof -
  have split: "apply_phase_budgets phase_agents demo_shares 100 (Some 60) ''build'' =
      Inr [(''planner'', 0), (''builder'', 60), (''evaluator'', 0)]"
    by code_simp
  then show ?thesis using past_agents_get_nothing [OF split] by (simp add: the_budgets_def)
qed

end
