(* ===== verification/Canonical_Trace.thy ===== *)
theory Canonical_Trace
  imports Steps
begin

text \<open>
  \<open>orchestrator/canonical_trace.py\<close>: the append-only trace of a run, its validation, its replay into
  counters, and the comparison of two replays. A line of the trace file is a JSON value, or text that
  is not JSON; the identifiers and the clock of the writer are parameters.
\<close>

section \<open>Writing\<close>

text \<open>The file, and the sequence number of the writer of this process, when it has one.\<close>

record trace_store =
  ts_lines :: "json option list"
  ts_writer :: "nat option"

record trace_entry =
  te_type :: string
  te_payload :: obj
  te_role :: json
  te_phase :: json

definition trace_event :: "string \<Rightarrow> int \<Rightarrow> string \<Rightarrow> nat \<Rightarrow> trace_entry \<Rightarrow> obj" where
  "trace_event eid ms run n e =
     [(''schema_version'', JInt 1), (''event_id'', JStr eid), (''run_id'', JStr run), (''seq'', JInt (int n)),
      (''ts_ms'', JInt ms), (''event_type'', JStr (te_type e)), (''role'', te_role e), (''phase'', te_phase e),
      (''payload'', JObj (te_payload e))]"

definition trace_emit :: "(nat \<Rightarrow> string) \<Rightarrow> (nat \<Rightarrow> int) \<Rightarrow> string \<Rightarrow> trace_store \<Rightarrow> trace_entry \<Rightarrow> trace_store" where
  "trace_emit uuid ms run ts e =
     (let i = length (ts_lines ts);
          n = Suc (case ts_writer ts of None \<Rightarrow> 0 | Some k \<Rightarrow> k) in
      ts\<lparr>ts_lines := ts_lines ts @ [Some (JObj (trace_event (uuid i) (ms i) run n e))], ts_writer := Some n\<rparr>)"

text \<open>Writers live as long as the process; the file stays.\<close>

definition trace_session :: "(nat \<Rightarrow> string) \<Rightarrow> (nat \<Rightarrow> int) \<Rightarrow> string \<Rightarrow> trace_store \<Rightarrow> trace_entry list \<Rightarrow> trace_store" where
  "trace_session uuid ms run ts es = foldl (trace_emit uuid ms run) (ts\<lparr>ts_writer := None\<rparr>) es"

definition trace_sessions :: "(nat \<Rightarrow> string) \<Rightarrow> (nat \<Rightarrow> int) \<Rightarrow> string \<Rightarrow> trace_entry list list \<Rightarrow> trace_store" where
  "trace_sessions uuid ms run sessions =
     foldl (trace_session uuid ms run) \<lparr>ts_lines = [], ts_writer = None\<rparr> sessions"

section \<open>Reading\<close>

definition read_events :: "json option list \<Rightarrow> obj list result" where
  "read_events lines =
     rmap (\<lambda>l. case l of None \<Rightarrow> Inr [(''event_type'', JStr ''invalid_json''), (''payload'', JObj [])]
               | Some v \<Rightarrow> as_mapping v) lines"

definition terminal_events :: "string list" where
  "terminal_events = [''run_completed'', ''run_failed'']"

text \<open>\<open>event.get("payload", {}).get(k)\<close>.\<close>

definition payload_field :: "obj \<Rightarrow> string \<Rightarrow> json result" where
  "payload_field ev k = rbind (as_mapping (dget ev ''payload'' (JObj []))) (\<lambda>p. Inr (jget p k))"

text \<open>Sets of values: members have to be hashable, and equal values are one member.\<close>

fun hashed :: "json \<Rightarrow> json result" where
  "hashed (JList xs) = Inl (TypeError ''unhashable type'')"
| "hashed (JObj kvs) = Inl (TypeError ''unhashable type'')"
| "hashed v = Inr v"

fun unique_values :: "json list \<Rightarrow> json list" where
  "unique_values [] = []"
| "unique_values (x # xs) = (if list_ex (py_eq x) xs then unique_values xs else x # unique_values xs)"

definition py_set :: "json list \<Rightarrow> json list result" where
  "py_set xs = rbind (rmap hashed xs) (\<lambda>ys. Inr (unique_values ys))"

definition set_equal :: "json list \<Rightarrow> json list \<Rightarrow> bool" where
  "set_equal xs ys \<longleftrightarrow> list_all (\<lambda>x. list_ex (py_eq x) ys) xs \<and> list_all (\<lambda>y. list_ex (py_eq y) xs) ys"

fun rfilter :: "('a \<Rightarrow> bool result) \<Rightarrow> 'a list \<Rightarrow> 'a list result" where
  "rfilter p [] = Inr []"
| "rfilter p (x # xs) = rbind (p x) (\<lambda>b. rbind (rfilter p xs) (\<lambda>ys. Inr (if b then x # ys else ys)))"

section \<open>Validation\<close>

definition ids_broken :: "obj list \<Rightarrow> bool result" where
  "ids_broken events =
     (let ids = map (\<lambda>ev. jget ev ''event_id'') events in
      if list_ex (\<lambda>i. \<not> truthy i) ids then Inr True
      else rbind (py_set ids) (\<lambda>us. Inr (length us \<noteq> length ids)))"

definition seq_broken :: "obj list \<Rightarrow> bool" where
  "seq_broken events \<longleftrightarrow>
     \<not> py_eq_list (map (\<lambda>ev. jget ev ''seq'') events) (map (\<lambda>i. JInt (int i)) [1..<Suc (length events)])"

definition terminal_reason :: "obj list \<Rightarrow> string list result" where
  "terminal_reason events =
     rbind (rfilter (\<lambda>ev. in_strings terminal_events (jget ev ''event_type'')) events) (\<lambda>ts.
     case ts of
       [t] \<Rightarrow> rbind (payload_field t ''task_success'') (\<lambda>v.
                Inr (if v = JNull then [''terminal task_success is null''] else []))
     | _ \<Rightarrow> Inr [''missing or multiple terminal events''])"

text \<open>The identifiers of the events of some types.\<close>

fun ids_of :: "string list \<Rightarrow> string \<Rightarrow> obj list \<Rightarrow> json list result" where
  "ids_of types k [] = Inr []"
| "ids_of types k (ev # evs) =
     rbind (in_strings types (jget ev ''event_type'')) (\<lambda>b.
     if b then rbind (payload_field ev k) (\<lambda>v. rbind (hashed v) (\<lambda>h. rbind (ids_of types k evs) (\<lambda>hs. Inr (h # hs))))
     else ids_of types k evs)"

text \<open>Requests are found by \<open>==\<close>, which no value makes raise.\<close>

fun requests_of :: "string \<Rightarrow> string \<Rightarrow> obj list \<Rightarrow> json list result" where
  "requests_of type k [] = Inr []"
| "requests_of type k (ev # evs) =
     (if jget ev ''event_type'' = JStr type
      then rbind (payload_field ev k) (\<lambda>v. rbind (hashed v) (\<lambda>h. rbind (requests_of type k evs) (\<lambda>hs. Inr (h # hs))))
      else requests_of type k evs)"

definition ledger_reason :: "string \<Rightarrow> string list \<Rightarrow> string \<Rightarrow> string \<Rightarrow> obj list \<Rightarrow> string list result" where
  "ledger_reason request results k why events =
     rbind (requests_of request k events) (\<lambda>rs.
     rbind (ids_of results k events) (\<lambda>os.
     Inr (if JNull \<in> set rs \<or> \<not> set_equal rs os then [why] else [])))"

definition whole_payload :: "obj \<Rightarrow> obj result" where
  "whole_payload ev = as_mapping (py_or (jget ev ''payload'') (JObj []))"

definition number_of :: "obj \<Rightarrow> string \<Rightarrow> int result" where
  "number_of p k = py_int (py_or (jget p k) (JInt 0))"

definition not_a_number :: "py_error \<Rightarrow> bool" where
  "not_a_number e \<longleftrightarrow> exc_name e \<in> {''TypeError'', ''ValueError''}"

definition token_numbers :: "obj \<Rightarrow> (int \<times> int \<times> int) result" where
  "token_numbers p =
     rbind (number_of p ''input_tokens'') (\<lambda>i.
     rbind (number_of p ''cached_tokens'') (\<lambda>c.
     rbind (number_of p ''output_tokens'') (\<lambda>n. Inr (i, c, n))))"

fun token_reason :: "obj list \<Rightarrow> string list result" where
  "token_reason [] = Inr []"
| "token_reason (ev # evs) =
     (if jget ev ''event_type'' \<noteq> JStr ''llm_request_completed'' then token_reason evs
      else
        rbind (whole_payload ev) (\<lambda>p.
        case token_numbers p of
          Inl e \<Rightarrow> if not_a_number e then Inr [''LLM token values are not integers''] else Inl e
        | Inr (i, c, n) \<Rightarrow>
            if min i (min c n) < 0 \<or> i < c then Inr [''LLM token conservation is invalid''] else token_reason evs))"

definition header_reasons :: "obj list \<Rightarrow> bool \<Rightarrow> nat \<Rightarrow> string list" where
  "header_reasons events ids_bad runs =
     (if ids_bad then [''event IDs are missing or duplicated''] else [])
     @ (if list_ex (\<lambda>ev. \<not> py_eq (jget ev ''schema_version'') (JInt 1)) events then [''unsupported schema version''] else [])
     @ (if runs \<noteq> 1 then [''multiple run IDs''] else [])"

definition validate_trace :: "obj list \<Rightarrow> string list result" where
  "validate_trace events =
     (if events = [] then Inr [''empty trace'']
      else
        rbind (ids_broken events) (\<lambda>ids.
        rbind (py_set (map (\<lambda>ev. jget ev ''run_id'') events)) (\<lambda>runs.
        rbind (terminal_reason events) (\<lambda>terminal.
        rbind (ledger_reason ''llm_request_started'' [''llm_request_completed'', ''llm_request_failed''] ''llm_call_id''
                 ''LLM request/result ledger does not balance'' events) (\<lambda>llm.
        rbind (ledger_reason ''tool_requested'' [''tool_completed'', ''tool_failed''] ''tool_call_id''
                 ''tool request/result ledger does not balance'' events) (\<lambda>tool.
        rbind (token_reason events) (\<lambda>tokens.
        Inr (header_reasons events ids (length runs)
             @ (if seq_broken events then [''event sequence is not contiguous''] else [])
             @ terminal @ llm @ tool @ tokens))))))))"

section \<open>Replay\<close>

definition bump :: "int dict \<Rightarrow> string \<times> int \<Rightarrow> int dict" where
  "bump d kn = dset (fst kn) (dget d (fst kn) 0 + snd kn) d"

text \<open>What one event adds to a bucket.\<close>

definition event_counts :: "json \<Rightarrow> obj \<Rightarrow> (string \<times> int) list result" where
  "event_counts kind p =
     rbind (if kind = JStr ''llm_request_completed'' then
              rbind (number_of p ''input_tokens'') (\<lambda>i.
              rbind (number_of p ''cached_tokens'') (\<lambda>c.
              rbind (number_of p ''output_tokens'') (\<lambda>n.
              rbind (number_of p ''latency_ms'') (\<lambda>ms.
              Inr [(''input_tokens'', i), (''cached_tokens'', c), (''output_tokens'', n), (''llm_latency_ms'', ms)]))))
            else Inr []) (\<lambda>tokens.
     Inr ([(''events'', 1)] @ (if kind = JStr ''llm_request_started'' then [(''llm_calls'', 1)] else []) @ tokens
          @ (if kind = JStr ''tool_requested'' then [(''tool_calls'', 1)] else [])
          @ (if kind = JStr ''agent_round'' then [(''agent_rounds'', 1)] else [])))"

record tally =
  tl_roles :: "int dict dict"
  tl_phases :: "int dict dict"
  tl_totals :: "int dict"
  tl_timeline :: "obj list"

text \<open>Buckets have textual names; an event without a role or phase is unattributed.\<close>

definition bucket_name :: "obj \<Rightarrow> string \<Rightarrow> string result" where
  "bucket_name ev k =
     rbind (hashed (py_or (jget ev k) (JStr ''unattributed''))) (\<lambda>v.
     case v of JStr s \<Rightarrow> Inr s | _ \<Rightarrow> Inl (Unsupported ''bucket name''))"

definition into_bucket :: "string \<Rightarrow> (string \<times> int) list \<Rightarrow> int dict dict \<Rightarrow> int dict dict" where
  "into_bucket name counts ds = dset name (foldl bump (dget ds name []) counts) ds"

definition timeline_events :: "string list" where
  "timeline_events = [''state_changed'', ''phase_started'', ''phase_completed''] @ terminal_events"

definition replay_step :: "tally \<Rightarrow> obj \<Rightarrow> tally result" where
  "replay_step t ev =
     rbind (jindex ev ''event_type'') (\<lambda>kind.
     rbind (whole_payload ev) (\<lambda>p.
     rbind (bucket_name ev ''role'') (\<lambda>r.
     rbind (bucket_name ev ''phase'') (\<lambda>ph.
     rbind (event_counts kind p) (\<lambda>counts.
     rbind (in_strings timeline_events kind) (\<lambda>marks.
     rbind (if marks then rbind (jindex ev ''seq'') (\<lambda>n.
              Inr [[(''seq'', n), (''event_type'', kind), (''phase'', jget ev ''phase''), (''status'', jget p ''status'')]])
            else Inr []) (\<lambda>entry.
     Inr \<lparr>tl_roles = into_bucket r counts (tl_roles t), tl_phases = into_bucket ph counts (tl_phases t),
          tl_totals = foldl bump (tl_totals t) counts, tl_timeline = tl_timeline t @ entry\<rparr>)))))))"

record replay =
  rp_run :: json
  rp_start :: json
  rp_events :: "obj list"
  rp_timeline :: "obj list"
  rp_roles :: "int dict dict"
  rp_phases :: "int dict dict"
  rp_totals :: "int dict"
  rp_status :: json
  rp_success :: json
  rp_reasons :: "string list"

definition rp_valid :: "replay \<Rightarrow> bool" where
  "rp_valid r \<longleftrightarrow> rp_reasons r = []"

definition starts_run :: "obj \<Rightarrow> bool" where
  "starts_run ev \<longleftrightarrow> jget ev ''event_type'' = JStr ''run_started''"

definition ends_run :: "obj \<Rightarrow> bool" where
  "ends_run ev \<longleftrightarrow> (case jget ev ''event_type'' of JStr s \<Rightarrow> s \<in> set terminal_events | _ \<Rightarrow> False)"

definition time_of :: "obj option \<Rightarrow> int result" where
  "time_of found = (case found of None \<Rightarrow> Inr 0 | Some ev \<Rightarrow> number_of ev ''ts_ms'')"

definition outcome_of :: "obj option \<Rightarrow> string \<Rightarrow> json result" where
  "outcome_of found k = (case found of None \<Rightarrow> Inr JNull | Some ev \<Rightarrow> payload_field ev k)"

definition replay_trace :: "json option list \<Rightarrow> replay result" where
  "replay_trace lines =
     rbind (read_events lines) (\<lambda>events.
     rbind (validate_trace events) (\<lambda>reasons.
     rbind (rfold replay_step \<lparr>tl_roles = [], tl_phases = [], tl_totals = [], tl_timeline = []\<rparr> events) (\<lambda>t.
     let terminal = first_where ends_run (rev events); started = first_where starts_run events in
     rbind (time_of terminal) (\<lambda>b.
     rbind (time_of started) (\<lambda>a.
     rbind (outcome_of terminal ''status'') (\<lambda>status.
     rbind (outcome_of terminal ''task_success'') (\<lambda>success.
     Inr \<lparr>rp_run = (case events of [] \<Rightarrow> JNull | ev # _ \<Rightarrow> jget ev ''run_id''),
          rp_start = (case started of None \<Rightarrow> JObj [] | Some ev \<Rightarrow> dget ev ''payload'' (JObj [])),
          rp_events = events, rp_timeline = tl_timeline t, rp_roles = tl_roles t, rp_phases = tl_phases t,
          rp_totals = dset ''wall_time_ms'' (max 0 (b - a)) (tl_totals t), rp_status = status,
          rp_success = success, rp_reasons = reasons\<rparr>)))))))"

section \<open>Comparison\<close>

datatype comparison = Incomparable string | Comparable "(string \<times> int) list"

definition compared_metrics :: "string list" where
  "compared_metrics =
     [''llm_calls'', ''tool_calls'', ''agent_rounds'', ''input_tokens'', ''output_tokens'', ''llm_latency_ms'',
      ''wall_time_ms'']"

definition start_event :: "replay \<Rightarrow> obj result" where
  "start_event r =
     (case first_where starts_run (rp_events r) of
        None \<Rightarrow> Inl (Raised ''StopIteration'' []) | Some ev \<Rightarrow> Inr ev)"

fun mismatch :: "obj \<Rightarrow> obj \<Rightarrow> string list \<Rightarrow> string option result" where
  "mismatch b c [] = Inr None"
| "mismatch b c (k # ks) =
     rbind (payload_field b k) (\<lambda>x. rbind (payload_field c k) (\<lambda>y.
     if py_eq x y then mismatch b c ks else Inr (Some k)))"

definition compare_replays :: "replay \<Rightarrow> replay \<Rightarrow> comparison result" where
  "compare_replays base cand =
     (if \<not> rp_valid base \<or> \<not> rp_valid cand then Inr (Incomparable ''baseline or candidate trace is invalid'')
      else
        rbind (start_event base) (\<lambda>b.
        rbind (start_event cand) (\<lambda>c.
        rbind (mismatch b c [''task_id'', ''model'', ''initial_workspace'', ''feature_flags'', ''schema_version'']) (\<lambda>m.
        Inr (case m of
               Some k \<Rightarrow> Incomparable (''mismatched '' @ k)
             | None \<Rightarrow> Comparable (map (\<lambda>k. (k, dget (rp_totals cand) k 0 - dget (rp_totals base) k 0)) compared_metrics))))))"

end
