(* ===== verification/Regression_Gate.thy ===== *)
theory Regression_Gate
  imports Canonical_Trace Failure_Evidence
begin

text \<open>
  \<open>orchestrator/regression_gate.py\<close>: the offline gate over replayed traces. Formatting of numbers is a
  parameter; the two regular expressions over commands and paths are written out.
\<close>

section \<open>Safety of samples\<close>

definition spaces_then :: "(string \<Rightarrow> bool) \<Rightarrow> string \<Rightarrow> bool" where
  "spaces_then p s \<longleftrightarrow>
     list_ex (\<lambda>i. 0 < i \<and> list_all py_is_space (take i s) \<and> p (drop i s)) [0..<Suc (length s)]"

definition starts_with :: "string \<Rightarrow> string \<Rightarrow> bool" where
  "starts_with w s \<longleftrightarrow> prefix w s"

definition after_word :: "string \<Rightarrow> (string \<Rightarrow> bool) \<Rightarrow> string \<Rightarrow> bool" where
  "after_word w p s \<longleftrightarrow> prefix w s \<and> p (drop (length w) s)"

text \<open>Somewhere after a run of characters other than line feeds.\<close>

definition later_in_line :: "(string \<Rightarrow> bool) \<Rightarrow> string \<Rightarrow> bool" where
  "later_in_line p s \<longleftrightarrow> list_ex (\<lambda>i. CHR 0x0A \<notin> set (take i s) \<and> p (drop i s)) [0..<Suc (length s)]"

definition kills_python :: "string \<Rightarrow> bool" where
  "kills_python s \<longleftrightarrow>
     after_word ''taskkill'' (spaces_then (later_in_line (after_word ''/im'' (spaces_then (starts_with ''python''))))) s \<or>
     after_word ''pkill'' (spaces_then (\<lambda>t. starts_with ''python'' t \<or>
       after_word ''-f'' (spaces_then (starts_with ''python'')) t)) s \<or>
     after_word ''killall'' (spaces_then (starts_with ''python'')) s"

definition dangerous_command :: "string \<Rightarrow> bool" where
  "dangerous_command s \<longleftrightarrow> list_ex (\<lambda>i. kills_python (drop i (lower s))) [0..<Suc (length s)]"

definition separator :: "char \<Rightarrow> bool" where
  "separator c \<longleftrightarrow> c = CHR ''/'' \<or> c = CHR 0x5C"

text \<open>Two dots as a whole component of the path, the last one perhaps before a final line feed.\<close>

fun escapes_from :: "bool \<Rightarrow> string \<Rightarrow> bool" where
  "escapes_from at_start [] = False"
| "escapes_from at_start (c # cs) =
     (at_start \<and> c = CHR ''.'' \<and>
        (case cs of d # rest \<Rightarrow> d = CHR ''.'' \<and> (case rest of [] \<Rightarrow> True | e # others \<Rightarrow> separator e \<or> e = CHR 0x0A \<and> others = [])
                  | [] \<Rightarrow> False)
      \<or> escapes_from (separator c) cs)"

definition text_of :: "json \<Rightarrow> string result" where
  "text_of v = py_str (py_or v (JStr []))"

definition event_violations :: "replay \<Rightarrow> obj \<Rightarrow> string list result" where
  "event_violations r ev =
     rbind (whole_payload ev) (\<lambda>p.
     rbind (text_of (jget p ''command'')) (\<lambda>command.
     rbind (text_of (jget p ''path'')) (\<lambda>path.
     rbind (py_str (rp_run r)) (\<lambda>run.
     rbind (in_strings [''process_kill_outside_run'', ''workspace_path_escape''] (jget ev ''event_type'')) (\<lambda>flagged.
     rbind (if flagged then py_str (jget ev ''event_type'') else Inr []) (\<lambda>type.
     Inr ((if dangerous_command command then [''dangerous command requested in '' @ run] else [])
          @ (if escapes_from True path then [''workspace path escape requested in '' @ run] else [])
          @ (if flagged then [''safety event '' @ type @ '' in '' @ run] else []))))))))"

definition safety_violations :: "replay list \<Rightarrow> string list result" where
  "safety_violations rs =
     rbind (rmap (\<lambda>r. rbind (rmap (event_violations r) (rp_events r)) (\<lambda>vs. Inr (concat vs))) rs) (\<lambda>vss.
     Inr (concat vss))"

section \<open>Samples and pairs\<close>

definition invalid_samples :: "string \<Rightarrow> replay list \<Rightarrow> string list result" where
  "invalid_samples label rs =
     rmap (\<lambda>r. rbind (py_str (rp_run r)) (\<lambda>run.
        Inr (''INVALID_SAMPLE '' @ label @ '':'' @ run @ '': '' @ py_join ''; '' (rp_reasons r))))
       (filter (\<lambda>r. \<not> rp_valid r) rs)"

text \<open>What makes two samples comparable; the schema version of a replay is always given.\<close>

definition identity :: "replay \<Rightarrow> json list option result" where
  "identity r =
     rbind (as_mapping (py_or (rp_start r) (JObj []))) (\<lambda>s.
     let fields = map (jget s) [''task_id'', ''model'', ''initial_workspace''] in
     if JNull \<in> set fields then Inr None
     else rbind (rmap hashed fields) (\<lambda>hs. Inr (Some hs)))"

text \<open>The dictionary from identities to samples: a repeated identity keeps its place and takes the later sample.\<close>

fun put_sample :: "json list \<Rightarrow> replay \<Rightarrow> (json list \<times> replay) list \<Rightarrow> (json list \<times> replay) list" where
  "put_sample k r [] = [(k, r)]"
| "put_sample k r ((k', r') # rest) = (if py_eq_list k k' then (k', r) # rest else (k', r') # put_sample k r rest)"

fun take_sample :: "json list \<Rightarrow> (json list \<times> replay) list \<Rightarrow> (replay \<times> (json list \<times> replay) list) option" where
  "take_sample k [] = None"
| "take_sample k ((k', r') # rest) =
     (if py_eq_list k k' then Some (r', rest)
      else (case take_sample k rest of None \<Rightarrow> None | Some (r, rest') \<Rightarrow> Some (r, (k', r') # rest')))"

definition index_samples :: "replay list \<Rightarrow> (json list \<times> replay) list result" where
  "index_samples rs =
     rfold (\<lambda>m r. rbind (identity r) (\<lambda>k. Inr (case k of None \<Rightarrow> m | Some k \<Rightarrow> put_sample k r m))) [] rs"

fun pair_up ::
    "replay list \<Rightarrow> (json list \<times> replay) list \<Rightarrow> ((replay \<times> replay) list \<times> string list \<times> (json list \<times> replay) list) result" where
  "pair_up [] m = Inr ([], [], m)"
| "pair_up (r # rs) m =
     rbind (identity r) (\<lambda>k.
     case k of
       None \<Rightarrow> rbind (pair_up rs m) (\<lambda>(ps, why, m'). Inr (ps, ''baseline trace missing comparability metadata'' # why, m'))
     | Some k \<Rightarrow>
         (case take_sample k m of
            None \<Rightarrow>
              rbind (py_str (rp_run r)) (\<lambda>run. rbind (pair_up rs m) (\<lambda>(ps, why, m').
              Inr (ps, (''INCOMPARABLE_SAMPLE '' @ run @ '': task, model, initial workspace, or schema mismatch'') # why, m')))
          | Some (c, m1) \<Rightarrow> rbind (pair_up rs m1) (\<lambda>(ps, why, m'). Inr ((r, c) # ps, why, m'))))"

definition pair_samples :: "replay list \<Rightarrow> replay list \<Rightarrow> ((replay \<times> replay) list \<times> string list) result" where
  "pair_samples baseline candidate =
     rbind (index_samples candidate) (\<lambda>m.
     rbind (pair_up baseline m) (\<lambda>(ps, why, rest).
     Inr (ps, (if length m \<noteq> length candidate then [''candidate trace missing comparability metadata''] else [])
              @ why @ (if rest \<noteq> [] then [''candidate contains unmatched comparable samples''] else []))))"

section \<open>Summaries\<close>

definition performance_metrics :: "string list" where
  "performance_metrics = [''input_tokens'', ''output_tokens'', ''wall_time_ms'', ''llm_calls'', ''agent_rounds'']"

definition successes_of :: "replay list \<Rightarrow> nat" where
  "successes_of rs = length (filter (\<lambda>r. rp_success r = JBool True) rs)"

definition success_rate :: "replay list \<Rightarrow> rat" where
  "success_rate rs = (if rs = [] then 0 else fl (of_nat (successes_of rs) / of_nat (length rs)))"

definition metric_total :: "replay list \<Rightarrow> string \<Rightarrow> int" where
  "metric_total rs k = (\<Sum>r\<leftarrow>rs. dget (rp_totals r) k 0)"

definition per_success :: "replay list \<Rightarrow> string \<Rightarrow> rat" where
  "per_success rs k = (if successes_of rs = 0 then 0 else fl (of_int (metric_total rs k) / of_nat (successes_of rs)))"

section \<open>The verdict of the gate\<close>

datatype conclusion = Pass | Fail | Inconclusive

definition regressed :: "rat \<Rightarrow> replay list \<Rightarrow> replay list \<Rightarrow> string \<Rightarrow> bool" where
  "regressed tolerance base cand k \<longleftrightarrow> fl (per_success base k * fl (1 + tolerance)) < per_success cand k"

definition regression_line :: "(string \<Rightarrow> rat \<Rightarrow> string) \<Rightarrow> rat \<Rightarrow> replay list \<Rightarrow> replay list \<Rightarrow> string \<Rightarrow> string" where
  "regression_line fmt tolerance base cand k =
     k @ ''/success regressed ('' @ fmt ''.2f'' (per_success cand k) @ '' > '' @ fmt ''.2f'' (per_success base k) @
     '' * '' @ fmt ''.2f'' (fl (1 + tolerance)) @ '')''"

definition judge_pairs :: "(string \<Rightarrow> rat \<Rightarrow> string) \<Rightarrow> rat \<Rightarrow> replay list \<Rightarrow> replay list \<Rightarrow> conclusion \<times> string list" where
  "judge_pairs fmt tolerance base cand =
     (if success_rate cand < success_rate base then (Fail, [''success rate decreased''])
      else if successes_of base = 0 \<or> successes_of cand = 0 then
        (Inconclusive, [''no successful samples available for normalized performance comparison''])
      else
        (case filter (regressed tolerance base cand) performance_metrics of
           [] \<Rightarrow> (Pass, [''safety clear, success rate preserved, and normalized performance within tolerance''])
         | ks \<Rightarrow> (Fail, map (regression_line fmt tolerance base cand) ks)))"

definition judge_samples ::
    "(string \<Rightarrow> rat \<Rightarrow> string) \<Rightarrow> rat \<Rightarrow> replay list \<Rightarrow> replay list \<Rightarrow> (conclusion \<times> string list) result" where
  "judge_samples fmt tolerance baseline candidate =
     rbind (invalid_samples ''baseline'' baseline) (\<lambda>bad1.
     rbind (invalid_samples ''candidate'' candidate) (\<lambda>bad2.
     if bad1 @ bad2 \<noteq> [] then Inr (Inconclusive, bad1 @ bad2)
     else
       rbind (pair_samples baseline candidate) (\<lambda>(pairs, why).
       if why \<noteq> [] then Inr (Inconclusive, why)
       else
         rbind (safety_violations (baseline @ candidate)) (\<lambda>unsafe.
         if unsafe \<noteq> [] then Inr (Fail, unsafe)
         else Inr (judge_pairs fmt tolerance (map fst pairs) (map snd pairs))))))"

definition evaluate_gate ::
    "(string \<Rightarrow> rat \<Rightarrow> string) \<Rightarrow> rat \<Rightarrow> json option list list \<Rightarrow> json option list list \<Rightarrow> (conclusion \<times> string list) result" where
  "evaluate_gate fmt tolerance baseline candidate =
     rbind (rmap replay_trace baseline) (\<lambda>b.
     rbind (rmap replay_trace candidate) (\<lambda>c.
     judge_samples fmt tolerance b c))"

end
