(* ===== verification/Trace_Properties.thy ===== *)
theory Trace_Properties
  imports Regression_Gate "HOL-Library.Multiset"
begin

text \<open>
  What traces and the gate over them promise: the sequence of a trace is contiguous exactly when one
  process wrote it, the totals of a replay are the sums of its buckets, and a gate that passes compared
  valid and safe samples.
\<close>

section \<open>Sequences\<close>













section \<open>Validation\<close>

text \<open>The reasons that speak neither of the sequence nor of token values.\<close>

definition other_reasons :: "string set" where
  "other_reasons =
     {''event IDs are missing or duplicated'', ''unsupported schema version'', ''multiple run IDs'',
      ''terminal task_success is null'', ''missing or multiple terminal events'',
      ''LLM request/result ledger does not balance'', ''tool request/result ledger does not balance''}"

lemma header_reasons_texts: "set (header_reasons events ids_bad runs) \<subseteq> other_reasons"
  by (auto simp: header_reasons_def other_reasons_def)

lemma terminal_reason_texts: "terminal_reason events = Inr rs \<Longrightarrow> set rs \<subseteq> other_reasons"
proof -
  assume run: "terminal_reason events = Inr rs"
  then obtain ts where "rfilter (\<lambda>ev. in_strings terminal_events (jget ev ''event_type'')) events = Inr ts"
    by (auto simp: terminal_reason_def result_simps)
  with run show ?thesis
    by (cases ts; cases "tl ts") (auto simp: terminal_reason_def other_reasons_def result_simps split: if_splits)
qed

lemma ledger_reason_texts: "ledger_reason request results k why events = Inr rs \<Longrightarrow> set rs \<subseteq> {why}"
  by (auto simp: ledger_reason_def result_simps split: if_splits)


lemma token_reason_short: "token_reason events = Inr rs \<Longrightarrow> length rs \<le> 1"
proof (induction events)
  case (Cons ev events)
  then show ?case
    by (cases "whole_payload ev"; cases "token_numbers (projr (whole_payload ev))") (auto split: if_splits)
qed simp

lemma validate_parts:
  assumes "validate_trace events = Inr reasons" and "events \<noteq> []"
  obtains front rest tokens where
      "reasons = front @ (if seq_broken events then [''event sequence is not contiguous''] else []) @ rest @ tokens"
    and "set (front @ rest) \<subseteq> other_reasons" and "token_reason events = Inr tokens"
proof -
  from assms obtain ids and runs :: "json list" and terminal llm tool tokens where
      reasons: "reasons = header_reasons events ids (length runs)
             @ (if seq_broken events then [''event sequence is not contiguous''] else []) @ (terminal @ llm @ tool) @ tokens"
    and tokens: "token_reason events = Inr tokens" and "terminal_reason events = Inr terminal"
    and "ledger_reason ''llm_request_started'' [''llm_request_completed'', ''llm_request_failed''] ''llm_call_id''
           ''LLM request/result ledger does not balance'' events = Inr llm"
    and "ledger_reason ''tool_requested'' [''tool_completed'', ''tool_failed''] ''tool_call_id''
           ''tool request/result ledger does not balance'' events = Inr tool"
    by (auto simp: validate_trace_def result_simps)
  from this(3-) have "set (header_reasons events ids (length runs) @ terminal @ llm @ tool) \<subseteq> other_reasons"
    using header_reasons_texts
    by (auto dest!: terminal_reason_texts ledger_reason_texts) (auto simp: other_reasons_def)
  with reasons tokens show thesis
    by (intro that [of "header_reasons events ids (length runs)" "terminal @ llm @ tool" tokens]) simp_all
qed



section \<open>Counters\<close>

lemma dget_bump: "dget (bump d kn) k 0 = dget d k 0 + (if fst kn = k then snd kn else 0)"
  by (simp add: bump_def dget_def map_of_dset)

definition count_of_key :: "string \<Rightarrow> (string \<times> int) list \<Rightarrow> int" where
  "count_of_key k counts = (\<Sum>kn\<leftarrow>counts. if fst kn = k then snd kn else 0)"

lemma dget_bumps: "dget (foldl bump d counts) k 0 = dget d k 0 + count_of_key k counts"
  by (induction counts arbitrary: d) (simp_all add: dget_bump count_of_key_def)

definition bucket_sum :: "string \<Rightarrow> int dict dict \<Rightarrow> int" where
  "bucket_sum k ds = (\<Sum>nd\<leftarrow>ds. dget (snd nd) k 0)"

lemma bucket_sum_dset:
  "dict_wf ds \<Longrightarrow> bucket_sum k (dset name v ds) = bucket_sum k ds - dget (dget ds name []) k 0 + dget v k 0"
proof (induction ds)
  case Nil
  then show ?case by (simp add: bucket_sum_def dset_def dget_def)
next
  case (Cons nd ds)
  obtain n d where nd: "nd = (n, d)" by fastforce
  show ?case
  proof (cases "n = name")
    case True
    with Cons nd show ?thesis by (simp add: bucket_sum_def dset_def dget_def)
  next
    case False
    with Cons nd show ?thesis by (simp add: bucket_sum_def dset_def dget_def dict_wf_def)
  qed
qed

lemma into_bucket_sum:
  "dict_wf ds \<Longrightarrow> bucket_sum k (into_bucket name counts ds) = bucket_sum k ds + count_of_key k counts"
  by (simp add: into_bucket_def bucket_sum_dset dget_bumps)

text \<open>The totals of a tally are the sums over its buckets.\<close>

definition balanced :: "tally \<Rightarrow> bool" where
  "balanced t \<longleftrightarrow> dict_wf (tl_roles t) \<and> dict_wf (tl_phases t) \<and>
     (\<forall>k. dget (tl_totals t) k 0 = bucket_sum k (tl_roles t) \<and> dget (tl_totals t) k 0 = bucket_sum k (tl_phases t))"

lemma replay_step_balanced: "replay_step t ev = Inr t' \<Longrightarrow> balanced t \<Longrightarrow> balanced t'"
  by (auto simp: replay_step_def result_simps balanced_def into_bucket_sum dget_bumps)
    (auto simp: into_bucket_def intro: dict_wf_dset)

definition counter_names :: "string list" where
  "counter_names = [''events'', ''llm_calls'', ''input_tokens'', ''cached_tokens'', ''output_tokens'', ''llm_latency_ms'',
     ''tool_calls'', ''agent_rounds'']"

text \<open>Every counter of a replay is the sum of the counters of its roles, and of the counters of its phases.\<close>

theorem replay_totals_sum:
  "case replay_trace lines of Inl e \<Rightarrow> True
   | Inr r \<Rightarrow> list_all (\<lambda>k. dget (rp_totals r) k 0 = bucket_sum k (rp_roles r) \<and>
       dget (rp_totals r) k 0 = bucket_sum k (rp_phases r)) counter_names"
proof (cases "replay_trace lines")
  case (Inr r)
  then obtain events t w where run: "rfold replay_step \<lparr>tl_roles = [], tl_phases = [], tl_totals = [], tl_timeline = []\<rparr> events = Inr t"
    and r: "rp_totals r = dset ''wall_time_ms'' w (tl_totals t)" "rp_roles r = tl_roles t" "rp_phases r = tl_phases t"
    by (auto simp: replay_trace_def result_simps Let_def)
  have "balanced t"
  proof (rule rfold_invariant [where P = balanced, OF run])
    show "balanced \<lparr>tl_roles = [], tl_phases = [], tl_totals = [], tl_timeline = []\<rparr>"
      by (simp add: balanced_def bucket_sum_def dget_def)
  qed (auto intro: replay_step_balanced)
  moreover have "dget (rp_totals r) k 0 = dget (tl_totals t) k 0" if "k \<noteq> ''wall_time_ms''" for k
    using that by (simp add: r dget_def map_of_dset)
  ultimately have "dget (rp_totals r) k 0 = bucket_sum k (rp_roles r) \<and> dget (rp_totals r) k 0 = bucket_sum k (rp_phases r)"
    if "k \<noteq> ''wall_time_ms''" for k
    using that unfolding balanced_def r(2,3) by metis
  moreover have "k \<noteq> ''wall_time_ms''" if "k \<in> set counter_names" for k
    using that by (auto simp: counter_names_def)
  ultimately show ?thesis using Inr unfolding list_all_iff by (simp only: sum.case) blast
qed simp

lemma token_reason_raises:
  assumes "token_reason events = Inr [''LLM token values are not integers'']"
  shows "rfold replay_step t events \<noteq> Inr t'"
  using assms
proof (induction events arbitrary: t)
  case (Cons ev events)
  show ?case
  proof (cases "jget ev ''event_type'' = JStr ''llm_request_completed''")
    case False
    with Cons show ?thesis by (cases "replay_step t ev") auto
  next
    case True
    then have kind: "jindex ev ''event_type'' = Inr (JStr ''llm_request_completed'')"
      by (auto simp: jindex_def jget_def dget_def split: option.splits)
    from Cons.prems True obtain p where p: "whole_payload ev = Inr p" by (cases "whole_payload ev") auto
    show ?thesis
    proof (cases "token_numbers p")
      case (Inl e)
      then have "event_counts (JStr ''llm_request_completed'') p \<noteq> Inr counts" for counts
        by (auto simp: token_numbers_def event_counts_def result_simps)
      then show ?thesis by (auto simp: replay_step_def result_simps kind p)
    next
      case (Inr n)
      with Cons True p show ?thesis
        by (cases n; cases "replay_step t ev") (auto split: if_splits)
    qed
  qed
qed simp

text \<open>The message about token values that are not integers is never reported: the replay raises before.\<close>

lemma token_values_never_reported:
  assumes "replay_trace lines = Inr r"
  shows "''LLM token values are not integers'' \<notin> set (rp_reasons r)"
proof -
  from assms obtain events t where valid: "validate_trace events = Inr (rp_reasons r)"
    and run: "rfold replay_step \<lparr>tl_roles = [], tl_phases = [], tl_totals = [], tl_timeline = []\<rparr> events = Inr t"
    by (auto simp: replay_trace_def result_simps Let_def)
  show ?thesis
  proof (cases "events = []")
    case True
    with valid have "rp_reasons r = [''empty trace'']" by (simp add: validate_trace_def)
    then show ?thesis by simp
  next
    case False
    with valid obtain front rest tokens where
        "rp_reasons r = front @ (if seq_broken events then [''event sequence is not contiguous''] else []) @ rest @ tokens"
      and "set (front @ rest) \<subseteq> other_reasons" and tokens: "token_reason events = Inr tokens"
      by (rule validate_parts)
    moreover have "tokens \<noteq> [''LLM token values are not integers'']"
      using token_reason_raises tokens run by blast
    moreover have "length tokens \<le> 1" using tokens by (rule token_reason_short)
    ultimately show ?thesis by (cases tokens) (auto simp: other_reasons_def)
  qed
qed

section \<open>The gate\<close>












end
